(* ===== verification/Prelude.thy ===== *)
theory Prelude
  imports Main "HOL-Library.State_Monad" "HOL-Library.List_Lexorder" "HOL-Library.Char_ord"
    "HOL-Library.Option_ord" "HOL-Library.Product_Lexorder"
begin

text \<open>
  Shared vocabulary of the development: handlers as computations in the state monad of
  \<^theory_text>\<open>HOL-Library.State_Monad\<close> that return a sum (an error on the left, as the second
  result of a Go function), the combinators that mirror Go's early returns, the rules for
  preorders that every step of a computation respects, and table lemmas.
\<close>

named_theorems run_simps "how a combinator or an operation runs from a state"
named_theorems effect_intros "a computation respects a preorder on states"

section \<open>Computations that may return early\<close>

type_synonym ('s, 'e, 'a) prog = "('s, 'e + 'a) state"

definition ok :: "'a \<Rightarrow> ('s, 'e, 'a) prog" where
  "ok x = State_Monad.return (Inr x)"

definition bail :: "'e \<Rightarrow> ('s, 'e, 'a) prog" where
  "bail e = State_Monad.return (Inl e)"

text \<open>\<open>if err != nil { return nil, err }\<close>: the error is passed on unchanged.\<close>

definition check :: "('s, 'e, 'a) prog \<Rightarrow> ('a \<Rightarrow> ('s, 'e, 'b) prog) \<Rightarrow> ('s, 'e, 'b) prog" where
  "check m k = State_Monad.bind m
     (\<lambda>r. case r of Inl e \<Rightarrow> State_Monad.return (Inl e) | Inr x \<Rightarrow> k x)"

text \<open>\<open>if err != nil { return nil, e }\<close>: the error is replaced by \<open>e\<close>.\<close>

definition or_return :: "('s, 'f, 'a) prog \<Rightarrow> 'e \<Rightarrow> ('a \<Rightarrow> ('s, 'e, 'b) prog) \<Rightarrow> ('s, 'e, 'b) prog" where
  "or_return m e k = State_Monad.bind m
     (\<lambda>r. case r of Inl _ \<Rightarrow> State_Monad.return (Inl e) | Inr x \<Rightarrow> k x)"

text \<open>\<open>_ = m\<close>: the result and the error of \<open>m\<close> are dropped.\<close>

definition ignoring :: "('s, 'a) state \<Rightarrow> ('s, 'b) state \<Rightarrow> ('s, 'b) state" where
  "ignoring m k = State_Monad.bind m (\<lambda>_. k)"

text \<open>A pure Go call that may fail (\<open>x, err := f(y)\<close> with no effect).\<close>

definition from_option :: "'e \<Rightarrow> 'a option \<Rightarrow> ('s, 'e, 'a) prog" where
  "from_option e x = (case x of None \<Rightarrow> bail e | Some a \<Rightarrow> ok a)"

lemma run_ok [simp, run_simps]: "run_state (ok x) s = (Inr x, s)"
  by (simp add: ok_def)

lemma run_bail [simp, run_simps]: "run_state (bail e) s = (Inl e, s)"
  by (simp add: bail_def)

lemma run_check [simp, run_simps]:
  "run_state (check m k) s =
     (case run_state m s of (Inl e, s') \<Rightarrow> (Inl e, s') | (Inr x, s') \<Rightarrow> run_state (k x) s')"
  by (auto simp: check_def split: prod.splits sum.splits)

lemma run_or_return [simp, run_simps]:
  "run_state (or_return m e k) s =
     (case run_state m s of (Inl f, s') \<Rightarrow> (Inl e, s') | (Inr x, s') \<Rightarrow> run_state (k x) s')"
  by (auto simp: or_return_def split: prod.splits sum.splits)

lemma run_ignoring [simp, run_simps]:
  "run_state (ignoring m k) s = run_state k (snd (run_state m s))"
  by (simp add: ignoring_def split: prod.splits)

lemma run_from_option [run_simps]:
  "run_state (from_option e x) s = (case x of None \<Rightarrow> Inl e | Some a \<Rightarrow> Inr a, s)"
  by (simp add: from_option_def split: option.splits)

lemma from_option_simps [simp]:
  "from_option e None = bail e" "from_option e (Some a) = ok a"
  by (simp_all add: from_option_def)

section \<open>Preorders every step respects\<close>

text \<open>
  \<open>state_io_rel R m\<close> of the library says that \<open>m\<close> takes every state \<open>s\<close> to a state \<open>s'\<close>
  with \<open>R s s'\<close>. For a preorder it is closed under every combinator, so a fact about a
  handler follows from the facts about its database calls.
\<close>

locale preorder_effect =
  fixes R :: "'s \<Rightarrow> 's \<Rightarrow> bool"
  assumes refl: "R s s"
    and trans: "R s t \<Longrightarrow> R t u \<Longrightarrow> R s u"
begin

lemma return_effect [effect_intros]: "state_io_rel R (State_Monad.return x)"
  by (simp add: state_io_rel_def refl)

lemma bind_effect [effect_intros]:
  assumes "state_io_rel R m" and "\<And>x. state_io_rel R (k x)"
  shows "state_io_rel R (State_Monad.bind m k)"
proof (rule state_io_relI)
  fix a s s'
  assume run: "run_state (State_Monad.bind m k) s = (a, s')"
  obtain x t where m: "run_state m s = (x, t)" by fastforce
  with run have k: "run_state (k x) t = (a, s')" by simp
  show "R s s'"
    using state_io_relD [OF assms(1) m] state_io_relD [OF assms(2) k] by (rule trans)
qed

lemma ok_effect [effect_intros]: "state_io_rel R (ok x)"
  by (simp add: ok_def return_effect)

lemma bail_effect [effect_intros]: "state_io_rel R (bail e)"
  by (simp add: bail_def return_effect)

lemma check_effect [effect_intros]:
  assumes "state_io_rel R m" and "\<And>x. state_io_rel R (k x)"
  shows "state_io_rel R (check m k)"
  unfolding check_def
  by (rule bind_effect [OF assms(1)]) (auto intro: return_effect assms(2) split: sum.splits)

lemma or_return_effect [effect_intros]:
  assumes "state_io_rel R m" and "\<And>x. state_io_rel R (k x)"
  shows "state_io_rel R (or_return m e k)"
  unfolding or_return_def
  by (rule bind_effect [OF assms(1)]) (auto intro: return_effect assms(2) split: sum.splits)

lemma ignoring_effect [effect_intros]:
  "state_io_rel R m \<Longrightarrow> state_io_rel R k \<Longrightarrow> state_io_rel R (ignoring m k)"
  unfolding ignoring_def by (rule bind_effect)

lemma from_option_effect [effect_intros]: "state_io_rel R (from_option e x)"
  by (cases x) (simp_all add: ok_effect bail_effect)

lemma if_effect [effect_intros]:
  "(b \<Longrightarrow> state_io_rel R m) \<Longrightarrow> (\<not> b \<Longrightarrow> state_io_rel R n) \<Longrightarrow> state_io_rel R (if b then m else n)"
  by simp

lemma option_effect [effect_intros]:
  "state_io_rel R m \<Longrightarrow> (\<And>a. x = Some a \<Longrightarrow> state_io_rel R (k a)) \<Longrightarrow>
   state_io_rel R (case x of None \<Rightarrow> m | Some a \<Rightarrow> k a)"
  by (cases x) simp_all

lemma sum_effect [effect_intros]:
  "(\<And>e. x = Inl e \<Longrightarrow> state_io_rel R (h e)) \<Longrightarrow> (\<And>a. x = Inr a \<Longrightarrow> state_io_rel R (k a)) \<Longrightarrow>
   state_io_rel R (case x of Inl e \<Rightarrow> h e | Inr a \<Rightarrow> k a)"
  by (cases x) simp_all

lemma let_effect [effect_intros]:
  "(\<And>x. x = t \<Longrightarrow> state_io_rel R (k x)) \<Longrightarrow> state_io_rel R (Let t k)"
  by simp

lemma prod_effect [effect_intros]:
  "(\<And>a b. x = (a, b) \<Longrightarrow> state_io_rel R (k a b)) \<Longrightarrow> state_io_rel R (case x of (a, b) \<Rightarrow> k a b)"
  by (cases x) simp

end

section \<open>Tables as lists of rows\<close>

text \<open>
  A table is the list of its rows in insertion order. \<open>update_where P f\<close> is
  \<open>UPDATE \<dots> SET f WHERE P\<close>, \<open>delete_where P\<close> is \<open>DELETE \<dots> WHERE P\<close>.
\<close>

definition update_where :: "('r \<Rightarrow> bool) \<Rightarrow> ('r \<Rightarrow> 'r) \<Rightarrow> 'r list \<Rightarrow> 'r list" where
  "update_where P f rs = map (\<lambda>r. if P r then f r else r) rs"

definition delete_where :: "('r \<Rightarrow> bool) \<Rightarrow> 'r list \<Rightarrow> 'r list" where
  "delete_where P rs = filter (\<lambda>r. \<not> P r) rs"

lemma set_delete_where [simp]: "set (delete_where P rs) = {r \<in> set rs. \<not> P r}"
  by (simp add: delete_where_def)

lemma set_update_where: "set (update_where P f rs) = (\<lambda>r. if P r then f r else r) ` set rs"
  by (simp add: update_where_def)

lemma in_update_where:
  "r' \<in> set (update_where P f rs) \<longleftrightarrow> (\<exists>r \<in> set rs. r' = (if P r then f r else r))"
  by (auto simp: update_where_def)

lemma ball_update_where:
  "(\<forall>r \<in> set (update_where P f rs). Q r) \<longleftrightarrow> (\<forall>r \<in> set rs. if P r then Q (f r) else Q r)"
  by (auto simp: update_where_def)

lemma length_update_where [simp]: "length (update_where P f rs) = length rs"
  by (simp add: update_where_def)

text \<open>An update that leaves a column alone leaves the list of its values alone.\<close>

lemma map_update_where: "(\<And>r. g (f r) = g r) \<Longrightarrow> map g (update_where P f rs) = map g rs"
  by (auto simp: update_where_def)

lemma image_update_where: "(\<And>r. g (f r) = g r) \<Longrightarrow> g ` set (update_where P f rs) = g ` set rs"
  using map_update_where [of g f P rs] by (metis list.set_map)

lemma distinct_delete_where: "distinct (map g rs) \<Longrightarrow> distinct (map g (delete_where P rs))"
  unfolding delete_where_def by (rule distinct_map_filter)

lemma find_append: "List.find P (xs @ ys) = (case List.find P xs of None \<Rightarrow> List.find P ys | Some x \<Rightarrow> Some x)"
  by (induction xs) auto

lemma find_SomeD: "List.find P xs = Some x \<Longrightarrow> x \<in> set xs \<and> P x"
  by (metis find_Some_iff nth_mem)

lemma find_NoneD: "List.find P xs = None \<Longrightarrow> x \<in> set xs \<Longrightarrow> \<not> P x"
  by (simp add: find_None_iff)

text \<open>In a table whose key is unique, looking a row up by its key finds that row.\<close>

lemma find_unique:
  "distinct (map key xs) \<Longrightarrow> x \<in> set xs \<Longrightarrow> key x = k \<Longrightarrow> List.find (\<lambda>r. key r = k) xs = Some x"
  by (induction xs) (auto simp: image_iff)

lemma unique_row:
  "distinct (map key xs) \<Longrightarrow> x \<in> set xs \<Longrightarrow> y \<in> set xs \<Longrightarrow> key x = key y \<Longrightarrow> x = y"
  by (metis find_unique option.inject)

lemma find_update_where_same:
  "(\<And>r. Q (f r) = Q r) \<Longrightarrow>
   List.find Q (update_where P f rs) = map_option (\<lambda>r. if P r then f r else r) (List.find Q rs)"
  by (induction rs) (auto simp: update_where_def)

section \<open>SQL values\<close>

text \<open>
  \<open>a = b\<close> in a \<^verbatim>\<open>WHERE\<close> clause is not true when a side is \<^verbatim>\<open>NULL\<close>. \<^verbatim>\<open>ORDER BY x NULLS LAST\<close>
  sorts by \<open>null_key\<close>; the order of \<^theory_text>\<open>HOL-Library.Option_ord\<close> is \<^verbatim>\<open>NULLS FIRST\<close>.
\<close>

definition sql_eq :: "'a option \<Rightarrow> 'a option \<Rightarrow> bool" where
  "sql_eq a b \<longleftrightarrow> a \<noteq> None \<and> a = b"

lemma sql_eq_Some [simp]: "sql_eq a (Some b) \<longleftrightarrow> a = Some b" "sql_eq (Some a) c \<longleftrightarrow> c = Some a"
  by (auto simp: sql_eq_def)

lemma sql_eq_None [simp]: "\<not> sql_eq a None" "\<not> sql_eq None b"
  by (auto simp: sql_eq_def)

datatype 'a nulls_last = Known 'a | Null

fun null_key :: "'a option \<Rightarrow> 'a nulls_last" where
  "null_key (Some x) = Known x"
| "null_key None = Null"

instantiation nulls_last :: (linorder) linorder
begin

fun less_eq_nulls_last :: "'a nulls_last \<Rightarrow> 'a nulls_last \<Rightarrow> bool" where
  "less_eq_nulls_last _ Null = True"
| "less_eq_nulls_last Null (Known _) = False"
| "less_eq_nulls_last (Known x) (Known y) = (x \<le> y)"

definition less_nulls_last :: "'a nulls_last \<Rightarrow> 'a nulls_last \<Rightarrow> bool" where
  "less_nulls_last a b \<longleftrightarrow> a \<le> b \<and> \<not> b \<le> a"

instance
proof
  fix a b c :: "'a nulls_last"
  show "a \<le> a" by (cases a) simp_all
  show "a \<le> b \<Longrightarrow> b \<le> c \<Longrightarrow> a \<le> c" by (cases a; cases b; cases c) auto
  show "a \<le> b \<Longrightarrow> b \<le> a \<Longrightarrow> a = b" by (cases a; cases b) auto
  show "a \<le> b \<or> b \<le> a" by (cases a; cases b) auto
  show "a < b \<longleftrightarrow> a \<le> b \<and> \<not> b \<le> a" by (rule less_nulls_last_def)
qed

end

end
