(* ===== verification/Model.thy ===== *)
theory Model
  imports Prelude "HOL-Library.Word"
begin

text \<open>
  The data of the service: the rows of \<^verbatim>\<open>internal/db/models.go\<close> as records, the database
  as a record of tables, the parameters that stand for code outside the repository, and the
  state of the running service. Column names keep the Go field names behind a table prefix;
  a nullable column (\<^verbatim>\<open>pgtype.UUID\<close>, \<^verbatim>\<open>pgtype.Timestamptz\<close>, \<^verbatim>\<open>*string\<close>) is an option.
\<close>

section \<open>Basic values\<close>

text \<open>
  A \<^verbatim>\<open>uuid.UUID\<close> is 16 bytes; its order as a word is PostgreSQL's order of the uuid type.
  Instants and durations are nanoseconds, as in \<^verbatim>\<open>time.Duration\<close>. A Go string and a
  byte slice are lists of bytes, written as Isabelle strings.
\<close>

type_synonym uuid = "128 word"
type_synonym time = int
type_synonym bytes = string

definition second :: int where "second = 1000000000"
definition minute :: int where "minute = 60 * second"
definition hour :: int where "hour = 60 * minute"

lemmas duration_defs = second_def minute_def hour_def

text \<open>The gRPC status codes the handlers return.\<close>

datatype code = InvalidArgument | NotFound | AlreadyExists | PermissionDenied
  | FailedPrecondition | Internal | Unauthenticated

datatype status = Status code string

text \<open>Why a database call fails. \<open>NoRows\<close> is \<^verbatim>\<open>pgx.ErrNoRows\<close>, which is not an SQL error.\<close>

datatype db_err = NoRows | IOError | TxAborted | UniqueViolation | ForeignKeyViolation
  | RlsViolation | CardinalityViolation | NumericOutOfRange

section \<open>Rows\<close>

record User =
  u_ID :: uuid
  u_Email :: string
  u_PasswordHash :: string
  u_Status :: string
  u_CreatedAt :: time
  u_UpdatedAt :: time
  u_EmailVerified :: bool
  u_FailedLoginAttempts :: int
  u_LockedUntil :: "time option"
  u_TotpSecret :: "string option"
  u_TotpEnabled :: bool
  u_DeletedAt :: "time option"

record RefreshToken =
  rt_ID :: uuid
  rt_UserID :: uuid
  rt_TokenHash :: string
  rt_ExpiresAt :: time
  rt_RevokedAt :: "time option"
  rt_CreatedAt :: time
  rt_TenantID :: uuid
  rt_ProjectID :: "uuid option"
  rt_ReplacedBy :: "string option"

record RevokedToken =
  rv_Jti :: string
  rv_ExpiresAt :: time
  rv_RevokedAt :: time

record Role =
  r_ID :: int
  r_Name :: string
  r_Description :: string
  r_TenantID :: "uuid option"

record Permission =
  p_ID :: int
  p_Name :: string
  p_Description :: string

record RolePermission =
  rp_RoleID :: int
  rp_PermissionID :: int

record UserRole =
  ur_UserID :: uuid
  ur_RoleID :: int
  ur_TenantID :: uuid
  ur_ProjectID :: "uuid option"

record Tenant =
  t_ID :: uuid
  t_Slug :: string
  t_Name :: string
  t_Status :: string
  t_CreatedAt :: time

record Project =
  pj_ID :: uuid
  pj_TenantID :: uuid
  pj_Slug :: string
  pj_Name :: string
  pj_CreatedAt :: time

record Membership =
  m_UserID :: uuid
  m_TenantID :: uuid
  m_Status :: string
  m_CreatedAt :: time

text \<open>\<^verbatim>\<open>EmailVerification\<close> and \<^verbatim>\<open>PasswordReset\<close> have the same columns.\<close>

record OneTimeToken =
  ot_TokenHash :: string
  ot_UserID :: uuid
  ot_ExpiresAt :: time
  ot_ConsumedAt :: "time option"
  ot_CreatedAt :: time

record TotpRecoveryCode =
  rc_ID :: int
  rc_UserID :: uuid
  rc_CodeHash :: string
  rc_UsedAt :: "time option"
  rc_CreatedAt :: time

record ApiKey =
  k_ID :: string
  k_UserID :: uuid
  k_KeyHash :: string
  k_Name :: string
  k_Scopes :: "string list"
  k_ExpiresAt :: "time option"
  k_RevokedAt :: "time option"
  k_LastUsedAt :: "time option"
  k_CreatedAt :: time
  k_TenantID :: uuid
  k_ProjectID :: "uuid option"

record AuditEvent =
  a_ID :: int
  a_ActorID :: string
  a_ActorEmail :: string
  a_Action :: string
  a_Target :: string
  a_Detail :: string
  a_CreatedAt :: time
  a_TenantID :: "uuid option"

record Outbox =
  o_ID :: uuid
  o_AggregateID :: uuid
  o_EventType :: string
  o_Payload :: bytes
  o_CreatedAt :: time
  o_PublishedAt :: "time option"

record OauthClient =
  oc_ClientID :: string
  oc_ClientSecretHash :: "string option"
  oc_Name :: string
  oc_RedirectUris :: "string list"
  oc_GrantTypes :: "string list"
  oc_Scopes :: "string list"
  oc_IsConfidential :: bool
  oc_TenantID :: uuid

record OauthAuthorizationCode =
  ac_CodeHash :: string
  ac_ClientID :: string
  ac_UserID :: uuid
  ac_RedirectUri :: string
  ac_Scope :: string
  ac_CodeChallenge :: "string option"
  ac_CodeChallengeMethod :: "string option"
  ac_Nonce :: "string option"
  ac_ExpiresAt :: time
  ac_Used :: bool

record OauthConsent =
  cs_UserID :: uuid
  cs_ClientID :: string
  cs_Scopes :: "string list"
  cs_GrantedAt :: time

record OidcSigningKey =
  sk_Kid :: string
  sk_PrivatePem :: string
  sk_PublicPem :: string
  sk_Alg :: string
  sk_Active :: bool

section \<open>The database\<close>

record database =
  users :: "User list"
  refresh_tokens :: "RefreshToken list"
  revoked_tokens :: "RevokedToken list"
  roles :: "Role list"
  permissions :: "Permission list"
  role_permissions :: "RolePermission list"
  user_roles :: "UserRole list"
  tenants :: "Tenant list"
  projects :: "Project list"
  memberships :: "Membership list"
  email_verifications :: "OneTimeToken list"
  password_resets :: "OneTimeToken list"
  totp_recovery_codes :: "TotpRecoveryCode list"
  api_keys :: "ApiKey list"
  audit_events :: "AuditEvent list"
  outbox :: "Outbox list"
  oauth_clients :: "OauthClient list"
  oauth_authorization_codes :: "OauthAuthorizationCode list"
  oauth_consents :: "OauthConsent list"
  oidc_signing_keys :: "OidcSigningKey list"

definition empty_db :: database where
  "empty_db = \<lparr>users = [], refresh_tokens = [], revoked_tokens = [], roles = [], permissions = [],
     role_permissions = [], user_roles = [], tenants = [], projects = [], memberships = [],
     email_verifications = [], password_resets = [], totp_recovery_codes = [], api_keys = [],
     audit_events = [], outbox = [], oauth_clients = [], oauth_authorization_codes = [],
     oauth_consents = [], oidc_signing_keys = []\<rparr>"

end
