(* ===== verification/Environment.thy ===== *)
theory Environment
  imports Model
begin

text \<open>
  What the service runs in. \<open>env\<close> collects every function whose code is not in the
  repository (PostgreSQL's availability and sequences, clocks, randomness, google/uuid,
  golang-jwt, Argon2id, AES-GCM, the TOTP library, Redis, the iam-go-libs configuration):
  the definitions take it as an argument and the theorems hold for every \<open>env\<close> that meets
  their hypotheses. The \<open>n\<close>-th interaction of a run with the outside reads the oracle at \<open>n\<close>,
  so a theorem about all \<open>env\<close> is a theorem about all failure patterns, clock readings
  and random values. \<open>world\<close> is the state the service acts on.
\<close>

section \<open>Types of the outside world\<close>

text \<open>The JSON object of a token's payload: string and integer members.\<close>

datatype json = JStr string | JNum int
type_synonym json_obj = "(string \<times> json) list"

text \<open>An RSA private key is opaque; a public key has the modulus and the exponent of \<^verbatim>\<open>rsa.PublicKey\<close>.\<close>

type_synonym private_key = nat
record PublicKey =
  pk_N :: nat
  pk_E :: nat

text \<open>What \<^verbatim>\<open>x509.ParsePKIXPublicKey\<close> may find: an RSA key or one of another kind.\<close>

datatype pkix_key = RSAKey PublicKey | OtherKey

text \<open>
  Redis as the service sees it: the commands of go-redis that the source sends, each with the
  instant it was sent, and a server that answers from the log of the commands before. A value
  is the denylist flag \<open>1\<close> or the JSON text of a list of permissions; \<open>RPerms None\<close> is a text
  that does not parse as such a list.
\<close>

datatype redis_val = RFlag | RPerms "string list option"
datatype redis_cmd =
    RSet string redis_val time
  | RExists string
  | RGet string
  | RScan nat string nat
  | RDel "string list"
datatype redis_reply =
    RErr
  | ROk
  | RInt int
  | RVal redis_val
  | RKeys "string list" nat
type_synonym redis_log = "(time \<times> redis_cmd) list"

datatype event =
    UserRegistered uuid string string
  | UserDeleted uuid bool
  | UserRestored uuid

text \<open>
  The database role of the connection: the superuser \<^verbatim>\<open>app\<close>, the least-privilege role
  \<^verbatim>\<open>iam_app\<close> of migration 000014, or \<^verbatim>\<open>iam_rls\<close>, which \<^verbatim>\<open>withTenant\<close> assumes.
\<close>

datatype db_role = Superuser | IamApp | IamRls

section \<open>Parameters\<close>

record oracles =
  io_fail :: "nat \<Rightarrow> bool"
  lost :: "nat \<Rightarrow> bool"
  clock :: "nat \<Rightarrow> time"
  dbclock :: "nat \<Rightarrow> time"
  rand :: "nat \<Rightarrow> nat \<Rightarrow> bytes option"
  fresh_uuid :: "nat \<Rightarrow> uuid"
  nextval :: "nat \<Rightarrow> int"
  rsa_generate :: "nat \<Rightarrow> private_key option"
  totp_generate :: "nat \<Rightarrow> string \<Rightarrow> string \<Rightarrow> (string \<times> string) option"

record library = oracles +
  uuid_parse :: "string \<Rightarrow> uuid option"
  uuid_string :: "uuid \<Rightarrow> string"
  sha256 :: "bytes \<Rightarrow> bytes"
  argon2 :: "bytes \<Rightarrow> bytes \<Rightarrow> int \<Rightarrow> int \<Rightarrow> int \<Rightarrow> nat \<Rightarrow> bytes"
  rsa_public :: "private_key \<Rightarrow> PublicKey"
  pem_encode :: "string \<Rightarrow> bytes \<Rightarrow> string"
  pem_decode :: "string \<Rightarrow> bytes option"
  MarshalPKCS1PrivateKey :: "private_key \<Rightarrow> bytes"
  ParsePKCS1PrivateKey :: "bytes \<Rightarrow> private_key option"
  MarshalPKIXPublicKey :: "PublicKey \<Rightarrow> bytes option"
  ParsePKIXPublicKey :: "bytes \<Rightarrow> pkix_key option"
  jwt_sign :: "string \<Rightarrow> json_obj \<Rightarrow> private_key \<Rightarrow> string option"
  jwt_decode :: "string \<Rightarrow> (bool \<times> string option \<times> json_obj) option"
  jwt_verify :: "PublicKey \<Rightarrow> string \<Rightarrow> bool"
  jwt_validate :: "string \<Rightarrow> time \<Rightarrow> time \<Rightarrow> json_obj \<Rightarrow> bool"
  totp_validate :: "time \<Rightarrow> string \<Rightarrow> string \<Rightarrow> bool"
  gcm_seal :: "bytes \<Rightarrow> bytes \<Rightarrow> bytes \<Rightarrow> bytes"
  gcm_open :: "bytes \<Rightarrow> bytes \<Rightarrow> bytes \<Rightarrow> bytes option"
  redis :: "redis_log \<Rightarrow> time \<Rightarrow> redis_cmd \<Rightarrow> redis_reply"
  marshal_event :: "event \<Rightarrow> bytes option"
  event_type :: "event \<Rightarrow> string"
  unmarshal_failure :: "bytes \<Rightarrow> (string \<times> string) option"
  subject_prefix :: string

record env = library +
  conn_role :: db_role
  collate :: "string \<Rightarrow> string"
  AuditEnabled :: bool
  LoginMaxFailures :: int
  LockoutDuration :: time
  RequireEmailVerification :: bool
  IsProduction :: bool
  scan_rounds :: nat
  Getenv :: "string \<Rightarrow> string \<Rightarrow> string"

text \<open>
  \<open>scan_rounds\<close> bounds the SCAN calls of one complete iteration (\<open>Event_Props\<close> shows
  that the bound does not matter once the iteration has ended).
\<close>

text \<open>
  The identity the gateway attaches to a call (\<^verbatim>\<open>grpcutil.FromIncoming\<close>); what
  \<^verbatim>\<open>HasPermission\<close> accepts is the library's.
\<close>

record identity =
  id_UserID :: string
  id_Email :: string
  id_TenantID :: string
  id_ProjectID :: string
  id_HasPermission :: "string \<Rightarrow> bool"

section \<open>The state of a run\<close>

text \<open>
  An open transaction remembers the database it started from, the transaction's \<open>now()\<close>,
  whether a statement failed in it (PostgreSQL then refuses every later statement), the role
  and the value of \<^verbatim>\<open>app.tenant_id\<close>.
\<close>

record txn =
  tx_snap :: database
  tx_now :: time
  tx_aborted :: bool
  tx_role :: db_role
  tx_guc :: "uuid option"

datatype emission =
    MailLogged string string string
  | MailSuppressed string string
  | Published string bytes string

record world =
  db :: database
  step :: nat
  tx :: "txn option"
  redis_log :: redis_log
  outputs :: "emission list"

text \<open>The part of the world a rollback would leave: the committed database.\<close>

definition durable :: "world \<Rightarrow> database" where
  "durable w = (case tx w of None \<Rightarrow> db w | Some t \<Rightarrow> tx_snap t)"

definition idle :: "world \<Rightarrow> bool" where
  "idle w \<longleftrightarrow> tx w = None"

lemma durable_idle [simp]: "idle w \<Longrightarrow> durable w = db w"
  by (simp add: durable_def idle_def)

lemma idle_updates [simp]:
  "idle (w\<lparr>step := n\<rparr>) = idle w" "idle (w\<lparr>redis_log := l\<rparr>) = idle w" "idle (w\<lparr>outputs := os\<rparr>) = idle w"
  by (simp_all add: idle_def)

section \<open>Clocks and randomness\<close>

definition go_now :: "env \<Rightarrow> (world, time) state" where
  "go_now E = State (\<lambda>w. (clock E (step w), w\<lparr>step := Suc (step w)\<rparr>))"

definition new_uuid :: "env \<Rightarrow> (world, uuid) state" where
  "new_uuid E = State (\<lambda>w. (fresh_uuid E (step w), w\<lparr>step := Suc (step w)\<rparr>))"

definition rand_read :: "env \<Rightarrow> nat \<Rightarrow> (world, unit, bytes) prog" where
  "rand_read E k = State (\<lambda>w. (case rand E (step w) k of None \<Rightarrow> Inl () | Some b \<Rightarrow> Inr b,
                              w\<lparr>step := Suc (step w)\<rparr>))"

definition emit :: "emission \<Rightarrow> (world, unit) state" where
  "emit x = State (\<lambda>w. ((), w\<lparr>outputs := outputs w @ [x]\<rparr>))"

definition ask_redis :: "env \<Rightarrow> redis_cmd \<Rightarrow> (world, redis_reply) state" where
  "ask_redis E c = State (\<lambda>w. (redis E (redis_log w) (clock E (step w)) c,
     w\<lparr>redis_log := redis_log w @ [(clock E (step w), c)], step := Suc (step w)\<rparr>))"

lemma run_go_now [simp, run_simps]:
  "run_state (go_now E) w = (clock E (step w), w\<lparr>step := Suc (step w)\<rparr>)"
  by (simp add: go_now_def)

lemma run_new_uuid [simp, run_simps]:
  "run_state (new_uuid E) w = (fresh_uuid E (step w), w\<lparr>step := Suc (step w)\<rparr>)"
  by (simp add: new_uuid_def)

lemma run_rand_read [simp, run_simps]:
  "run_state (rand_read E k) w =
     (case rand E (step w) k of None \<Rightarrow> Inl () | Some b \<Rightarrow> Inr b, w\<lparr>step := Suc (step w)\<rparr>)"
  by (simp add: rand_read_def)

lemma run_emit [simp, run_simps]: "run_state (emit x) w = ((), w\<lparr>outputs := outputs w @ [x]\<rparr>)"
  by (simp add: emit_def)

lemma run_ask_redis [simp, run_simps]:
  "run_state (ask_redis E c) w = (redis E (redis_log w) (clock E (step w)) c,
     w\<lparr>redis_log := redis_log w @ [(clock E (step w), c)], step := Suc (step w)\<rparr>)"
  by (simp add: ask_redis_def)

end
