(* ===== verification/Session.thy ===== *)
theory Session
  imports Environment
begin

text \<open>
  SQL statements and transactions: \<^verbatim>\<open>internal/db/db.go\<close>, the transaction helpers
  \<^verbatim>\<open>withTenant\<close> and \<^verbatim>\<open>withTenantGUC\<close> of \<^verbatim>\<open>internal/handler/tenant.go\<close>, and the row-level
  security of migrations 000013 and 000016. A statement that the oracle makes fail has no
  effect; a statement that fails inside a transaction aborts it, so that every later
  statement and the commit fail too, as in PostgreSQL.
\<close>

section \<open>Statements\<close>

text \<open>What a statement sees of its session: \<open>now()\<close>, generated keys, role and tenant setting.\<close>

record stmt =
  s_now :: time
  s_uuid :: uuid
  s_serial :: int
  s_role :: db_role
  s_guc :: "uuid option"
  s_collate :: "string \<Rightarrow> string"

type_synonym 'a query = "stmt \<Rightarrow> database \<Rightarrow> db_err + 'a \<times> database"

definition fetch :: "(stmt \<Rightarrow> database \<Rightarrow> 'a) \<Rightarrow> 'a query" where
  "fetch f c d = Inr (f c d, d)"

text \<open>\<^verbatim>\<open>QueryRow(\<dots>).Scan\<close>: the first row, \<open>NoRows\<close> when there is none.\<close>

definition fetch_one :: "(stmt \<Rightarrow> database \<Rightarrow> 'a list) \<Rightarrow> 'a query" where
  "fetch_one f c d = (case f c d of [] \<Rightarrow> Inl NoRows | x # _ \<Rightarrow> Inr (x, d))"

definition perform :: "(stmt \<Rightarrow> database \<Rightarrow> database) \<Rightarrow> unit query" where
  "perform f c d = Inr ((), f c d)"

lemma fetch_one_Some: "fetch_one f c d = Inr (x, d') \<longleftrightarrow> d' = d \<and> (\<exists>xs. f c d = x # xs)"
  by (auto simp: fetch_one_def split: list.splits)

text \<open>
  Row-level security on the tables that keep the strict policy (roles, user\_roles, projects):
  a superuser bypasses it; anyone else sees and writes only rows without a tenant and rows of
  the tenant in \<^verbatim>\<open>app.tenant_id\<close> (\<^verbatim>\<open>USING\<close>, which is also the \<^verbatim>\<open>WITH CHECK\<close>).
\<close>

definition rls_ok :: "stmt \<Rightarrow> uuid option \<Rightarrow> bool" where
  "rls_ok c tenant \<longleftrightarrow> s_role c = Superuser \<or> tenant = None \<or> tenant = s_guc c"

section \<open>Running statements\<close>

definition stmt_of :: "env \<Rightarrow> world \<Rightarrow> stmt" where
  "stmt_of E w =
     \<lparr>s_now = (case tx w of None \<Rightarrow> dbclock E (step w) | Some t \<Rightarrow> tx_now t),
      s_uuid = fresh_uuid E (step w),
      s_serial = nextval E (step w),
      s_role = (case tx w of None \<Rightarrow> conn_role E | Some t \<Rightarrow> tx_role t),
      s_guc = (case tx w of None \<Rightarrow> None | Some t \<Rightarrow> tx_guc t),
      s_collate = collate E\<rparr>"

definition tick :: "world \<Rightarrow> world" where
  "tick w = w\<lparr>step := Suc (step w)\<rparr>"

definition abort_tx :: "world \<Rightarrow> world" where
  "abort_tx w = w\<lparr>tx := map_option (\<lambda>t. t\<lparr>tx_aborted := True\<rparr>) (tx w)\<rparr>"

definition in_aborted_tx :: "world \<Rightarrow> bool" where
  "in_aborted_tx w = (case tx w of None \<Rightarrow> False | Some t \<Rightarrow> tx_aborted t)"

definition exec :: "env \<Rightarrow> 'a query \<Rightarrow> (world, db_err, 'a) prog" where
  "exec E q = State (\<lambda>w.
     if in_aborted_tx w then (Inl TxAborted, tick w)
     else if io_fail E (step w) then (Inl IOError, tick (abort_tx w))
     else case q (stmt_of E w) (db w) of
            Inl NoRows \<Rightarrow> (Inl NoRows, tick w)
          | Inl e \<Rightarrow> (Inl e, tick (abort_tx w))
          | Inr (x, d) \<Rightarrow> (Inr x, tick (w\<lparr>db := d\<rparr>)))"

text \<open>
  \<^verbatim>\<open>pool.Begin\<close>, the deferred \<^verbatim>\<open>tx.Rollback\<close> (which does nothing after a commit) and
  \<^verbatim>\<open>tx.Commit\<close>. No handler opens a second transaction while one is open, so \<open>tx_begin\<close> refuses it.
\<close>

definition tx_begin :: "env \<Rightarrow> (world, db_err, unit) prog" where
  "tx_begin E = State (\<lambda>w.
     if io_fail E (step w) \<or> \<not> idle w then (Inl IOError, tick w)
     else (Inr (), tick (w\<lparr>tx := Some \<lparr>tx_snap = db w, tx_now = dbclock E (step w),
             tx_aborted = False, tx_role = conn_role E, tx_guc = None\<rparr>\<rparr>)))"

definition tx_commit :: "env \<Rightarrow> (world, db_err, unit) prog" where
  "tx_commit E = State (\<lambda>w. case tx w of
       None \<Rightarrow> (Inl TxAborted, tick w)
     | Some t \<Rightarrow>
         if tx_aborted t then (Inl TxAborted, tick (w\<lparr>db := tx_snap t, tx := None\<rparr>))
         else if io_fail E (step w) then (Inl IOError, tick (w\<lparr>db := tx_snap t, tx := None\<rparr>))
         else (Inr (), tick (w\<lparr>tx := None\<rparr>)))"

definition tx_rollback :: "(world, unit) state" where
  "tx_rollback = State (\<lambda>w. case tx w of None \<Rightarrow> ((), w)
     | Some t \<Rightarrow> ((), w\<lparr>db := tx_snap t, tx := None\<rparr>))"

definition deferring_rollback :: "(world, 'a) state \<Rightarrow> (world, 'a) state" where
  "deferring_rollback m = State_Monad.bind m (\<lambda>r. ignoring tx_rollback (State_Monad.return r))"

text \<open>\<^verbatim>\<open>SET LOCAL ROLE iam_rls\<close> and \<^verbatim>\<open>set_config('app.tenant_id', $1, true)\<close> in the open transaction.\<close>

definition tx_setting :: "env \<Rightarrow> (txn \<Rightarrow> txn) \<Rightarrow> (world, db_err, unit) prog" where
  "tx_setting E f = State (\<lambda>w.
     if in_aborted_tx w then (Inl TxAborted, tick w)
     else if io_fail E (step w) then (Inl IOError, tick (abort_tx w))
     else (Inr (), tick (w\<lparr>tx := map_option f (tx w)\<rparr>)))"

definition set_local_role :: "env \<Rightarrow> db_role \<Rightarrow> (world, db_err, unit) prog" where
  "set_local_role E r = tx_setting E (\<lambda>t. t\<lparr>tx_role := r\<rparr>)"

definition set_tenant :: "env \<Rightarrow> uuid \<Rightarrow> (world, db_err, unit) prog" where
  "set_tenant E t = tx_setting E (\<lambda>x. x\<lparr>tx_guc := Some t\<rparr>)"

definition withTenant :: "env \<Rightarrow> uuid \<Rightarrow> (world, db_err, 'a) prog \<Rightarrow> (world, db_err, 'a) prog" where
  "withTenant E tenant fn =
     check (tx_begin E) (\<lambda>_.
     deferring_rollback (
       check (set_local_role E IamRls) (\<lambda>_.
       check (set_tenant E tenant) (\<lambda>_.
       check fn (\<lambda>r.
       check (tx_commit E) (\<lambda>_. ok r))))))"

definition withTenantGUC :: "env \<Rightarrow> uuid \<Rightarrow> (world, db_err, 'a) prog \<Rightarrow> (world, db_err, 'a) prog" where
  "withTenantGUC E tenant fn =
     check (tx_begin E) (\<lambda>_.
     deferring_rollback (
       check (set_tenant E tenant) (\<lambda>_.
       check fn (\<lambda>r.
       check (tx_commit E) (\<lambda>_. ok r)))))"

section \<open>How they run\<close>

lemma tick_simps [simp]:
  "db (tick w) = db w" "tx (tick w) = tx w" "step (tick w) = Suc (step w)"
  "redis_log (tick w) = redis_log w" "outputs (tick w) = outputs w"
  "durable (tick w) = durable w" "idle (tick w) = idle w"
  "stmt_of E (w\<lparr>db := d\<rparr>) = stmt_of E w"
  by (cases "tx w"; simp add: tick_def durable_def idle_def stmt_of_def)+

lemma abort_tx_simps [simp]:
  "db (abort_tx w) = db w" "step (abort_tx w) = step w" "redis_log (abort_tx w) = redis_log w"
  "outputs (abort_tx w) = outputs w" "durable (abort_tx w) = durable w" "idle (abort_tx w) = idle w"
  "idle w \<Longrightarrow> abort_tx w = w"
  by (cases "tx w"; simp add: abort_tx_def durable_def idle_def)+

lemma not_aborted_idle [simp]: "idle w \<Longrightarrow> \<not> in_aborted_tx w"
  by (simp add: in_aborted_tx_def idle_def)

lemma idle_db_update [simp]: "idle (w\<lparr>db := d\<rparr>) = idle w"
  by (simp add: idle_def)

lemma run_exec [run_simps]:
  "run_state (exec E q) w =
     (if in_aborted_tx w then (Inl TxAborted, tick w)
      else if io_fail E (step w) then (Inl IOError, tick (abort_tx w))
      else case q (stmt_of E w) (db w) of
             Inl NoRows \<Rightarrow> (Inl NoRows, tick w)
           | Inl e \<Rightarrow> (Inl e, tick (abort_tx w))
           | Inr (x, d) \<Rightarrow> (Inr x, tick (w\<lparr>db := d\<rparr>)))"
  by (simp add: exec_def)

text \<open>Outside a transaction and without a failure of the connection, a statement just runs.\<close>

lemma run_exec_idle:
  "idle w \<Longrightarrow> \<not> io_fail E (step w) \<Longrightarrow>
   run_state (exec E q) w =
     (case q (stmt_of E w) (db w) of Inl e \<Rightarrow> (Inl e, tick w)
      | Inr (x, d) \<Rightarrow> (Inr x, tick (w\<lparr>db := d\<rparr>)))"
  by (auto simp: run_exec split: sum.splits db_err.splits)

text \<open>A read-only statement changes nothing but the step counter, whatever happens.\<close>

lemma exec_unchanged:
  assumes "\<And>c d x d'. q c d = Inr (x, d') \<Longrightarrow> d' = d" and "idle w"
  shows "snd (run_state (exec E q) w) = tick w"
proof (cases "q (stmt_of E w) (db w)")
  case (Inl e)
  then show ?thesis using \<open>idle w\<close> by (auto simp: run_exec split: db_err.splits)
next
  case (Inr r)
  moreover from this assms(1) have "snd r = db w" by (metis prod.collapse)
  ultimately show ?thesis using \<open>idle w\<close> by (auto simp: run_exec tick_def split: prod.splits)
qed

lemma run_tx_rollback [run_simps]:
  "run_state tx_rollback w = ((), case tx w of None \<Rightarrow> w | Some t \<Rightarrow> w\<lparr>db := tx_snap t, tx := None\<rparr>)"
  by (simp add: tx_rollback_def split: option.splits)

lemma run_deferring_rollback [run_simps]:
  "run_state (deferring_rollback m) w =
     (case run_state m w of (r, w') \<Rightarrow>
        (r, case tx w' of None \<Rightarrow> w' | Some t \<Rightarrow> w'\<lparr>db := tx_snap t, tx := None\<rparr>))"
  by (simp add: deferring_rollback_def run_tx_rollback split: prod.splits)

text \<open>Whatever the body does, a function that defers the rollback leaves no transaction open.\<close>

lemma deferring_rollback_idle: "idle (snd (run_state (deferring_rollback m) w))"
  by (simp add: run_deferring_rollback idle_def split: prod.splits option.splits)

lemma run_tx_begin [run_simps]:
  "run_state (tx_begin E) w =
     (if io_fail E (step w) \<or> \<not> idle w then (Inl IOError, tick w)
      else (Inr (), tick (w\<lparr>tx := Some \<lparr>tx_snap = db w, tx_now = dbclock E (step w),
              tx_aborted = False, tx_role = conn_role E, tx_guc = None\<rparr>\<rparr>)))"
  by (simp add: tx_begin_def)

lemma run_tx_commit [run_simps]:
  "run_state (tx_commit E) w = (case tx w of
       None \<Rightarrow> (Inl TxAborted, tick w)
     | Some t \<Rightarrow>
         if tx_aborted t then (Inl TxAborted, tick (w\<lparr>db := tx_snap t, tx := None\<rparr>))
         else if io_fail E (step w) then (Inl IOError, tick (w\<lparr>db := tx_snap t, tx := None\<rparr>))
         else (Inr (), tick (w\<lparr>tx := None\<rparr>)))"
  by (simp add: tx_commit_def)

lemma run_tx_setting [run_simps]:
  "run_state (tx_setting E f) w =
     (if in_aborted_tx w then (Inl TxAborted, tick w)
      else if io_fail E (step w) then (Inl IOError, tick (abort_tx w))
      else (Inr (), tick (w\<lparr>tx := map_option f (tx w)\<rparr>)))"
  by (simp add: tx_setting_def)

section \<open>Relations on the committed database\<close>

text \<open>
  A preorder \<open>R\<close> on databases lifts to worlds: the committed database moves along \<open>R\<close>, and
  inside a transaction the working copy is always \<open>R\<close>-reachable from the snapshot, so that a
  commit moves along \<open>R\<close> and a rollback stays in place.
\<close>

definition tx_within :: "(database \<Rightarrow> database \<Rightarrow> bool) \<Rightarrow> world \<Rightarrow> bool" where
  "tx_within R w = (case tx w of None \<Rightarrow> True | Some t \<Rightarrow> R (tx_snap t) (db w))"

definition lift_rel :: "(database \<Rightarrow> database \<Rightarrow> bool) \<Rightarrow> world \<Rightarrow> world \<Rightarrow> bool" where
  "lift_rel R w w' \<longleftrightarrow> (tx_within R w \<longrightarrow> tx_within R w' \<and> R (durable w) (durable w'))"

text \<open>From an idle world the lifted relation is \<open>R\<close> on what is committed.\<close>

lemma lift_rel_idleD:
  assumes "state_io_rel (lift_rel R) m" and "idle w"
  shows "R (db w) (durable (snd (run_state m w)))"
proof -
  from assms(1) have "lift_rel R w (snd (run_state m w))" by (simp add: state_io_rel_def)
  then show ?thesis using \<open>idle w\<close> by (simp add: lift_rel_def tx_within_def idle_def durable_def)
qed

locale db_effect =
  fixes R :: "database \<Rightarrow> database \<Rightarrow> bool"
  assumes db_refl: "R d d"
    and db_trans: "R d e \<Longrightarrow> R e f \<Longrightarrow> R d f"
begin

sublocale world: preorder_effect "lift_rel R"
  by unfold_locales (auto simp: lift_rel_def tx_within_def durable_def db_refl
      split: option.splits intro: db_trans)

lemma same_db_effect:
  "db w' = db w \<Longrightarrow> (tx w = None \<longleftrightarrow> tx w' = None) \<Longrightarrow> map_option tx_snap (tx w') = map_option tx_snap (tx w)
   \<Longrightarrow> lift_rel R w w'"
  by (cases "tx w"; cases "tx w'") (auto simp: lift_rel_def tx_within_def durable_def db_refl)

lemma exec_effect [effect_intros]:
  assumes "\<And>c d x d'. q c d = Inr (x, d') \<Longrightarrow> R d d'"
  shows "state_io_rel (lift_rel R) (exec E q)"
proof (rule state_io_relI)
  fix r w w'
  assume run: "run_state (exec E q) w = (r, w')"
  consider "w' = tick w" | "w' = tick (abort_tx w)" | x d where "q (stmt_of E w) (db w) = Inr (x, d)"
      and "w' = tick (w\<lparr>db := d\<rparr>)"
    using run by (auto simp: run_exec split: if_splits sum.splits db_err.splits prod.splits)
  then show "lift_rel R w w'"
  proof cases
    case 1
    then show ?thesis by (auto intro: same_db_effect)
  next
    case 2
    then show ?thesis by (intro same_db_effect) (auto simp: abort_tx_def option.map_comp comp_def)
  next
    case (3 x d)
    from assms [OF 3(1)] 3(2) show ?thesis
      by (auto simp: lift_rel_def tx_within_def durable_def db_refl split: option.splits intro: db_trans)
  qed
qed

lemma fetch_effect [effect_intros]: "state_io_rel (lift_rel R) (exec E (fetch f))"
  by (rule exec_effect) (simp add: fetch_def db_refl)

lemma fetch_one_effect [effect_intros]: "state_io_rel (lift_rel R) (exec E (fetch_one f))"
  by (rule exec_effect) (simp add: fetch_one_Some db_refl)

lemma outside_effect [effect_intros]:
  "state_io_rel (lift_rel R) (go_now E)" "state_io_rel (lift_rel R) (new_uuid E)"
  "state_io_rel (lift_rel R) (rand_read E k)" "state_io_rel (lift_rel R) (emit x)"
  "state_io_rel (lift_rel R) (ask_redis E c)"
  by (auto intro!: state_io_relI same_db_effect)

lemma tx_begin_effect [effect_intros]: "state_io_rel (lift_rel R) (tx_begin E)"
  by (auto intro!: state_io_relI simp: run_tx_begin lift_rel_def tx_within_def durable_def idle_def db_refl
      split: if_splits option.splits)

lemma tx_commit_effect [effect_intros]: "state_io_rel (lift_rel R) (tx_commit E)"
  by (auto intro!: state_io_relI simp: run_tx_commit lift_rel_def tx_within_def durable_def db_refl
      split: if_splits option.splits)

lemma tx_rollback_effect [effect_intros]: "state_io_rel (lift_rel R) tx_rollback"
  by (auto intro!: state_io_relI simp: run_tx_rollback lift_rel_def tx_within_def durable_def db_refl
      split: option.splits)

lemma deferring_rollback_effect [effect_intros]:
  "state_io_rel (lift_rel R) m \<Longrightarrow> state_io_rel (lift_rel R) (deferring_rollback m)"
  unfolding deferring_rollback_def by (intro world.bind_effect world.ignoring_effect world.return_effect tx_rollback_effect)

lemma set_local_role_effect [effect_intros]: "state_io_rel (lift_rel R) (set_local_role E r)"
  by (auto intro!: state_io_relI simp: set_local_role_def run_tx_setting lift_rel_def tx_within_def
      durable_def abort_tx_def db_refl split: if_splits option.splits)

lemma set_tenant_effect [effect_intros]: "state_io_rel (lift_rel R) (set_tenant E t)"
  by (auto intro!: state_io_relI simp: set_tenant_def run_tx_setting lift_rel_def tx_within_def
      durable_def abort_tx_def db_refl split: if_splits option.splits)

lemma withTenant_effect [effect_intros]:
  "state_io_rel (lift_rel R) fn \<Longrightarrow> state_io_rel (lift_rel R) (withTenant E t fn)"
  unfolding withTenant_def
  by (intro world.check_effect deferring_rollback_effect tx_begin_effect set_local_role_effect
      set_tenant_effect tx_commit_effect world.ok_effect)

lemma withTenantGUC_effect [effect_intros]:
  "state_io_rel (lift_rel R) fn \<Longrightarrow> state_io_rel (lift_rel R) (withTenantGUC E t fn)"
  unfolding withTenantGUC_def
  by (intro world.check_effect deferring_rollback_effect tx_begin_effect
      set_tenant_effect tx_commit_effect world.ok_effect)

end

end
