(* ===== verification/Queries_Identity.thy ===== *)
theory Queries_Identity
  imports Session
begin

text \<open>
  The queries of \<^verbatim>\<open>internal/db/auth.sql.go\<close> on users, one-time tokens, recovery codes, the
  audit log and the outbox. An INSERT checks the primary keys, the UNIQUE constraints and the
  foreign keys of the migrations; a DELETE of a user cascades as they say.
\<close>

section \<open>Users\<close>

definition has_user :: "database \<Rightarrow> uuid \<Rightarrow> bool" where
  "has_user d uid \<longleftrightarrow> uid \<in> u_ID ` set (users d)"

definition sql_CreateUser :: "string \<Rightarrow> string \<Rightarrow> User query" where
  "sql_CreateUser email pwhash c d =
     (if s_uuid c \<in> u_ID ` set (users d) \<or> email \<in> u_Email ` set (users d) then Inl UniqueViolation
      else let u = \<lparr>u_ID = s_uuid c, u_Email = email, u_PasswordHash = pwhash, u_Status = ''active'',
                    u_CreatedAt = s_now c, u_UpdatedAt = s_now c, u_EmailVerified = False,
                    u_FailedLoginAttempts = 0, u_LockedUntil = None, u_TotpSecret = None,
                    u_TotpEnabled = False, u_DeletedAt = None\<rparr>
           in Inr (u, d\<lparr>users := users d @ [u]\<rparr>))"

definition sql_GetUserByEmail :: "string \<Rightarrow> User query" where
  "sql_GetUserByEmail email = fetch_one (\<lambda>c d. filter (\<lambda>u. u_Email u = email) (users d))"

definition sql_GetUserByID :: "uuid \<Rightarrow> User query" where
  "sql_GetUserByID uid = fetch_one (\<lambda>c d. filter (\<lambda>u. u_ID u = uid) (users d))"

definition update_user :: "uuid \<Rightarrow> (stmt \<Rightarrow> User \<Rightarrow> User) \<Rightarrow> unit query" where
  "update_user uid f = perform (\<lambda>c d. d\<lparr>users := update_where (\<lambda>u. u_ID u = uid) (f c) (users d)\<rparr>)"

definition sql_DeleteUser :: "uuid \<Rightarrow> unit query" where
  "sql_DeleteUser uid = perform (\<lambda>c d. d\<lparr>
     users := delete_where (\<lambda>u. u_ID u = uid) (users d),
     refresh_tokens := delete_where (\<lambda>r. rt_UserID r = uid) (refresh_tokens d),
     user_roles := delete_where (\<lambda>r. ur_UserID r = uid) (user_roles d),
     memberships := delete_where (\<lambda>m. m_UserID m = uid) (memberships d),
     email_verifications := delete_where (\<lambda>v. ot_UserID v = uid) (email_verifications d),
     password_resets := delete_where (\<lambda>v. ot_UserID v = uid) (password_resets d),
     totp_recovery_codes := delete_where (\<lambda>r. rc_UserID r = uid) (totp_recovery_codes d),
     api_keys := delete_where (\<lambda>k. k_UserID k = uid) (api_keys d)\<rparr>)"

definition sql_SoftDeleteUser :: "uuid \<Rightarrow> unit query" where
  "sql_SoftDeleteUser uid = perform (\<lambda>c d. d\<lparr>users := update_where
     (\<lambda>u. u_ID u = uid \<and> u_DeletedAt u = None)
     (\<lambda>u. u\<lparr>u_DeletedAt := Some (s_now c), u_UpdatedAt := s_now c\<rparr>) (users d)\<rparr>)"

definition sql_RestoreUser :: "uuid \<Rightarrow> unit query" where
  "sql_RestoreUser uid = update_user uid (\<lambda>c u. u\<lparr>u_DeletedAt := None, u_UpdatedAt := s_now c\<rparr>)"

definition sql_IsUserActive :: "uuid \<Rightarrow> bool query" where
  "sql_IsUserActive uid = fetch_one (\<lambda>c d.
     map (\<lambda>u. u_DeletedAt u = None) (filter (\<lambda>u. u_ID u = uid) (users d)))"

definition sql_SetTotpSecret :: "uuid \<Rightarrow> string \<Rightarrow> unit query" where
  "sql_SetTotpSecret uid secret = update_user uid
     (\<lambda>c u. u\<lparr>u_TotpSecret := Some secret, u_TotpEnabled := False, u_UpdatedAt := s_now c\<rparr>)"

definition sql_EnableTotp :: "uuid \<Rightarrow> unit query" where
  "sql_EnableTotp uid = update_user uid (\<lambda>c u. u\<lparr>u_TotpEnabled := True, u_UpdatedAt := s_now c\<rparr>)"

definition sql_DisableTotp :: "uuid \<Rightarrow> unit query" where
  "sql_DisableTotp uid = update_user uid
     (\<lambda>c u. u\<lparr>u_TotpSecret := None, u_TotpEnabled := False, u_UpdatedAt := s_now c\<rparr>)"

text \<open>\<^verbatim>\<open>failed_login_attempts\<close> is a 32-bit INT: PostgreSQL refuses to increment its largest value.\<close>

definition sql_IncrementLoginFailure :: "uuid \<Rightarrow> int query" where
  "sql_IncrementLoginFailure uid c d =
     (case filter (\<lambda>u. u_ID u = uid) (users d) of
        [] \<Rightarrow> Inl NoRows
      | u # _ \<Rightarrow>
          if u_FailedLoginAttempts u + 1 > 2147483647 then Inl NumericOutOfRange
          else Inr (u_FailedLoginAttempts u + 1,
                    d\<lparr>users := update_where (\<lambda>u. u_ID u = uid)
                       (\<lambda>u. u\<lparr>u_FailedLoginAttempts := u_FailedLoginAttempts u + 1\<rparr>) (users d)\<rparr>))"

definition sql_LockUser :: "uuid \<Rightarrow> time \<Rightarrow> unit query" where
  "sql_LockUser uid until = update_user uid
     (\<lambda>c u. u\<lparr>u_LockedUntil := Some until, u_FailedLoginAttempts := 0\<rparr>)"

definition sql_ResetLoginState :: "uuid \<Rightarrow> unit query" where
  "sql_ResetLoginState uid = update_user uid
     (\<lambda>c u. u\<lparr>u_FailedLoginAttempts := 0, u_LockedUntil := None\<rparr>)"

definition sql_MarkEmailVerified :: "uuid \<Rightarrow> unit query" where
  "sql_MarkEmailVerified uid = update_user uid (\<lambda>c u. u\<lparr>u_EmailVerified := True\<rparr>)"

definition sql_UpdatePassword :: "uuid \<Rightarrow> string \<Rightarrow> unit query" where
  "sql_UpdatePassword uid pwhash = update_user uid
     (\<lambda>c u. u\<lparr>u_PasswordHash := pwhash, u_UpdatedAt := s_now c\<rparr>)"

section \<open>One-time tokens\<close>

definition one_time_token :: "string \<Rightarrow> uuid \<Rightarrow> time \<Rightarrow> stmt \<Rightarrow> OneTimeToken" where
  "one_time_token h uid expires c = \<lparr>ot_TokenHash = h, ot_UserID = uid, ot_ExpiresAt = expires,
     ot_ConsumedAt = None, ot_CreatedAt = s_now c\<rparr>"

definition sql_CreateEmailVerification :: "string \<Rightarrow> uuid \<Rightarrow> time \<Rightarrow> unit query" where
  "sql_CreateEmailVerification h uid expires c d =
     (if h \<in> ot_TokenHash ` set (email_verifications d) then Inl UniqueViolation
      else if \<not> has_user d uid then Inl ForeignKeyViolation
      else Inr ((), d\<lparr>email_verifications := email_verifications d @ [one_time_token h uid expires c]\<rparr>))"

definition sql_CreatePasswordReset :: "string \<Rightarrow> uuid \<Rightarrow> time \<Rightarrow> unit query" where
  "sql_CreatePasswordReset h uid expires c d =
     (if h \<in> ot_TokenHash ` set (password_resets d) then Inl UniqueViolation
      else if \<not> has_user d uid then Inl ForeignKeyViolation
      else Inr ((), d\<lparr>password_resets := password_resets d @ [one_time_token h uid expires c]\<rparr>))"

definition consumable :: "string \<Rightarrow> time \<Rightarrow> OneTimeToken \<Rightarrow> bool" where
  "consumable h now v \<longleftrightarrow> ot_TokenHash v = h \<and> ot_ConsumedAt v = None \<and> ot_ExpiresAt v > now"

definition sql_ConsumeEmailVerification :: "string \<Rightarrow> uuid query" where
  "sql_ConsumeEmailVerification h c d =
     (case filter (consumable h (s_now c)) (email_verifications d) of
        [] \<Rightarrow> Inl NoRows
      | v # _ \<Rightarrow> Inr (ot_UserID v, d\<lparr>email_verifications := update_where (consumable h (s_now c))
                   (\<lambda>v. v\<lparr>ot_ConsumedAt := Some (s_now c)\<rparr>) (email_verifications d)\<rparr>))"

definition sql_ConsumePasswordReset :: "string \<Rightarrow> uuid query" where
  "sql_ConsumePasswordReset h c d =
     (case filter (consumable h (s_now c)) (password_resets d) of
        [] \<Rightarrow> Inl NoRows
      | v # _ \<Rightarrow> Inr (ot_UserID v, d\<lparr>password_resets := update_where (consumable h (s_now c))
                   (\<lambda>v. v\<lparr>ot_ConsumedAt := Some (s_now c)\<rparr>) (password_resets d)\<rparr>))"

section \<open>Recovery codes\<close>

definition sql_InsertRecoveryCode :: "uuid \<Rightarrow> string \<Rightarrow> unit query" where
  "sql_InsertRecoveryCode uid h c d =
     (if s_serial c \<in> rc_ID ` set (totp_recovery_codes d) then Inl UniqueViolation
      else if \<not> has_user d uid then Inl ForeignKeyViolation
      else Inr ((), d\<lparr>totp_recovery_codes := totp_recovery_codes d @
             [\<lparr>rc_ID = s_serial c, rc_UserID = uid, rc_CodeHash = h, rc_UsedAt = None,
               rc_CreatedAt = s_now c\<rparr>]\<rparr>))"

definition sql_DeleteRecoveryCodes :: "uuid \<Rightarrow> unit query" where
  "sql_DeleteRecoveryCodes uid = perform (\<lambda>c d.
     d\<lparr>totp_recovery_codes := delete_where (\<lambda>r. rc_UserID r = uid) (totp_recovery_codes d)\<rparr>)"

definition unused_code :: "uuid \<Rightarrow> string \<Rightarrow> TotpRecoveryCode \<Rightarrow> bool" where
  "unused_code uid h r \<longleftrightarrow> rc_UserID r = uid \<and> rc_CodeHash r = h \<and> rc_UsedAt r = None"

definition sql_ConsumeRecoveryCode :: "uuid \<Rightarrow> string \<Rightarrow> int query" where
  "sql_ConsumeRecoveryCode uid h c d =
     (case filter (unused_code uid h) (totp_recovery_codes d) of
        [] \<Rightarrow> Inl NoRows
      | r # _ \<Rightarrow> Inr (rc_ID r, d\<lparr>totp_recovery_codes := update_where (unused_code uid h)
                   (\<lambda>r. r\<lparr>rc_UsedAt := Some (s_now c)\<rparr>) (totp_recovery_codes d)\<rparr>))"

section \<open>Audit log and outbox\<close>

definition sql_InsertAuditEvent ::
  "string \<Rightarrow> string \<Rightarrow> string \<Rightarrow> string \<Rightarrow> string \<Rightarrow> uuid option \<Rightarrow> unit query" where
  "sql_InsertAuditEvent actorID actorEmail action target detail tenant c d =
     (if s_serial c \<in> a_ID ` set (audit_events d) then Inl UniqueViolation
      else Inr ((), d\<lparr>audit_events := audit_events d @
             [\<lparr>a_ID = s_serial c, a_ActorID = actorID, a_ActorEmail = actorEmail, a_Action = action,
               a_Target = target, a_Detail = detail, a_CreatedAt = s_now c, a_TenantID = tenant\<rparr>]\<rparr>))"

definition sql_ListAuditEvents :: "uuid option \<Rightarrow> int \<Rightarrow> AuditEvent list query" where
  "sql_ListAuditEvents tenant limit = fetch (\<lambda>c d.
     take (nat limit) (rev (sort_key a_ID (filter (\<lambda>e. sql_eq (a_TenantID e) tenant) (audit_events d)))))"

definition sql_InsertOutbox :: "uuid \<Rightarrow> string \<Rightarrow> bytes \<Rightarrow> unit query" where
  "sql_InsertOutbox aggregate etype payload c d =
     (if s_uuid c \<in> o_ID ` set (outbox d) then Inl UniqueViolation
      else Inr ((), d\<lparr>outbox := outbox d @
             [\<lparr>o_ID = s_uuid c, o_AggregateID = aggregate, o_EventType = etype, o_Payload = payload,
               o_CreatedAt = s_now c, o_PublishedAt = None\<rparr>]\<rparr>))"

definition sql_FetchUnpublishedOutbox :: "int \<Rightarrow> Outbox list query" where
  "sql_FetchUnpublishedOutbox limit = fetch (\<lambda>c d.
     take (nat limit) (sort_key o_CreatedAt (filter (\<lambda>r. o_PublishedAt r = None) (outbox d))))"

definition sql_MarkOutboxPublished :: "uuid \<Rightarrow> unit query" where
  "sql_MarkOutboxPublished oid = perform (\<lambda>c d.
     d\<lparr>outbox := update_where (\<lambda>r. o_ID r = oid) (\<lambda>r. r\<lparr>o_PublishedAt := Some (s_now c)\<rparr>) (outbox d)\<rparr>)"

end
