(* ===== verification/Queries_Tokens.thy ===== *)
theory Queries_Tokens
  imports Queries_Identity
begin

text \<open>
  The queries of \<^verbatim>\<open>internal/db/auth.sql.go\<close> on refresh tokens, the access-token denylist and
  API keys.
\<close>

definition has_tenant :: "database \<Rightarrow> uuid \<Rightarrow> bool" where
  "has_tenant d t \<longleftrightarrow> t \<in> t_ID ` set (tenants d)"

text \<open>A nullable reference to a project: NULL refers to nothing.\<close>

definition project_ref_ok :: "database \<Rightarrow> uuid option \<Rightarrow> bool" where
  "project_ref_ok d p = pred_option (\<lambda>pid. pid \<in> pj_ID ` set (projects d)) p"

section \<open>Refresh tokens\<close>

definition sql_CreateRefreshToken ::
  "uuid \<Rightarrow> string \<Rightarrow> time \<Rightarrow> uuid \<Rightarrow> uuid option \<Rightarrow> RefreshToken query" where
  "sql_CreateRefreshToken uid h expires tenant project c d =
     (if s_uuid c \<in> rt_ID ` set (refresh_tokens d) \<or> h \<in> rt_TokenHash ` set (refresh_tokens d)
      then Inl UniqueViolation
      else if \<not> has_user d uid \<or> \<not> has_tenant d tenant \<or> \<not> project_ref_ok d project
      then Inl ForeignKeyViolation
      else let r = \<lparr>rt_ID = s_uuid c, rt_UserID = uid, rt_TokenHash = h, rt_ExpiresAt = expires,
                    rt_RevokedAt = None, rt_CreatedAt = s_now c, rt_TenantID = tenant,
                    rt_ProjectID = project, rt_ReplacedBy = None\<rparr>
           in Inr (r, d\<lparr>refresh_tokens := refresh_tokens d @ [r]\<rparr>))"

definition sql_GetRefreshToken :: "string \<Rightarrow> RefreshToken query" where
  "sql_GetRefreshToken h = fetch_one (\<lambda>c d. filter (\<lambda>r. rt_TokenHash r = h) (refresh_tokens d))"

text \<open>The three revocations touch only rows that are not revoked yet.\<close>

definition sql_RevokeRefreshToken :: "string \<Rightarrow> unit query" where
  "sql_RevokeRefreshToken h = perform (\<lambda>c d. d\<lparr>refresh_tokens := update_where
     (\<lambda>r. rt_TokenHash r = h \<and> rt_RevokedAt r = None)
     (\<lambda>r. r\<lparr>rt_RevokedAt := Some (s_now c)\<rparr>) (refresh_tokens d)\<rparr>)"

definition sql_RotateRefreshToken :: "string \<Rightarrow> string option \<Rightarrow> unit query" where
  "sql_RotateRefreshToken h successor = perform (\<lambda>c d. d\<lparr>refresh_tokens := update_where
     (\<lambda>r. rt_TokenHash r = h \<and> rt_RevokedAt r = None)
     (\<lambda>r. r\<lparr>rt_RevokedAt := Some (s_now c), rt_ReplacedBy := successor\<rparr>) (refresh_tokens d)\<rparr>)"

definition sql_RevokeAllUserRefreshTokens :: "uuid \<Rightarrow> unit query" where
  "sql_RevokeAllUserRefreshTokens uid = perform (\<lambda>c d. d\<lparr>refresh_tokens := update_where
     (\<lambda>r. rt_UserID r = uid \<and> rt_RevokedAt r = None)
     (\<lambda>r. r\<lparr>rt_RevokedAt := Some (s_now c)\<rparr>) (refresh_tokens d)\<rparr>)"

section \<open>Access-token denylist\<close>

definition sql_RevokeAccessJTI :: "string \<Rightarrow> time \<Rightarrow> unit query" where
  "sql_RevokeAccessJTI jti expires = perform (\<lambda>c d.
     if jti \<in> rv_Jti ` set (revoked_tokens d) then d
     else d\<lparr>revoked_tokens := revoked_tokens d @
            [\<lparr>rv_Jti = jti, rv_ExpiresAt = expires, rv_RevokedAt = s_now c\<rparr>]\<rparr>)"

definition sql_IsTokenRevoked :: "string \<Rightarrow> bool query" where
  "sql_IsTokenRevoked jti = fetch (\<lambda>c d. jti \<in> rv_Jti ` set (revoked_tokens d))"

section \<open>API keys\<close>

definition sql_CreateApiKey ::
  "string \<Rightarrow> uuid \<Rightarrow> string \<Rightarrow> string \<Rightarrow> string list \<Rightarrow> time option \<Rightarrow> uuid \<Rightarrow> uuid option \<Rightarrow> unit query" where
  "sql_CreateApiKey kid uid h name scopes expires tenant project c d =
     (if kid \<in> k_ID ` set (api_keys d) \<or> h \<in> k_KeyHash ` set (api_keys d) then Inl UniqueViolation
      else if \<not> has_user d uid \<or> \<not> has_tenant d tenant \<or> \<not> project_ref_ok d project
      then Inl ForeignKeyViolation
      else Inr ((), d\<lparr>api_keys := api_keys d @
             [\<lparr>k_ID = kid, k_UserID = uid, k_KeyHash = h, k_Name = name, k_Scopes = scopes,
               k_ExpiresAt = expires, k_RevokedAt = None, k_LastUsedAt = None, k_CreatedAt = s_now c,
               k_TenantID = tenant, k_ProjectID = project\<rparr>]\<rparr>))"

definition sql_GetApiKeyByHash :: "string \<Rightarrow> ApiKey query" where
  "sql_GetApiKeyByHash h = fetch_one (\<lambda>c d. filter (\<lambda>k. k_KeyHash k = h) (api_keys d))"

definition sql_ListApiKeysByUser :: "uuid \<Rightarrow> ApiKey list query" where
  "sql_ListApiKeysByUser uid = fetch (\<lambda>c d.
     rev (sort_key k_CreatedAt (filter (\<lambda>k. k_UserID k = uid \<and> k_RevokedAt k = None) (api_keys d))))"

definition sql_RevokeApiKey :: "string \<Rightarrow> uuid \<Rightarrow> unit query" where
  "sql_RevokeApiKey kid uid = perform (\<lambda>c d. d\<lparr>api_keys := update_where
     (\<lambda>k. k_ID k = kid \<and> k_UserID k = uid \<and> k_RevokedAt k = None)
     (\<lambda>k. k\<lparr>k_RevokedAt := Some (s_now c)\<rparr>) (api_keys d)\<rparr>)"

definition sql_TouchApiKey :: "string \<Rightarrow> unit query" where
  "sql_TouchApiKey kid = perform (\<lambda>c d. d\<lparr>api_keys := update_where (\<lambda>k. k_ID k = kid)
     (\<lambda>k. k\<lparr>k_LastUsedAt := Some (s_now c)\<rparr>) (api_keys d)\<rparr>)"

end
