(* ===== verification/Queries_Rbac.thy ===== *)
theory Queries_Rbac
  imports Queries_Tokens
begin

text \<open>
  The queries of \<^verbatim>\<open>internal/db/auth.sql.go\<close> on roles, permissions, assignments, tenants,
  projects and memberships. On roles, user\_roles and projects a statement sees only the rows
  its session may see (\<open>rls_ok\<close>), and an INSERT is refused outside them.
\<close>

section \<open>Visible rows\<close>

definition visible_roles :: "stmt \<Rightarrow> database \<Rightarrow> Role list" where
  "visible_roles c d = filter (\<lambda>r. rls_ok c (r_TenantID r)) (roles d)"

definition visible_user_roles :: "stmt \<Rightarrow> database \<Rightarrow> UserRole list" where
  "visible_user_roles c d = filter (\<lambda>r. rls_ok c (Some (ur_TenantID r))) (user_roles d)"

definition visible_projects :: "stmt \<Rightarrow> database \<Rightarrow> Project list" where
  "visible_projects c d = filter (\<lambda>p. rls_ok c (Some (pj_TenantID p))) (projects d)"

text \<open>A scalar subquery: NULL for no row, an error for several.\<close>

definition scalar :: "'a list \<Rightarrow> db_err + 'a option" where
  "scalar xs = (case xs of [] \<Rightarrow> Inr None | [x] \<Rightarrow> Inr (Some x) | _ \<Rightarrow> Inl CardinalityViolation)"

section \<open>Roles\<close>

definition sql_GetRoleByName :: "string \<Rightarrow> Role query" where
  "sql_GetRoleByName name = fetch_one (\<lambda>c d. filter (\<lambda>r. r_Name r = name) (visible_roles c d))"

text \<open>The roles of that name a tenant can use, its own before the shared template.\<close>

definition roles_in_tenant :: "string \<Rightarrow> uuid option \<Rightarrow> stmt \<Rightarrow> database \<Rightarrow> Role list" where
  "roles_in_tenant name tenant c d = sort_key (null_key \<circ> r_TenantID)
     (filter (\<lambda>r. r_Name r = name \<and> (sql_eq (r_TenantID r) tenant \<or> r_TenantID r = None)) (visible_roles c d))"

definition sql_GetRoleInTenant :: "string \<Rightarrow> uuid option \<Rightarrow> Role query" where
  "sql_GetRoleInTenant name tenant = fetch_one (roles_in_tenant name tenant)"

definition tenant_roles :: "string \<Rightarrow> uuid option \<Rightarrow> stmt \<Rightarrow> database \<Rightarrow> Role list" where
  "tenant_roles name tenant c d =
     filter (\<lambda>r. r_Name r = name \<and> sql_eq (r_TenantID r) tenant) (visible_roles c d)"

definition sql_GetTenantRole :: "string \<Rightarrow> uuid option \<Rightarrow> Role query" where
  "sql_GetTenantRole name tenant = fetch_one (tenant_roles name tenant)"

text \<open>
  The unique indexes \<^verbatim>\<open>roles_builtin_name\<close> and \<^verbatim>\<open>roles_tenant_name\<close> of migration 000010: a name
  is used once among the templates and once per tenant.
\<close>

definition sql_CreateRole :: "string \<Rightarrow> string \<Rightarrow> uuid option \<Rightarrow> Role query" where
  "sql_CreateRole name descr tenant c d =
     (if \<not> rls_ok c tenant then Inl RlsViolation
      else if s_serial c \<in> r_ID ` set (roles d)
           \<or> (\<exists>r \<in> set (roles d). r_Name r = name \<and> r_TenantID r = tenant) then Inl UniqueViolation
      else if (case tenant of None \<Rightarrow> False | Some t \<Rightarrow> \<not> has_tenant d t) then Inl ForeignKeyViolation
      else let r = \<lparr>r_ID = s_serial c, r_Name = name, r_Description = descr, r_TenantID = tenant\<rparr>
           in Inr (r, d\<lparr>roles := roles d @ [r]\<rparr>))"

definition sql_UpdateRole :: "string \<Rightarrow> string \<Rightarrow> uuid option \<Rightarrow> Role query" where
  "sql_UpdateRole name descr tenant c d =
     (case tenant_roles name tenant c d of
        [] \<Rightarrow> Inl NoRows
      | r # _ \<Rightarrow> Inr (r\<lparr>r_Description := descr\<rparr>,
          d\<lparr>roles := update_where
              (\<lambda>r. r_Name r = name \<and> sql_eq (r_TenantID r) tenant \<and> rls_ok c (r_TenantID r))
              (\<lambda>r. r\<lparr>r_Description := descr\<rparr>) (roles d)\<rparr>))"

text \<open>Deleting a role cascades to its permissions and assignments; the cascade is not subject to RLS.\<close>

definition sql_DeleteRole :: "string \<Rightarrow> uuid option \<Rightarrow> unit query" where
  "sql_DeleteRole name tenant = perform (\<lambda>c d.
     let gone = r_ID ` set (tenant_roles name tenant c d) in
     d\<lparr>roles := delete_where (\<lambda>r. r_ID r \<in> gone) (roles d),
       role_permissions := delete_where (\<lambda>rp. rp_RoleID rp \<in> gone) (role_permissions d),
       user_roles := delete_where (\<lambda>ur. ur_RoleID ur \<in> gone) (user_roles d)\<rparr>)"

definition role_permission_names :: "database \<Rightarrow> int \<Rightarrow> string list" where
  "role_permission_names d rid =
     [p_Name p. rp \<leftarrow> role_permissions d, rp_RoleID rp = rid,
                p \<leftarrow> permissions d, p_ID p = rp_PermissionID rp]"

definition sql_ListRolesWithPermissions :: "uuid option \<Rightarrow> (Role \<times> string list) list query" where
  "sql_ListRolesWithPermissions tenant = fetch (\<lambda>c d.
     sort_key (\<lambda>(r, ps). s_collate c (r_Name r))
       (map (\<lambda>r. (r, sort_key (s_collate c) (role_permission_names d (r_ID r))))
         (filter (\<lambda>r. sql_eq (r_TenantID r) tenant \<or> r_TenantID r = None) (visible_roles c d))))"

definition sql_ListRoles :: "(int \<times> string \<times> string) list query" where
  "sql_ListRoles = fetch (\<lambda>c d.
     map (\<lambda>r. (r_ID r, r_Name r, r_Description r)) (sort_key (s_collate c \<circ> r_Name) (visible_roles c d)))"

definition sql_ListRolePermissionNames :: "int \<Rightarrow> string list query" where
  "sql_ListRolePermissionNames rid = fetch (\<lambda>c d. sort_key (s_collate c) (role_permission_names d rid))"

definition sql_ListPermissions :: "Permission list query" where
  "sql_ListPermissions = fetch (\<lambda>c d. sort_key (s_collate c \<circ> p_Name) (permissions d))"

section \<open>What a user may do\<close>

text \<open>\<^verbatim>\<open>ur.project_id IS NULL OR ur.project_id = $3\<close>\<close>

definition in_scope :: "uuid option \<Rightarrow> UserRole \<Rightarrow> bool" where
  "in_scope project ur \<longleftrightarrow> ur_ProjectID ur = None \<or> sql_eq (ur_ProjectID ur) project"

definition permission_names_of :: "database \<Rightarrow> UserRole list \<Rightarrow> string list" where
  "permission_names_of d urs = concat (map (\<lambda>ur. role_permission_names d (ur_RoleID ur)) urs)"

definition role_names_of :: "stmt \<Rightarrow> database \<Rightarrow> UserRole list \<Rightarrow> string list" where
  "role_names_of c d urs = [r_Name r. ur \<leftarrow> urs, r \<leftarrow> visible_roles c d, r_ID r = ur_RoleID ur]"

definition assignments :: "uuid \<Rightarrow> stmt \<Rightarrow> database \<Rightarrow> UserRole list" where
  "assignments uid c d = filter (\<lambda>ur. ur_UserID ur = uid) (visible_user_roles c d)"

definition scoped_assignments :: "uuid \<Rightarrow> uuid \<Rightarrow> uuid option \<Rightarrow> stmt \<Rightarrow> database \<Rightarrow> UserRole list" where
  "scoped_assignments uid tenant project c d =
     filter (\<lambda>ur. ur_TenantID ur = tenant \<and> in_scope project ur) (assignments uid c d)"

definition sql_GetUserPermissions :: "uuid \<Rightarrow> string list query" where
  "sql_GetUserPermissions uid = fetch (\<lambda>c d.
     sort_key (s_collate c) (remdups (permission_names_of d (assignments uid c d))))"

definition sql_GetUserRoles :: "uuid \<Rightarrow> string list query" where
  "sql_GetUserRoles uid = fetch (\<lambda>c d.
     sort_key (s_collate c) (role_names_of c d (assignments uid c d)))"

definition sql_GetUserPermissionsScoped :: "uuid \<Rightarrow> uuid \<Rightarrow> uuid option \<Rightarrow> string list query" where
  "sql_GetUserPermissionsScoped uid tenant project = fetch (\<lambda>c d.
     sort_key (s_collate c) (remdups (permission_names_of d (scoped_assignments uid tenant project c d))))"

definition sql_GetUserRolesScoped :: "uuid \<Rightarrow> uuid \<Rightarrow> uuid option \<Rightarrow> string list query" where
  "sql_GetUserRolesScoped uid tenant project = fetch (\<lambda>c d.
     sort_key (s_collate c) (role_names_of c d (scoped_assignments uid tenant project c d)))"

definition sql_GetUserRoleAssignments :: "uuid \<Rightarrow> uuid \<Rightarrow> (string \<times> uuid option \<times> string option) list query" where
  "sql_GetUserRoleAssignments uid tenant = fetch (\<lambda>c d.
     sort_key (\<lambda>(role, pid, slug). (s_collate c role, map_option (s_collate c) slug))
       [(r_Name r, ur_ProjectID ur,
         case ur_ProjectID ur of None \<Rightarrow> None
         | Some pid \<Rightarrow> map_option pj_Slug (List.find (\<lambda>p. pj_ID p = pid) (visible_projects c d))).
        ur \<leftarrow> assignments uid c d, ur_TenantID ur = tenant,
        r \<leftarrow> visible_roles c d, r_ID r = ur_RoleID ur])"

section \<open>Assigning and revoking\<close>

text \<open>The unique index of migration 000010 takes a NULL project as the nil uuid.\<close>

definition user_role_key :: "UserRole \<Rightarrow> uuid \<times> int \<times> uuid \<times> uuid" where
  "user_role_key ur = (ur_UserID ur, ur_RoleID ur, ur_TenantID ur,
     case ur_ProjectID ur of None \<Rightarrow> 0 | Some p \<Rightarrow> p)"

definition insert_user_role :: "UserRole \<Rightarrow> unit query" where
  "insert_user_role ur c d =
     (if \<not> rls_ok c (Some (ur_TenantID ur)) then Inl RlsViolation
      else if user_role_key ur \<in> user_role_key ` set (user_roles d) then Inr ((), d)
      else if \<not> has_user d (ur_UserID ur) \<or> \<not> has_tenant d (ur_TenantID ur)
              \<or> \<not> project_ref_ok d (ur_ProjectID ur) then Inl ForeignKeyViolation
      else Inr ((), d\<lparr>user_roles := user_roles d @ [ur]\<rparr>))"

definition sql_AssignRoleToUser :: "uuid \<Rightarrow> string \<Rightarrow> uuid \<Rightarrow> uuid option \<Rightarrow> unit query" where
  "sql_AssignRoleToUser uid name tenant project c d =
     (case roles_in_tenant name (Some tenant) c d of
        [] \<Rightarrow> Inr ((), d)
      | r # _ \<Rightarrow> insert_user_role
          \<lparr>ur_UserID = uid, ur_RoleID = r_ID r, ur_TenantID = tenant, ur_ProjectID = project\<rparr> c d)"

definition sql_AssignRoleInTenant :: "uuid \<Rightarrow> string \<Rightarrow> uuid \<Rightarrow> unit query" where
  "sql_AssignRoleInTenant uid name tenant c d =
     (case filter (\<lambda>r. r_Name r = name \<and> r_TenantID r = None) (visible_roles c d) of
        [] \<Rightarrow> Inr ((), d)
      | r # _ \<Rightarrow> insert_user_role
          \<lparr>ur_UserID = uid, ur_RoleID = r_ID r, ur_TenantID = tenant, ur_ProjectID = None\<rparr> c d)"

definition sql_RevokeRoleFromUser :: "uuid \<Rightarrow> string \<Rightarrow> uuid \<Rightarrow> uuid option \<Rightarrow> unit query" where
  "sql_RevokeRoleFromUser uid name tenant project c d =
     (case scalar (map r_ID (filter (\<lambda>r. r_Name r = name) (visible_roles c d))) of
        Inl e \<Rightarrow> Inl e
      | Inr rid \<Rightarrow> Inr ((), d\<lparr>user_roles := delete_where
          (\<lambda>ur. ur_UserID ur = uid \<and> sql_eq (Some (ur_RoleID ur)) rid \<and> ur_TenantID ur = tenant
               \<and> ur_ProjectID ur = project \<and> rls_ok c (Some (ur_TenantID ur))) (user_roles d)\<rparr>))"

definition sql_GrantPermissionToRole :: "string \<Rightarrow> string \<Rightarrow> uuid option \<Rightarrow> unit query" where
  "sql_GrantPermissionToRole role perm tenant = perform (\<lambda>c d.
     d\<lparr>role_permissions := role_permissions d @
         filter (\<lambda>rp. rp \<notin> set (role_permissions d))
           [\<lparr>rp_RoleID = r_ID r, rp_PermissionID = p_ID p\<rparr>.
              r \<leftarrow> tenant_roles role tenant c d, p \<leftarrow> permissions d, p_Name p = perm]\<rparr>)"

definition sql_RevokePermissionFromRole :: "string \<Rightarrow> string \<Rightarrow> uuid option \<Rightarrow> unit query" where
  "sql_RevokePermissionFromRole role perm tenant c d =
     (case scalar (map r_ID (tenant_roles role tenant c d)) of
        Inl e \<Rightarrow> Inl e
      | Inr rid \<Rightarrow>
          (case scalar (map p_ID (filter (\<lambda>p. p_Name p = perm) (permissions d))) of
             Inl e \<Rightarrow> Inl e
           | Inr pid \<Rightarrow> Inr ((), d\<lparr>role_permissions := delete_where
               (\<lambda>rp. sql_eq (Some (rp_RoleID rp)) rid \<and> sql_eq (Some (rp_PermissionID rp)) pid)
               (role_permissions d)\<rparr>)))"

section \<open>Tenants, memberships, projects\<close>

definition sql_CreateTenant :: "string \<Rightarrow> string \<Rightarrow> Tenant query" where
  "sql_CreateTenant slug name c d =
     (if s_uuid c \<in> t_ID ` set (tenants d) \<or> slug \<in> t_Slug ` set (tenants d) then Inl UniqueViolation
      else let t = \<lparr>t_ID = s_uuid c, t_Slug = slug, t_Name = name, t_Status = ''active'', t_CreatedAt = s_now c\<rparr>
           in Inr (t, d\<lparr>tenants := tenants d @ [t]\<rparr>))"

definition sql_ListTenants :: "Tenant list query" where
  "sql_ListTenants = fetch (\<lambda>c d. sort_key (s_collate c \<circ> t_Name) (tenants d))"

definition sql_CreateMembership :: "uuid \<Rightarrow> uuid \<Rightarrow> unit query" where
  "sql_CreateMembership uid tenant c d =
     (if (uid, tenant) \<in> (\<lambda>m. (m_UserID m, m_TenantID m)) ` set (memberships d) then Inr ((), d)
      else if \<not> has_user d uid \<or> \<not> has_tenant d tenant then Inl ForeignKeyViolation
      else Inr ((), d\<lparr>memberships := memberships d @
             [\<lparr>m_UserID = uid, m_TenantID = tenant, m_Status = ''active'', m_CreatedAt = s_now c\<rparr>]\<rparr>))"

text \<open>The join gives the tenant's columns with the membership's status.\<close>

definition sql_ListMembershipsByUser :: "uuid \<Rightarrow> (Tenant \<times> string) list query" where
  "sql_ListMembershipsByUser uid = fetch (\<lambda>c d.
     sort_key (\<lambda>(t, st). s_collate c (t_Name t))
       [(t, m_Status m). m \<leftarrow> memberships d, m_UserID m = uid \<and> m_Status m = ''active'',
                         t \<leftarrow> tenants d, t_ID t = m_TenantID m])"

definition active_member :: "database \<Rightarrow> uuid \<Rightarrow> uuid \<Rightarrow> bool" where
  "active_member d uid tenant \<longleftrightarrow>
     (\<exists>m \<in> set (memberships d). \<exists>t \<in> set (tenants d). t_ID t = m_TenantID m
        \<and> m_UserID m = uid \<and> m_TenantID m = tenant \<and> m_Status m = ''active'' \<and> t_Status t = ''active'')"

definition sql_IsActiveMember :: "uuid \<Rightarrow> uuid \<Rightarrow> bool query" where
  "sql_IsActiveMember uid tenant = fetch (\<lambda>c d. active_member d uid tenant)"

definition sql_ListMembersByTenant :: "uuid \<Rightarrow> (uuid \<times> string \<times> string) list query" where
  "sql_ListMembersByTenant tenant = fetch (\<lambda>c d.
     sort_key (\<lambda>(uid, email, st). s_collate c email)
       [(u_ID u, u_Email u, m_Status m). m \<leftarrow> memberships d, m_TenantID m = tenant,
                                          u \<leftarrow> users d, u_ID u = m_UserID m])"

definition sql_RemoveMember :: "uuid \<Rightarrow> uuid \<Rightarrow> unit query" where
  "sql_RemoveMember uid tenant = perform (\<lambda>c d. d\<lparr>memberships :=
     delete_where (\<lambda>m. m_UserID m = uid \<and> m_TenantID m = tenant) (memberships d)\<rparr>)"

definition sql_CreateProject :: "uuid \<Rightarrow> string \<Rightarrow> string \<Rightarrow> Project query" where
  "sql_CreateProject tenant slug name c d =
     (if \<not> rls_ok c (Some tenant) then Inl RlsViolation
      else if s_uuid c \<in> pj_ID ` set (projects d)
           \<or> (tenant, slug) \<in> (\<lambda>p. (pj_TenantID p, pj_Slug p)) ` set (projects d) then Inl UniqueViolation
      else if \<not> has_tenant d tenant then Inl ForeignKeyViolation
      else let p = \<lparr>pj_ID = s_uuid c, pj_TenantID = tenant, pj_Slug = slug, pj_Name = name,
                    pj_CreatedAt = s_now c\<rparr>
           in Inr (p, d\<lparr>projects := projects d @ [p]\<rparr>))"

definition sql_ListProjectsByTenant :: "uuid \<Rightarrow> Project list query" where
  "sql_ListProjectsByTenant tenant = fetch (\<lambda>c d.
     sort_key (s_collate c \<circ> pj_Name) (filter (\<lambda>p. pj_TenantID p = tenant) (visible_projects c d)))"

definition sql_GetDefaultProject :: "uuid \<Rightarrow> uuid query" where
  "sql_GetDefaultProject tenant = fetch_one (\<lambda>c d.
     map pj_ID (filter (\<lambda>p. pj_TenantID p = tenant \<and> pj_Slug p = ''default'') (visible_projects c d)))"

definition sql_IsProjectInTenant :: "uuid \<Rightarrow> uuid \<Rightarrow> bool query" where
  "sql_IsProjectInTenant pid tenant = fetch (\<lambda>c d.
     \<exists>p \<in> set (visible_projects c d). pj_ID p = pid \<and> pj_TenantID p = tenant)"

end
