(* ===== verification/Queries_Oidc.thy ===== *)
theory Queries_Oidc
  imports Queries_Rbac
begin

text \<open>
  The SQL that \<^verbatim>\<open>internal/handler/oidc_flow.go\<close> and \<^verbatim>\<open>internal/jwt/keys.go\<close> send inline: OAuth
  clients, authorization codes, consents and signing keys. The tables have no row-level
  security that hides rows (migration 000016).
\<close>

section \<open>Clients\<close>

definition sql_SelectClient :: "string \<Rightarrow> OauthClient query" where
  "sql_SelectClient cid = fetch_one (\<lambda>c d. filter (\<lambda>x. oc_ClientID x = cid) (oauth_clients d))"

definition sql_ClientTenant :: "string \<Rightarrow> uuid query" where
  "sql_ClientTenant cid = fetch_one (\<lambda>c d. map oc_TenantID (filter (\<lambda>x. oc_ClientID x = cid) (oauth_clients d)))"

definition sql_ClientSecret :: "string \<Rightarrow> (string option \<times> bool) query" where
  "sql_ClientSecret cid = fetch_one (\<lambda>c d.
     map (\<lambda>x. (oc_ClientSecretHash x, oc_IsConfidential x)) (filter (\<lambda>x. oc_ClientID x = cid) (oauth_clients d)))"

definition sql_InsertClient :: "OauthClient \<Rightarrow> unit query" where
  "sql_InsertClient x c d =
     (if oc_ClientID x \<in> oc_ClientID ` set (oauth_clients d) then Inl UniqueViolation
      else if \<not> has_tenant d (oc_TenantID x) then Inl ForeignKeyViolation
      else Inr ((), d\<lparr>oauth_clients := oauth_clients d @ [x]\<rparr>))"

text \<open>\<^verbatim>\<open>ON CONFLICT (client_id) DO NOTHING\<close>\<close>

definition sql_InsertClientIfAbsent :: "OauthClient \<Rightarrow> unit query" where
  "sql_InsertClientIfAbsent x c d =
     (if oc_ClientID x \<in> oc_ClientID ` set (oauth_clients d) then Inr ((), d) else sql_InsertClient x c d)"

section \<open>Authorization codes\<close>

definition nullif_empty :: "string \<Rightarrow> string option" where
  "nullif_empty s = (if s = [] then None else Some s)"

definition sql_InsertCode ::
  "string \<Rightarrow> string \<Rightarrow> uuid \<Rightarrow> string \<Rightarrow> string \<Rightarrow> string \<Rightarrow> string \<Rightarrow> string \<Rightarrow> unit query" where
  "sql_InsertCode h cid uid redirect scope challenge method nonce c d =
     (if h \<in> ac_CodeHash ` set (oauth_authorization_codes d) then Inl UniqueViolation
      else if cid \<notin> oc_ClientID ` set (oauth_clients d) then Inl ForeignKeyViolation
      else Inr ((), d\<lparr>oauth_authorization_codes := oauth_authorization_codes d @
        [\<lparr>ac_CodeHash = h, ac_ClientID = cid, ac_UserID = uid, ac_RedirectUri = redirect, ac_Scope = scope,
          ac_CodeChallenge = nullif_empty challenge, ac_CodeChallengeMethod = nullif_empty method,
          ac_Nonce = nullif_empty nonce, ac_ExpiresAt = s_now c + 5 * minute, ac_Used = False\<rparr>]\<rparr>))"

text \<open>The row of a code, with \<^verbatim>\<open>(expires_at < now())\<close>.\<close>

definition sql_SelectCode :: "string \<Rightarrow> (OauthAuthorizationCode \<times> bool) query" where
  "sql_SelectCode h = fetch_one (\<lambda>c d. map (\<lambda>a. (a, ac_ExpiresAt a < s_now c))
     (filter (\<lambda>a. ac_CodeHash a = h) (oauth_authorization_codes d)))"

text \<open>Claiming a code returns the number of rows it changed.\<close>

definition claimable :: "string \<Rightarrow> OauthAuthorizationCode \<Rightarrow> bool" where
  "claimable h a \<longleftrightarrow> ac_CodeHash a = h \<and> \<not> ac_Used a"

definition sql_ClaimCode :: "string \<Rightarrow> nat query" where
  "sql_ClaimCode h c d = Inr (length (filter (claimable h) (oauth_authorization_codes d)),
     d\<lparr>oauth_authorization_codes :=
         update_where (claimable h) (\<lambda>a. a\<lparr>ac_Used := True\<rparr>) (oauth_authorization_codes d)\<rparr>)"

definition sql_SelectUserEmail :: "uuid \<Rightarrow> string query" where
  "sql_SelectUserEmail uid = fetch_one (\<lambda>c d. map u_Email (filter (\<lambda>u. u_ID u = uid) (users d)))"

section \<open>Consents\<close>

definition sql_SelectConsent :: "uuid \<Rightarrow> string \<Rightarrow> string list query" where
  "sql_SelectConsent uid cid = fetch_one (\<lambda>c d.
     map cs_Scopes (filter (\<lambda>s. cs_UserID s = uid \<and> cs_ClientID s = cid) (oauth_consents d)))"

definition sql_UpsertConsent :: "uuid \<Rightarrow> string \<Rightarrow> string list \<Rightarrow> unit query" where
  "sql_UpsertConsent uid cid scopes c d =
     (if (uid, cid) \<in> (\<lambda>s. (cs_UserID s, cs_ClientID s)) ` set (oauth_consents d)
      then Inr ((), d\<lparr>oauth_consents := update_where (\<lambda>s. cs_UserID s = uid \<and> cs_ClientID s = cid)
             (\<lambda>s. s\<lparr>cs_Scopes := scopes, cs_GrantedAt := s_now c\<rparr>) (oauth_consents d)\<rparr>)
      else if cid \<notin> oc_ClientID ` set (oauth_clients d) then Inl ForeignKeyViolation
      else Inr ((), d\<lparr>oauth_consents := oauth_consents d @
             [\<lparr>cs_UserID = uid, cs_ClientID = cid, cs_Scopes = scopes, cs_GrantedAt = s_now c\<rparr>]\<rparr>))"

section \<open>Signing keys\<close>

definition sql_SelectSigningKeys :: "OidcSigningKey list query" where
  "sql_SelectSigningKeys = fetch (\<lambda>c d. oidc_signing_keys d)"

text \<open>\<open>kid\<close> is the primary key, and at most one key is active.\<close>

definition sql_InsertSigningKey :: "string \<Rightarrow> string \<Rightarrow> string \<Rightarrow> unit query" where
  "sql_InsertSigningKey kid priv pub c d =
     (if kid \<in> sk_Kid ` set (oidc_signing_keys d) \<or> (\<exists>k \<in> set (oidc_signing_keys d). sk_Active k)
      then Inl UniqueViolation
      else Inr ((), d\<lparr>oidc_signing_keys := oidc_signing_keys d @
             [\<lparr>sk_Kid = kid, sk_PrivatePem = priv, sk_PublicPem = pub, sk_Alg = ''RS256'', sk_Active = True\<rparr>]\<rparr>))"

end
