(* ===== verification/Codec.thy ===== *)
theory Codec
  imports Environment
begin

text \<open>
  The encodings of the Go standard library the service uses: \<^verbatim>\<open>encoding/hex\<close> and the three
  variants of \<^verbatim>\<open>encoding/base64\<close>, with the round trip of each, and the hash under which every
  opaque token is stored (\<^verbatim>\<open>hashToken\<close> of \<^verbatim>\<open>internal/handler/auth.go\<close>).
\<close>

text \<open>What a client needs of an encoding: decoding what was encoded gives it back.\<close>

locale codec =
  fixes encode :: "'a \<Rightarrow> 'b" and decode :: "'b \<Rightarrow> 'a option"
  assumes decode_encode: "decode (encode x) = Some x"
begin

lemma encode_inj: "encode x = encode y \<longleftrightarrow> x = y"
  by (metis decode_encode option.inject)

end

section \<open>Bytes and digit alphabets\<close>

abbreviation byte_val :: "char \<Rightarrow> nat" where "byte_val c \<equiv> of_char c"

lemma byte_val_less [simp]: "byte_val c < 256"
  by (metis of_char_of nat_take_bit_eq of_char_eq_iff char_of_nat mod_less_divisor of_char_mod_256 zero_less_numeral)

text \<open>The position of a character in an alphabet.\<close>

fun digit_of :: "char list \<Rightarrow> char \<Rightarrow> nat option" where
  "digit_of [] c = None"
| "digit_of (a # as) c = (if c = a then Some 0 else map_option Suc (digit_of as c))"

lemma digit_of_nth: "distinct al \<Longrightarrow> n < length al \<Longrightarrow> digit_of al (al ! n) = Some n"
proof (induction al arbitrary: n)
  case (Cons a as)
  then show ?case by (cases n) auto
qed simp

lemma digit_of_None: "digit_of al c = None \<longleftrightarrow> c \<notin> set al"
  by (induction al) auto

section \<open>Hexadecimal\<close>

definition hex_digits :: string where "hex_digits = ''0123456789abcdef''"

fun hex_encode :: "bytes \<Rightarrow> string" where
  "hex_encode [] = []"
| "hex_encode (b # bs) = hex_digits ! (byte_val b div 16) # hex_digits ! (byte_val b mod 16) # hex_encode bs"

fun hex_decode :: "string \<Rightarrow> bytes option" where
  "hex_decode [] = Some []"
| "hex_decode [x] = None"
| "hex_decode (x # y # r) =
     (case (digit_of hex_digits x, digit_of hex_digits y) of
        (Some i, Some j) \<Rightarrow> map_option (\<lambda>bs. char_of (16 * i + j) # bs) (hex_decode r)
      | _ \<Rightarrow> None)"

lemma hex_digits_facts: "distinct hex_digits" "length hex_digits = 16"
  by (simp_all add: hex_digits_def)

lemma hex_roundtrip: "hex_decode (hex_encode bs) = Some bs"
proof (induction bs)
  case (Cons b bs)
  have "byte_val b div 16 < 16" using byte_val_less [of b] by linarith
  with Cons show ?case by (simp add: digit_of_nth hex_digits_facts)
qed simp

interpretation hex: codec hex_encode hex_decode
  by unfold_locales (rule hex_roundtrip)

lemma length_hex_encode: "length (hex_encode bs) = 2 * length bs"
  by (induction bs) auto

lemma hex_encode_digits: "set (hex_encode bs) \<subseteq> set hex_digits"
proof (induction bs)
  case (Cons b bs)
  have "byte_val b div 16 < 16" using byte_val_less [of b] by linarith
  with Cons show ?case by (simp add: hex_digits_facts nth_mem)
qed simp

section \<open>Base64\<close>

definition b64_std_alphabet :: string where
  "b64_std_alphabet = ''ABCDEFGHIJKLMNOPQRSTUVWXYZabcdefghijklmnopqrstuvwxyz0123456789+/''"

definition b64_url_alphabet :: string where
  "b64_url_alphabet = ''ABCDEFGHIJKLMNOPQRSTUVWXYZabcdefghijklmnopqrstuvwxyz0123456789-_''"

text \<open>Groups of three bytes; \<open>pad\<close> fills the last group (\<^verbatim>\<open>=\<close> in StdEncoding, nothing in the raw encodings).\<close>

fun b64_encode :: "string \<Rightarrow> string \<Rightarrow> bytes \<Rightarrow> string" where
  "b64_encode al pad [] = []"
| "b64_encode al pad [a] =
     [al ! (byte_val a div 4), al ! (byte_val a mod 4 * 16)] @ pad @ pad"
| "b64_encode al pad [a, b] =
     [al ! (byte_val a div 4), al ! (byte_val a mod 4 * 16 + byte_val b div 16),
      al ! (byte_val b mod 16 * 4)] @ pad"
| "b64_encode al pad (a # b # c # r) =
     [al ! (byte_val a div 4), al ! (byte_val a mod 4 * 16 + byte_val b div 16),
      al ! (byte_val b mod 16 * 4 + byte_val c div 64), al ! (byte_val c mod 64)] @ b64_encode al pad r"

definition dec1 :: "nat \<Rightarrow> nat \<Rightarrow> char" where "dec1 i j = char_of (i * 4 + j div 16)"
definition dec2 :: "nat \<Rightarrow> nat \<Rightarrow> char" where "dec2 j k = char_of (j mod 16 * 16 + k div 4)"
definition dec3 :: "nat \<Rightarrow> nat \<Rightarrow> char" where "dec3 k l = char_of (k mod 4 * 64 + l)"

text \<open>The last, possibly short group without its padding; Go does not check the unused bits.\<close>

fun b64_last :: "nat list \<Rightarrow> bytes option" where
  "b64_last [] = Some []"
| "b64_last [i, j] = Some [dec1 i j]"
| "b64_last [i, j, k] = Some [dec1 i j, dec2 j k]"
| "b64_last _ = None"

fun b64_groups :: "nat list \<Rightarrow> bytes option" where
  "b64_groups (i # j # k # l # r) =
     map_option (\<lambda>bs. dec1 i j # dec2 j k # dec3 k l # bs) (b64_groups r)"
| "b64_groups r = b64_last r"

fun digits_of :: "string \<Rightarrow> string \<Rightarrow> nat list option" where
  "digits_of al [] = Some []"
| "digits_of al (c # cs) = (case (digit_of al c, digits_of al cs) of
     (Some i, Some is) \<Rightarrow> Some (i # is) | _ \<Rightarrow> None)"

definition b64_raw_decode :: "string \<Rightarrow> string \<Rightarrow> bytes option" where
  "b64_raw_decode al s =
     (case digits_of al (filter (\<lambda>c. c \<notin> {CHR 0x0A, CHR 0x0D}) s) of None \<Rightarrow> None | Some is \<Rightarrow> b64_groups is)"

text \<open>
  With padding the length is a multiple of four and at most two \<^verbatim>\<open>=\<close> end the text.
\<close>

definition strip_padding :: "string \<Rightarrow> string option" where
  "strip_padding s =
     (if length s mod 4 \<noteq> 0 then None
      else if take 2 (rev s) = ''=='' then Some (rev (drop 2 (rev s)))
      else if take 1 (rev s) = ''='' then Some (rev (drop 1 (rev s)))
      else Some s)"

definition b64_std_decode :: "string \<Rightarrow> bytes option" where
  "b64_std_decode s =
     (case strip_padding (filter (\<lambda>c. c \<notin> {CHR 0x0A, CHR 0x0D}) s) of
        None \<Rightarrow> None
      | Some t \<Rightarrow> (case digits_of b64_std_alphabet t of None \<Rightarrow> None | Some is \<Rightarrow> b64_groups is))"

definition b64_std_encode :: "bytes \<Rightarrow> string" where
  "b64_std_encode bs = b64_encode b64_std_alphabet ''='' bs"

definition b64_raw_std_encode :: "bytes \<Rightarrow> string" where
  "b64_raw_std_encode bs = b64_encode b64_std_alphabet [] bs"

definition b64_raw_url_encode :: "bytes \<Rightarrow> string" where
  "b64_raw_url_encode bs = b64_encode b64_url_alphabet [] bs"

subsection \<open>Round trips\<close>

text \<open>The digits of a byte string.\<close>

fun b64_digits :: "bytes \<Rightarrow> nat list" where
  "b64_digits [] = []"
| "b64_digits [a] = [byte_val a div 4, byte_val a mod 4 * 16]"
| "b64_digits [a, b] = [byte_val a div 4, byte_val a mod 4 * 16 + byte_val b div 16, byte_val b mod 16 * 4]"
| "b64_digits (a # b # c # r) =
     [byte_val a div 4, byte_val a mod 4 * 16 + byte_val b div 16,
      byte_val b mod 16 * 4 + byte_val c div 64, byte_val c mod 64] @ b64_digits r"

lemma sextets [simp]:
  "byte_val a div 4 < 64" "byte_val a mod 4 * 16 < 64"
  "byte_val a mod 4 * 16 + byte_val b div 16 < 64" "byte_val b mod 16 * 4 < 64"
  "byte_val b mod 16 * 4 + byte_val c div 64 < 64" "byte_val c mod 64 < 64"
  using byte_val_less [of a] byte_val_less [of b] byte_val_less [of c] by linarith+

lemma b64_digits_less: "\<forall>i \<in> set (b64_digits bs). i < 64"
  by (induction bs rule: b64_digits.induct) auto

lemma b64_encode_digits: "b64_encode al [] bs = map (\<lambda>i. al ! i) (b64_digits bs)"
  by (induction bs rule: b64_digits.induct) auto

lemma dec_byte [simp]:
  "dec1 (byte_val a div 4) (byte_val a mod 4 * 16) = a"
  "dec1 (byte_val a div 4) (byte_val a mod 4 * 16 + byte_val b div 16) = a"
  "dec2 (byte_val a mod 4 * 16 + byte_val b div 16) (byte_val b mod 16 * 4) = b"
  "dec2 (byte_val a mod 4 * 16 + byte_val b div 16) (byte_val b mod 16 * 4 + byte_val c div 64) = b"
  "dec3 (byte_val b mod 16 * 4 + byte_val c div 64) (byte_val c mod 64) = c"
proof -
  have less: "byte_val a < 256" "byte_val b < 256" "byte_val c < 256" by simp_all
  then have small: "byte_val b div 16 < 16" "byte_val c div 64 < 4" by linarith+
  have lo: "(m * 16 + k) div 16 = m" "(m * 16 + k) mod 16 = k" if "k < 16" for m k :: nat
    using that by simp_all
  have lo4: "(m * 4 + k) div 4 = m" "(m * 4 + k) mod 4 = k" if "k < 4" for m k :: nat
    using that by simp_all
  show "dec1 (byte_val a div 4) (byte_val a mod 4 * 16) = a" by (simp add: dec1_def)
  show "dec1 (byte_val a div 4) (byte_val a mod 4 * 16 + byte_val b div 16) = a"
    unfolding dec1_def lo(1) [OF small(1)] by simp
  show "dec2 (byte_val a mod 4 * 16 + byte_val b div 16) (byte_val b mod 16 * 4) = b"
    unfolding dec2_def lo(2) [OF small(1)] by simp
  show "dec2 (byte_val a mod 4 * 16 + byte_val b div 16) (byte_val b mod 16 * 4 + byte_val c div 64) = b"
    unfolding dec2_def lo(2) [OF small(1)] lo4(1) [OF small(2)] by simp
  show "dec3 (byte_val b mod 16 * 4 + byte_val c div 64) (byte_val c mod 64) = c"
    unfolding dec3_def lo4(2) [OF small(2)] by simp
qed

lemma b64_groups_digits: "b64_groups (b64_digits bs) = Some bs"
  by (induction bs rule: b64_digits.induct) auto

lemma digits_of_map:
  "distinct al \<Longrightarrow> \<forall>i \<in> set is. i < length al \<Longrightarrow> digits_of al (map (\<lambda>i. al ! i) is) = Some is"
  by (induction "is") (auto simp: digit_of_nth)

lemma b64_alphabet_facts:
  "distinct b64_std_alphabet" "length b64_std_alphabet = 64"
  "distinct b64_url_alphabet" "length b64_url_alphabet = 64"
  "CHR 0x0A \<notin> set b64_std_alphabet" "CHR 0x0D \<notin> set b64_std_alphabet"
  "CHR 0x0A \<notin> set b64_url_alphabet" "CHR 0x0D \<notin> set b64_url_alphabet"
  "CHR ''='' \<notin> set b64_std_alphabet" "CHR ''$'' \<notin> set b64_std_alphabet"
  by (simp_all add: b64_std_alphabet_def b64_url_alphabet_def)

lemma b64_encode_alphabet:
  assumes "length al = 64"
  shows "set (b64_encode al [] bs) \<subseteq> set al"
  using assms b64_digits_less [of bs] by (auto simp: b64_encode_digits)

lemma b64_raw_roundtrip:
  assumes "distinct al" "length al = 64" "CHR 0x0A \<notin> set al" "CHR 0x0D \<notin> set al"
  shows "b64_raw_decode al (b64_encode al [] bs) = Some bs"
proof -
  have "filter (\<lambda>c. c \<notin> {CHR 0x0A, CHR 0x0D}) (b64_encode al [] bs) = b64_encode al [] bs"
    using b64_encode_alphabet [OF assms(2), of bs] assms(3,4) by (auto intro!: filter_True)
  then show ?thesis
    using assms(1,2) b64_digits_less [of bs]
    by (simp add: b64_raw_decode_def b64_encode_digits digits_of_map b64_groups_digits)
qed

lemma strip_padding_encode: "strip_padding (b64_encode al ''='' bs) = Some (b64_encode al [] bs)"
  if "length al = 64" "CHR ''='' \<notin> set al"
proof (induction bs rule: b64_digits.induct)
  case (4 a b c r)
  let ?q = "[al ! (byte_val a div 4), al ! (byte_val a mod 4 * 16 + byte_val b div 16),
      al ! (byte_val b mod 16 * 4 + byte_val c div 64), al ! (byte_val c mod 64)]"
  have mem: "set ?q \<subseteq> set al" using that(1) by (simp add: nth_mem)
  have notin: "al ! (byte_val b mod 16 * 4 + byte_val c div 64) \<noteq> CHR ''=''" "al ! (byte_val c mod 64) \<noteq> CHR ''=''"
    using mem that(2) by auto
  have prefix: "strip_padding (?q @ s) = map_option (\<lambda>t. ?q @ t) (strip_padding s)" for s
  proof (cases s rule: rev_cases)
    case Nil
    then show ?thesis using notin by (simp add: strip_padding_def)
  next
    case (snoc s' x)
    have "(6 + n) mod 4 = Suc (Suc n) mod 4" for n :: nat by presburger
    with snoc show ?thesis using notin
      by (cases s' rule: rev_cases) (auto simp: strip_padding_def)
  qed
  show ?case using "4.IH" prefix [of "b64_encode al ''='' r"] by simp
next
  case (3 a b)
  have "al ! (byte_val b mod 16 * 4) \<in> set al" using that(1) by (simp add: nth_mem)
  then have "al ! (byte_val b mod 16 * 4) \<noteq> CHR ''=''" using that(2) by metis
  then show ?case by (simp add: strip_padding_def)
qed (auto simp: strip_padding_def)

lemma b64_std_roundtrip: "b64_std_decode (b64_std_encode bs) = Some bs"
proof -
  have "set (b64_encode b64_std_alphabet ''='' bs) \<subseteq> insert (CHR ''='') (set b64_std_alphabet)"
    by (induction bs rule: b64_digits.induct) (auto simp: nth_mem b64_alphabet_facts)
  then have "filter (\<lambda>c. c \<notin> {CHR 0x0A, CHR 0x0D}) (b64_encode b64_std_alphabet ''='' bs)
      = b64_encode b64_std_alphabet ''='' bs"
    using b64_alphabet_facts(5,6) by (auto intro!: filter_True)
  then show ?thesis
    using b64_digits_less [of bs]
    by (simp add: b64_std_decode_def b64_std_encode_def strip_padding_encode b64_alphabet_facts
        b64_encode_digits digits_of_map b64_groups_digits)
qed

interpretation b64_std: codec b64_std_encode b64_std_decode
  by unfold_locales (rule b64_std_roundtrip)

interpretation b64_raw_std: codec b64_raw_std_encode "b64_raw_decode b64_std_alphabet"
  by unfold_locales (simp add: b64_raw_std_encode_def b64_raw_roundtrip b64_alphabet_facts)

interpretation b64_raw_url: codec b64_raw_url_encode "b64_raw_decode b64_url_alphabet"
  by unfold_locales (simp add: b64_raw_url_encode_def b64_raw_roundtrip b64_alphabet_facts)

section \<open>Hashed tokens\<close>

definition hashToken :: "env \<Rightarrow> string \<Rightarrow> string" where
  "hashToken E token = hex_encode (sha256 E token)"

text \<open>The hashes of the 32-byte tokens drawn from the step \<open>since\<close> on.\<close>

definition mintable :: "env \<Rightarrow> nat \<Rightarrow> string \<Rightarrow> bool" where
  "mintable E since h \<longleftrightarrow> (\<exists>n b. since \<le> n \<and> rand E n 32 = Some b \<and> h = hashToken E (hex_encode b))"

text \<open>The same for API keys, whose secret part has 24 random bytes.\<close>

definition key_mintable :: "env \<Rightarrow> nat \<Rightarrow> string \<Rightarrow> bool" where
  "key_mintable E since h \<longleftrightarrow> (\<exists>n b kid. since \<le> n \<and> rand E n 24 = Some b
     \<and> h = hashToken E (''iamk_'' @ kid @ ''_'' @ hex_encode b))"

end
