(* ===== verification/Schema.thy ===== *)
theory Schema
  imports Queries_Oidc Codec
begin

text \<open>
  The constraints of \<^verbatim>\<open>db/migrations\<close> as an invariant of the database (\<open>wf_db\<close>: keys are
  unique and references resolve), with the lemmas by which one table is changed at a time.
\<close>

section \<open>Integrity\<close>

named_theorems wf_defs "the constraints of the schema, table by table"

text \<open>
  One predicate per table, over the table and the sets of keys it refers to
  (\<open>US\<close> users, \<open>TS\<close> tenants, \<open>PS\<close> projects, \<open>RS\<close> roles, \<open>QS\<close> permissions, \<open>CS\<close> clients).
\<close>

definition wf_users :: "User list \<Rightarrow> bool" where [wf_defs]:
  "wf_users us \<longleftrightarrow> distinct (map u_ID us) \<and> distinct (map u_Email us)"

definition wf_refresh_tokens ::
  "uuid set \<Rightarrow> uuid set \<Rightarrow> uuid set \<Rightarrow> RefreshToken list \<Rightarrow> bool" where [wf_defs]:
  "wf_refresh_tokens US TS PS rs \<longleftrightarrow> distinct (map rt_ID rs) \<and> distinct (map rt_TokenHash rs)
     \<and> (\<forall>r \<in> set rs. rt_UserID r \<in> US \<and> rt_TenantID r \<in> TS \<and> pred_option (\<lambda>p. p \<in> PS) (rt_ProjectID r))"

definition wf_roles :: "uuid set \<Rightarrow> Role list \<Rightarrow> bool" where [wf_defs]:
  "wf_roles TS rs \<longleftrightarrow> distinct (map r_ID rs) \<and> distinct (map (\<lambda>r. (r_Name r, r_TenantID r)) rs)
     \<and> (\<forall>r \<in> set rs. pred_option (\<lambda>t. t \<in> TS) (r_TenantID r))"

definition wf_permissions :: "Permission list \<Rightarrow> bool" where [wf_defs]:
  "wf_permissions ps \<longleftrightarrow> distinct (map p_ID ps) \<and> distinct (map p_Name ps)"

definition wf_role_permissions :: "int set \<Rightarrow> int set \<Rightarrow> RolePermission list \<Rightarrow> bool" where [wf_defs]:
  "wf_role_permissions RS QS rps \<longleftrightarrow> distinct rps
     \<and> (\<forall>rp \<in> set rps. rp_RoleID rp \<in> RS \<and> rp_PermissionID rp \<in> QS)"

definition wf_user_roles ::
  "uuid set \<Rightarrow> int set \<Rightarrow> uuid set \<Rightarrow> uuid set \<Rightarrow> UserRole list \<Rightarrow> bool" where [wf_defs]:
  "wf_user_roles US RS TS PS urs \<longleftrightarrow> distinct (map user_role_key urs)
     \<and> (\<forall>ur \<in> set urs. ur_UserID ur \<in> US \<and> ur_RoleID ur \<in> RS \<and> ur_TenantID ur \<in> TS
          \<and> pred_option (\<lambda>p. p \<in> PS) (ur_ProjectID ur))"

definition wf_tenants :: "Tenant list \<Rightarrow> bool" where [wf_defs]:
  "wf_tenants ts \<longleftrightarrow> distinct (map t_ID ts) \<and> distinct (map t_Slug ts)"

definition wf_projects :: "uuid set \<Rightarrow> Project list \<Rightarrow> bool" where [wf_defs]:
  "wf_projects TS ps \<longleftrightarrow> distinct (map pj_ID ps) \<and> distinct (map (\<lambda>p. (pj_TenantID p, pj_Slug p)) ps)
     \<and> (\<forall>p \<in> set ps. pj_TenantID p \<in> TS)"

definition wf_memberships :: "uuid set \<Rightarrow> uuid set \<Rightarrow> Membership list \<Rightarrow> bool" where [wf_defs]:
  "wf_memberships US TS ms \<longleftrightarrow> distinct (map (\<lambda>m. (m_UserID m, m_TenantID m)) ms)
     \<and> (\<forall>m \<in> set ms. m_UserID m \<in> US \<and> m_TenantID m \<in> TS)"

definition wf_one_time :: "uuid set \<Rightarrow> OneTimeToken list \<Rightarrow> bool" where [wf_defs]:
  "wf_one_time US vs \<longleftrightarrow> distinct (map ot_TokenHash vs) \<and> (\<forall>v \<in> set vs. ot_UserID v \<in> US)"

definition wf_recovery_codes :: "uuid set \<Rightarrow> TotpRecoveryCode list \<Rightarrow> bool" where [wf_defs]:
  "wf_recovery_codes US rs \<longleftrightarrow> distinct (map rc_ID rs) \<and> (\<forall>r \<in> set rs. rc_UserID r \<in> US)"

definition wf_api_keys :: "uuid set \<Rightarrow> uuid set \<Rightarrow> uuid set \<Rightarrow> ApiKey list \<Rightarrow> bool" where [wf_defs]:
  "wf_api_keys US TS PS ks \<longleftrightarrow> distinct (map k_ID ks) \<and> distinct (map k_KeyHash ks)
     \<and> (\<forall>k \<in> set ks. k_UserID k \<in> US \<and> k_TenantID k \<in> TS \<and> pred_option (\<lambda>p. p \<in> PS) (k_ProjectID k))"

definition wf_oauth_clients :: "uuid set \<Rightarrow> OauthClient list \<Rightarrow> bool" where [wf_defs]:
  "wf_oauth_clients TS cs \<longleftrightarrow> distinct (map oc_ClientID cs) \<and> (\<forall>c \<in> set cs. oc_TenantID c \<in> TS)"

definition wf_oauth_codes :: "string set \<Rightarrow> OauthAuthorizationCode list \<Rightarrow> bool" where [wf_defs]:
  "wf_oauth_codes CS acs \<longleftrightarrow> distinct (map ac_CodeHash acs) \<and> (\<forall>a \<in> set acs. ac_ClientID a \<in> CS)"

definition wf_oauth_consents :: "string set \<Rightarrow> OauthConsent list \<Rightarrow> bool" where [wf_defs]:
  "wf_oauth_consents CS ss \<longleftrightarrow> distinct (map (\<lambda>s. (cs_UserID s, cs_ClientID s)) ss)
     \<and> (\<forall>s \<in> set ss. cs_ClientID s \<in> CS)"

text \<open>At most one signing key is active (\<^verbatim>\<open>oidc_signing_keys_one_active\<close>).\<close>

definition wf_signing_keys :: "OidcSigningKey list \<Rightarrow> bool" where [wf_defs]:
  "wf_signing_keys ks \<longleftrightarrow> distinct (map sk_Kid ks) \<and> length (filter sk_Active ks) \<le> 1"

definition wf_db :: "database \<Rightarrow> bool" where
  "wf_db d \<longleftrightarrow>
    (let US = u_ID ` set (users d); TS = t_ID ` set (tenants d); PS = pj_ID ` set (projects d);
         RS = r_ID ` set (roles d); QS = p_ID ` set (permissions d);
         CS = oc_ClientID ` set (oauth_clients d) in
     wf_users (users d) \<and> wf_refresh_tokens US TS PS (refresh_tokens d) \<and> wf_roles TS (roles d)
     \<and> wf_permissions (permissions d) \<and> wf_role_permissions RS QS (role_permissions d)
     \<and> wf_user_roles US RS TS PS (user_roles d) \<and> wf_tenants (tenants d) \<and> wf_projects TS (projects d)
     \<and> wf_memberships US TS (memberships d) \<and> wf_one_time US (email_verifications d)
     \<and> wf_one_time US (password_resets d) \<and> wf_recovery_codes US (totp_recovery_codes d)
     \<and> wf_api_keys US TS PS (api_keys d) \<and> distinct (map a_ID (audit_events d))
     \<and> distinct (map o_ID (outbox d)) \<and> distinct (map rv_Jti (revoked_tokens d))
     \<and> wf_oauth_clients TS (oauth_clients d) \<and> wf_oauth_codes CS (oauth_authorization_codes d)
     \<and> wf_oauth_consents CS (oauth_consents d) \<and> wf_signing_keys (oidc_signing_keys d))"

lemmas ref_defs = has_user_def has_tenant_def project_ref_ok_def

text \<open>More keys to refer to never break a reference; a table without some rows keeps its constraints.\<close>

lemma pred_option_mono_set: "A \<subseteq> B \<Longrightarrow> pred_option (\<lambda>x. x \<in> A) p \<Longrightarrow> pred_option (\<lambda>x. x \<in> B) p"
  by (cases p) auto

lemma wf_mono:
  "wf_refresh_tokens US TS PS rs \<Longrightarrow> US \<subseteq> US' \<Longrightarrow> TS \<subseteq> TS' \<Longrightarrow> PS \<subseteq> PS' \<Longrightarrow> wf_refresh_tokens US' TS' PS' rs"
  "wf_roles TS ros \<Longrightarrow> TS \<subseteq> TS' \<Longrightarrow> wf_roles TS' ros"
  "wf_role_permissions RS QS rps \<Longrightarrow> RS \<subseteq> RS' \<Longrightarrow> QS \<subseteq> QS' \<Longrightarrow> wf_role_permissions RS' QS' rps"
  "wf_user_roles US RS TS PS urs \<Longrightarrow> US \<subseteq> US' \<Longrightarrow> RS \<subseteq> RS' \<Longrightarrow> TS \<subseteq> TS' \<Longrightarrow> PS \<subseteq> PS'
     \<Longrightarrow> wf_user_roles US' RS' TS' PS' urs"
  "wf_projects TS ps \<Longrightarrow> TS \<subseteq> TS' \<Longrightarrow> wf_projects TS' ps"
  "wf_memberships US TS ms \<Longrightarrow> US \<subseteq> US' \<Longrightarrow> TS \<subseteq> TS' \<Longrightarrow> wf_memberships US' TS' ms"
  "wf_one_time US vs \<Longrightarrow> US \<subseteq> US' \<Longrightarrow> wf_one_time US' vs"
  "wf_recovery_codes US rcs \<Longrightarrow> US \<subseteq> US' \<Longrightarrow> wf_recovery_codes US' rcs"
  "wf_api_keys US TS PS ks \<Longrightarrow> US \<subseteq> US' \<Longrightarrow> TS \<subseteq> TS' \<Longrightarrow> PS \<subseteq> PS' \<Longrightarrow> wf_api_keys US' TS' PS' ks"
  "wf_oauth_clients TS cs \<Longrightarrow> TS \<subseteq> TS' \<Longrightarrow> wf_oauth_clients TS' cs"
  "wf_oauth_codes CS acs \<Longrightarrow> CS \<subseteq> CS' \<Longrightarrow> wf_oauth_codes CS' acs"
  "wf_oauth_consents CS ss \<Longrightarrow> CS \<subseteq> CS' \<Longrightarrow> wf_oauth_consents CS' ss"
  by (auto simp: wf_defs intro: pred_option_mono_set)

text \<open>An update that keeps the key columns of a table keeps the constraints.\<close>

lemma wf_db_update_users:
  assumes "wf_db d" and f: "\<And>u. u_ID (f u) = u_ID u" "\<And>u. u_Email (f u) = u_Email u"
  shows "wf_db (d\<lparr>users := update_where P f (users d)\<rparr>)"
proof -
  have "wf_users (update_where P f (users d)) \<longleftrightarrow> wf_users (users d)"
    by (simp add: wf_defs map_update_where f)
  with assms(1) image_update_where [of u_ID f P "users d", OF f(1)] show ?thesis
    by (simp add: wf_db_def)
qed

lemma wf_db_update_refresh_tokens:
  assumes "wf_db d"
    and "\<And>r. rt_ID (f r) = rt_ID r" "\<And>r. rt_TokenHash (f r) = rt_TokenHash r"
    and "\<And>r. rt_UserID (f r) = rt_UserID r" "\<And>r. rt_TenantID (f r) = rt_TenantID r"
    and "\<And>r. rt_ProjectID (f r) = rt_ProjectID r"
  shows "wf_db (d\<lparr>refresh_tokens := update_where P f (refresh_tokens d)\<rparr>)"
proof -
  have "wf_refresh_tokens US TS PS (update_where P f rs)" if "wf_refresh_tokens US TS PS rs" for US TS PS rs
    using that assms(2-) by (auto simp: wf_refresh_tokens_def map_update_where in_update_where)
  with assms(1) show ?thesis by (simp add: wf_db_def)
qed

lemma wf_one_time_update:
  assumes "wf_one_time US vs" and "\<And>v. ot_TokenHash (f v) = ot_TokenHash v" "\<And>v. ot_UserID (f v) = ot_UserID v"
  shows "wf_one_time US (update_where P f vs)"
  using assms by (auto simp: wf_one_time_def map_update_where in_update_where)

lemma wf_recovery_codes_update:
  assumes "wf_recovery_codes US rs" and "\<And>r. rc_ID (f r) = rc_ID r" "\<And>r. rc_UserID (f r) = rc_UserID r"
  shows "wf_recovery_codes US (update_where P f rs)"
  using assms by (auto simp: wf_recovery_codes_def map_update_where in_update_where)

lemma wf_api_keys_update:
  assumes "wf_api_keys US TS PS ks" and "\<And>k. k_ID (f k) = k_ID k" "\<And>k. k_KeyHash (f k) = k_KeyHash k"
    and "\<And>k. k_UserID (f k) = k_UserID k" "\<And>k. k_TenantID (f k) = k_TenantID k"
    and "\<And>k. k_ProjectID (f k) = k_ProjectID k"
  shows "wf_api_keys US TS PS (update_where P f ks)"
  using assms by (auto simp: wf_api_keys_def map_update_where in_update_where)

lemma wf_delete_where:
  "wf_users us \<Longrightarrow> wf_users (delete_where P1 us)"
  "wf_refresh_tokens US TS PS rs \<Longrightarrow> wf_refresh_tokens US TS PS (delete_where P2 rs)"
  "wf_roles TS ros \<Longrightarrow> wf_roles TS (delete_where P3 ros)"
  "wf_role_permissions RS QS rps \<Longrightarrow> wf_role_permissions RS QS (delete_where P4 rps)"
  "wf_user_roles US RS TS PS urs \<Longrightarrow> wf_user_roles US RS TS PS (delete_where P5 urs)"
  "wf_memberships US TS ms \<Longrightarrow> wf_memberships US TS (delete_where P6 ms)"
  "wf_one_time US vs \<Longrightarrow> wf_one_time US (delete_where P7 vs)"
  "wf_recovery_codes US rcs \<Longrightarrow> wf_recovery_codes US (delete_where P8 rcs)"
  "wf_api_keys US TS PS ks \<Longrightarrow> wf_api_keys US TS PS (delete_where P9 ks)"
  by (auto simp: wf_defs distinct_delete_where) (simp add: delete_where_def)

text \<open>
  Replacing one table, with the constraints of that table alone to check; and what the
  invariant says of each table.
\<close>

lemma wf_db_replace:
  "wf_db d \<Longrightarrow> wf_one_time (u_ID ` set (users d)) vs \<Longrightarrow> wf_db (d\<lparr>email_verifications := vs\<rparr>)"
  "wf_db d \<Longrightarrow> wf_one_time (u_ID ` set (users d)) vs \<Longrightarrow> wf_db (d\<lparr>password_resets := vs\<rparr>)"
  "wf_db d \<Longrightarrow> wf_recovery_codes (u_ID ` set (users d)) rcs \<Longrightarrow> wf_db (d\<lparr>totp_recovery_codes := rcs\<rparr>)"
  "wf_db d \<Longrightarrow> wf_refresh_tokens (u_ID ` set (users d)) (t_ID ` set (tenants d)) (pj_ID ` set (projects d)) rs
     \<Longrightarrow> wf_db (d\<lparr>refresh_tokens := rs\<rparr>)"
  "wf_db d \<Longrightarrow> wf_api_keys (u_ID ` set (users d)) (t_ID ` set (tenants d)) (pj_ID ` set (projects d)) ks
     \<Longrightarrow> wf_db (d\<lparr>api_keys := ks\<rparr>)"
  "wf_db d \<Longrightarrow> wf_user_roles (u_ID ` set (users d)) (r_ID ` set (roles d)) (t_ID ` set (tenants d))
       (pj_ID ` set (projects d)) urs \<Longrightarrow> wf_db (d\<lparr>user_roles := urs\<rparr>)"
  "wf_db d \<Longrightarrow> wf_role_permissions (r_ID ` set (roles d)) (p_ID ` set (permissions d)) rps
     \<Longrightarrow> wf_db (d\<lparr>role_permissions := rps\<rparr>)"
  "wf_db d \<Longrightarrow> wf_memberships (u_ID ` set (users d)) (t_ID ` set (tenants d)) ms
     \<Longrightarrow> wf_db (d\<lparr>memberships := ms\<rparr>)"
  "wf_db d \<Longrightarrow> distinct (map a_ID as) \<Longrightarrow> wf_db (d\<lparr>audit_events := as\<rparr>)"
  "wf_db d \<Longrightarrow> distinct (map o_ID os) \<Longrightarrow> wf_db (d\<lparr>outbox := os\<rparr>)"
  "wf_db d \<Longrightarrow> distinct (map rv_Jti rvs) \<Longrightarrow> wf_db (d\<lparr>revoked_tokens := rvs\<rparr>)"
  "wf_db d \<Longrightarrow> wf_oauth_codes (oc_ClientID ` set (oauth_clients d)) acs
     \<Longrightarrow> wf_db (d\<lparr>oauth_authorization_codes := acs\<rparr>)"
  "wf_db d \<Longrightarrow> wf_oauth_consents (oc_ClientID ` set (oauth_clients d)) ss
     \<Longrightarrow> wf_db (d\<lparr>oauth_consents := ss\<rparr>)"
  "wf_db d \<Longrightarrow> wf_signing_keys sks \<Longrightarrow> wf_db (d\<lparr>oidc_signing_keys := sks\<rparr>)"
  by (simp_all add: wf_db_def)

lemma wf_dbD:
  assumes "wf_db d"
  shows "wf_users (users d)"
    "wf_refresh_tokens (u_ID ` set (users d)) (t_ID ` set (tenants d)) (pj_ID ` set (projects d)) (refresh_tokens d)"
    "wf_roles (t_ID ` set (tenants d)) (roles d)"
    "wf_permissions (permissions d)"
    "wf_role_permissions (r_ID ` set (roles d)) (p_ID ` set (permissions d)) (role_permissions d)"
    "wf_user_roles (u_ID ` set (users d)) (r_ID ` set (roles d)) (t_ID ` set (tenants d))
       (pj_ID ` set (projects d)) (user_roles d)"
    "wf_tenants (tenants d)"
    "wf_projects (t_ID ` set (tenants d)) (projects d)"
    "wf_memberships (u_ID ` set (users d)) (t_ID ` set (tenants d)) (memberships d)"
    "wf_one_time (u_ID ` set (users d)) (email_verifications d)"
    "wf_one_time (u_ID ` set (users d)) (password_resets d)"
    "wf_recovery_codes (u_ID ` set (users d)) (totp_recovery_codes d)"
    "wf_api_keys (u_ID ` set (users d)) (t_ID ` set (tenants d)) (pj_ID ` set (projects d)) (api_keys d)"
    "distinct (map a_ID (audit_events d))" "distinct (map o_ID (outbox d))"
    "distinct (map rv_Jti (revoked_tokens d))"
    "wf_oauth_clients (t_ID ` set (tenants d)) (oauth_clients d)"
    "wf_oauth_codes (oc_ClientID ` set (oauth_clients d)) (oauth_authorization_codes d)"
    "wf_oauth_consents (oc_ClientID ` set (oauth_clients d)) (oauth_consents d)"
    "wf_signing_keys (oidc_signing_keys d)"
  using assms by (simp_all add: wf_db_def Let_def)

text \<open>Growing the tables that others refer to.\<close>

lemma wf_db_grow:
  "wf_db d \<Longrightarrow> wf_users us \<Longrightarrow> u_ID ` set (users d) \<subseteq> u_ID ` set us \<Longrightarrow> wf_db (d\<lparr>users := us\<rparr>)"
  "wf_db d \<Longrightarrow> wf_tenants ts \<Longrightarrow> t_ID ` set (tenants d) \<subseteq> t_ID ` set ts \<Longrightarrow> wf_db (d\<lparr>tenants := ts\<rparr>)"
  "wf_db d \<Longrightarrow> wf_roles (t_ID ` set (tenants d)) rs \<Longrightarrow> r_ID ` set (roles d) \<subseteq> r_ID ` set rs
     \<Longrightarrow> wf_db (d\<lparr>roles := rs\<rparr>)"
  "wf_db d \<Longrightarrow> wf_projects (t_ID ` set (tenants d)) ps \<Longrightarrow> pj_ID ` set (projects d) \<subseteq> pj_ID ` set ps
     \<Longrightarrow> wf_db (d\<lparr>projects := ps\<rparr>)"
  "wf_db d \<Longrightarrow> wf_oauth_clients (t_ID ` set (tenants d)) cs
     \<Longrightarrow> oc_ClientID ` set (oauth_clients d) \<subseteq> oc_ClientID ` set cs \<Longrightarrow> wf_db (d\<lparr>oauth_clients := cs\<rparr>)"
  by (simp add: wf_db_def Let_def, elim conjE, intro conjI, (assumption | erule wf_mono; blast)+)+

text \<open>Adding a row to a table.\<close>

lemma wf_snoc:
  "wf_users us \<Longrightarrow> u_ID u \<notin> u_ID ` set us \<Longrightarrow> u_Email u \<notin> u_Email ` set us \<Longrightarrow> wf_users (us @ [u])"
  "wf_one_time US vs \<Longrightarrow> ot_TokenHash v \<notin> ot_TokenHash ` set vs \<Longrightarrow> ot_UserID v \<in> US
     \<Longrightarrow> wf_one_time US (vs @ [v])"
  "wf_recovery_codes US rcs \<Longrightarrow> rc_ID rc \<notin> rc_ID ` set rcs \<Longrightarrow> rc_UserID rc \<in> US
     \<Longrightarrow> wf_recovery_codes US (rcs @ [rc])"
  "wf_refresh_tokens US TS PS rts \<Longrightarrow> rt_ID rt \<notin> rt_ID ` set rts \<Longrightarrow> rt_TokenHash rt \<notin> rt_TokenHash ` set rts
     \<Longrightarrow> rt_UserID rt \<in> US \<Longrightarrow> rt_TenantID rt \<in> TS \<Longrightarrow> pred_option (\<lambda>p. p \<in> PS) (rt_ProjectID rt)
     \<Longrightarrow> wf_refresh_tokens US TS PS (rts @ [rt])"
  "wf_api_keys US TS PS ks \<Longrightarrow> k_ID k \<notin> k_ID ` set ks \<Longrightarrow> k_KeyHash k \<notin> k_KeyHash ` set ks
     \<Longrightarrow> k_UserID k \<in> US \<Longrightarrow> k_TenantID k \<in> TS \<Longrightarrow> pred_option (\<lambda>p. p \<in> PS) (k_ProjectID k)
     \<Longrightarrow> wf_api_keys US TS PS (ks @ [k])"
  "wf_roles TS ros \<Longrightarrow> r_ID r \<notin> r_ID ` set ros \<Longrightarrow> \<forall>x \<in> set ros. r_Name x = r_Name r \<longrightarrow> r_TenantID x \<noteq> r_TenantID r
     \<Longrightarrow> pred_option (\<lambda>t. t \<in> TS) (r_TenantID r) \<Longrightarrow> wf_roles TS (ros @ [r])"
  "wf_user_roles US RS TS PS urs \<Longrightarrow> user_role_key ur \<notin> user_role_key ` set urs \<Longrightarrow> ur_UserID ur \<in> US
     \<Longrightarrow> ur_RoleID ur \<in> RS \<Longrightarrow> ur_TenantID ur \<in> TS \<Longrightarrow> pred_option (\<lambda>p. p \<in> PS) (ur_ProjectID ur)
     \<Longrightarrow> wf_user_roles US RS TS PS (urs @ [ur])"
  "wf_tenants ts \<Longrightarrow> t_ID t \<notin> t_ID ` set ts \<Longrightarrow> t_Slug t \<notin> t_Slug ` set ts \<Longrightarrow> wf_tenants (ts @ [t])"
  "wf_projects TS ps \<Longrightarrow> pj_ID p \<notin> pj_ID ` set ps
     \<Longrightarrow> (pj_TenantID p, pj_Slug p) \<notin> (\<lambda>p. (pj_TenantID p, pj_Slug p)) ` set ps \<Longrightarrow> pj_TenantID p \<in> TS
     \<Longrightarrow> wf_projects TS (ps @ [p])"
  "wf_memberships US TS ms \<Longrightarrow> (m_UserID m, m_TenantID m) \<notin> (\<lambda>m. (m_UserID m, m_TenantID m)) ` set ms
     \<Longrightarrow> m_UserID m \<in> US \<Longrightarrow> m_TenantID m \<in> TS \<Longrightarrow> wf_memberships US TS (ms @ [m])"
  by (auto simp: wf_defs)

end
