(* ===== verification/Integrity.thy ===== *)
theory Integrity
  imports Schema
begin

text \<open>Every query of \<^verbatim>\<open>internal/db/auth.sql.go\<close> that writes keeps the constraints of the schema.\<close>

named_theorems wf_queries "a query keeps the constraints of the schema"

lemma wf_CreateUser [wf_queries]:
  "sql_CreateUser email pw c d = Inr (x, d') \<Longrightarrow> wf_db d \<Longrightarrow> wf_db d'"
  by (auto simp: sql_CreateUser_def Let_def split: if_splits intro!: wf_db_grow wf_snoc dest: wf_dbD)

lemma wf_update_user [wf_queries]:
  "update_user uid f c d = Inr (x, d') \<Longrightarrow> (\<And>c u. u_ID (f c u) = u_ID u) \<Longrightarrow>
   (\<And>c u. u_Email (f c u) = u_Email u) \<Longrightarrow> wf_db d \<Longrightarrow> wf_db d'"
  by (auto simp: update_user_def perform_def intro: wf_db_update_users)

lemma wf_SoftDeleteUser [wf_queries]:
  "sql_SoftDeleteUser uid c d = Inr (x, d') \<Longrightarrow> wf_db d \<Longrightarrow> wf_db d'"
  by (auto simp: sql_SoftDeleteUser_def perform_def intro: wf_db_update_users)

lemma wf_user_updates [wf_queries]:
  "sql_RestoreUser uid c d = Inr (x, d') \<Longrightarrow> wf_db d \<Longrightarrow> wf_db d'"
  "sql_SetTotpSecret uid s c d = Inr (x, d') \<Longrightarrow> wf_db d \<Longrightarrow> wf_db d'"
  "sql_EnableTotp uid c d = Inr (x, d') \<Longrightarrow> wf_db d \<Longrightarrow> wf_db d'"
  "sql_DisableTotp uid c d = Inr (x, d') \<Longrightarrow> wf_db d \<Longrightarrow> wf_db d'"
  "sql_LockUser uid t c d = Inr (x, d') \<Longrightarrow> wf_db d \<Longrightarrow> wf_db d'"
  "sql_ResetLoginState uid c d = Inr (x, d') \<Longrightarrow> wf_db d \<Longrightarrow> wf_db d'"
  "sql_MarkEmailVerified uid c d = Inr (x, d') \<Longrightarrow> wf_db d \<Longrightarrow> wf_db d'"
  "sql_UpdatePassword uid s c d = Inr (x, d') \<Longrightarrow> wf_db d \<Longrightarrow> wf_db d'"
  unfolding sql_RestoreUser_def sql_SetTotpSecret_def sql_EnableTotp_def sql_DisableTotp_def
    sql_LockUser_def sql_ResetLoginState_def sql_MarkEmailVerified_def sql_UpdatePassword_def
  by (erule wf_update_user; simp)+

lemma wf_IncrementLoginFailure [wf_queries]:
  "sql_IncrementLoginFailure uid c d = Inr (x, d') \<Longrightarrow> wf_db d \<Longrightarrow> wf_db d'"
  by (auto simp: sql_IncrementLoginFailure_def split: list.splits if_splits intro: wf_db_update_users)

text \<open>The cascade of a deleted user removes exactly the rows that refer to it.\<close>

lemma wf_DeleteUser [wf_queries]:
  assumes "sql_DeleteUser uid c d = Inr (x, d')" and "wf_db d"
  shows "wf_db d'"
proof -
  have d': "d' = snd ((\<lambda>r. case r of Inr p \<Rightarrow> p) (sql_DeleteUser uid c d))" using assms(1) by simp
  have ids: "u_ID ` set (delete_where (\<lambda>u. u_ID u = uid) us) = u_ID ` set us - {uid}" for us
    by auto
  have "wf_refresh_tokens (US - {uid}) TS PS (delete_where (\<lambda>r. rt_UserID r = uid) rs)"
    if "wf_refresh_tokens US TS PS rs" for US TS PS rs
    using that by (auto simp: wf_refresh_tokens_def distinct_delete_where)
  moreover have "wf_user_roles (US - {uid}) RS TS PS (delete_where (\<lambda>r. ur_UserID r = uid) rs)"
    if "wf_user_roles US RS TS PS rs" for US RS TS PS rs
    using that by (auto simp: wf_user_roles_def distinct_delete_where)
  moreover have "wf_memberships (US - {uid}) TS (delete_where (\<lambda>r. m_UserID r = uid) rs)"
    if "wf_memberships US TS rs" for US TS rs
    using that by (auto simp: wf_memberships_def distinct_delete_where)
  moreover have "wf_one_time (US - {uid}) (delete_where (\<lambda>r. ot_UserID r = uid) rs)"
    if "wf_one_time US rs" for US rs
    using that by (auto simp: wf_one_time_def distinct_delete_where)
  moreover have "wf_recovery_codes (US - {uid}) (delete_where (\<lambda>r. rc_UserID r = uid) rs)"
    if "wf_recovery_codes US rs" for US rs
    using that by (auto simp: wf_recovery_codes_def distinct_delete_where)
  moreover have "wf_api_keys (US - {uid}) TS PS (delete_where (\<lambda>r. k_UserID r = uid) rs)"
    if "wf_api_keys US TS PS rs" for US TS PS rs
    using that by (auto simp: wf_api_keys_def distinct_delete_where)
  moreover have "wf_users (delete_where (\<lambda>u. u_ID u = uid) us)" if "wf_users us" for us
    using that by (rule wf_delete_where)
  ultimately show ?thesis
    using assms(2) by (simp add: d' sql_DeleteUser_def perform_def wf_db_def Let_def ids del: set_delete_where)
qed

lemma wf_one_time_queries [wf_queries]:
  "sql_CreateEmailVerification h uid t c d = Inr (x, d') \<Longrightarrow> wf_db d \<Longrightarrow> wf_db d'"
  "sql_CreatePasswordReset h uid t c d = Inr (x, d') \<Longrightarrow> wf_db d \<Longrightarrow> wf_db d'"
  "sql_ConsumeEmailVerification h c d = Inr (y, d') \<Longrightarrow> wf_db d \<Longrightarrow> wf_db d'"
  "sql_ConsumePasswordReset h c d = Inr (y, d') \<Longrightarrow> wf_db d \<Longrightarrow> wf_db d'"
proof -
  assume wf: "wf_db d"
  note tables = wf_dbD [OF wf]
  show "wf_db d'" if "sql_CreateEmailVerification h uid t c d = Inr (x, d')"
    using that wf tables by (auto simp: sql_CreateEmailVerification_def has_user_def one_time_token_def
        split: if_splits intro!: wf_db_replace wf_snoc)
  show "wf_db d'" if "sql_CreatePasswordReset h uid t c d = Inr (x, d')"
    using that wf tables by (auto simp: sql_CreatePasswordReset_def has_user_def one_time_token_def
        split: if_splits intro!: wf_db_replace wf_snoc)
  show "wf_db d'" if "sql_ConsumeEmailVerification h c d = Inr (y, d')"
    using that wf tables by (auto simp: sql_ConsumeEmailVerification_def split: list.splits
        intro!: wf_db_replace wf_one_time_update)
  show "wf_db d'" if "sql_ConsumePasswordReset h c d = Inr (y, d')"
    using that wf tables by (auto simp: sql_ConsumePasswordReset_def split: list.splits
        intro!: wf_db_replace wf_one_time_update)
qed

lemma wf_recovery_code_queries [wf_queries]:
  "sql_InsertRecoveryCode uid h c d = Inr (x, d') \<Longrightarrow> wf_db d \<Longrightarrow> wf_db d'"
  "sql_DeleteRecoveryCodes uid c d = Inr (x, d') \<Longrightarrow> wf_db d \<Longrightarrow> wf_db d'"
  "sql_ConsumeRecoveryCode uid h c d = Inr (y, d') \<Longrightarrow> wf_db d \<Longrightarrow> wf_db d'"
proof -
  assume wf: "wf_db d"
  note tables = wf_dbD [OF wf]
  show "wf_db d'" if "sql_InsertRecoveryCode uid h c d = Inr (x, d')"
    using that wf tables by (auto simp: sql_InsertRecoveryCode_def has_user_def split: if_splits
        intro!: wf_db_replace wf_snoc)
  show "wf_db d'" if "sql_DeleteRecoveryCodes uid c d = Inr (x, d')"
    using that wf tables by (auto simp: sql_DeleteRecoveryCodes_def perform_def
        intro!: wf_db_replace wf_delete_where)
  show "wf_db d'" if "sql_ConsumeRecoveryCode uid h c d = Inr (y, d')"
    using that wf tables by (auto simp: sql_ConsumeRecoveryCode_def split: list.splits
        intro!: wf_db_replace wf_recovery_codes_update)
qed

lemma wf_log_queries [wf_queries]:
  "sql_InsertAuditEvent a1 a2 a3 a4 a5 t c d = Inr (x, d') \<Longrightarrow> wf_db d \<Longrightarrow> wf_db d'"
  "sql_InsertOutbox aid ty pl c d = Inr (x, d') \<Longrightarrow> wf_db d \<Longrightarrow> wf_db d'"
  "sql_MarkOutboxPublished oid c d = Inr (x, d') \<Longrightarrow> wf_db d \<Longrightarrow> wf_db d'"
  "sql_RevokeAccessJTI jti e c d = Inr (x, d') \<Longrightarrow> wf_db d \<Longrightarrow> wf_db d'"
  by (auto simp: sql_InsertAuditEvent_def sql_InsertOutbox_def sql_MarkOutboxPublished_def
      sql_RevokeAccessJTI_def perform_def map_update_where split: if_splits intro!: wf_db_replace dest: wf_dbD)

lemma wf_refresh_queries [wf_queries]:
  "sql_RevokeRefreshToken h c d = Inr (x, d') \<Longrightarrow> wf_db d \<Longrightarrow> wf_db d'"
  "sql_RotateRefreshToken h s c d = Inr (x, d') \<Longrightarrow> wf_db d \<Longrightarrow> wf_db d'"
  "sql_RevokeAllUserRefreshTokens uid c d = Inr (x, d') \<Longrightarrow> wf_db d \<Longrightarrow> wf_db d'"
  by (auto simp: sql_RevokeRefreshToken_def sql_RotateRefreshToken_def
      sql_RevokeAllUserRefreshTokens_def perform_def intro: wf_db_update_refresh_tokens)

lemma wf_CreateRefreshToken [wf_queries]:
  "sql_CreateRefreshToken uid h t tid pid c d = Inr (x, d') \<Longrightarrow> wf_db d \<Longrightarrow> wf_db d'"
  by (auto simp: sql_CreateRefreshToken_def Let_def ref_defs split: if_splits
      intro!: wf_db_replace wf_snoc dest: wf_dbD)

lemma wf_api_key_queries [wf_queries]:
  "sql_CreateApiKey kid uid h n sc e tid pid c d = Inr (x, d') \<Longrightarrow> wf_db d \<Longrightarrow> wf_db d'"
  "sql_RevokeApiKey kid uid c d = Inr (x, d') \<Longrightarrow> wf_db d \<Longrightarrow> wf_db d'"
  "sql_TouchApiKey kid c d = Inr (x, d') \<Longrightarrow> wf_db d \<Longrightarrow> wf_db d'"
proof -
  assume wf: "wf_db d"
  note tables = wf_dbD [OF wf]
  show "wf_db d'" if "sql_CreateApiKey kid uid h n sc e tid pid c d = Inr (x, d')"
    using that wf tables by (auto simp: sql_CreateApiKey_def ref_defs split: if_splits
        intro!: wf_db_replace wf_snoc)
  show "wf_db d'" if "sql_RevokeApiKey kid uid c d = Inr (x, d')"
    using that wf tables by (auto simp: sql_RevokeApiKey_def perform_def
        intro!: wf_db_replace wf_api_keys_update)
  show "wf_db d'" if "sql_TouchApiKey kid c d = Inr (x, d')"
    using that wf tables by (auto simp: sql_TouchApiKey_def perform_def
        intro!: wf_db_replace wf_api_keys_update)
qed

lemma wf_CreateRole [wf_queries]:
  "sql_CreateRole n ds t c d = Inr (x, d') \<Longrightarrow> wf_db d \<Longrightarrow> wf_db d'"
  by (auto simp: sql_CreateRole_def Let_def ref_defs split: if_splits option.splits
      intro!: wf_db_grow wf_snoc dest: wf_dbD)

lemma wf_UpdateRole [wf_queries]:
  assumes "sql_UpdateRole n ds t c d = Inr (x, d')" and "wf_db d"
  shows "wf_db d'"
proof -
  have same: "r_ID ` set (update_where P (\<lambda>r. r\<lparr>r_Description := ds\<rparr>) rs) = r_ID ` set rs" for P rs
    by (rule image_update_where) simp
  have "wf_roles TS (update_where P (\<lambda>r. r\<lparr>r_Description := ds\<rparr>) rs)" if "wf_roles TS rs" for TS P rs
    using that by (auto simp: wf_roles_def map_update_where in_update_where)
  with wf_dbD(3) [OF assms(2)] have "wf_db (d\<lparr>roles := update_where P (\<lambda>r. r\<lparr>r_Description := ds\<rparr>) (roles d)\<rparr>)" for P
    by (intro wf_db_grow(3) [OF assms(2)]) (simp_all add: same)
  then show ?thesis using assms(1) by (auto simp: sql_UpdateRole_def Let_def split: list.splits)
qed

lemma wf_DeleteRole [wf_queries]:
  assumes "sql_DeleteRole n t c d = Inr (x, d')" and "wf_db d"
  shows "wf_db d'"
proof -
  define gone where "gone = r_ID ` set (tenant_roles n t c d)"
  have d': "d' = d\<lparr>roles := delete_where (\<lambda>r. r_ID r \<in> gone) (roles d),
       role_permissions := delete_where (\<lambda>rp. rp_RoleID rp \<in> gone) (role_permissions d),
       user_roles := delete_where (\<lambda>ur. ur_RoleID ur \<in> gone) (user_roles d)\<rparr>"
    using assms(1) by (simp add: sql_DeleteRole_def perform_def gone_def Let_def)
  have ids: "r_ID ` set (delete_where (\<lambda>r. r_ID r \<in> gone) rs) = r_ID ` set rs - gone" for rs
    by auto
  have "wf_role_permissions (RS - gone) QS (delete_where (\<lambda>rp. rp_RoleID rp \<in> gone) rps)"
    if "wf_role_permissions RS QS rps" for RS QS rps
    using that by (auto simp: wf_role_permissions_def) (simp add: delete_where_def)
  moreover have "wf_user_roles US (RS - gone) TS PS (delete_where (\<lambda>ur. ur_RoleID ur \<in> gone) urs)"
    if "wf_user_roles US RS TS PS urs" for US RS TS PS urs
    using that by (auto simp: wf_user_roles_def distinct_delete_where)
  moreover have "wf_roles TS (delete_where P rs)" if "wf_roles TS rs" for TS P rs
    using that by (rule wf_delete_where)
  ultimately show ?thesis
    using assms(2) by (simp add: d' wf_db_def Let_def ids del: set_delete_where)
qed

lemma visible_role_id: "r \<in> set (visible_roles c d) \<Longrightarrow> r_ID r \<in> r_ID ` set (roles d)"
  by (auto simp: visible_roles_def)

lemma wf_insert_user_role:
  "insert_user_role ur c d = Inr (x, d') \<Longrightarrow> ur_RoleID ur \<in> r_ID ` set (roles d) \<Longrightarrow> wf_db d \<Longrightarrow> wf_db d'"
  by (auto simp: insert_user_role_def ref_defs split: if_splits intro!: wf_db_replace wf_snoc dest: wf_dbD)

lemma roles_in_tenant_subset: "set (roles_in_tenant n t c d) \<subseteq> set (visible_roles c d)"
  by (auto simp: roles_in_tenant_def)

lemma wf_assign_queries [wf_queries]:
  "sql_AssignRoleToUser uid n tid pid c d = Inr (x, d') \<Longrightarrow> wf_db d \<Longrightarrow> wf_db d'"
  "sql_AssignRoleInTenant uid n tid c d = Inr (x, d') \<Longrightarrow> wf_db d \<Longrightarrow> wf_db d'"
proof -
  assume wf: "wf_db d"
  show "wf_db d'" if "sql_AssignRoleToUser uid n tid pid c d = Inr (x, d')"
  proof (cases "roles_in_tenant n (Some tid) c d")
    case Nil
    with that wf show ?thesis by (simp add: sql_AssignRoleToUser_def)
  next
    case (Cons r rs)
    then have "r \<in> set (visible_roles c d)" using roles_in_tenant_subset [of n "Some tid" c d] by simp
    with that wf Cons show ?thesis
      by (auto simp: sql_AssignRoleToUser_def dest: visible_role_id elim!: wf_insert_user_role)
  qed
  show "wf_db d'" if "sql_AssignRoleInTenant uid n tid c d = Inr (x, d')"
  proof (cases "filter (\<lambda>r. r_Name r = n \<and> r_TenantID r = None) (visible_roles c d)")
    case Nil
    with that wf show ?thesis by (simp add: sql_AssignRoleInTenant_def)
  next
    case (Cons r rs)
    have "r \<in> set (r # rs)" by simp
    then have "r \<in> set (visible_roles c d)" unfolding Cons [symmetric] by simp
    with that wf Cons show ?thesis
      by (auto simp: sql_AssignRoleInTenant_def dest: visible_role_id elim!: wf_insert_user_role)
  qed
qed

lemma wf_RevokeRoleFromUser [wf_queries]:
  "sql_RevokeRoleFromUser uid n tid pid c d = Inr (x, d') \<Longrightarrow> wf_db d \<Longrightarrow> wf_db d'"
  by (auto simp: sql_RevokeRoleFromUser_def split: sum.splits intro!: wf_db_replace wf_delete_where dest: wf_dbD)

lemma distinct_role_permission_pairs:
  assumes "distinct (map r_ID rs)" and "distinct (map p_ID ps)"
  shows "distinct [\<lparr>rp_RoleID = r_ID r, rp_PermissionID = p_ID p\<rparr>. r \<leftarrow> rs, p \<leftarrow> ps, p_Name p = n]"
proof -
  have inner: "distinct [\<lparr>rp_RoleID = k, rp_PermissionID = p_ID p\<rparr>. p \<leftarrow> ps, p_Name p = n]" for k
    using assms(2) by (induction ps) auto
  show ?thesis
    using assms(1) by (induction rs) (use inner in \<open>auto split: if_splits\<close>)
qed

lemma wf_role_permission_queries [wf_queries]:
  "sql_GrantPermissionToRole rn pn t c d = Inr (x, d') \<Longrightarrow> wf_db d \<Longrightarrow> wf_db d'"
  "sql_RevokePermissionFromRole rn pn t c d = Inr (x, d') \<Longrightarrow> wf_db d \<Longrightarrow> wf_db d'"
proof -
  assume wf: "wf_db d"
  show "wf_db d'" if "sql_RevokePermissionFromRole rn pn t c d = Inr (x, d')"
    using that wf
    by (auto simp: sql_RevokePermissionFromRole_def split: sum.splits intro!: wf_db_replace wf_delete_where
        dest: wf_dbD)
  let ?new = "[\<lparr>rp_RoleID = r_ID r, rp_PermissionID = p_ID p\<rparr>.
      r \<leftarrow> tenant_roles rn t c d, p \<leftarrow> permissions d, p_Name p = pn]"
  have "distinct (map r_ID (tenant_roles rn t c d))" "distinct (map p_ID (permissions d))"
    using wf by (auto simp: tenant_roles_def visible_roles_def wf_db_def Let_def wf_roles_def
        wf_permissions_def intro!: distinct_map_filter)
  then have "distinct ?new" by (rule distinct_role_permission_pairs)
  moreover have "set (tenant_roles rn t c d) \<subseteq> set (roles d)"
    by (auto simp: tenant_roles_def visible_roles_def)
  ultimately show "wf_db d'" if "sql_GrantPermissionToRole rn pn t c d = Inr (x, d')"
    using that wf wf_dbD(5) [OF wf]
    by (auto simp: sql_GrantPermissionToRole_def perform_def wf_role_permissions_def subset_iff
        intro!: wf_db_replace)
qed

lemma wf_tenant_queries [wf_queries]:
  "sql_CreateTenant sl n c d = Inr (x, d') \<Longrightarrow> wf_db d \<Longrightarrow> wf_db d'"
  "sql_CreateMembership uid tid c d = Inr (y, d') \<Longrightarrow> wf_db d \<Longrightarrow> wf_db d'"
  "sql_RemoveMember uid tid c d = Inr (y, d') \<Longrightarrow> wf_db d \<Longrightarrow> wf_db d'"
  "sql_CreateProject tid sl n c d = Inr (z, d') \<Longrightarrow> wf_db d \<Longrightarrow> wf_db d'"
  by (auto simp: sql_CreateTenant_def sql_CreateMembership_def sql_RemoveMember_def sql_CreateProject_def
      perform_def Let_def ref_defs split: if_splits intro!: wf_db_replace wf_db_grow wf_snoc wf_delete_where
      dest: wf_dbD)

lemma wf_oidc_queries [wf_queries]:
  "sql_InsertClient x c d = Inr (y, d') \<Longrightarrow> wf_db d \<Longrightarrow> wf_db d'"
  "sql_InsertCode h cid uid ru sc ch me no c d = Inr (y, d') \<Longrightarrow> wf_db d \<Longrightarrow> wf_db d'"
  "sql_ClaimCode h c d = Inr (n, d') \<Longrightarrow> wf_db d \<Longrightarrow> wf_db d'"
  "sql_UpsertConsent uid cid scs c d = Inr (y, d') \<Longrightarrow> wf_db d \<Longrightarrow> wf_db d'"
  "sql_InsertSigningKey kid pr pu c d = Inr (y, d') \<Longrightarrow> wf_db d \<Longrightarrow> wf_db d'"
proof -
  assume wf: "wf_db d"
  note tables = wf_dbD [OF wf]
  show "wf_db d'" if "sql_InsertClient x c d = Inr (y, d')"
    using that wf tables(17) by (auto simp: sql_InsertClient_def has_tenant_def wf_oauth_clients_def
        split: if_splits intro!: wf_db_grow)
  show "wf_db d'" if "sql_InsertCode h cid uid ru sc ch me no c d = Inr (y, d')"
    using that wf tables(18) by (auto simp: sql_InsertCode_def wf_oauth_codes_def
        split: if_splits intro!: wf_db_replace)
  show "wf_db d'" if "sql_ClaimCode h c d = Inr (n, d')"
    using that wf tables(18) by (auto simp: sql_ClaimCode_def wf_oauth_codes_def map_update_where
        in_update_where intro!: wf_db_replace)
  show "wf_db d'" if "sql_UpsertConsent uid cid scs c d = Inr (y, d')"
    using that wf tables(19) by (auto simp: sql_UpsertConsent_def wf_oauth_consents_def map_update_where
        in_update_where split: if_splits intro!: wf_db_replace)
  show "wf_db d'" if "sql_InsertSigningKey kid pr pu c d = Inr (y, d')"
    using that wf tables(20) by (auto simp: sql_InsertSigningKey_def wf_signing_keys_def filter_empty_conv
        split: if_splits intro!: wf_db_replace)
qed

lemma wf_InsertClientIfAbsent [wf_queries]:
  "sql_InsertClientIfAbsent x c d = Inr (y, d') \<Longrightarrow> wf_db d \<Longrightarrow> wf_db d'"
  by (auto simp: sql_InsertClientIfAbsent_def split: if_splits intro: wf_oidc_queries(1))

end
