(* ===== verification/Effects.thy ===== *)
theory Effects
  imports Integrity
begin

text \<open>
  The database as a state machine: \<open>db_step\<close> has one rule per query that writes. Every handler moves the committed database along a path of
  these steps and leaves no transaction open (\<open>served\<close>), so a property kept by the steps is
  kept by every handler, whatever fails on the way.
\<close>

section \<open>Steps of the database\<close>

text \<open>
  The hash a new refresh token, verification token or reset token is stored under comes from
  32 random bytes, drawn no earlier than the step \<open>since\<close> (\<open>mintable\<close>), that of an API key from 24
  (\<open>key_mintable\<close>).
\<close>

inductive db_step :: "env \<Rightarrow> nat \<Rightarrow> database \<Rightarrow> database \<Rightarrow> bool" for E since where
  CreateUser: "sql_CreateUser email pw c d = Inr (u, d') \<Longrightarrow> db_step E since d d'"
| DeleteUser: "sql_DeleteUser uid c d = Inr (x, d') \<Longrightarrow> db_step E since d d'"
| SoftDeleteUser: "sql_SoftDeleteUser uid c d = Inr (x, d') \<Longrightarrow> db_step E since d d'"
| RestoreUser: "sql_RestoreUser uid c d = Inr (x, d') \<Longrightarrow> db_step E since d d'"
| SetTotpSecret: "sql_SetTotpSecret uid s c d = Inr (x, d') \<Longrightarrow> db_step E since d d'"
| EnableTotp: "sql_EnableTotp uid c d = Inr (x, d') \<Longrightarrow> db_step E since d d'"
| DisableTotp: "sql_DisableTotp uid c d = Inr (x, d') \<Longrightarrow> db_step E since d d'"
| IncrementLoginFailure: "sql_IncrementLoginFailure uid c d = Inr (n, d') \<Longrightarrow> db_step E since d d'"
| LockUser: "sql_LockUser uid t c d = Inr (x, d') \<Longrightarrow> db_step E since d d'"
| ResetLoginState: "sql_ResetLoginState uid c d = Inr (x, d') \<Longrightarrow> db_step E since d d'"
| MarkEmailVerified: "sql_MarkEmailVerified uid c d = Inr (x, d') \<Longrightarrow> db_step E since d d'"
| UpdatePassword: "sql_UpdatePassword uid pw c d = Inr (x, d') \<Longrightarrow> db_step E since d d'"
| CreateEmailVerification: "sql_CreateEmailVerification h uid t c d = Inr (x, d') \<Longrightarrow> mintable E since h \<Longrightarrow> db_step E since d d'"
| ConsumeEmailVerification: "sql_ConsumeEmailVerification h c d = Inr (uid, d') \<Longrightarrow> db_step E since d d'"
| CreatePasswordReset: "sql_CreatePasswordReset h uid t c d = Inr (x, d') \<Longrightarrow> mintable E since h \<Longrightarrow> db_step E since d d'"
| ConsumePasswordReset: "sql_ConsumePasswordReset h c d = Inr (uid, d') \<Longrightarrow> db_step E since d d'"
| InsertRecoveryCode: "sql_InsertRecoveryCode uid h c d = Inr (x, d') \<Longrightarrow> db_step E since d d'"
| DeleteRecoveryCodes: "sql_DeleteRecoveryCodes uid c d = Inr (x, d') \<Longrightarrow> db_step E since d d'"
| ConsumeRecoveryCode: "sql_ConsumeRecoveryCode uid h c d = Inr (n, d') \<Longrightarrow> db_step E since d d'"
| InsertAuditEvent: "sql_InsertAuditEvent a e act tg det t c d = Inr (x, d') \<Longrightarrow> db_step E since d d'"
| InsertOutbox: "sql_InsertOutbox uid ty pl c d = Inr (x, d') \<Longrightarrow> db_step E since d d'"
| MarkOutboxPublished: "sql_MarkOutboxPublished oid c d = Inr (x, d') \<Longrightarrow> db_step E since d d'"
| CreateRefreshToken: "sql_CreateRefreshToken uid h t tid pid c d = Inr (r, d') \<Longrightarrow> mintable E since h \<Longrightarrow> db_step E since d d'"
| RevokeRefreshToken: "sql_RevokeRefreshToken h c d = Inr (x, d') \<Longrightarrow> db_step E since d d'"
| RotateRefreshToken: "sql_RotateRefreshToken h s' c d = Inr (x, d') \<Longrightarrow> db_step E since d d'"
| RevokeAllUserRefreshTokens: "sql_RevokeAllUserRefreshTokens uid c d = Inr (x, d') \<Longrightarrow> db_step E since d d'"
| RevokeAccessJTI: "sql_RevokeAccessJTI jti t c d = Inr (x, d') \<Longrightarrow> db_step E since d d'"
| CreateApiKey: "sql_CreateApiKey k uid h nm sc ex tid pid c d = Inr (x, d') \<Longrightarrow> key_mintable E since h \<Longrightarrow> db_step E since d d'"
| RevokeApiKey: "sql_RevokeApiKey k uid c d = Inr (x, d') \<Longrightarrow> db_step E since d d'"
| TouchApiKey: "sql_TouchApiKey k c d = Inr (x, d') \<Longrightarrow> db_step E since d d'"
| CreateRole: "sql_CreateRole nm ds ten c d = Inr (ro, d') \<Longrightarrow> db_step E since d d'"
| UpdateRole: "sql_UpdateRole nm ds ten c d = Inr (ro, d') \<Longrightarrow> db_step E since d d'"
| DeleteRole: "sql_DeleteRole nm ten c d = Inr (x, d') \<Longrightarrow> db_step E since d d'"
| AssignRoleToUser: "sql_AssignRoleToUser uid nm tid pid c d = Inr (x, d') \<Longrightarrow> db_step E since d d'"
| AssignRoleInTenant: "sql_AssignRoleInTenant uid nm tid c d = Inr (x, d') \<Longrightarrow> db_step E since d d'"
| RevokeRoleFromUser: "sql_RevokeRoleFromUser uid nm tid pid c d = Inr (x, d') \<Longrightarrow> db_step E since d d'"
| GrantPermissionToRole: "sql_GrantPermissionToRole nm pn ten c d = Inr (x, d') \<Longrightarrow> db_step E since d d'"
| RevokePermissionFromRole: "sql_RevokePermissionFromRole nm pn ten c d = Inr (x, d') \<Longrightarrow> db_step E since d d'"
| CreateTenant: "sql_CreateTenant sl nm c d = Inr (tn, d') \<Longrightarrow> db_step E since d d'"
| CreateMembership: "sql_CreateMembership uid tid c d = Inr (x, d') \<Longrightarrow> db_step E since d d'"
| RemoveMember: "sql_RemoveMember uid tid c d = Inr (x, d') \<Longrightarrow> db_step E since d d'"
| CreateProject: "sql_CreateProject tid sl nm c d = Inr (pj, d') \<Longrightarrow> db_step E since d d'"
| InsertClient: "sql_InsertClient x c d = Inr (y, d') \<Longrightarrow> db_step E since d d'"
| InsertClientIfAbsent: "sql_InsertClientIfAbsent x c d = Inr (y, d') \<Longrightarrow> db_step E since d d'"
| InsertCode: "sql_InsertCode h cid uid ru scp ch me no c d = Inr (y, d') \<Longrightarrow> db_step E since d d'"
| ClaimCode: "sql_ClaimCode h c d = Inr (n, d') \<Longrightarrow> db_step E since d d'"
| UpsertConsent: "sql_UpsertConsent uid cid scs c d = Inr (y, d') \<Longrightarrow> db_step E since d d'"
| InsertSigningKey: "sql_InsertSigningKey kid pr pu c d = Inr (y, d') \<Longrightarrow> db_step E since d d'"

text \<open>The definitions to unfold when a property of one table is checked against every step.\<close>

lemmas sql_write_defs = sql_CreateUser_def sql_DeleteUser_def sql_SoftDeleteUser_def sql_RestoreUser_def
  sql_SetTotpSecret_def sql_EnableTotp_def sql_DisableTotp_def sql_IncrementLoginFailure_def
  sql_LockUser_def sql_ResetLoginState_def sql_MarkEmailVerified_def sql_UpdatePassword_def
  sql_CreateEmailVerification_def sql_ConsumeEmailVerification_def sql_CreatePasswordReset_def
  sql_ConsumePasswordReset_def sql_InsertRecoveryCode_def sql_DeleteRecoveryCodes_def
  sql_ConsumeRecoveryCode_def sql_InsertAuditEvent_def sql_InsertOutbox_def
  sql_MarkOutboxPublished_def sql_CreateRefreshToken_def sql_RevokeRefreshToken_def
  sql_RotateRefreshToken_def sql_RevokeAllUserRefreshTokens_def sql_RevokeAccessJTI_def
  sql_CreateApiKey_def sql_RevokeApiKey_def sql_TouchApiKey_def sql_CreateRole_def sql_UpdateRole_def
  sql_DeleteRole_def sql_AssignRoleToUser_def sql_AssignRoleInTenant_def insert_user_role_def
  sql_RevokeRoleFromUser_def sql_GrantPermissionToRole_def sql_RevokePermissionFromRole_def
  sql_CreateTenant_def sql_CreateMembership_def sql_RemoveMember_def sql_CreateProject_def
  sql_InsertClient_def sql_InsertClientIfAbsent_def sql_InsertCode_def sql_ClaimCode_def
  sql_UpsertConsent_def sql_InsertSigningKey_def update_user_def perform_def Let_def

section \<open>What every handler does to the world\<close>

definition served :: "env \<Rightarrow> nat \<Rightarrow> world \<Rightarrow> world \<Rightarrow> bool" where
  "served E since w w' \<longleftrightarrow> (since \<le> step w \<longrightarrow>
     step w \<le> step w' \<and> lift_rel (db_step E since)\<^sup>*\<^sup>* w w' \<and> (idle w \<longrightarrow> idle w'))"

named_theorems served_intros "a computation serves a request"

interpretation path: db_effect "(db_step E since)\<^sup>*\<^sup>*" for E since
  by unfold_locales auto

interpretation served: preorder_effect "served E since" for E since
  by unfold_locales (auto simp: served_def path.world.refl intro: path.world.trans)

lemmas served_control [served_intros] = served.return_effect served.bind_effect served.ok_effect
  served.bail_effect served.check_effect served.or_return_effect served.ignoring_effect
  served.from_option_effect served.if_effect served.option_effect served.sum_effect
  served.let_effect served.prod_effect

lemma served_of_path:
  "state_io_rel (lift_rel (db_step E since)\<^sup>*\<^sup>*) m \<Longrightarrow> (\<And>w. idle w \<Longrightarrow> idle (snd (run_state m w)))
   \<Longrightarrow> (\<And>w. step w \<le> step (snd (run_state m w))) \<Longrightarrow> state_io_rel (served E since) m"
  by (simp add: state_io_rel_def served_def)

lemma exec_idle: "idle w \<Longrightarrow> idle (snd (run_state (exec E q) w))"
  by (auto simp: run_exec split: sum.splits db_err.splits)

lemma exec_step [simp]: "step (snd (run_state (exec E q) w)) = Suc (step w)"
  by (auto simp: run_exec split: sum.splits db_err.splits)

lemma served_exec:
  "(\<And>c d x d'. q c d = Inr (x, d') \<Longrightarrow> d' = d \<or> db_step E since d d') \<Longrightarrow> state_io_rel (served E since) (exec E q)"
  by (rule served_of_path [OF path.exec_effect exec_idle]) (blast intro: r_into_rtranclp, simp_all)

lemma served_fetch [served_intros]:
  "state_io_rel (served E since) (exec E (fetch f))" "state_io_rel (served E since) (exec E (fetch_one g))"
  by (rule served_exec; simp add: fetch_def fetch_one_Some)+

lemma served_read [served_intros]:
  "state_io_rel (served E since) (exec E (sql_GetUserByEmail email))"
  "state_io_rel (served E since) (exec E (sql_GetUserByID uid))"
  "state_io_rel (served E since) (exec E (sql_IsUserActive uid))"
  "state_io_rel (served E since) (exec E (sql_ListAuditEvents t n))"
  "state_io_rel (served E since) (exec E (sql_FetchUnpublishedOutbox n))"
  "state_io_rel (served E since) (exec E (sql_GetRefreshToken h))"
  "state_io_rel (served E since) (exec E (sql_IsTokenRevoked jti))"
  "state_io_rel (served E since) (exec E (sql_GetApiKeyByHash h))"
  "state_io_rel (served E since) (exec E (sql_ListApiKeysByUser uid))"
  "state_io_rel (served E since) (exec E (sql_GetRoleByName nm))"
  "state_io_rel (served E since) (exec E (sql_GetRoleInTenant nm t))"
  "state_io_rel (served E since) (exec E (sql_GetTenantRole nm t))"
  "state_io_rel (served E since) (exec E (sql_ListRolesWithPermissions t))"
  "state_io_rel (served E since) (exec E sql_ListPermissions)"
  "state_io_rel (served E since) (exec E (sql_GetUserPermissions uid))"
  "state_io_rel (served E since) (exec E (sql_GetUserRoles uid))"
  "state_io_rel (served E since) (exec E (sql_GetUserPermissionsScoped uid tid p))"
  "state_io_rel (served E since) (exec E (sql_GetUserRolesScoped uid tid p))"
  "state_io_rel (served E since) (exec E (sql_GetUserRoleAssignments uid tid))"
  "state_io_rel (served E since) (exec E sql_ListTenants)"
  "state_io_rel (served E since) (exec E (sql_ListMembershipsByUser uid))"
  "state_io_rel (served E since) (exec E (sql_IsActiveMember uid tid))"
  "state_io_rel (served E since) (exec E (sql_ListMembersByTenant tid))"
  "state_io_rel (served E since) (exec E (sql_ListProjectsByTenant tid))"
  "state_io_rel (served E since) (exec E (sql_IsProjectInTenant pid tid))"
  "state_io_rel (served E since) (exec E (sql_SelectClient cid))"
  "state_io_rel (served E since) (exec E (sql_ClientTenant cid))"
  "state_io_rel (served E since) (exec E (sql_ClientSecret cid))"
  "state_io_rel (served E since) (exec E (sql_SelectCode h))"
  "state_io_rel (served E since) (exec E (sql_SelectUserEmail uid))"
  "state_io_rel (served E since) (exec E (sql_SelectConsent uid cid))"
  "state_io_rel (served E since) (exec E sql_SelectSigningKeys)"
  unfolding sql_SelectClient_def sql_ClientTenant_def sql_ClientSecret_def sql_SelectCode_def
    sql_SelectUserEmail_def sql_SelectConsent_def sql_SelectSigningKeys_def sql_GetUserByEmail_def sql_GetUserByID_def sql_IsUserActive_def sql_ListAuditEvents_def
    sql_FetchUnpublishedOutbox_def sql_GetRefreshToken_def sql_IsTokenRevoked_def
    sql_GetApiKeyByHash_def sql_ListApiKeysByUser_def sql_GetRoleByName_def sql_GetRoleInTenant_def
    sql_GetTenantRole_def sql_ListRolesWithPermissions_def sql_ListPermissions_def
    sql_GetUserPermissions_def sql_GetUserRoles_def sql_GetUserPermissionsScoped_def
    sql_GetUserRolesScoped_def sql_GetUserRoleAssignments_def sql_ListTenants_def
    sql_ListMembershipsByUser_def sql_IsActiveMember_def sql_ListMembersByTenant_def
    sql_ListProjectsByTenant_def sql_IsProjectInTenant_def
  by (rule served_fetch)+

lemma served_write [served_intros]:
  "state_io_rel (served E since) (exec E (sql_CreateUser email pw))"
  "state_io_rel (served E since) (exec E (sql_DeleteUser uid))"
  "state_io_rel (served E since) (exec E (sql_SoftDeleteUser uid))"
  "state_io_rel (served E since) (exec E (sql_RestoreUser uid))"
  "state_io_rel (served E since) (exec E (sql_SetTotpSecret uid s))"
  "state_io_rel (served E since) (exec E (sql_EnableTotp uid))"
  "state_io_rel (served E since) (exec E (sql_DisableTotp uid))"
  "state_io_rel (served E since) (exec E (sql_IncrementLoginFailure uid))"
  "state_io_rel (served E since) (exec E (sql_LockUser uid t))"
  "state_io_rel (served E since) (exec E (sql_ResetLoginState uid))"
  "state_io_rel (served E since) (exec E (sql_MarkEmailVerified uid))"
  "state_io_rel (served E since) (exec E (sql_UpdatePassword uid pw))"
  "mintable E since h \<Longrightarrow> state_io_rel (served E since) (exec E (sql_CreateEmailVerification h uid t))"
  "state_io_rel (served E since) (exec E (sql_ConsumeEmailVerification h))"
  "mintable E since h \<Longrightarrow> state_io_rel (served E since) (exec E (sql_CreatePasswordReset h uid t))"
  "state_io_rel (served E since) (exec E (sql_ConsumePasswordReset h))"
  "state_io_rel (served E since) (exec E (sql_InsertRecoveryCode uid h))"
  "state_io_rel (served E since) (exec E (sql_DeleteRecoveryCodes uid))"
  "state_io_rel (served E since) (exec E (sql_ConsumeRecoveryCode uid h))"
  "state_io_rel (served E since) (exec E (sql_InsertAuditEvent a e act tg det ten))"
  "state_io_rel (served E since) (exec E (sql_InsertOutbox uid ty pl))"
  "state_io_rel (served E since) (exec E (sql_MarkOutboxPublished oid))"
  "mintable E since h \<Longrightarrow> state_io_rel (served E since) (exec E (sql_CreateRefreshToken uid h t tid pid))"
  "state_io_rel (served E since) (exec E (sql_RevokeRefreshToken h))"
  "state_io_rel (served E since) (exec E (sql_RotateRefreshToken h s'))"
  "state_io_rel (served E since) (exec E (sql_RevokeAllUserRefreshTokens uid))"
  "state_io_rel (served E since) (exec E (sql_RevokeAccessJTI jti t))"
  "key_mintable E since h \<Longrightarrow> state_io_rel (served E since) (exec E (sql_CreateApiKey k uid h nm sc ex tid pid))"
  "state_io_rel (served E since) (exec E (sql_RevokeApiKey k uid))"
  "state_io_rel (served E since) (exec E (sql_TouchApiKey k))"
  "state_io_rel (served E since) (exec E (sql_CreateRole nm ds ten))"
  "state_io_rel (served E since) (exec E (sql_UpdateRole nm ds ten))"
  "state_io_rel (served E since) (exec E (sql_DeleteRole nm ten))"
  "state_io_rel (served E since) (exec E (sql_AssignRoleToUser uid nm tid pid))"
  "state_io_rel (served E since) (exec E (sql_AssignRoleInTenant uid nm tid))"
  "state_io_rel (served E since) (exec E (sql_RevokeRoleFromUser uid nm tid pid))"
  "state_io_rel (served E since) (exec E (sql_GrantPermissionToRole nm pn ten))"
  "state_io_rel (served E since) (exec E (sql_RevokePermissionFromRole nm pn ten))"
  "state_io_rel (served E since) (exec E (sql_CreateTenant sl nm))"
  "state_io_rel (served E since) (exec E (sql_CreateMembership uid tid))"
  "state_io_rel (served E since) (exec E (sql_RemoveMember uid tid))"
  "state_io_rel (served E since) (exec E (sql_CreateProject tid sl nm))"
  "state_io_rel (served E since) (exec E (sql_InsertClient x))"
  "state_io_rel (served E since) (exec E (sql_InsertClientIfAbsent x))"
  "state_io_rel (served E since) (exec E (sql_InsertCode h cid uid ru scp ch me no))"
  "state_io_rel (served E since) (exec E (sql_ClaimCode h))"
  "state_io_rel (served E since) (exec E (sql_UpsertConsent uid cid scs))"
  "state_io_rel (served E since) (exec E (sql_InsertSigningKey kid pr pu))"
  by (rule served_exec, rule disjI2, erule db_step.intros; assumption)+

lemma served_outside [served_intros]:
  "state_io_rel (served E since) (go_now E)" "state_io_rel (served E since) (new_uuid E)"
  "state_io_rel (served E since) (rand_read E k)" "state_io_rel (served E since) (emit x)"
  "state_io_rel (served E since) (ask_redis E cmd)"
  by (rule served_of_path; auto intro: path.outside_effect simp: idle_def)+

text \<open>A transaction: begun, its body run with the rollback deferred.\<close>

lemma served_rollback:
  assumes "served E since w w'" and "since \<le> step w"
    and "w'' = (case tx w' of None \<Rightarrow> w' | Some t \<Rightarrow> w'\<lparr>db := tx_snap t, tx := None\<rparr>)"
  shows "step w \<le> step w'' \<and> lift_rel (db_step E since)\<^sup>*\<^sup>* w w'' \<and> idle w''"
proof -
  have "lift_rel (db_step E since)\<^sup>*\<^sup>* w' w''"
    using path.tx_rollback_effect [of E since] assms(3)
    by (auto simp: state_io_rel_def run_tx_rollback dest: spec [of _ w'])
  moreover have "step w'' = step w'" "idle w''"
    using assms(3) by (auto simp: idle_def split: option.splits)
  ultimately show ?thesis using assms(1,2) by (auto simp: served_def intro: path.world.trans)
qed

lemma served_deferring_rollback:
  assumes "state_io_rel (served E since) m"
  shows "state_io_rel (served E since) (deferring_rollback m)"
proof (rule state_io_relI)
  fix r w w''
  assume run: "run_state (deferring_rollback m) w = (r, w'')"
  obtain x w' where m: "run_state m w = (x, w')" by fastforce
  with assms have "served E since w w'" by (auto simp: state_io_rel_def dest: spec [of _ w])
  moreover have "w'' = (case tx w' of None \<Rightarrow> w' | Some t \<Rightarrow> w'\<lparr>db := tx_snap t, tx := None\<rparr>)"
    using run m by (simp add: run_deferring_rollback)
  ultimately show "served E since w w''"
    unfolding served_def using served_rollback [of E since w w' w''] by (auto simp: served_def)
qed

lemma served_after_begin:
  assumes "state_io_rel (served E since) m" and "run_state (tx_begin E) w = (b, v)"
    and "run_state (deferring_rollback m) v = (r, w'')"
  shows "served E since w w''"
proof -
  obtain x w' where m: "run_state m v = (x, w')" by fastforce
  with assms(1) have "served E since v w'" by (auto simp: state_io_rel_def dest: spec [of _ v])
  moreover have "w'' = (case tx w' of None \<Rightarrow> w' | Some t \<Rightarrow> w'\<lparr>db := tx_snap t, tx := None\<rparr>)"
    using assms(3) m by (simp add: run_deferring_rollback)
  moreover have "lift_rel (db_step E since)\<^sup>*\<^sup>* w v"
    using path.tx_begin_effect [of E since E] assms(2) by (auto simp: state_io_rel_def dest: spec [of _ w])
  moreover have "step v = Suc (step w)" using assms(2) by (auto simp: run_tx_begin split: if_splits)
  ultimately show ?thesis
    unfolding served_def [of E since w w''] using served_rollback [of E since v w' w'']
    by (auto intro: path.world.trans)
qed

lemma served_failed_begin: "served E since w (tick w)"
  by (auto simp: served_def intro: path.same_db_effect)

lemma served_transaction [served_intros]:
  "state_io_rel (served E since) m \<Longrightarrow> state_io_rel (served E since) (check (tx_begin E) (\<lambda>_. deferring_rollback m))"
  by (rule state_io_relI)
     (auto simp: run_tx_begin intro: served_failed_begin served_after_begin split: if_splits)

lemma served_transaction_or [served_intros]:
  "state_io_rel (served E since) m \<Longrightarrow> state_io_rel (served E since) (or_return (tx_begin E) e (\<lambda>_. deferring_rollback m))"
  by (rule state_io_relI)
     (auto simp: run_tx_begin intro: served_failed_begin served_after_begin split: if_splits)

lemma served_tx [served_intros]:
  "state_io_rel (served E since) (tx_commit E)" "state_io_rel (served E since) (set_local_role E r)"
  "state_io_rel (served E since) (set_tenant E t)"
proof -
  have setting: "idle w \<Longrightarrow> idle (snd (run_state (tx_setting E f) w))"
    "step w \<le> step (snd (run_state (tx_setting E f) w))" for w f
    by (auto simp: run_tx_setting idle_def abort_tx_def)
  show "state_io_rel (served E since) (tx_commit E)"
    by (rule served_of_path [OF path.tx_commit_effect]) (auto simp: run_tx_commit idle_def split: option.splits)
  show "state_io_rel (served E since) (set_local_role E r)"
    by (rule served_of_path [OF path.set_local_role_effect]) (simp_all add: set_local_role_def setting)
  show "state_io_rel (served E since) (set_tenant E t)"
    by (rule served_of_path [OF path.set_tenant_effect]) (simp_all add: set_tenant_def setting)
qed

lemma served_withTenant [served_intros]:
  "state_io_rel (served E since) fn \<Longrightarrow> state_io_rel (served E since) (withTenant E t fn)"
  "state_io_rel (served E since) fn \<Longrightarrow> state_io_rel (served E since) (withTenantGUC E t fn)"
  unfolding withTenant_def withTenantGUC_def
  by (intro served_transaction served_control served_tx; assumption)+

section \<open>Properties of the database that every handler keeps\<close>

text \<open>
  The contract between the handlers and a property of the database: what no single query
  breaks, no handler breaks, and no sequence of handlers.
\<close>

locale kept_property =
  fixes E :: env and since :: nat and P :: "database \<Rightarrow> bool"
  assumes kept_by_step: "db_step E since d d' \<Longrightarrow> P d \<Longrightarrow> P d'"
begin

lemma kept_by_path: "(db_step E since)\<^sup>*\<^sup>* d d' \<Longrightarrow> P d \<Longrightarrow> P d'"
  by (induction rule: rtranclp_induct) (auto intro: kept_by_step)

lemma kept_by_served:
  assumes "served E since w w'" and "idle w" and "since \<le> step w" and "P (db w)"
  shows "idle w' \<and> since \<le> step w' \<and> P (db w')"
proof -
  from assms(1-3) have after: "idle w'" "since \<le> step w'" by (auto simp: served_def)
  from assms(1-3) have "(db_step E since)\<^sup>*\<^sup>* (durable w) (durable w')"
    by (auto simp: served_def lift_rel_def tx_within_def idle_def)
  with after assms(2,4) show ?thesis by (auto intro: kept_by_path)
qed

lemma kept_by_handler:
  "state_io_rel (served E since) m \<Longrightarrow> idle w \<Longrightarrow> since \<le> step w \<Longrightarrow> P (db w) \<Longrightarrow>
   idle (snd (run_state m w)) \<and> since \<le> step (snd (run_state m w)) \<and> P (db (snd (run_state m w)))"
  by (rule kept_by_served) (simp_all add: state_io_rel_def)

end

text \<open>The schema's constraints are kept.\<close>

lemma wf_db_step: "db_step E since d d' \<Longrightarrow> wf_db d \<Longrightarrow> wf_db d'"
  by (induction rule: db_step.induct) (erule wf_queries, assumption)+

interpretation wf: kept_property E since wf_db for E since
  by unfold_locales (rule wf_db_step)

end
