(* ===== verification/Cache.thy ===== *)
theory Cache
  imports Effects
begin

text \<open>
  \<^verbatim>\<open>internal/cache/cache.go\<close>: the Redis denylist of revoked access tokens and the permission
  cache. Without a client every method does nothing or misses. The Redis server is a
  parameter; \<open>redis_store\<close> is the store its documentation promises for a log of commands,
  and \<open>honest_redis\<close> says that the server answers from it.
\<close>

section \<open>Operations\<close>

definition permsTTL :: time where "permsTTL = 60 * second"

record Cache =
  c_rdb :: bool

text \<open>\<^verbatim>\<open>redis.ParseURL\<close> and the first \<^verbatim>\<open>Ping\<close> are parameters.\<close>

definition Cache_New :: "(string \<Rightarrow> bool) \<Rightarrow> (string \<Rightarrow> bool) \<Rightarrow> string \<Rightarrow> Cache" where
  "Cache_New parse_ok ping_ok redisURL =
     (if redisURL = [] then \<lparr>c_rdb = False\<rparr>
      else if \<not> parse_ok redisURL then \<lparr>c_rdb = False\<rparr>
      else if \<not> ping_ok redisURL then \<lparr>c_rdb = False\<rparr>
      else \<lparr>c_rdb = True\<rparr>)"

definition Cache_Enabled :: "Cache \<Rightarrow> bool" where
  "Cache_Enabled c = c_rdb c"

abbreviation skip :: "(world, unit) state" where
  "skip \<equiv> State_Monad.return ()"

definition deny_key :: "string \<Rightarrow> string" where
  "deny_key jti = ''denylist:'' @ jti"

definition Deny :: "env \<Rightarrow> Cache \<Rightarrow> string \<Rightarrow> time \<Rightarrow> (world, unit) state" where
  "Deny E c jti ttl =
     (if \<not> c_rdb c \<or> jti = [] \<or> ttl \<le> 0 then skip
      else ignoring (ask_redis E (RSet (deny_key jti) RFlag ttl)) skip)"

text \<open>\<open>None\<close> is \<^verbatim>\<open>ok = false\<close>: the caller asks PostgreSQL.\<close>

definition IsDenied :: "env \<Rightarrow> Cache \<Rightarrow> string \<Rightarrow> (world, bool option) state" where
  "IsDenied E c jti =
     (if \<not> c_rdb c \<or> jti = [] then State_Monad.return None
      else State_Monad.bind (ask_redis E (RExists (deny_key jti)))
        (\<lambda>reply. State_Monad.return (case reply of RInt n \<Rightarrow> Some (n > 0) | _ \<Rightarrow> None)))"

definition permsKey :: "string \<Rightarrow> string \<Rightarrow> string \<Rightarrow> string" where
  "permsKey tenant project userID =
     (let project = (if project = [] then ''-'' else project);
          tenant = (if tenant = [] then ''-'' else tenant)
      in ''perms:'' @ tenant @ '':'' @ project @ '':'' @ userID)"

definition GetPerms :: "env \<Rightarrow> Cache \<Rightarrow> string \<Rightarrow> string \<Rightarrow> string \<Rightarrow> (world, string list option) state" where
  "GetPerms E c tenant project userID =
     (if \<not> c_rdb c then State_Monad.return None
      else State_Monad.bind (ask_redis E (RGet (permsKey tenant project userID)))
        (\<lambda>reply. State_Monad.return (case reply of RVal (RPerms ps) \<Rightarrow> ps | _ \<Rightarrow> None)))"

definition SetPerms :: "env \<Rightarrow> Cache \<Rightarrow> string \<Rightarrow> string \<Rightarrow> string \<Rightarrow> string list \<Rightarrow> (world, unit) state" where
  "SetPerms E c tenant project userID perms =
     (if \<not> c_rdb c then skip
      else ignoring (ask_redis E (RSet (permsKey tenant project userID) (RPerms (Some perms)) permsTTL)) skip)"

text \<open>The SCAN loop with fuel: one unit for each SCAN call.\<close>

fun scan_and_delete :: "env \<Rightarrow> string \<Rightarrow> nat \<Rightarrow> nat \<Rightarrow> (world, unit) state" where
  "scan_and_delete E match 0 cursor = skip"
| "scan_and_delete E match (Suc fuel) cursor =
     State_Monad.bind (ask_redis E (RScan cursor match 100)) (\<lambda>reply. case reply of
       RKeys keys next \<Rightarrow>
         ignoring (if keys \<noteq> [] then ignoring (ask_redis E (RDel keys)) skip else skip)
           (if next = 0 then skip else scan_and_delete E match fuel next)
     | _ \<Rightarrow> skip)"

definition perms_pattern :: "string \<Rightarrow> string" where
  "perms_pattern userID = ''perms:*:*:'' @ userID"

definition InvalidatePerms :: "env \<Rightarrow> Cache \<Rightarrow> string \<Rightarrow> (world, unit) state" where
  "InvalidatePerms E c userID =
     (if \<not> c_rdb c then skip else scan_and_delete E (perms_pattern userID) (scan_rounds E) 0)"

section \<open>No database effect\<close>

lemma served_sum_bind [served_intros]:
  "state_io_rel (served E since) (scan_and_delete E match fuel cursor)"
  by (induction fuel arbitrary: cursor)
     (auto intro!: served_intros split: redis_reply.splits)

lemma served_cache [served_intros]:
  "state_io_rel (served E since) (Deny E c jti ttl)"
  "state_io_rel (served E since) (IsDenied E c jti)"
  "state_io_rel (served E since) (GetPerms E c t p u)"
  "state_io_rel (served E since) (SetPerms E c t p u ps)"
  "state_io_rel (served E since) (InvalidatePerms E c u)"
  unfolding Deny_def IsDenied_def GetPerms_def SetPerms_def InvalidatePerms_def
  by (auto intro!: served_intros)

section \<open>What Redis promises\<close>

text \<open>
  A key holds the value last SET, until its expiry or a DEL. \<open>redis_store log k\<close> is the value
  and the instant it expires.
\<close>

fun redis_effect :: "time \<times> redis_cmd \<Rightarrow> (string \<Rightarrow> (redis_val \<times> time) option) \<Rightarrow> string \<Rightarrow> (redis_val \<times> time) option" where
  "redis_effect (now, RSet k v ttl) st = st(k \<mapsto> (v, now + ttl))"
| "redis_effect (now, RDel ks) st = (\<lambda>k. if k \<in> set ks then None else st k)"
| "redis_effect (now, c) st = st"

definition redis_store :: "redis_log \<Rightarrow> string \<Rightarrow> (redis_val \<times> time) option" where
  "redis_store log = fold redis_effect log Map.empty"

definition redis_alive :: "redis_log \<Rightarrow> time \<Rightarrow> string \<Rightarrow> redis_val option" where
  "redis_alive log now k = (case redis_store log k of
     None \<Rightarrow> None | Some (v, expires) \<Rightarrow> if now < expires then Some v else None)"

text \<open>Answers of a server that lost nothing; any command may also fail with an error.\<close>

definition honest_redis :: "env \<Rightarrow> bool" where
  "honest_redis E \<longleftrightarrow> (\<forall>log now k. redis E log now (RExists k) \<in> {RErr, RInt (if redis_alive log now k = None then 0 else 1)})
     \<and> (\<forall>log now k. redis E log now (RGet k) \<in> {RErr, case redis_alive log now k of None \<Rightarrow> RErr | Some v \<Rightarrow> RVal v})"

lemma honest_RExists:
  "honest_redis E \<Longrightarrow> redis E log now (RExists k) \<noteq> RErr \<Longrightarrow>
   redis E log now (RExists k) = RInt (if redis_alive log now k = None then 0 else 1)"
  unfolding honest_redis_def by blast

lemma redis_store_simps [simp]:
  "redis_store [] = Map.empty"
  "redis_store (log @ [x]) = redis_effect x (redis_store log)"
  by (simp_all add: redis_store_def)

text \<open>Keys of the denylist and of the permission cache never meet.\<close>

lemma deny_key_not_perms: "deny_key jti \<noteq> permsKey t p u"
  by (simp add: deny_key_def permsKey_def Let_def)

lemma deny_key_inj [simp]: "deny_key a = deny_key b \<longleftrightarrow> a = b"
  by (simp add: deny_key_def)

end
