(* ===== verification/Jwt.thy ===== *)
theory Jwt
  imports Effects Codec
begin

text \<open>
  \<^verbatim>\<open>internal/jwt/jwt.go\<close>: the tokens the service signs and how it reads them back. A payload is
  the JSON object the struct tags describe. golang-jwt is a parameter; \<open>jwt_contract\<close> states
  what its documentation says of signing, decoding, verifying and validating.
\<close>

section \<open>Claims\<close>

definition tokenUseAccess :: string where "tokenUseAccess = ''access''"
definition clockSkewLeeway :: time where "clockSkewLeeway = 60 * second"

text \<open>The registered claims are those the source reads or writes; instants are whole seconds.\<close>

record Claims =
  cl_Email :: string
  cl_TokenUse :: string
  cl_Purpose :: string
  cl_TenantID :: string
  cl_ProjectID :: string
  cl_ID :: string
  cl_Subject :: string
  cl_Issuer :: string
  cl_IssuedAt :: "int option"
  cl_ExpiresAt :: "int option"

definition no_claims :: Claims where
  "no_claims = \<lparr>cl_Email = [], cl_TokenUse = [], cl_Purpose = [], cl_TenantID = [], cl_ProjectID = [],
     cl_ID = [], cl_Subject = [], cl_Issuer = [], cl_IssuedAt = None, cl_ExpiresAt = None\<rparr>"

text \<open>\<^verbatim>\<open>NewNumericDate\<close> truncates to seconds.\<close>

definition numeric_date :: "time \<Rightarrow> int" where
  "numeric_date t = t div second"

definition claim_time :: "int \<Rightarrow> time" where
  "claim_time s = s * second"

definition omitempty :: "string \<Rightarrow> string \<Rightarrow> json_obj" where
  "omitempty name v = (if v = [] then [] else [(name, JStr v)])"

definition omitnone :: "string \<Rightarrow> int option \<Rightarrow> json_obj" where
  "omitnone name v = (case v of None \<Rightarrow> [] | Some n \<Rightarrow> [(name, JNum n)])"

definition claims_json :: "Claims \<Rightarrow> json_obj" where
  "claims_json c = [(''email'', JStr (cl_Email c))] @ omitempty ''token_use'' (cl_TokenUse c)
     @ omitempty ''purpose'' (cl_Purpose c) @ omitempty ''tenant_id'' (cl_TenantID c)
     @ omitempty ''project_id'' (cl_ProjectID c) @ omitempty ''iss'' (cl_Issuer c)
     @ omitempty ''sub'' (cl_Subject c) @ omitnone ''exp'' (cl_ExpiresAt c)
     @ omitnone ''iat'' (cl_IssuedAt c) @ omitempty ''jti'' (cl_ID c)"

text \<open>
  \<^verbatim>\<open>json.Unmarshal\<close> into the struct: absent members leave the zero value, a member of the
  wrong type is an error.
\<close>

definition str_member :: "string \<Rightarrow> json_obj \<Rightarrow> string option" where
  "str_member name obj = (case map_of obj name of
     None \<Rightarrow> Some [] | Some (JStr s) \<Rightarrow> Some s | Some (JNum _) \<Rightarrow> None)"

definition num_member :: "string \<Rightarrow> json_obj \<Rightarrow> int option option" where
  "num_member name obj = (case map_of obj name of
     None \<Rightarrow> Some None | Some (JNum n) \<Rightarrow> Some (Some n) | Some (JStr _) \<Rightarrow> None)"

definition claims_of_json :: "json_obj \<Rightarrow> Claims option" where
  "claims_of_json obj = do {
     email \<leftarrow> str_member ''email'' obj;
     use \<leftarrow> str_member ''token_use'' obj;
     purpose \<leftarrow> str_member ''purpose'' obj;
     tenant \<leftarrow> str_member ''tenant_id'' obj;
     project \<leftarrow> str_member ''project_id'' obj;
     iss \<leftarrow> str_member ''iss'' obj;
     sub \<leftarrow> str_member ''sub'' obj;
     exp \<leftarrow> num_member ''exp'' obj;
     iat \<leftarrow> num_member ''iat'' obj;
     jti \<leftarrow> str_member ''jti'' obj;
     Some \<lparr>cl_Email = email, cl_TokenUse = use, cl_Purpose = purpose, cl_TenantID = tenant,
       cl_ProjectID = project, cl_ID = jti, cl_Subject = sub, cl_Issuer = iss,
       cl_IssuedAt = iat, cl_ExpiresAt = exp\<rparr>}"

lemma map_of_omit [simp]:
  "map_of (omitempty n v) k = (if k = n \<and> v \<noteq> [] then Some (JStr v) else None)"
  "map_of (omitnone n x) k = (if k = n then map_option JNum x else None)"
  by (auto simp: omitempty_def omitnone_def split: option.splits)

text \<open>Reading a payload back gives the claims it was written from.\<close>

lemma claims_roundtrip: "claims_of_json (claims_json c) = Some c"
proof -
  have s: "str_member n (claims_json c) = Some v"
    if "map_of (claims_json c) n = (if v = [] then None else Some (JStr v))
        \<or> map_of (claims_json c) n = Some (JStr v)" for n v
    using that by (auto simp: str_member_def split: if_splits)
  have t: "num_member n (claims_json c) = Some v"
    if "map_of (claims_json c) n = map_option JNum v" for n v
    using that by (cases v) (auto simp: num_member_def)
  have "str_member ''email'' (claims_json c) = Some (cl_Email c)"
    "str_member ''token_use'' (claims_json c) = Some (cl_TokenUse c)"
    "str_member ''purpose'' (claims_json c) = Some (cl_Purpose c)"
    "str_member ''tenant_id'' (claims_json c) = Some (cl_TenantID c)"
    "str_member ''project_id'' (claims_json c) = Some (cl_ProjectID c)"
    "str_member ''iss'' (claims_json c) = Some (cl_Issuer c)"
    "str_member ''sub'' (claims_json c) = Some (cl_Subject c)"
    "str_member ''jti'' (claims_json c) = Some (cl_ID c)"
    by (rule s; simp add: claims_json_def map_add_def)+
  moreover have "num_member ''exp'' (claims_json c) = Some (cl_ExpiresAt c)"
    "num_member ''iat'' (claims_json c) = Some (cl_IssuedAt c)"
    by (rule t; simp add: claims_json_def map_add_def split: option.splits)+
  ultimately show ?thesis by (simp add: claims_of_json_def)
qed

interpretation claims: codec claims_json claims_of_json
  by unfold_locales (rule claims_roundtrip)

section \<open>The manager\<close>

record SigningKey =
  key_Kid :: string
  key_Private :: private_key

record Manager =
  j_active :: SigningKey
  j_verifiers :: "(string \<times> PublicKey) list"
  j_issuer :: string
  j_accessTTL :: time

definition NewManager :: "SigningKey \<Rightarrow> (string \<times> PublicKey) list \<Rightarrow> string \<Rightarrow> time \<Rightarrow> Manager" where
  "NewManager active verifiers issuer accessTTL =
     \<lparr>j_active = active, j_verifiers = verifiers, j_issuer = issuer, j_accessTTL = accessTTL\<rparr>"

definition sign :: "env \<Rightarrow> Manager \<Rightarrow> json_obj \<Rightarrow> (world, unit, string) prog" where
  "sign E m payload = from_option () (jwt_sign E (key_Kid (j_active m)) payload (key_Private (j_active m)))"

definition access_claims ::
  "Manager \<Rightarrow> string \<Rightarrow> time \<Rightarrow> string \<Rightarrow> string \<Rightarrow> string \<Rightarrow> string \<Rightarrow> Claims" where
  "access_claims m jti now userID email tenantID projectID =
     no_claims\<lparr>cl_Email := email, cl_TokenUse := tokenUseAccess, cl_TenantID := tenantID,
       cl_ProjectID := projectID, cl_ID := jti, cl_Subject := userID, cl_Issuer := j_issuer m,
       cl_IssuedAt := Some (numeric_date now), cl_ExpiresAt := Some (numeric_date (now + j_accessTTL m))\<rparr>"

definition Issue ::
  "env \<Rightarrow> Manager \<Rightarrow> string \<Rightarrow> string \<Rightarrow> string \<Rightarrow> string \<Rightarrow> (world, unit, string) prog" where
  "Issue E m userID email tenantID projectID = State_Monad.bind (go_now E) (\<lambda>now.
     State_Monad.bind (new_uuid E) (\<lambda>jti.
     sign E m (claims_json (access_claims m (uuid_string E jti) now userID email tenantID projectID))))"

definition mfa_claims :: "Manager \<Rightarrow> time \<Rightarrow> string \<Rightarrow> time \<Rightarrow> Claims" where
  "mfa_claims m now userID ttl =
     no_claims\<lparr>cl_Purpose := ''mfa'', cl_Subject := userID, cl_Issuer := j_issuer m,
       cl_IssuedAt := Some (numeric_date now), cl_ExpiresAt := Some (numeric_date (now + ttl))\<rparr>"

definition IssueMFA :: "env \<Rightarrow> Manager \<Rightarrow> string \<Rightarrow> time \<Rightarrow> (world, unit, string) prog" where
  "IssueMFA E m userID ttl = State_Monad.bind (go_now E) (\<lambda>now.
     sign E m (claims_json (mfa_claims m now userID ttl)))"

text \<open>An ID token is a \<^verbatim>\<open>MapClaims\<close>: its members are marshalled in the order of their names.\<close>

definition id_payload :: "Manager \<Rightarrow> time \<Rightarrow> string \<Rightarrow> string \<Rightarrow> string \<Rightarrow> string \<Rightarrow> string \<Rightarrow> json_obj" where
  "id_payload m now sub email audience nonce issuer =
     [(''aud'', JStr audience), (''email'', JStr email), (''exp'', JNum (numeric_date (now + j_accessTTL m))),
      (''iat'', JNum (numeric_date now)), (''iss'', JStr issuer)]
     @ (if nonce \<noteq> [] then [(''nonce'', JStr nonce)] else []) @ [(''sub'', JStr sub)]"

definition IssueIDToken ::
  "env \<Rightarrow> Manager \<Rightarrow> string \<Rightarrow> string \<Rightarrow> string \<Rightarrow> string \<Rightarrow> string \<Rightarrow> (world, unit, string) prog" where
  "IssueIDToken E m sub email audience nonce issuer = State_Monad.bind (go_now E) (\<lambda>now.
     sign E m (id_payload m now sub email audience nonce issuer))"

text \<open>
  Parsing decodes the token (\<^verbatim>\<open>alg\<close>, \<^verbatim>\<open>kid\<close> and payload), selects the key by \<^verbatim>\<open>kid\<close>, verifies
  the signature and validates the registered claims. A token without a \<^verbatim>\<open>kid\<close> selects \<^verbatim>\<open>""\<close>.
\<close>

definition keyfunc :: "Manager \<Rightarrow> bool \<Rightarrow> string option \<Rightarrow> PublicKey option" where
  "keyfunc m is_rsa kid =
     (if \<not> is_rsa then None
      else map_of (j_verifiers m) (case kid of None \<Rightarrow> [] | Some k \<Rightarrow> k))"

definition parse_at :: "env \<Rightarrow> Manager \<Rightarrow> time \<Rightarrow> string \<Rightarrow> Claims option" where
  "parse_at E m now token = do {
     (is_rsa, kid, payload) \<leftarrow> jwt_decode E token;
     claims \<leftarrow> claims_of_json payload;
     pub \<leftarrow> keyfunc m is_rsa kid;
     if \<not> jwt_verify E pub token then None
     else if \<not> jwt_validate E (j_issuer m) clockSkewLeeway now payload then None
     else Some claims}"

definition Parse :: "env \<Rightarrow> Manager \<Rightarrow> string \<Rightarrow> (world, unit, Claims) prog" where
  "Parse E m token = State_Monad.bind (go_now E) (\<lambda>now. from_option () (parse_at E m now token))"

definition is_access :: "Claims \<Rightarrow> bool" where
  "is_access c \<longleftrightarrow> \<not> cl_Purpose c \<noteq> [] \<and> \<not> cl_ID c = []
     \<and> \<not> (cl_TokenUse c \<noteq> [] \<and> cl_TokenUse c \<noteq> tokenUseAccess)"

definition ParseAccess :: "env \<Rightarrow> Manager \<Rightarrow> string \<Rightarrow> (world, unit, Claims) prog" where
  "ParseAccess E m token = check (Parse E m token) (\<lambda>claims.
     if cl_Purpose claims \<noteq> [] then bail ()
     else if cl_ID claims = [] then bail ()
     else if cl_TokenUse claims \<noteq> [] \<and> cl_TokenUse claims \<noteq> tokenUseAccess then bail ()
     else ok claims)"

section \<open>The library's contract\<close>

text \<open>
  A signed token decodes to its header and payload and verifies under the signing key.
  \<^verbatim>\<open>Validator\<close> with \<^verbatim>\<open>WithIssuer\<close> and \<^verbatim>\<open>WithLeeway\<close>: the expiry, when present, is not more than
  the leeway ago, and the issuer is the expected one. (\<^verbatim>\<open>iat\<close> and \<^verbatim>\<open>nbf\<close> play no part: the source
  does not ask for the first and never writes the second.)
\<close>

definition jwt_contract :: "env \<Rightarrow> bool" where
  "jwt_contract E \<longleftrightarrow>
     (\<forall>kid p k t. jwt_sign E kid p k = Some t \<longrightarrow>
        jwt_decode E t = Some (True, Some kid, p) \<and> jwt_verify E (rsa_public E k) t)
     \<and> (\<forall>iss lee now p. map_of p ''nbf'' = None \<longrightarrow> jwt_validate E iss lee now p =
          ((case map_of p ''exp'' of Some (JNum s) \<Rightarrow> now < claim_time s + lee | None \<Rightarrow> True | _ \<Rightarrow> False)
           \<and> map_of p ''iss'' = Some (JStr iss)))"

text \<open>Nobody signs without the key: a token that verifies was produced by signing with it.\<close>

definition unforgeable :: "env \<Rightarrow> bool" where
  "unforgeable E \<longleftrightarrow> (\<forall>k t. jwt_verify E (rsa_public E k) t \<longrightarrow> (\<exists>kid p. jwt_sign E kid p k = Some t))"

text \<open>The manager of a running service: its own key is among the keys it verifies with.\<close>

definition wf_manager :: "env \<Rightarrow> Manager \<Rightarrow> bool" where
  "wf_manager E m \<longleftrightarrow> map_of (j_verifiers m) (key_Kid (j_active m)) = Some (rsa_public E (key_Private (j_active m)))
     \<and> j_issuer m \<noteq> []"

section \<open>Running\<close>

lemma run_sign [run_simps]:
  "run_state (sign E m p) w =
     (case jwt_sign E (key_Kid (j_active m)) p (key_Private (j_active m)) of None \<Rightarrow> Inl () | Some t \<Rightarrow> Inr t, w)"
  by (simp add: sign_def run_from_option)

lemma run_Parse [run_simps]:
  "run_state (Parse E m t) w =
     (case parse_at E m (clock E (step w)) t of None \<Rightarrow> Inl () | Some c \<Rightarrow> Inr c, w\<lparr>step := Suc (step w)\<rparr>)"
  by (simp add: Parse_def run_from_option)

lemma run_ParseAccess [run_simps]:
  "run_state (ParseAccess E m t) w =
     (case parse_at E m (clock E (step w)) t of None \<Rightarrow> Inl ()
      | Some c \<Rightarrow> if is_access c then Inr c else Inl (), w\<lparr>step := Suc (step w)\<rparr>)"
  by (auto simp: ParseAccess_def run_Parse is_access_def split: option.splits)

lemma served_jwt [served_intros]:
  "state_io_rel (served E since) (sign E m p)"
  "state_io_rel (served E since) (Issue E m u e t pr)"
  "state_io_rel (served E since) (IssueMFA E m u ttl)"
  "state_io_rel (served E since) (IssueIDToken E m u e a n i)"
  "state_io_rel (served E since) (Parse E m tok)"
  "state_io_rel (served E since) (ParseAccess E m tok)"
  unfolding sign_def Issue_def IssueMFA_def IssueIDToken_def Parse_def ParseAccess_def
  by (intro served_intros)+

section \<open>What a parsed token says\<close>

lemma jwt_contract_sign:
  "jwt_contract E \<Longrightarrow> jwt_sign E kid p k = Some t \<Longrightarrow>
   jwt_decode E t = Some (True, Some kid, p) \<and> jwt_verify E (rsa_public E k) t"
  by (simp add: jwt_contract_def)

text \<open>A token signed by the manager parses to its payload until the leeway after its expiry.\<close>

lemma parse_signed:
  assumes "jwt_contract E" "wf_manager E m"
    and "jwt_sign E (key_Kid (j_active m)) p (key_Private (j_active m)) = Some t"
  shows "parse_at E m now t =
    (if jwt_validate E (j_issuer m) clockSkewLeeway now p then claims_of_json p else None)"
  using jwt_contract_sign [OF assms(1,3)] assms(2)
  by (cases "claims_of_json p") (auto simp: parse_at_def keyfunc_def wf_manager_def)

lemma validate_claims:
  assumes "jwt_contract E"
  shows "jwt_validate E iss lee now (claims_json c) \<longleftrightarrow>
    (case cl_ExpiresAt c of None \<Rightarrow> True | Some s \<Rightarrow> now < claim_time s + lee)
    \<and> (cl_Issuer c = iss \<and> cl_Issuer c \<noteq> [])"
proof -
  have "map_of (claims_json c) ''nbf'' = None"
    "map_of (claims_json c) ''exp'' = map_option JNum (cl_ExpiresAt c)"
    "map_of (claims_json c) ''iss'' = (if cl_Issuer c = [] then None else Some (JStr (cl_Issuer c)))"
    by (simp_all add: claims_json_def map_add_def split: option.splits)
  then show ?thesis using assms by (auto simp: jwt_contract_def split: option.splits)
qed

lemma id_payload_claims: "claims_of_json (id_payload m now sub email aud nonce iss) =
    Some (no_claims\<lparr>cl_Email := email, cl_Subject := sub, cl_Issuer := iss,
      cl_IssuedAt := Some (numeric_date now), cl_ExpiresAt := Some (numeric_date (now + j_accessTTL m))\<rparr>)"
  by (simp add: id_payload_def claims_of_json_def str_member_def num_member_def no_claims_def)

end
