(* ===== verification/Password.thy ===== *)
theory Password
  imports Effects Codec
begin

text \<open>
  \<^verbatim>\<open>internal/password/password.go\<close>: Argon2id hashes in PHC format. Argon2id is a parameter; the
  format, its parser (\<^verbatim>\<open>strings.Split\<close>, \<^verbatim>\<open>fmt.Sscanf\<close> of decimal verbs into \<^verbatim>\<open>int\<close>, \<^verbatim>\<open>uint32\<close> and
  \<^verbatim>\<open>uint8\<close>, base64) and the comparison are modelled.
\<close>

definition argonVersion :: int where "argonVersion = 19"
definition argonMemory :: int where "argonMemory = 19456"
definition argonTime :: int where "argonTime = 2"
definition argonThreads :: int where "argonThreads = 1"
definition argonKeyLen :: nat where "argonKeyLen = 32"
definition argonSaltLen :: nat where "argonSaltLen = 16"

lemmas argon_defs = argonVersion_def argonMemory_def argonTime_def argonThreads_def
  argonKeyLen_def argonSaltLen_def

section \<open>Decimal numbers\<close>

definition decimal_digits :: string where "decimal_digits = ''0123456789''"

fun decimal :: "nat \<Rightarrow> string" where
  "decimal n = (if n < 10 then [decimal_digits ! n] else decimal (n div 10) @ [decimal_digits ! (n mod 10)])"

declare decimal.simps [simp del]

text \<open>The longest run of digits at the head of a text, and its value.\<close>

definition is_digit :: "char \<Rightarrow> bool" where "is_digit c \<longleftrightarrow> c \<in> set decimal_digits"

definition digits_value :: "string \<Rightarrow> nat" where
  "digits_value s = foldl (\<lambda>n c. 10 * n + (byte_val c - 48)) 0 s"

lemma decimal_digits: "set (decimal n) \<subseteq> set decimal_digits \<and> decimal n \<noteq> []"
proof (induction n rule: decimal.induct)
  case (1 n)
  have "decimal_digits ! k \<in> set decimal_digits" if "k < 10" for k
    using that by (intro nth_mem) (simp add: decimal_digits_def)
  with 1 show ?case by (subst (1 2) decimal.simps) auto
qed

lemma digit_value: "k < 10 \<Longrightarrow> byte_val (decimal_digits ! k) - 48 = k"
proof -
  assume "k < 10"
  then have "k \<in> set [0..<10]" by simp
  moreover have "\<forall>k \<in> set [0..<10]. byte_val (decimal_digits ! k) - 48 = k"
    by (simp add: decimal_digits_def upt_rec)
  ultimately show ?thesis by blast
qed

lemma digits_value_decimal: "digits_value (decimal n) = n"
proof (induction n rule: decimal.induct)
  case (1 n)
  show ?case
  proof (cases "n < 10")
    case True
    then show ?thesis by (subst decimal.simps) (simp add: digits_value_def digit_value)
  next
    case False
    then show ?thesis using 1 digit_value [of "n mod 10"]
      by (subst decimal.simps) (simp add: digits_value_def)
  qed
qed

interpretation decimal: codec decimal "\<lambda>s. Some (digits_value s)"
  by unfold_locales (simp add: digits_value_decimal)

text \<open>
  \<^verbatim>\<open>%d\<close> of \<^verbatim>\<open>fmt.Sscanf\<close> into an integer of \<open>bits\<close> bits: blanks are skipped, and a value out of
  range is an error.
  For a signed target (\<^verbatim>\<open>int\<close>) a sign may precede the digits. The result is the value and the
  rest of the text.
\<close>

definition scan_nat :: "string \<Rightarrow> (nat \<times> string) option" where
  "scan_nat s = (case takeWhile is_digit s of [] \<Rightarrow> None
     | ds \<Rightarrow> Some (digits_value ds, dropWhile is_digit s))"

definition blank :: "char \<Rightarrow> bool" where
  "blank c \<longleftrightarrow> c = CHR '' '' \<or> c \<in> {CHR 0x09, CHR 0x0B, CHR 0x0C, CHR 0x0D}"

definition scan_uint :: "nat \<Rightarrow> string \<Rightarrow> (int \<times> string) option" where
  "scan_uint bits s = (case scan_nat (dropWhile blank s) of None \<Rightarrow> None
     | Some (n, r) \<Rightarrow> if n < 2 ^ bits then Some (int n, r) else None)"

definition scan_int :: "string \<Rightarrow> (int \<times> string) option" where
  "scan_int s = (case dropWhile blank s of
       [] \<Rightarrow> None
     | c # r \<Rightarrow>
         if c = CHR ''-'' then
           (case scan_nat r of None \<Rightarrow> None | Some (n, r') \<Rightarrow> if n \<le> 2 ^ 63 then Some (- int n, r') else None)
         else if c = CHR ''+'' then
           (case scan_nat r of None \<Rightarrow> None | Some (n, r') \<Rightarrow> if n < 2 ^ 63 then Some (int n, r') else None)
         else
           (case scan_nat (c # r) of None \<Rightarrow> None | Some (n, r') \<Rightarrow> if n < 2 ^ 63 then Some (int n, r') else None))"

text \<open>A literal of the format must be next in the text; what follows the last verb is not read.\<close>

fun scan_lit :: "string \<Rightarrow> string \<Rightarrow> string option" where
  "scan_lit [] s = Some s"
| "scan_lit (l # ls) (c # s) = (if l = c then scan_lit ls s else None)"
| "scan_lit (l # ls) [] = None"

definition scan_version :: "string \<Rightarrow> int option" where
  "scan_version s = do { r \<leftarrow> scan_lit ''v='' s; (v, _) \<leftarrow> scan_int r; Some v }"

definition scan_params :: "string \<Rightarrow> (int \<times> int \<times> int) option" where
  "scan_params s = do {
     r \<leftarrow> scan_lit ''m='' s; (m, r) \<leftarrow> scan_uint 32 r;
     r \<leftarrow> scan_lit '',t='' r; (t, r) \<leftarrow> scan_uint 32 r;
     r \<leftarrow> scan_lit '',p='' r; (p, _) \<leftarrow> scan_uint 8 r;
     Some (m, t, p) }"

section \<open>Splitting\<close>

fun split_on :: "char \<Rightarrow> string \<Rightarrow> string list" where
  "split_on c [] = [[]]"
| "split_on c (x # s) = (if x = c then [] # split_on c s
     else (case split_on c s of [] \<Rightarrow> [[x]] | p # ps \<Rightarrow> (x # p) # ps))"

lemma split_on_part: "c \<notin> set s \<Longrightarrow> split_on c s = [s]"
  by (induction s) auto

lemma split_on_join: "c \<notin> set s \<Longrightarrow> split_on c (s @ c # r) = s # split_on c r"
  by (induction s) auto

section \<open>Hash and Verify\<close>

definition phc :: "bytes \<Rightarrow> bytes \<Rightarrow> string" where
  "phc salt key = ''$argon2id$v='' @ decimal (nat argonVersion) @ ''$m='' @ decimal (nat argonMemory)
     @ '',t='' @ decimal (nat argonTime) @ '',p='' @ decimal (nat argonThreads)
     @ ''$'' @ b64_raw_std_encode salt @ ''$'' @ b64_raw_std_encode key"

definition Hash :: "env \<Rightarrow> string \<Rightarrow> (world, unit, string) prog" where
  "Hash E plain = check (rand_read E argonSaltLen) (\<lambda>salt.
     ok (phc salt (argon2 E plain salt argonTime argonMemory argonThreads argonKeyLen)))"

definition Verify :: "env \<Rightarrow> string \<Rightarrow> string \<Rightarrow> bool" where
  "Verify E encoded plain =
     (case split_on (CHR ''$'') encoded of
        [_, alg, ver, params, salt_text, hash_text] \<Rightarrow>
          if alg \<noteq> ''argon2id'' then False
          else if scan_version ver \<noteq> Some argonVersion then False
          else (case scan_params params of None \<Rightarrow> False
          | Some (m, t, p) \<Rightarrow>
              (case b64_raw_decode b64_std_alphabet salt_text of None \<Rightarrow> False
               | Some salt \<Rightarrow>
                   (case b64_raw_decode b64_std_alphabet hash_text of None \<Rightarrow> False
                    | Some want \<Rightarrow> argon2 E plain salt t m p (length want) = want)))
      | _ \<Rightarrow> False)"

section \<open>Round trip\<close>

lemma takeWhile_digits:
  assumes "set ds \<subseteq> set decimal_digits" and "r = [] \<or> \<not> is_digit (hd r)"
  shows "takeWhile is_digit (ds @ r) = ds" "dropWhile is_digit (ds @ r) = r"
proof -
  have all: "\<forall>c \<in> set ds. is_digit c" using assms(1) by (auto simp: is_digit_def)
  show "takeWhile is_digit (ds @ r) = ds"
    using assms(2) all by (cases r) (auto simp: takeWhile_append)
  show "dropWhile is_digit (ds @ r) = r"
    using assms(2) all by (cases r) (auto simp: dropWhile_append)
qed

lemma scan_nat_decimal:
  "r = [] \<or> \<not> is_digit (hd r) \<Longrightarrow> scan_nat (decimal n @ r) = Some (n, r)"
  using decimal_digits [of n] takeWhile_digits [of "decimal n" r] digits_value_decimal [of n]
  by (auto simp: scan_nat_def split: list.splits simp del: takeWhile_append dropWhile_append)

lemma decimal_head:
  obtains c r where "decimal n = c # r" "\<not> blank c" "c \<noteq> CHR ''-''" "c \<noteq> CHR ''+''"
proof -
  obtain c r where d: "decimal n = c # r" using decimal_digits [of n] by (cases "decimal n") auto
  with decimal_digits [of n] have "c \<in> set decimal_digits" by auto
  then have "\<not> blank c \<and> c \<noteq> CHR ''-'' \<and> c \<noteq> CHR ''+''" by (auto simp: decimal_digits_def blank_def)
  with d that show ?thesis by blast
qed

lemma scan_uint_decimal:
  assumes "r = [] \<or> \<not> is_digit (hd r)" and "n < 2 ^ bits"
  shows "scan_uint bits (decimal n @ r) = Some (int n, r)"
proof -
  obtain c ds where "decimal n = c # ds" "\<not> blank c" using decimal_head by blast
  then have "dropWhile blank (decimal n @ r) = decimal n @ r" by simp
  with assms scan_nat_decimal [OF assms(1)] show ?thesis by (simp add: scan_uint_def)
qed

lemma scan_int_decimal:
  assumes "r = [] \<or> \<not> is_digit (hd r)" and "n < 2 ^ 63"
  shows "scan_int (decimal n @ r) = Some (int n, r)"
proof -
  obtain c ds where d: "decimal n = c # ds" "\<not> blank c" "c \<noteq> CHR ''-''" "c \<noteq> CHR ''+''"
    using decimal_head by blast
  with scan_nat_decimal [OF assms(1), of n] assms(2) show ?thesis by (simp add: scan_int_def)
qed

lemma scan_params_phc:
  "scan_params (''m='' @ decimal (nat argonMemory) @ '',t='' @ decimal (nat argonTime) @ '',p='' @ decimal (nat argonThreads))
    = Some (argonMemory, argonTime, argonThreads)"
proof -
  have nd: "\<not> is_digit (CHR '','')" by (simp add: is_digit_def decimal_digits_def)
  have "scan_uint 32 (decimal (nat argonMemory) @ '',t='' @ decimal (nat argonTime) @ '',p='' @ decimal (nat argonThreads))
      = Some (argonMemory, '',t='' @ decimal (nat argonTime) @ '',p='' @ decimal (nat argonThreads))"
    by (subst scan_uint_decimal) (simp_all add: nd argon_defs)
  moreover have "scan_uint 32 (decimal (nat argonTime) @ '',p='' @ decimal (nat argonThreads))
      = Some (argonTime, '',p='' @ decimal (nat argonThreads))"
    by (subst scan_uint_decimal) (simp_all add: nd argon_defs)
  moreover have "scan_uint 8 (decimal (nat argonThreads)) = Some (argonThreads, [])"
    using scan_uint_decimal [of "[]" "nat argonThreads" 8] by (simp add: argon_defs)
  ultimately show ?thesis by (simp add: scan_params_def)
qed

lemma dollar_free: "CHR ''$'' \<notin> set (decimal n)" "CHR ''$'' \<notin> set (b64_raw_std_encode bs)"
  using decimal_digits [of n] b64_encode_alphabet [of b64_std_alphabet bs] b64_alphabet_facts
  by (auto simp: decimal_digits_def b64_raw_std_encode_def)

text \<open>What \<open>Verify\<close> computes on a hash that \<open>Hash\<close> produced.\<close>

lemma Verify_phc:
  "Verify E (phc salt key) plain \<longleftrightarrow>
     argon2 E plain salt argonTime argonMemory argonThreads (length key) = key"
proof -
  define params where "params = ''m='' @ decimal (nat argonMemory) @ '',t='' @ decimal (nat argonTime)
     @ '',p='' @ decimal (nat argonThreads)"
  define ver where "ver = ''v='' @ decimal (nat argonVersion)"
  have shape: "phc salt key = [] @ CHR ''$'' # ''argon2id'' @ CHR ''$'' # ver @ CHR ''$'' # params
      @ CHR ''$'' # b64_raw_std_encode salt @ CHR ''$'' # b64_raw_std_encode key"
    by (simp add: phc_def params_def ver_def)
  have free: "CHR ''$'' \<notin> set params" "CHR ''$'' \<notin> set ver"
    using dollar_free(1) by (auto simp: params_def ver_def)
  have "split_on (CHR ''$'') (phc salt key) =
      [[], ''argon2id'', ver, params, b64_raw_std_encode salt, b64_raw_std_encode key]"
    unfolding shape
    by (subst split_on_join, simp)
       (simp add: split_on_join [of _ "''argon2id''", simplified] split_on_join split_on_part free dollar_free)
  moreover have "scan_version ver = Some argonVersion"
    using scan_int_decimal [of "[]" "nat argonVersion"] by (simp add: scan_version_def ver_def argon_defs)
  moreover have "scan_params params = Some (argonMemory, argonTime, argonThreads)"
    unfolding params_def by (rule scan_params_phc)
  ultimately show ?thesis by (simp add: Verify_def b64_raw_std.decode_encode)
qed

text \<open>\<^verbatim>\<open>argon2.IDKey\<close> returns a key of the length asked for.\<close>

definition argon2_length :: "env \<Rightarrow> bool" where
  "argon2_length E \<longleftrightarrow> (\<forall>plain salt t m p n. length (argon2 E plain salt t m p n) = n)"

lemma served_Hash [served_intros]: "state_io_rel (served E since) (Hash E plain)"
  unfolding Hash_def by (intro served_intros)

lemma run_Hash [run_simps]:
  "run_state (Hash E plain) w = (case rand E (step w) argonSaltLen of None \<Rightarrow> Inl ()
      | Some salt \<Rightarrow> Inr (phc salt (argon2 E plain salt argonTime argonMemory argonThreads argonKeyLen)),
      w\<lparr>step := Suc (step w)\<rparr>)"
  by (simp add: Hash_def split: option.splits)

end
