(* ===== verification/TotpSecret.thy ===== *)
theory TotpSecret
  imports Effects Codec
begin

text \<open>
  \<^verbatim>\<open>internal/totpsecret/totpsecret.go\<close>: encryption of TOTP secrets at rest, and
  \<^verbatim>\<open>internal/totp/totp.go\<close>: recovery codes. AES-256-GCM (\<open>gcm_seal\<close>, \<open>gcm_open\<close>), SHA-256 and
  the TOTP library are parameters.
\<close>

section \<open>Encryptor\<close>

definition prefix :: string where "prefix = ''enc:v1:''"

text \<open>An encryptor holds the AES key, or none (passthrough). \<^verbatim>\<open>gcm.NonceSize()\<close> is 12.\<close>

record Encryptor =
  e_gcm :: "bytes option"

definition NonceSize :: nat where "NonceSize = 12"

definition deriveKey :: "env \<Rightarrow> string \<Rightarrow> bytes" where
  "deriveKey E key = (case b64_std_decode key of
     Some b \<Rightarrow> if length b = 32 then b else sha256 E key
   | None \<Rightarrow> sha256 E key)"

text \<open>\<^verbatim>\<open>aes.NewCipher\<close> fails unless the key has 16, 24 or 32 bytes.\<close>

definition Encryptor_New :: "env \<Rightarrow> string \<Rightarrow> Encryptor option" where
  "Encryptor_New E key =
     (if key = [] then Some \<lparr>e_gcm = None\<rparr>
      else if length (deriveKey E key) \<notin> {16, 24, 32} then None
      else Some \<lparr>e_gcm = Some (deriveKey E key)\<rparr>)"

definition Encryptor_Enabled :: "Encryptor \<Rightarrow> bool" where
  "Encryptor_Enabled e \<longleftrightarrow> e_gcm e \<noteq> None"

definition Encrypt :: "env \<Rightarrow> Encryptor \<Rightarrow> string \<Rightarrow> (world, unit, string) prog" where
  "Encrypt E e plaintext =
     (case e_gcm e of
        None \<Rightarrow> ok plaintext
      | Some k \<Rightarrow> check (rand_read E NonceSize) (\<lambda>nonce.
          ok (prefix @ b64_std_encode (nonce @ gcm_seal E k nonce plaintext))))"

definition has_prefix :: "string \<Rightarrow> string \<Rightarrow> bool" where
  "has_prefix s p \<longleftrightarrow> take (length p) s = p"

datatype decrypt_error = KeyNotSet | BadEncoding | TooShort | OpenFailed

definition Decrypt :: "env \<Rightarrow> Encryptor \<Rightarrow> string \<Rightarrow> decrypt_error + string" where
  "Decrypt E e stored =
     (if \<not> has_prefix stored prefix then Inr stored
      else case e_gcm e of
        None \<Rightarrow> Inl KeyNotSet
      | Some k \<Rightarrow>
          (case b64_std_decode (drop (length prefix) stored) of
             None \<Rightarrow> Inl BadEncoding
           | Some raw \<Rightarrow>
               if length raw < NonceSize then Inl TooShort
               else (case gcm_open E k (take NonceSize raw) (drop NonceSize raw) of
                       None \<Rightarrow> Inl OpenFailed
                     | Some pt \<Rightarrow> Inr pt)))"

text \<open>What AES-GCM promises, and that the random source fills the buffer it is given.\<close>

definition gcm_contract :: "env \<Rightarrow> bool" where
  "gcm_contract E \<longleftrightarrow> (\<forall>k nonce pt. gcm_open E k nonce (gcm_seal E k nonce pt) = Some pt)"

definition rand_contract :: "env \<Rightarrow> bool" where
  "rand_contract E \<longleftrightarrow> (\<forall>n k b. rand E n k = Some b \<longrightarrow> length b = k)"

lemma run_Encrypt [run_simps]:
  "run_state (Encrypt E e pt) w = (case e_gcm e of None \<Rightarrow> (Inr pt, w)
     | Some k \<Rightarrow> (case rand E (step w) NonceSize of None \<Rightarrow> Inl ()
         | Some nonce \<Rightarrow> Inr (prefix @ b64_std_encode (nonce @ gcm_seal E k nonce pt)), w\<lparr>step := Suc (step w)\<rparr>))"
  by (simp add: Encrypt_def split: option.splits)

lemma has_prefix_append [simp]: "has_prefix (p @ s) p"
  by (simp add: has_prefix_def)

text \<open>Decrypting what the encryptor stored; the passthrough stores a secret that has no prefix as it is.\<close>

lemma decrypt_encrypt:
  assumes "gcm_contract E" "rand_contract E" "e_gcm e = None \<longrightarrow> \<not> has_prefix pt prefix"
    and "run_state (Encrypt E e pt) w = (Inr stored, w')"
  shows "Decrypt E e stored = Inr pt"
proof (cases "e_gcm e")
  case None
  then show ?thesis using assms by (simp add: run_Encrypt Decrypt_def)
next
  case (Some k)
  with assms(4) obtain nonce where n: "rand E (step w) NonceSize = Some nonce"
    "stored = prefix @ b64_std_encode (nonce @ gcm_seal E k nonce pt)"
    by (auto simp: run_Encrypt split: option.splits)
  with assms(2) have "length nonce = NonceSize" by (auto simp: rand_contract_def)
  with n Some assms(1) show ?thesis
    by (simp add: Decrypt_def b64_std.decode_encode gcm_contract_def)
qed

section \<open>Recovery codes\<close>

definition recovery_alphabet :: string where
  "recovery_alphabet = ''abcdefghjkmnpqrstuvwxyz23456789''"

definition recovery_code :: "bytes \<Rightarrow> string" where
  "recovery_code buf =
     (let out = map (\<lambda>b. recovery_alphabet ! (byte_val b mod length recovery_alphabet)) buf
      in take 4 out @ ''-'' @ drop 4 out)"

fun GenerateRecoveryCodes :: "env \<Rightarrow> nat \<Rightarrow> (world, unit, string list) prog" where
  "GenerateRecoveryCodes E 0 = ok []"
| "GenerateRecoveryCodes E (Suc n) =
     check (rand_read E 8) (\<lambda>buf.
     check (GenerateRecoveryCodes E n) (\<lambda>codes. ok (recovery_code buf # codes)))"

text \<open>\<^verbatim>\<open>totp.Generate\<close> gives the secret and its provisioning URI.\<close>

definition totpIssuer :: string where "totpIssuer = ''IAM''"

definition totp_Generate :: "env \<Rightarrow> string \<Rightarrow> (world, unit, string \<times> string) prog" where
  "totp_Generate E account = State (\<lambda>w. (case totp_generate E (step w) totpIssuer account of
     None \<Rightarrow> Inl () | Some x \<Rightarrow> Inr x, w\<lparr>step := Suc (step w)\<rparr>))"

text \<open>\<^verbatim>\<open>totp.Validate\<close> compares with the code of the current time.\<close>

definition totp_Validate :: "env \<Rightarrow> string \<Rightarrow> string \<Rightarrow> (world, bool) state" where
  "totp_Validate E code secret = State_Monad.bind (go_now E) (\<lambda>now.
     State_Monad.return (totp_validate E now code secret))"

lemma run_totp_Validate [run_simps]:
  "run_state (totp_Validate E code secret) w = (totp_validate E (clock E (step w)) code secret, w\<lparr>step := Suc (step w)\<rparr>)"
  by (simp add: totp_Validate_def)

lemma served_step: "state_io_rel (served E since) (State (\<lambda>w. (f w, w\<lparr>step := Suc (step w)\<rparr>)))"
  by (rule served_of_path) (auto intro!: state_io_relI path.same_db_effect simp: idle_def)

lemma served_totp [served_intros]:
  "state_io_rel (served E since) (Encrypt E e pt)"
  "state_io_rel (served E since) (GenerateRecoveryCodes E n)"
  "state_io_rel (served E since) (totp_Generate E acc)"
  "state_io_rel (served E since) (totp_Validate E c s)"
proof -
  show "state_io_rel (served E since) (Encrypt E e pt)"
    unfolding Encrypt_def by (intro served_intros)
  show "state_io_rel (served E since) (GenerateRecoveryCodes E n)"
    by (induction n) (auto intro!: served_intros)
  show "state_io_rel (served E since) (totp_Generate E acc)"
    unfolding totp_Generate_def by (rule served_step)
  show "state_io_rel (served E since) (totp_Validate E c s)"
    unfolding totp_Validate_def by (intro served_intros)
qed

text \<open>Every generated code has the form \<^verbatim>\<open>xxxx-xxxx\<close> over the alphabet.\<close>

definition code_format :: "string \<Rightarrow> bool" where
  "code_format s \<longleftrightarrow> length s = 9 \<and> s ! 4 = CHR ''-''
     \<and> set (take 4 s) \<subseteq> set recovery_alphabet \<and> set (drop 5 s) \<subseteq> set recovery_alphabet"

lemma recovery_code_format: "length buf = 8 \<Longrightarrow> code_format (recovery_code buf)"
proof -
  assume len: "length buf = 8"
  let ?out = "map (\<lambda>b. recovery_alphabet ! (byte_val b mod length recovery_alphabet)) buf"
  have "set ?out \<subseteq> set recovery_alphabet"
    by (auto intro!: nth_mem) (simp add: recovery_alphabet_def)
  then have "set (take 4 ?out) \<subseteq> set recovery_alphabet" "set (drop 4 ?out) \<subseteq> set recovery_alphabet"
    using set_take_subset set_drop_subset by fast+
  then show ?thesis using len
    by (simp add: code_format_def recovery_code_def Let_def nth_append)
qed

lemma GenerateRecoveryCodes_format:
  assumes "rand_contract E" and "run_state (GenerateRecoveryCodes E n) w = (Inr codes, w')"
  shows "length codes = n \<and> (\<forall>c \<in> set codes. code_format c)"
  using assms(2)
proof (induction n arbitrary: w codes w')
  case (Suc n)
  from Suc.prems obtain buf cs where r: "rand E (step w) 8 = Some buf" "codes = recovery_code buf # cs"
    and rest: "run_state (GenerateRecoveryCodes E n) (w\<lparr>step := Suc (step w)\<rparr>) = (Inr cs, w')"
    by (auto split: option.splits prod.splits sum.splits)
  with assms(1) Suc.IH [OF rest] show ?case
    by (auto simp: rand_contract_def intro: recovery_code_format)
qed simp

end
