(* ===== verification/Common.thy ===== *)
theory Common
  imports Cache Jwt Password TotpSecret
begin

text \<open>
  The handler object and the helpers every handler shares: \<^verbatim>\<open>AuthHandler\<close>, \<^verbatim>\<open>requirePerm\<close>, the
  audit trail, the caller's identity and tenant, token generation and \<^verbatim>\<open>issueTokens\<close> of
  \<^verbatim>\<open>internal/handler/auth.go\<close>, \<^verbatim>\<open>tenant.go\<close> and \<^verbatim>\<open>m4.go\<close>, and the mail sender of
  \<^verbatim>\<open>internal/email/email.go\<close>.
\<close>

section \<open>The handler\<close>

record AuthHandler =
  h_jwt :: Manager
  h_refreshTTL :: time
  h_dummyHash :: string
  h_cache :: Cache
  h_totpEnc :: Encryptor

type_synonym 'a handler = "(world, status, 'a) prog"

definition Handler_New :: "env \<Rightarrow> Manager \<Rightarrow> time \<Rightarrow> Cache \<Rightarrow> Encryptor \<Rightarrow> (world, AuthHandler) state" where
  "Handler_New E jwtMgr refreshTTL c totpEnc =
     State_Monad.bind (Hash E ''constant-time-dummy-password'') (\<lambda>dummy.
     State_Monad.return \<lparr>h_jwt = jwtMgr, h_refreshTTL = refreshTTL,
       h_dummyHash = (case dummy of Inl _ \<Rightarrow> [] | Inr d \<Rightarrow> d), h_cache = c, h_totpEnc = totpEnc\<rparr>)"

definition Send :: "env \<Rightarrow> string \<Rightarrow> string \<Rightarrow> string \<Rightarrow> (world, unit) state" where
  "Send E to subject body =
     (if IsProduction E then emit (MailSuppressed to subject) else emit (MailLogged to subject body))"

section \<open>The caller\<close>

definition requirePerm :: "identity \<Rightarrow> string \<Rightarrow> unit handler" where
  "requirePerm ctx perm =
     (if id_HasPermission ctx perm then ok () else bail (Status PermissionDenied (''permission denied: '' @ perm)))"

definition activeTenant :: "env \<Rightarrow> identity \<Rightarrow> status + uuid" where
  "activeTenant E ctx =
     (if id_TenantID ctx = [] then Inl (Status FailedPrecondition ''no active tenant on token'')
      else case uuid_parse E (id_TenantID ctx) of
        None \<Rightarrow> Inl (Status Internal ''invalid active tenant'')
      | Some t \<Rightarrow> Inr t)"

definition of_sum :: "'e + 'a \<Rightarrow> ('s, 'e, 'a) prog" where
  "of_sum r = State_Monad.return r"

definition callerID :: "env \<Rightarrow> identity \<Rightarrow> status + uuid" where
  "callerID E ctx = (case uuid_parse E (id_UserID ctx) of
     None \<Rightarrow> Inl (Status Unauthenticated ''missing or invalid caller identity'')
   | Some uid \<Rightarrow> Inr uid)"

definition pgTenant :: "uuid \<Rightarrow> uuid option" where
  "pgTenant t = Some t"

definition parseOptionalUUID :: "env \<Rightarrow> string \<Rightarrow> uuid option" where
  "parseOptionalUUID E s = (if s = [] then None else uuid_parse E s)"

text \<open>A named project must belong to the tenant, in \<^verbatim>\<open>SwitchTenant\<close> and in \<^verbatim>\<open>validateAssign\<close>.\<close>

definition project_in_tenant :: "env \<Rightarrow> string \<Rightarrow> uuid \<Rightarrow> unit handler" where
  "project_in_tenant E project_id tid =
     (if project_id = [] then ok ()
      else case uuid_parse E project_id of
        None \<Rightarrow> bail (Status InvalidArgument ''invalid project id'')
      | Some pid \<Rightarrow>
          or_return (exec E (sql_IsProjectInTenant pid tid))
            (Status InvalidArgument ''project does not belong to this tenant'') (\<lambda>found.
          if \<not> found then bail (Status InvalidArgument ''project does not belong to this tenant'') else ok ()))"

section \<open>Audit trail\<close>

definition auditTenant :: "env \<Rightarrow> identity \<Rightarrow> uuid option" where
  "auditTenant E ctx = (case activeTenant E ctx of Inl _ \<Rightarrow> None | Inr t \<Rightarrow> pgTenant t)"

definition auditAs ::
  "env \<Rightarrow> identity \<Rightarrow> string \<Rightarrow> string \<Rightarrow> string \<Rightarrow> string \<Rightarrow> string \<Rightarrow> (world, unit) state" where
  "auditAs E ctx actorID actorEmail action target detail =
     (if \<not> AuditEnabled E then skip
      else ignoring (exec E (sql_InsertAuditEvent actorID actorEmail action target detail (auditTenant E ctx))) skip)"

definition audit :: "env \<Rightarrow> identity \<Rightarrow> string \<Rightarrow> string \<Rightarrow> string \<Rightarrow> (world, unit) state" where
  "audit E ctx action target detail = auditAs E ctx (id_UserID ctx) (id_Email ctx) action target detail"

section \<open>Roles and names\<close>

definition defaultRole :: string where "defaultRole = ''user''"

text \<open>\<^verbatim>\<open>00000000-0000-0000-0000-000000000001\<close>\<close>

definition defaultTenantUUID :: uuid where "defaultTenantUUID = 1"

definition isBuiltinRole :: "string \<Rightarrow> bool" where
  "isBuiltinRole name \<longleftrightarrow> name = ''admin'' \<or> name = ''user''"

definition displayFromEmail :: "string \<Rightarrow> string" where
  "displayFromEmail emailAddr =
     (let i = length (takeWhile (\<lambda>c. c \<noteq> CHR ''@'') emailAddr)
      in if 0 < i \<and> i < length emailAddr then take i emailAddr else emailAddr)"

section \<open>Issuing tokens\<close>

definition newRefreshToken :: "env \<Rightarrow> (world, unit, string) prog" where
  "newRefreshToken E = check (rand_read E 32) (\<lambda>b. ok (hex_encode b))"

record TokenPair =
  tp_AccessToken :: string
  tp_RefreshToken :: string
  tp_ExpiresIn :: int
  tp_TokenType :: string
  tp_MfaRequired :: bool
  tp_MfaToken :: string

text \<open>\<^verbatim>\<open>int64(d.Seconds())\<close> truncates towards zero.\<close>

definition whole_seconds :: "time \<Rightarrow> int" where
  "whole_seconds d = (if d \<ge> 0 then d div second else - ((- d) div second))"

definition issueTokens ::
  "env \<Rightarrow> AuthHandler \<Rightarrow> uuid \<Rightarrow> string \<Rightarrow> uuid \<Rightarrow> uuid option \<Rightarrow> TokenPair handler" where
  "issueTokens E h userID email tenantID projectID =
     or_return (Issue E (h_jwt h) (uuid_string E userID) email (uuid_string E tenantID)
          (case projectID of None \<Rightarrow> [] | Some p \<Rightarrow> uuid_string E p))
       (Status Internal ''failed to sign token'') (\<lambda>access.
     or_return (newRefreshToken E) (Status Internal ''failed to generate refresh token'') (\<lambda>refresh.
     State_Monad.bind (go_now E) (\<lambda>now.
     or_return (exec E (sql_CreateRefreshToken userID (hashToken E refresh) (now + h_refreshTTL h) tenantID projectID))
       (Status Internal ''failed to persist refresh token'') (\<lambda>_.
     ok \<lparr>tp_AccessToken = access, tp_RefreshToken = refresh,
         tp_ExpiresIn = whole_seconds (j_accessTTL (h_jwt h)), tp_TokenType = ''Bearer'',
         tp_MfaRequired = False, tp_MfaToken = []\<rparr>))))"

definition issueForActiveTenant :: "env \<Rightarrow> AuthHandler \<Rightarrow> uuid \<Rightarrow> string \<Rightarrow> TokenPair handler" where
  "issueForActiveTenant E h userID email =
     or_return (exec E (sql_ListMembershipsByUser userID)) (Status Internal ''failed to load memberships'')
       (\<lambda>members. case members of
          [] \<Rightarrow> bail (Status PermissionDenied ''user has no tenant membership'')
        | (t, _) # _ \<Rightarrow> issueTokens E h userID email (t_ID t) None)"

section \<open>Effects\<close>

lemma served_of_sum [served_intros]: "state_io_rel (served E since) (of_sum r)"
  by (simp add: of_sum_def served.return_effect)

lemma served_list [served_intros]:
  "state_io_rel (served E since) m \<Longrightarrow> (\<And>x xs. l = x # xs \<Longrightarrow> state_io_rel (served E since) (k x xs)) \<Longrightarrow>
   state_io_rel (served E since) (case l of [] \<Rightarrow> m | x # xs \<Rightarrow> k x xs)"
  by (cases l) simp_all

lemma newRefreshToken_mintable:
  "run_state (newRefreshToken E) w = (Inr t, w') \<Longrightarrow> since \<le> step w \<Longrightarrow> mintable E since (hashToken E t)"
  by (auto simp: newRefreshToken_def mintable_def split: option.splits)

text \<open>After random bytes were drawn, what may be stored depends on them.\<close>

lemma served_drawing:
  assumes "\<And>n b. since \<le> n \<Longrightarrow> rand E n k = Some b \<Longrightarrow> state_io_rel (served E since) (m (hex_encode b))"
  shows "state_io_rel (served E since) (or_return (check (rand_read E k) (\<lambda>b. ok (hex_encode b))) e m)"
proof (rule state_io_relI)
  fix r w w'
  let ?draw = "check (rand_read E k) (\<lambda>b. ok (hex_encode b)) :: (world, unit, string) prog"
  assume run: "run_state (or_return ?draw e m) w = (r, w')"
  obtain x v where drawn: "run_state ?draw w = (x, v)" by fastforce
  have "state_io_rel (served E since) ?draw" by (intro served_intros)
  with drawn have wv: "served E since w v" by (auto simp: state_io_rel_def dest: spec [of _ w])
  show "served E since w w'"
  proof (cases x)
    case (Inl u)
    with run drawn wv show ?thesis by (simp del: run_check)
  next
    case (Inr t)
    show ?thesis
    proof (cases "since \<le> step w")
      case True
      obtain b where "rand E (step w) k = Some b" "t = hex_encode b"
        using drawn Inr by (auto split: option.splits)
      with True have "state_io_rel (served E since) (m t)" by (auto intro: assms)
      with run drawn Inr have "served E since v w'"
        by (auto simp: state_io_rel_def simp del: run_check dest: spec [of _ v])
      with wv show ?thesis by (rule served.trans)
    qed (simp add: served_def)
  qed
qed

lemma served_minting:
  assumes "\<And>t. mintable E since (hashToken E t) \<Longrightarrow> state_io_rel (served E since) (m t)"
  shows "state_io_rel (served E since) (or_return (newRefreshToken E) e m)"
  unfolding newRefreshToken_def by (rule served_drawing, rule assms) (auto simp: mintable_def)

lemma served_common [served_intros]:
  "state_io_rel (served E since) (requirePerm ctx perm)"
  "state_io_rel (served E since) (Send E to sub body)"
  "state_io_rel (served E since) (auditAs E ctx a b c d e)"
  "state_io_rel (served E since) (audit E ctx c d e)"
  "state_io_rel (served E since) (newRefreshToken E)"
  "state_io_rel (served E since) (project_in_tenant E pid t0)"
  unfolding project_in_tenant_def requirePerm_def Send_def audit_def auditAs_def newRefreshToken_def
  by (intro served_intros)+

lemma served_issueTokens [served_intros]: "state_io_rel (served E since) (issueTokens E h u e t p)"
  unfolding issueTokens_def by (intro served_minting served_intros; assumption)

lemma served_issueForActiveTenant [served_intros]: "state_io_rel (served E since) (issueForActiveTenant E h u e)"
  unfolding issueForActiveTenant_def by (intro served_intros)

section \<open>How the helpers run\<close>

lemma run_of_sum [simp, run_simps]: "run_state (of_sum r) w = (r, w)"
  by (simp add: of_sum_def)

lemma run_requirePerm [run_simps]:
  "run_state (requirePerm ctx perm) w =
     (if id_HasPermission ctx perm then Inr () else Inl (Status PermissionDenied (''permission denied: '' @ perm)), w)"
  by (simp add: requirePerm_def)

lemma run_newRefreshToken [run_simps]:
  "run_state (newRefreshToken E) w =
     (case rand E (step w) 32 of None \<Rightarrow> Inl () | Some b \<Rightarrow> Inr (hex_encode b), w\<lparr>step := Suc (step w)\<rparr>)"
  by (simp add: newRefreshToken_def split: option.splits)

text \<open>An audit entry changes nothing but the audit log, and a failure to write it nothing at all.\<close>

definition same_but_audit :: "database \<Rightarrow> database \<Rightarrow> bool" where
  "same_but_audit d d' \<longleftrightarrow> d' = d\<lparr>audit_events := audit_events d'\<rparr>"

lemma same_but_audit_refl [simp]: "same_but_audit d d"
  by (simp add: same_but_audit_def)

lemma same_but_auditD:
  assumes "same_but_audit d d'"
  shows "users d' = users d" "refresh_tokens d' = refresh_tokens d" "revoked_tokens d' = revoked_tokens d"
    "roles d' = roles d" "user_roles d' = user_roles d" "memberships d' = memberships d"
    "tenants d' = tenants d" "api_keys d' = api_keys d" "outbox d' = outbox d"
    "email_verifications d' = email_verifications d" "password_resets d' = password_resets d"
    "totp_recovery_codes d' = totp_recovery_codes d" "projects d' = projects d"
    "permissions d' = permissions d" "role_permissions d' = role_permissions d"
  by (subst assms [unfolded same_but_audit_def], simp)+

lemma audit_runs:
  assumes "idle w"
  shows "idle (snd (run_state (auditAs E ctx a b c d e) w))"
    and "same_but_audit (db w) (db (snd (run_state (auditAs E ctx a b c d e) w)))"
    and "redis_log (snd (run_state (auditAs E ctx a b c d e) w)) = redis_log w"
    and "outputs (snd (run_state (auditAs E ctx a b c d e) w)) = outputs w"
  using assms
  by (auto simp: auditAs_def run_exec sql_InsertAuditEvent_def same_but_audit_def split: sum.splits db_err.splits prod.splits)

end
