(* ===== verification/Login.thy ===== *)
theory Login
  imports Common
begin

text \<open>
  Accounts and credentials of \<^verbatim>\<open>internal/handler/auth.go\<close> and \<^verbatim>\<open>m4.go\<close>: registration, the
  password and TOTP steps of a login, enrolment in two-factor authentication, and deleting and
  restoring a user. A definition follows its Go function call by call; \<open>time.Now()\<close> is read
  only where Go's short-circuit evaluation reads it.
\<close>

section \<open>Register\<close>

definition Register :: "env \<Rightarrow> identity \<Rightarrow> string \<Rightarrow> string \<Rightarrow> (string \<times> string) handler" where
  "Register E ctx email password =
     (if email = [] \<or> password = [] then bail (Status InvalidArgument ''email and password are required'')
      else
      or_return (Hash E password) (Status Internal ''failed to hash password'') (\<lambda>hash.
      or_return (tx_begin E) (Status Internal ''tx begin failed'') (\<lambda>_.
      deferring_rollback (
        or_return (set_tenant E defaultTenantUUID) (Status Internal ''failed to set tenant context'') (\<lambda>_.
        or_return (exec E (sql_CreateUser email hash)) (Status AlreadyExists ''email already registered'') (\<lambda>user.
        or_return (exec E (sql_AssignRoleToUser (u_ID user) defaultRole defaultTenantUUID None))
          (Status Internal ''failed to assign default role'') (\<lambda>_.
        or_return (exec E (sql_CreateMembership (u_ID user) defaultTenantUUID))
          (Status Internal ''failed to create membership'') (\<lambda>_.
        let ev = UserRegistered (u_ID user) (u_Email user) (displayFromEmail (u_Email user)) in
        or_return (from_option () (marshal_event E ev)) (Status Internal ''failed to encode event'') (\<lambda>payload.
        or_return (exec E (sql_InsertOutbox (u_ID user) (event_type E ev) payload))
          (Status Internal ''failed to enqueue event'') (\<lambda>_.
        or_return (tx_commit E) (Status Internal ''tx commit failed'') (\<lambda>_.
        ignoring (auditAs E ctx (uuid_string E (u_ID user)) (u_Email user) ''user.register'' [] []) (
        ok (uuid_string E (u_ID user), u_Email user)))))))))))))"

section \<open>Login\<close>

text \<open>\<^verbatim>\<open>user.LockedUntil.Valid && user.LockedUntil.Time.After(time.Now())\<close>\<close>

definition is_locked :: "env \<Rightarrow> User \<Rightarrow> (world, bool) state" where
  "is_locked E user = (case u_LockedUntil user of
     None \<Rightarrow> State_Monad.return False
   | Some t \<Rightarrow> State_Monad.bind (go_now E) (\<lambda>now. State_Monad.return (now < t)))"

text \<open>The failure counter and the lockout, the same in \<^verbatim>\<open>Login\<close> and \<^verbatim>\<open>LoginTotp\<close>.\<close>

definition count_failure :: "env \<Rightarrow> identity \<Rightarrow> uuid \<Rightarrow> string \<Rightarrow> string \<Rightarrow> (world, unit) state" where
  "count_failure E ctx uid email detail =
     (if LoginMaxFailures E > 0 then
        State_Monad.bind (exec E (sql_IncrementLoginFailure uid)) (\<lambda>r. case r of
          Inl _ \<Rightarrow> skip
        | Inr n \<Rightarrow>
            if n \<ge> LoginMaxFailures E then
              State_Monad.bind (go_now E) (\<lambda>now.
              ignoring (exec E (sql_LockUser uid (now + LockoutDuration E)))
              (auditAs E ctx (uuid_string E uid) email ''login.locked'' [] detail))
            else skip)
      else skip)"

definition mfaTokenTTL :: time where "mfaTokenTTL = 5 * minute"

text \<open>For an unknown user Go also verifies the password against \<open>h_dummyHash\<close> and drops the result.\<close>

definition Login :: "env \<Rightarrow> AuthHandler \<Rightarrow> identity \<Rightarrow> string \<Rightarrow> string \<Rightarrow> TokenPair handler" where
  "Login E h ctx email password =
     or_return (exec E (sql_GetUserByEmail email)) (Status Unauthenticated ''invalid credentials'') (\<lambda>user.
     State_Monad.bind (is_locked E user) (\<lambda>locked.
     if locked then bail (Status Unauthenticated ''account temporarily locked, try again later'')
     else if \<not> Verify E (u_PasswordHash user) password then
       ignoring (count_failure E ctx (u_ID user) (u_Email user) ''too many failed attempts'') (
       ignoring (auditAs E ctx (uuid_string E (u_ID user)) (u_Email user) ''login.failure'' [] []) (
       bail (Status Unauthenticated ''invalid credentials'')))
     else if RequireEmailVerification E \<and> \<not> u_EmailVerified user then
       bail (Status Unauthenticated ''email not verified'')
     else if u_DeletedAt user \<noteq> None then bail (Status Unauthenticated ''invalid credentials'')
     else
       ignoring (exec E (sql_ResetLoginState (u_ID user))) (
       if u_TotpEnabled user then
         ignoring (auditAs E ctx (uuid_string E (u_ID user)) (u_Email user) ''login.mfa_challenge'' [] []) (
         or_return (IssueMFA E (h_jwt h) (uuid_string E (u_ID user)) mfaTokenTTL)
           (Status Internal ''failed to issue mfa token'') (\<lambda>mfaTok.
         ok \<lparr>tp_AccessToken = [], tp_RefreshToken = [], tp_ExpiresIn = 0, tp_TokenType = ''Bearer'',
             tp_MfaRequired = True, tp_MfaToken = mfaTok\<rparr>))
       else
         ignoring (auditAs E ctx (uuid_string E (u_ID user)) (u_Email user) ''login.success'' [] [])
         (issueForActiveTenant E h (u_ID user) (u_Email user)))))"

section \<open>Two-factor authentication\<close>

definition recoveryCodeCount :: nat where "recoveryCodeCount = 10"

fun insert_recovery_codes :: "env \<Rightarrow> uuid \<Rightarrow> string list \<Rightarrow> unit handler" where
  "insert_recovery_codes E uid [] = ok ()"
| "insert_recovery_codes E uid (c # cs) =
     or_return (exec E (sql_InsertRecoveryCode uid (hashToken E c)))
       (Status Internal ''failed to store recovery code'') (\<lambda>_. insert_recovery_codes E uid cs)"

record EnrollTotpResponse =
  et_Secret :: string
  et_OtpauthUri :: string
  et_RecoveryCodes :: "string list"

definition EnrollTotp :: "env \<Rightarrow> AuthHandler \<Rightarrow> identity \<Rightarrow> EnrollTotpResponse handler" where
  "EnrollTotp E h ctx =
     check (of_sum (callerID E ctx)) (\<lambda>uid.
     or_return (exec E (sql_GetUserByID uid)) (Status NotFound ''user not found'') (\<lambda>user.
     if u_TotpEnabled user then bail (Status FailedPrecondition ''2FA is already enabled; disable it first'')
     else
     or_return (totp_Generate E (u_Email user)) (Status Internal ''failed to generate secret'') (\<lambda>(secret, uri).
     or_return (GenerateRecoveryCodes E recoveryCodeCount)
       (Status Internal ''failed to generate recovery codes'') (\<lambda>codes.
     or_return (Encrypt E (h_totpEnc h) secret) (Status Internal ''failed to encrypt secret'') (\<lambda>stored.
     or_return (exec E (sql_SetTotpSecret uid stored)) (Status Internal ''failed to store secret'') (\<lambda>_.
     ignoring (exec E (sql_DeleteRecoveryCodes uid)) (
     check (insert_recovery_codes E uid codes) (\<lambda>_.
     ignoring (audit E ctx ''totp.enroll'' [] []) (
     ok \<lparr>et_Secret = secret, et_OtpauthUri = uri, et_RecoveryCodes = codes\<rparr>)))))))))"

definition GetTotpStatus :: "env \<Rightarrow> identity \<Rightarrow> bool handler" where
  "GetTotpStatus E ctx =
     check (of_sum (callerID E ctx)) (\<lambda>uid.
     or_return (exec E (sql_GetUserByID uid)) (Status NotFound ''user not found'') (\<lambda>user.
     ok (u_TotpEnabled user)))"

definition ActivateTotp :: "env \<Rightarrow> AuthHandler \<Rightarrow> identity \<Rightarrow> string \<Rightarrow> unit handler" where
  "ActivateTotp E h ctx code =
     check (of_sum (callerID E ctx)) (\<lambda>uid.
     or_return (exec E (sql_GetUserByID uid)) (Status NotFound ''user not found'') (\<lambda>user.
     case u_TotpSecret user of
       None \<Rightarrow> bail (Status FailedPrecondition ''no pending enrollment; call EnrollTotp first'')
     | Some s \<Rightarrow>
         (case Decrypt E (h_totpEnc h) s of
            Inl _ \<Rightarrow> bail (Status Internal ''failed to read secret'')
          | Inr secret \<Rightarrow>
              State_Monad.bind (totp_Validate E code secret) (\<lambda>valid.
              if \<not> valid then bail (Status Unauthenticated ''invalid code'')
              else
              or_return (exec E (sql_EnableTotp uid)) (Status Internal ''failed to enable 2FA'') (\<lambda>_.
              ignoring (audit E ctx ''totp.activate'' [] []) (ok ()))))))"

definition consumeRecoveryCode :: "env \<Rightarrow> uuid \<Rightarrow> string \<Rightarrow> (world, bool) state" where
  "consumeRecoveryCode E uid code =
     State_Monad.bind (exec E (sql_ConsumeRecoveryCode uid (hashToken E code)))
       (\<lambda>r. State_Monad.return (case r of Inl _ \<Rightarrow> False | Inr _ \<Rightarrow> True))"

text \<open>Whether the code is the TOTP of the stored secret; a secret that cannot be read has none.\<close>

definition totp_matches :: "env \<Rightarrow> AuthHandler \<Rightarrow> string \<Rightarrow> string \<Rightarrow> (world, bool) state" where
  "totp_matches E h stored code = (case Decrypt E (h_totpEnc h) stored of
     Inl _ \<Rightarrow> State_Monad.return False
   | Inr secret \<Rightarrow> totp_Validate E code secret)"

text \<open>\<^verbatim>\<open>!ok && !h.consumeRecoveryCode(...)\<close>, negated.\<close>

definition second_factor :: "env \<Rightarrow> uuid \<Rightarrow> string \<Rightarrow> bool \<Rightarrow> (world, bool) state" where
  "second_factor E uid code valid = (if valid then State_Monad.return True else consumeRecoveryCode E uid code)"

definition DisableTotp :: "env \<Rightarrow> AuthHandler \<Rightarrow> identity \<Rightarrow> string \<Rightarrow> unit handler" where
  "DisableTotp E h ctx code =
     check (of_sum (callerID E ctx)) (\<lambda>uid.
     or_return (exec E (sql_GetUserByID uid)) (Status NotFound ''user not found'') (\<lambda>user.
     if \<not> u_TotpEnabled user then ok ()
     else
     State_Monad.bind (case u_TotpSecret user of None \<Rightarrow> State_Monad.return False | Some s \<Rightarrow> totp_matches E h s code) (\<lambda>valid.
     State_Monad.bind (second_factor E uid code valid) (\<lambda>accepted.
     if \<not> accepted then bail (Status Unauthenticated ''invalid code'')
     else
     or_return (exec E (sql_DisableTotp uid)) (Status Internal ''failed to disable 2FA'') (\<lambda>_.
     ignoring (exec E (sql_DeleteRecoveryCodes uid)) (
     ignoring (audit E ctx ''totp.disable'' [] []) (ok ())))))))"

definition LoginTotp :: "env \<Rightarrow> AuthHandler \<Rightarrow> identity \<Rightarrow> string \<Rightarrow> string \<Rightarrow> TokenPair handler" where
  "LoginTotp E h ctx mfaToken code =
     or_return (Parse E (h_jwt h) mfaToken) (Status Unauthenticated ''invalid or expired mfa token'') (\<lambda>claims.
     if cl_Purpose claims \<noteq> ''mfa'' then bail (Status Unauthenticated ''invalid or expired mfa token'')
     else case uuid_parse E (cl_Subject claims) of
       None \<Rightarrow> bail (Status Unauthenticated ''invalid mfa token'')
     | Some uid \<Rightarrow>
     or_return (exec E (sql_GetUserByID uid)) (Status Unauthenticated ''invalid credentials'') (\<lambda>user.
     case u_TotpSecret user of
       None \<Rightarrow> bail (Status Unauthenticated ''invalid credentials'')
     | Some stored \<Rightarrow>
     if u_DeletedAt user \<noteq> None \<or> \<not> u_TotpEnabled user then bail (Status Unauthenticated ''invalid credentials'')
     else
     State_Monad.bind (is_locked E user) (\<lambda>locked.
     if locked then bail (Status Unauthenticated ''account temporarily locked, try again later'')
     else
     State_Monad.bind (totp_matches E h stored code) (\<lambda>valid.
     State_Monad.bind (second_factor E uid code valid) (\<lambda>accepted.
     if \<not> accepted then
       ignoring (count_failure E ctx uid (u_Email user) ''too many failed mfa attempts'') (
       ignoring (auditAs E ctx (uuid_string E uid) (u_Email user) ''login.mfa_failure'' [] []) (
       bail (Status Unauthenticated ''invalid code'')))
     else
       ignoring (exec E (sql_ResetLoginState uid)) (
       ignoring (auditAs E ctx (uuid_string E uid) (u_Email user) ''login.success'' [] ''2fa'')
       (issueForActiveTenant E h uid (u_Email user))))))))"

section \<open>Deleting and restoring a user\<close>

definition DeleteUser :: "env \<Rightarrow> identity \<Rightarrow> string \<Rightarrow> bool \<Rightarrow> unit handler" where
  "DeleteUser E ctx user_id hard =
     check (requirePerm ctx ''user:delete'') (\<lambda>_.
     case uuid_parse E user_id of
       None \<Rightarrow> bail (Status InvalidArgument ''invalid user id'')
     | Some userID \<Rightarrow>
     or_return (tx_begin E) (Status Internal ''tx begin failed'') (\<lambda>_.
     deferring_rollback (
       check (if hard then
                or_return (exec E (sql_DeleteUser userID)) (Status Internal ''failed to delete user'') ok
              else
                or_return (exec E (sql_SoftDeleteUser userID)) (Status Internal ''failed to delete user'') (\<lambda>_.
                ignoring (exec E (sql_RevokeAllUserRefreshTokens userID)) (ok ()))) (\<lambda>_.
       or_return (from_option () (marshal_event E (UserDeleted userID hard))) (Status Internal ''failed to encode event'') (\<lambda>payload.
       or_return (exec E (sql_InsertOutbox userID (event_type E (UserDeleted userID hard)) payload))
         (Status Internal ''failed to enqueue event'') (\<lambda>_.
       or_return (tx_commit E) (Status Internal ''tx commit failed'') (\<lambda>_.
       ignoring (audit E ctx ''user.delete'' user_id (if hard then ''hard'' else ''soft'')) (ok ()))))))))"

definition RestoreUser :: "env \<Rightarrow> identity \<Rightarrow> string \<Rightarrow> unit handler" where
  "RestoreUser E ctx user_id =
     check (requirePerm ctx ''user:delete'') (\<lambda>_.
     case uuid_parse E user_id of
       None \<Rightarrow> bail (Status InvalidArgument ''invalid user id'')
     | Some uid \<Rightarrow>
     or_return (tx_begin E) (Status Internal ''tx begin failed'') (\<lambda>_.
     deferring_rollback (
       or_return (exec E (sql_RestoreUser uid)) (Status Internal ''failed to restore user'') (\<lambda>_.
       or_return (from_option () (marshal_event E (UserRestored uid))) (Status Internal ''failed to encode event'') (\<lambda>payload.
       or_return (exec E (sql_InsertOutbox uid (event_type E (UserRestored uid)) payload))
         (Status Internal ''failed to enqueue event'') (\<lambda>_.
       or_return (tx_commit E) (Status Internal ''tx commit failed'') (\<lambda>_.
       ignoring (audit E ctx ''user.restore'' user_id []) (ok ()))))))))"

section \<open>Effects\<close>

lemma served_login_parts [served_intros]:
  "state_io_rel (served E since) (is_locked E u)"
  "state_io_rel (served E since) (count_failure E ctx uid em det)"
  "state_io_rel (served E since) (consumeRecoveryCode E uid code)"
  "state_io_rel (served E since) (totp_matches E h stored code)"
  "state_io_rel (served E since) (second_factor E uid code valid)"
  unfolding is_locked_def count_failure_def consumeRecoveryCode_def totp_matches_def second_factor_def
  by (intro served_intros)+

lemma served_insert_recovery_codes [served_intros]:
  "state_io_rel (served E since) (insert_recovery_codes E uid codes)"
  by (induction codes) (auto intro!: served_intros)

lemma served_login [served_intros]:
  "state_io_rel (served E since) (Register E ctx em pw)"
  "state_io_rel (served E since) (Login E h ctx em pw)"
  "state_io_rel (served E since) (EnrollTotp E h ctx)"
  "state_io_rel (served E since) (GetTotpStatus E ctx)"
  "state_io_rel (served E since) (ActivateTotp E h ctx code)"
  "state_io_rel (served E since) (DisableTotp E h ctx code)"
  "state_io_rel (served E since) (LoginTotp E h ctx tok code)"
  "state_io_rel (served E since) (DeleteUser E ctx user_id hard)"
  "state_io_rel (served E since) (RestoreUser E ctx user_id)"
  unfolding Register_def Login_def EnrollTotp_def GetTotpStatus_def ActivateTotp_def DisableTotp_def
    LoginTotp_def DeleteUser_def RestoreUser_def
  by (intro served_intros)+

end
