(* ===== verification/Sessions.thy ===== *)
theory Sessions
  imports Common
begin

text \<open>
  Sessions of \<^verbatim>\<open>internal/handler/auth.go\<close> and \<^verbatim>\<open>tenant.go\<close>: refreshing a token pair, logging
  out, validating an access token, switching to another tenant.
\<close>

section \<open>Refresh\<close>

definition refreshRotationGrace :: time where "refreshRotationGrace = 60 * second"

text \<open>\<^verbatim>\<open>row.ReplacedBy != nil && *row.ReplacedBy != ""\<close>\<close>

definition rotated :: "RefreshToken \<Rightarrow> bool" where
  "rotated row \<longleftrightarrow> (case rt_ReplacedBy row of None \<Rightarrow> False | Some s \<Rightarrow> s \<noteq> [])"

text \<open>\<^verbatim>\<open>rotated && time.Since(row.RevokedAt.Time) < refreshRotationGrace\<close>\<close>

definition in_grace :: "env \<Rightarrow> RefreshToken \<Rightarrow> time \<Rightarrow> (world, bool) state" where
  "in_grace E row revokedAt =
     (if rotated row then State_Monad.bind (go_now E) (\<lambda>now. State_Monad.return (now - revokedAt < refreshRotationGrace))
      else State_Monad.return False)"

definition Refresh :: "env \<Rightarrow> AuthHandler \<Rightarrow> identity \<Rightarrow> string \<Rightarrow> TokenPair handler" where
  "Refresh E h ctx refreshToken =
     (let hash = hashToken E refreshToken in
     or_return (exec E (sql_GetRefreshToken hash)) (Status Unauthenticated ''invalid refresh token'') (\<lambda>row.
     case rt_RevokedAt row of
       Some revokedAt \<Rightarrow>
         State_Monad.bind (in_grace E row revokedAt) (\<lambda>grace.
         if grace then
           or_return (exec E (sql_GetUserByID (rt_UserID row))) (Status Unauthenticated ''user not found'') (\<lambda>user.
           issueTokens E h (u_ID user) (u_Email user) (rt_TenantID row) (rt_ProjectID row))
         else
           ignoring (exec E (sql_RevokeAllUserRefreshTokens (rt_UserID row))) (
           ignoring (auditAs E ctx (uuid_string E (rt_UserID row)) [] ''refresh.reuse_detected'' [] ''all sessions revoked'') (
           bail (Status Unauthenticated ''refresh token revoked''))))
     | None \<Rightarrow>
         State_Monad.bind (go_now E) (\<lambda>now.
         if rt_ExpiresAt row < now then bail (Status Unauthenticated ''refresh token expired'')
         else
         or_return (exec E (sql_GetUserByID (rt_UserID row))) (Status Unauthenticated ''user not found'') (\<lambda>user.
         check (issueTokens E h (u_ID user) (u_Email user) (rt_TenantID row) (rt_ProjectID row)) (\<lambda>pair.
         ignoring (exec E (sql_RotateRefreshToken hash (Some (hashToken E (tp_RefreshToken pair))))) (
         ok pair))))))"

section \<open>Logout\<close>

definition denylist :: "env \<Rightarrow> AuthHandler \<Rightarrow> Claims \<Rightarrow> (world, unit) state" where
  "denylist E h claims =
     (if cl_ID claims = [] then skip
      else case cl_ExpiresAt claims of
        None \<Rightarrow> skip
      | Some s \<Rightarrow>
          ignoring (exec E (sql_RevokeAccessJTI (cl_ID claims) (claim_time s)))
          (State_Monad.bind (go_now E) (\<lambda>now.
           Deny E (h_cache h) (cl_ID claims) (claim_time s - now))))"

definition Logout :: "env \<Rightarrow> AuthHandler \<Rightarrow> identity \<Rightarrow> string \<Rightarrow> string \<Rightarrow> unit handler" where
  "Logout E h ctx refreshToken accessToken =
     or_return (exec E (sql_RevokeRefreshToken (hashToken E refreshToken))) (Status Internal ''failed to revoke token'') (\<lambda>_.
     ignoring (if accessToken = [] then skip
               else State_Monad.bind (Parse E (h_jwt h) accessToken) (\<lambda>r. case r of
                      Inl _ \<Rightarrow> skip
                    | Inr claims \<Rightarrow> denylist E h claims)) (
     ignoring (audit E ctx ''auth.logout'' [] []) (ok ())))"

section \<open>ValidateToken\<close>

record ValidateTokenResponse =
  vt_UserId :: string
  vt_Email :: string
  vt_Roles :: "string list"
  vt_Permissions :: "string list"
  vt_TenantId :: string
  vt_ProjectId :: string

text \<open>The denylist: Redis when it answers, else PostgreSQL.\<close>

definition check_revoked :: "env \<Rightarrow> AuthHandler \<Rightarrow> string \<Rightarrow> unit handler" where
  "check_revoked E h jti =
     (if jti = [] then ok ()
      else State_Monad.bind (IsDenied E (h_cache h) jti) (\<lambda>denied. case denied of
        Some d \<Rightarrow> if d then bail (Status Unauthenticated ''token revoked'') else ok ()
      | None \<Rightarrow>
          or_return (exec E (sql_IsTokenRevoked jti)) (Status Internal ''failed to check token status'') (\<lambda>revoked.
          if revoked then bail (Status Unauthenticated ''token revoked'') else ok ())))"

definition check_active :: "env \<Rightarrow> uuid \<Rightarrow> unit handler" where
  "check_active E userID =
     or_return (exec E (sql_IsUserActive userID)) (Status Unauthenticated ''account is not active'') (\<lambda>active.
     if \<not> active then bail (Status Unauthenticated ''account is not active'') else ok ())"

text \<open>The tenant the token is bound to, when it has one; the user must be an active member.\<close>

definition check_member :: "env \<Rightarrow> uuid \<Rightarrow> string \<Rightarrow> uuid option handler" where
  "check_member E userID tenant =
     (if tenant = [] then ok None
      else case uuid_parse E tenant of
        None \<Rightarrow> bail (Status Unauthenticated ''invalid tenant'')
      | Some tid \<Rightarrow>
          or_return (exec E (sql_IsActiveMember userID tid)) (Status Unauthenticated ''tenant membership revoked'') (\<lambda>member.
          if \<not> member then bail (Status Unauthenticated ''tenant membership revoked'') else ok (Some tid)))"

definition load_roles :: "env \<Rightarrow> uuid \<Rightarrow> uuid option \<Rightarrow> uuid option \<Rightarrow> (world, db_err, string list) prog" where
  "load_roles E userID tenant proj = (case tenant of
     None \<Rightarrow> exec E (sql_GetUserRoles userID)
   | Some tid \<Rightarrow> withTenantGUC E tid (exec E (sql_GetUserRolesScoped userID tid proj)))"

definition load_perms :: "env \<Rightarrow> uuid \<Rightarrow> uuid option \<Rightarrow> uuid option \<Rightarrow> (world, db_err, string list) prog" where
  "load_perms E userID tenant proj = (case tenant of
     None \<Rightarrow> exec E (sql_GetUserPermissions userID)
   | Some tid \<Rightarrow> withTenantGUC E tid (exec E (sql_GetUserPermissionsScoped userID tid proj)))"

definition cached_perms :: "env \<Rightarrow> AuthHandler \<Rightarrow> Claims \<Rightarrow> uuid \<Rightarrow> uuid option \<Rightarrow> string list handler" where
  "cached_perms E h claims userID tenant =
     State_Monad.bind (GetPerms E (h_cache h) (cl_TenantID claims) (cl_ProjectID claims) (cl_Subject claims)) (\<lambda>cached.
     case cached of
       Some perms \<Rightarrow> ok perms
     | None \<Rightarrow>
         or_return (load_perms E userID tenant (parseOptionalUUID E (cl_ProjectID claims)))
           (Status Internal ''failed to load permissions'') (\<lambda>perms.
         ignoring (SetPerms E (h_cache h) (cl_TenantID claims) (cl_ProjectID claims) (cl_Subject claims) perms) (
         ok perms)))"

definition ValidateToken :: "env \<Rightarrow> AuthHandler \<Rightarrow> string \<Rightarrow> ValidateTokenResponse handler" where
  "ValidateToken E h accessToken =
     or_return (ParseAccess E (h_jwt h) accessToken) (Status Unauthenticated ''invalid or expired token'') (\<lambda>claims.
     check (check_revoked E h (cl_ID claims)) (\<lambda>_.
     case uuid_parse E (cl_Subject claims) of
       None \<Rightarrow> bail (Status Unauthenticated ''invalid subject'')
     | Some userID \<Rightarrow>
     check (check_active E userID) (\<lambda>_.
     check (check_member E userID (cl_TenantID claims)) (\<lambda>tenant.
     or_return (load_roles E userID tenant (parseOptionalUUID E (cl_ProjectID claims)))
       (Status Internal ''failed to load roles'') (\<lambda>roles.
     check (cached_perms E h claims userID tenant) (\<lambda>perms.
     ok \<lparr>vt_UserId = cl_Subject claims, vt_Email = cl_Email claims, vt_Roles = roles,
         vt_Permissions = perms, vt_TenantId = cl_TenantID claims, vt_ProjectId = cl_ProjectID claims\<rparr>))))))"

section \<open>SwitchTenant\<close>

definition SwitchTenant :: "env \<Rightarrow> AuthHandler \<Rightarrow> identity \<Rightarrow> string \<Rightarrow> string \<Rightarrow> TokenPair handler" where
  "SwitchTenant E h ctx tenant_id project_id =
     check (of_sum (callerID E ctx)) (\<lambda>uid.
     case uuid_parse E tenant_id of
       None \<Rightarrow> bail (Status InvalidArgument ''invalid tenant id'')
     | Some tid \<Rightarrow>
     or_return (exec E (sql_IsActiveMember uid tid)) (Status PermissionDenied ''not a member of that tenant'') (\<lambda>member.
     if \<not> member then bail (Status PermissionDenied ''not a member of that tenant'')
     else
     check (project_in_tenant E project_id tid) (\<lambda>_.
     or_return (exec E (sql_GetUserByID uid)) (Status NotFound ''user not found'') (\<lambda>user.
     ignoring (audit E ctx ''tenant.switch'' tenant_id project_id)
     (issueTokens E h uid (u_Email user) tid (parseOptionalUUID E project_id))))))"

section \<open>Effects\<close>

lemma served_session_parts [served_intros]:
  "state_io_rel (served E since) (in_grace E row t)"
  "state_io_rel (served E since) (denylist E h claims)"
  "state_io_rel (served E since) (check_revoked E h jti)"
  "state_io_rel (served E since) (check_active E uid)"
  "state_io_rel (served E since) (check_member E uid tid)"
  "state_io_rel (served E since) (load_roles E uid ten p)"
  "state_io_rel (served E since) (load_perms E uid ten p)"
  unfolding in_grace_def denylist_def check_revoked_def check_active_def check_member_def
    load_roles_def load_perms_def
  by (intro served_intros)+

lemma served_sessions [served_intros]:
  "state_io_rel (served E since) (cached_perms E h claims uid ten)"
  "state_io_rel (served E since) (Refresh E h ctx rtok)"
  "state_io_rel (served E since) (Logout E h ctx rtok atok)"
  "state_io_rel (served E since) (ValidateToken E h atok)"
  "state_io_rel (served E since) (SwitchTenant E h ctx tenant_id project_id)"
  unfolding cached_perms_def Refresh_def Logout_def ValidateToken_def SwitchTenant_def
  by (intro served_intros)+

end
