(* ===== verification/Recovery.thy ===== *)
theory Recovery
  imports Common
begin

text \<open>
  Account recovery of \<^verbatim>\<open>internal/handler/auth.go\<close>: email verification, password reset and
  change, and the listing of the audit trail.
\<close>

section \<open>One-time tokens by mail\<close>

text \<open>\<^verbatim>\<open>DevTokenResponse\<close>: success, and the token itself outside production.\<close>

definition RequestEmailVerification :: "env \<Rightarrow> identity \<Rightarrow> string \<Rightarrow> string handler" where
  "RequestEmailVerification E ctx email =
     State_Monad.bind (exec E (sql_GetUserByEmail email)) (\<lambda>found. case found of
       Inl _ \<Rightarrow> ok []
     | Inr user \<Rightarrow>
     or_return (newRefreshToken E) (Status Internal ''failed to generate token'') (\<lambda>token.
     State_Monad.bind (go_now E) (\<lambda>now.
     or_return (exec E (sql_CreateEmailVerification (hashToken E token) (u_ID user) (now + 24 * hour)))
       (Status Internal ''failed to create verification'') (\<lambda>_.
     ignoring (Send E (u_Email user) ''Verify your email'' (''Your email verification token: '' @ token)) (
     ignoring (auditAs E ctx (uuid_string E (u_ID user)) (u_Email user) ''email.verification_requested'' [] []) (
     ok (if \<not> IsProduction E then token else [])))))))"

definition VerifyEmail :: "env \<Rightarrow> identity \<Rightarrow> string \<Rightarrow> unit handler" where
  "VerifyEmail E ctx token =
     or_return (exec E (sql_ConsumeEmailVerification (hashToken E token)))
       (Status InvalidArgument ''invalid or expired token'') (\<lambda>uid.
     or_return (exec E (sql_MarkEmailVerified uid)) (Status Internal ''failed to verify email'') (\<lambda>_.
     ignoring (auditAs E ctx (uuid_string E uid) [] ''email.verified'' [] []) (ok ())))"

definition RequestPasswordReset :: "env \<Rightarrow> identity \<Rightarrow> string \<Rightarrow> string handler" where
  "RequestPasswordReset E ctx email =
     State_Monad.bind (exec E (sql_GetUserByEmail email)) (\<lambda>found. case found of
       Inl _ \<Rightarrow> ok []
     | Inr user \<Rightarrow>
     or_return (newRefreshToken E) (Status Internal ''failed to generate token'') (\<lambda>token.
     State_Monad.bind (go_now E) (\<lambda>now.
     or_return (exec E (sql_CreatePasswordReset (hashToken E token) (u_ID user) (now + hour)))
       (Status Internal ''failed to create reset token'') (\<lambda>_.
     ignoring (Send E (u_Email user) ''Reset your password'' (''Your password reset token: '' @ token)) (
     ignoring (auditAs E ctx (uuid_string E (u_ID user)) (u_Email user) ''password.reset_requested'' [] []) (
     ok (if \<not> IsProduction E then token else [])))))))"

definition ResetPassword :: "env \<Rightarrow> identity \<Rightarrow> string \<Rightarrow> string \<Rightarrow> unit handler" where
  "ResetPassword E ctx token newPassword =
     (if length newPassword < 8 then bail (Status InvalidArgument ''password must be at least 8 characters'')
      else
      or_return (exec E (sql_ConsumePasswordReset (hashToken E token)))
        (Status InvalidArgument ''invalid or expired token'') (\<lambda>uid.
      or_return (Hash E newPassword) (Status Internal ''failed to hash password'') (\<lambda>hash.
      or_return (exec E (sql_UpdatePassword uid hash)) (Status Internal ''failed to update password'') (\<lambda>_.
      ignoring (exec E (sql_RevokeAllUserRefreshTokens uid)) (
      ignoring (auditAs E ctx (uuid_string E uid) [] ''password.reset'' [] []) (ok ()))))))"

definition ChangePassword :: "env \<Rightarrow> identity \<Rightarrow> string \<Rightarrow> string \<Rightarrow> unit handler" where
  "ChangePassword E ctx oldPassword newPassword =
     check (of_sum (callerID E ctx)) (\<lambda>uid.
     if length newPassword < 8 then bail (Status InvalidArgument ''password must be at least 8 characters'')
     else
     or_return (exec E (sql_GetUserByID uid)) (Status Unauthenticated ''user not found'') (\<lambda>user.
     if \<not> Verify E (u_PasswordHash user) oldPassword then
       bail (Status Unauthenticated ''current password is incorrect'')
     else
     or_return (Hash E newPassword) (Status Internal ''failed to hash password'') (\<lambda>hash.
     or_return (exec E (sql_UpdatePassword uid hash)) (Status Internal ''failed to update password'') (\<lambda>_.
     ignoring (exec E (sql_RevokeAllUserRefreshTokens uid)) (
     ignoring (auditAs E ctx (uuid_string E uid) (u_Email user) ''password.change'' [] []) (ok ()))))))"

section \<open>Audit trail\<close>

text \<open>The response formats the time of each row; the model returns the rows.\<close>

definition ListAuditEvents :: "env \<Rightarrow> identity \<Rightarrow> int \<Rightarrow> AuditEvent list handler" where
  "ListAuditEvents E ctx limit =
     check (requirePerm ctx ''audit:read'') (\<lambda>_.
     check (of_sum (activeTenant E ctx)) (\<lambda>tenant.
     let limit = (if limit \<le> 0 \<or> limit > 200 then 50 else limit) in
     or_return (exec E (sql_ListAuditEvents (pgTenant tenant) limit))
       (Status Internal ''failed to list audit events'') ok))"

section \<open>Effects\<close>

lemma served_recovery [served_intros]:
  "state_io_rel (served E since) (RequestEmailVerification E ctx em)"
  "state_io_rel (served E since) (VerifyEmail E ctx token)"
  "state_io_rel (served E since) (RequestPasswordReset E ctx em)"
  "state_io_rel (served E since) (ResetPassword E ctx token pw)"
  "state_io_rel (served E since) (ChangePassword E ctx pw pw')"
  "state_io_rel (served E since) (ListAuditEvents E ctx n)"
  unfolding RequestEmailVerification_def VerifyEmail_def RequestPasswordReset_def ResetPassword_def
    ChangePassword_def ListAuditEvents_def
  by (intro served_minting served_intros; assumption?)+

end
