(* ===== verification/Rbac.thy ===== *)
theory Rbac
  imports Common
begin

text \<open>
  Role and permission management of \<^verbatim>\<open>internal/handler/auth.go\<close> and \<^verbatim>\<open>tenant.go\<close>. Every handler
  checks the caller's permission and acts in the caller's active tenant.
\<close>

section \<open>Roles\<close>

text \<open>\<^verbatim>\<open>authv1.Role\<close>: the id, name and description of a role; \<open>ListRoles\<close> adds its permissions.\<close>

definition CreateRole :: "env \<Rightarrow> identity \<Rightarrow> string \<Rightarrow> string \<Rightarrow> Role handler" where
  "CreateRole E ctx name descr =
     check (requirePerm ctx ''role:write'') (\<lambda>_.
     check (of_sum (activeTenant E ctx)) (\<lambda>tenant.
     if name = [] then bail (Status InvalidArgument ''role name is required'')
     else if isBuiltinRole name then bail (Status FailedPrecondition ''name reserved for a built-in role'')
     else
     or_return (withTenant E tenant (exec E (sql_CreateRole name descr (pgTenant tenant))))
       (Status AlreadyExists ''role already exists'') (\<lambda>role.
     ignoring (audit E ctx ''role.create'' name []) (ok role))))"

definition UpdateRole :: "env \<Rightarrow> identity \<Rightarrow> string \<Rightarrow> string \<Rightarrow> Role handler" where
  "UpdateRole E ctx name descr =
     check (requirePerm ctx ''role:write'') (\<lambda>_.
     check (of_sum (activeTenant E ctx)) (\<lambda>tenant.
     if isBuiltinRole name then bail (Status FailedPrecondition ''cannot modify a built-in role'')
     else
     or_return (withTenant E tenant (exec E (sql_UpdateRole name descr (pgTenant tenant))))
       (Status NotFound ''role not found in this tenant'') ok))"

definition DeleteRole :: "env \<Rightarrow> identity \<Rightarrow> string \<Rightarrow> unit handler" where
  "DeleteRole E ctx name =
     check (requirePerm ctx ''role:write'') (\<lambda>_.
     check (of_sum (activeTenant E ctx)) (\<lambda>tenant.
     if isBuiltinRole name then bail (Status FailedPrecondition ''cannot delete a built-in role'')
     else
     or_return (exec E (sql_GetTenantRole name (pgTenant tenant))) (Status NotFound ''role not found in this tenant'') (\<lambda>_.
     or_return (withTenant E tenant (exec E (sql_DeleteRole name (pgTenant tenant))))
       (Status Internal ''failed to delete role'') (\<lambda>_.
     ignoring (audit E ctx ''role.delete'' name []) (ok ())))))"

definition ListRoles :: "env \<Rightarrow> identity \<Rightarrow> (Role \<times> string list) list handler" where
  "ListRoles E ctx =
     check (requirePerm ctx ''role:read'') (\<lambda>_.
     check (of_sum (activeTenant E ctx)) (\<lambda>tenant.
     or_return (exec E (sql_ListRolesWithPermissions (pgTenant tenant))) (Status Internal ''failed to list roles'') ok))"

section \<open>Assignments\<close>

definition validateAssign :: "env \<Rightarrow> string \<Rightarrow> string \<Rightarrow> uuid \<Rightarrow> unit handler" where
  "validateAssign E roleName projectID tenant =
     or_return (exec E (sql_GetRoleInTenant roleName (pgTenant tenant)))
       (Status NotFound ''role not found in this tenant'') (\<lambda>_.
     project_in_tenant E projectID tenant)"

definition AssignRole :: "env \<Rightarrow> AuthHandler \<Rightarrow> identity \<Rightarrow> string \<Rightarrow> string \<Rightarrow> string \<Rightarrow> unit handler" where
  "AssignRole E h ctx user_id role_name project_id =
     check (requirePerm ctx ''role:assign'') (\<lambda>_.
     check (of_sum (activeTenant E ctx)) (\<lambda>tenant.
     case uuid_parse E user_id of
       None \<Rightarrow> bail (Status InvalidArgument ''invalid user id'')
     | Some userID \<Rightarrow>
     check (validateAssign E role_name project_id tenant) (\<lambda>_.
     or_return (withTenant E tenant
         (exec E (sql_AssignRoleToUser userID role_name tenant (parseOptionalUUID E project_id))))
       (Status Internal ''failed to assign role'') (\<lambda>_.
     ignoring (InvalidatePerms E (h_cache h) user_id) (
     ignoring (audit E ctx ''role.assign'' user_id role_name) (ok ()))))))"

text \<open>The loop of \<^verbatim>\<open>AssignRoleBulk\<close>: the number of users assigned and the ids that failed.\<close>

fun assign_each ::
  "env \<Rightarrow> AuthHandler \<Rightarrow> string \<Rightarrow> uuid \<Rightarrow> uuid option \<Rightarrow> string list \<Rightarrow> (world, nat \<times> string list) state" where
  "assign_each E h role_name tenant project [] = State_Monad.return (0, [])"
| "assign_each E h role_name tenant project (uid # uids) =
     State_Monad.bind
       (case uuid_parse E uid of
          None \<Rightarrow> State_Monad.return False
        | Some userID \<Rightarrow>
            State_Monad.bind (withTenant E tenant (exec E (sql_AssignRoleToUser userID role_name tenant project)))
              (\<lambda>r. case r of
                 Inl _ \<Rightarrow> State_Monad.return False
               | Inr _ \<Rightarrow> ignoring (InvalidatePerms E (h_cache h) uid) (State_Monad.return True)))
       (\<lambda>assigned.
     State_Monad.bind (assign_each E h role_name tenant project uids) (\<lambda>(n, failed).
     State_Monad.return (if assigned then (Suc n, failed) else (n, uid # failed))))"

text \<open>The counter is an \<^verbatim>\<open>int32\<close>; the detail of the audit entry gives both numbers.\<close>

definition to_int32 :: "int \<Rightarrow> int" where
  "to_int32 n = signed_take_bit 31 n"

definition int_text :: "int \<Rightarrow> string" where
  "int_text n = (if n < 0 then ''-'' @ decimal (nat (- n)) else decimal (nat n))"

definition AssignRoleBulk ::
  "env \<Rightarrow> AuthHandler \<Rightarrow> identity \<Rightarrow> string list \<Rightarrow> string \<Rightarrow> string \<Rightarrow> (int \<times> string list) handler" where
  "AssignRoleBulk E h ctx user_ids role_name project_id =
     check (requirePerm ctx ''role:assign'') (\<lambda>_.
     check (of_sum (activeTenant E ctx)) (\<lambda>tenant.
     check (validateAssign E role_name project_id tenant) (\<lambda>_.
     State_Monad.bind (assign_each E h role_name tenant (parseOptionalUUID E project_id) user_ids) (\<lambda>(n, failed).
     ignoring (audit E ctx ''role.assign_bulk'' role_name
       (int_text (to_int32 (int n)) @ '' assigned, '' @ decimal (length failed) @ '' failed'')) (
     ok (to_int32 (int n), failed))))))"

definition RevokeRole :: "env \<Rightarrow> AuthHandler \<Rightarrow> identity \<Rightarrow> string \<Rightarrow> string \<Rightarrow> string \<Rightarrow> unit handler" where
  "RevokeRole E h ctx user_id role_name project_id =
     check (requirePerm ctx ''role:assign'') (\<lambda>_.
     check (of_sum (activeTenant E ctx)) (\<lambda>tenant.
     case uuid_parse E user_id of
       None \<Rightarrow> bail (Status InvalidArgument ''invalid user id'')
     | Some userID \<Rightarrow>
     or_return (exec E (sql_GetRoleByName role_name)) (Status NotFound ''role not found'') (\<lambda>_.
     or_return (withTenant E tenant
         (exec E (sql_RevokeRoleFromUser userID role_name tenant (parseOptionalUUID E project_id))))
       (Status Internal ''failed to revoke role'') (\<lambda>_.
     ignoring (InvalidatePerms E (h_cache h) user_id) (
     ignoring (audit E ctx ''role.revoke'' user_id role_name) (ok ()))))))"

section \<open>Permissions\<close>

definition ListPermissions :: "env \<Rightarrow> identity \<Rightarrow> Permission list handler" where
  "ListPermissions E ctx =
     check (requirePerm ctx ''role:read'') (\<lambda>_.
     or_return (exec E sql_ListPermissions) (Status Internal ''failed to list permissions'') ok)"

definition permRoleGuard :: "env \<Rightarrow> string \<Rightarrow> uuid \<Rightarrow> unit handler" where
  "permRoleGuard E roleName tenant =
     (if isBuiltinRole roleName then bail (Status FailedPrecondition ''cannot modify a built-in role's permissions'')
      else or_return (exec E (sql_GetTenantRole roleName (pgTenant tenant)))
        (Status NotFound ''role not found in this tenant'') (\<lambda>_. ok ()))"

definition GrantPermission :: "env \<Rightarrow> identity \<Rightarrow> string \<Rightarrow> string \<Rightarrow> unit handler" where
  "GrantPermission E ctx role_name permission_name =
     check (requirePerm ctx ''role:write'') (\<lambda>_.
     check (of_sum (activeTenant E ctx)) (\<lambda>tenant.
     check (permRoleGuard E role_name tenant) (\<lambda>_.
     or_return (withTenant E tenant (exec E (sql_GrantPermissionToRole role_name permission_name (pgTenant tenant))))
       (Status Internal ''failed to grant permission'') (\<lambda>_.
     ignoring (audit E ctx ''permission.grant'' role_name permission_name) (ok ())))))"

definition RevokePermission :: "env \<Rightarrow> identity \<Rightarrow> string \<Rightarrow> string \<Rightarrow> unit handler" where
  "RevokePermission E ctx role_name permission_name =
     check (requirePerm ctx ''role:write'') (\<lambda>_.
     check (of_sum (activeTenant E ctx)) (\<lambda>tenant.
     check (permRoleGuard E role_name tenant) (\<lambda>_.
     or_return (withTenant E tenant (exec E (sql_RevokePermissionFromRole role_name permission_name (pgTenant tenant))))
       (Status Internal ''failed to revoke permission'') (\<lambda>_.
     ignoring (audit E ctx ''permission.revoke'' role_name permission_name) (ok ())))))"

text \<open>The role, the project (\<open>[]\<close> for none) and its slug of each assignment.\<close>

definition GetUserRoleAssignments :: "env \<Rightarrow> identity \<Rightarrow> string \<Rightarrow> (string \<times> string \<times> string) list handler" where
  "GetUserRoleAssignments E ctx user_id =
     check (requirePerm ctx ''role:read'') (\<lambda>_.
     check (of_sum (activeTenant E ctx)) (\<lambda>tenant.
     case uuid_parse E user_id of
       None \<Rightarrow> bail (Status InvalidArgument ''invalid user id'')
     | Some uid \<Rightarrow>
     or_return (exec E (sql_GetUserRoleAssignments uid tenant)) (Status Internal ''failed to load role assignments'') (\<lambda>rows.
     ok (map (\<lambda>(role, pid, slug). (role, case pid of None \<Rightarrow> [] | Some p \<Rightarrow> uuid_string E p,
                                     case slug of None \<Rightarrow> [] | Some s \<Rightarrow> s)) rows))))"

section \<open>Effects\<close>

lemma served_guards [served_intros]:
  "state_io_rel (served E since) (validateAssign E nm pid ten)"
  "state_io_rel (served E since) (permRoleGuard E nm ten)"
  unfolding validateAssign_def permRoleGuard_def by (intro served_intros)+

lemma served_assign_each [served_intros]:
  "state_io_rel (served E since) (assign_each E h nm ten p uids)"
  by (induction uids) (auto intro!: served_intros split: prod.splits)

lemma served_rbac [served_intros]:
  "state_io_rel (served E since) (CreateRole E ctx nm ds)"
  "state_io_rel (served E since) (UpdateRole E ctx nm ds)"
  "state_io_rel (served E since) (DeleteRole E ctx nm)"
  "state_io_rel (served E since) (ListRoles E ctx)"
  "state_io_rel (served E since) (AssignRole E h ctx u nm p)"
  "state_io_rel (served E since) (AssignRoleBulk E h ctx us nm p)"
  "state_io_rel (served E since) (RevokeRole E h ctx u nm p)"
  "state_io_rel (served E since) (ListPermissions E ctx)"
  "state_io_rel (served E since) (GrantPermission E ctx nm pn)"
  "state_io_rel (served E since) (RevokePermission E ctx nm pn)"
  "state_io_rel (served E since) (GetUserRoleAssignments E ctx u)"
  unfolding CreateRole_def UpdateRole_def DeleteRole_def ListRoles_def AssignRole_def AssignRoleBulk_def
    RevokeRole_def ListPermissions_def GrantPermission_def RevokePermission_def GetUserRoleAssignments_def
  by (intro served_intros)+

end
