(* ===== verification/Tenants.thy ===== *)
theory Tenants
  imports Common
begin

text \<open>
  Tenants, projects and members: the handlers of \<^verbatim>\<open>internal/handler/tenant.go\<close>, and the first
  accounts of \<^verbatim>\<open>internal/handler/bootstrap.go\<close>.
\<close>

section \<open>Tenants\<close>

text \<open>Each membership as the tenant's id, slug, name and the status of the membership.\<close>

definition ListMyMemberships :: "env \<Rightarrow> identity \<Rightarrow> (string \<times> string \<times> string \<times> string) list handler" where
  "ListMyMemberships E ctx =
     check (of_sum (callerID E ctx)) (\<lambda>uid.
     or_return (exec E (sql_ListMembershipsByUser uid)) (Status Internal ''failed to list memberships'') (\<lambda>rows.
     ok (map (\<lambda>(t, st). (uuid_string E (t_ID t), t_Slug t, t_Name t, st)) rows)))"

definition CreateTenant :: "env \<Rightarrow> identity \<Rightarrow> string \<Rightarrow> string \<Rightarrow> Tenant handler" where
  "CreateTenant E ctx slug name =
     check (requirePerm ctx ''tenant:write'') (\<lambda>_.
     if slug = [] \<or> name = [] then bail (Status InvalidArgument ''slug and name are required'')
     else
     check (of_sum (callerID E ctx)) (\<lambda>uid.
     or_return (tx_begin E) (Status Internal ''could not start tx'') (\<lambda>_.
     deferring_rollback (
       or_return (exec E (sql_CreateTenant slug name)) (Status AlreadyExists ''tenant slug already taken'') (\<lambda>t.
       or_return (exec E (sql_CreateMembership uid (t_ID t))) (Status Internal ''could not enroll creator'') (\<lambda>_.
       or_return (exec E (sql_AssignRoleInTenant uid ''admin'' (t_ID t))) (Status Internal ''could not grant creator admin'') (\<lambda>_.
       or_return (tx_commit E) (Status Internal ''could not commit tenant'') (\<lambda>_.
       ignoring (audit E ctx ''tenant.create'' (uuid_string E (t_ID t)) slug) (ok t)))))))))"

definition ListTenants :: "env \<Rightarrow> identity \<Rightarrow> Tenant list handler" where
  "ListTenants E ctx =
     check (requirePerm ctx ''tenant:read'') (\<lambda>_.
     or_return (exec E sql_ListTenants) (Status Internal ''failed to list tenants'') ok)"

section \<open>Projects\<close>

definition CreateProject :: "env \<Rightarrow> identity \<Rightarrow> string \<Rightarrow> string \<Rightarrow> Project handler" where
  "CreateProject E ctx slug name =
     check (requirePerm ctx ''project:write'') (\<lambda>_.
     if slug = [] \<or> name = [] then bail (Status InvalidArgument ''slug and name are required'')
     else
     check (of_sum (activeTenant E ctx)) (\<lambda>tenant.
     or_return (withTenant E tenant (exec E (sql_CreateProject tenant slug name)))
       (Status AlreadyExists ''project slug already taken in this tenant'') (\<lambda>p.
     ignoring (audit E ctx ''project.create'' (uuid_string E (pj_ID p)) slug) (ok p))))"

definition ListProjects :: "env \<Rightarrow> identity \<Rightarrow> Project list handler" where
  "ListProjects E ctx =
     check (requirePerm ctx ''project:read'') (\<lambda>_.
     check (of_sum (activeTenant E ctx)) (\<lambda>tenant.
     or_return (withTenant E tenant (exec E (sql_ListProjectsByTenant tenant)))
       (Status Internal ''failed to list projects'') ok))"

section \<open>Members\<close>

text \<open>\<^verbatim>\<open>authv1.Member\<close>: the user's id and email and the status of the membership.\<close>

definition AddMember :: "env \<Rightarrow> identity \<Rightarrow> string \<Rightarrow> (uuid \<times> string \<times> string) handler" where
  "AddMember E ctx email =
     check (requirePerm ctx ''member:write'') (\<lambda>_.
     check (of_sum (activeTenant E ctx)) (\<lambda>tenant.
     State_Monad.bind (exec E (sql_GetUserByEmail email)) (\<lambda>found. case found of
       Inl e \<Rightarrow> if e = NoRows then bail (Status NotFound ''no user with that email'')
                else bail (Status Internal ''user lookup failed'')
     | Inr user \<Rightarrow>
     or_return (withTenant E tenant (exec E (sql_CreateMembership (u_ID user) tenant)))
       (Status Internal ''could not add member'') (\<lambda>_.
     ignoring (audit E ctx ''member.add'' (uuid_string E (u_ID user)) (uuid_string E tenant)) (
     ok (u_ID user, u_Email user, ''active''))))))"

definition RemoveMember :: "env \<Rightarrow> identity \<Rightarrow> string \<Rightarrow> unit handler" where
  "RemoveMember E ctx user_id =
     check (requirePerm ctx ''member:write'') (\<lambda>_.
     check (of_sum (activeTenant E ctx)) (\<lambda>tenant.
     case uuid_parse E user_id of
       None \<Rightarrow> bail (Status InvalidArgument ''invalid user id'')
     | Some uid \<Rightarrow>
     or_return (withTenant E tenant (exec E (sql_RemoveMember uid tenant))) (Status Internal ''could not remove member'') (\<lambda>_.
     ignoring (audit E ctx ''member.remove'' user_id (uuid_string E tenant)) (ok ()))))"

definition ListMembers :: "env \<Rightarrow> identity \<Rightarrow> (uuid \<times> string \<times> string) list handler" where
  "ListMembers E ctx =
     check (requirePerm ctx ''member:read'') (\<lambda>_.
     check (of_sum (activeTenant E ctx)) (\<lambda>tenant.
     or_return (withTenant E tenant (exec E (sql_ListMembersByTenant tenant)))
       (Status Internal ''failed to list members'') ok))"

section \<open>Bootstrap\<close>

datatype boot_error = DbError db_err | HashFailed

definition raising :: "('e \<Rightarrow> 'f) \<Rightarrow> ('s, 'e, 'a) prog \<Rightarrow> ('s, 'f, 'a) prog" where
  "raising f m = State_Monad.bind m (\<lambda>r. case r of Inl e \<Rightarrow> bail (f e) | Inr x \<Rightarrow> ok x)"

lemma run_raising [simp, run_simps]:
  "run_state (raising f m) w = (case run_state m w of (Inl e, w') \<Rightarrow> (Inl (f e), w') | (Inr x, w') \<Rightarrow> (Inr x, w'))"
  by (auto simp: raising_def split: prod.splits sum.splits)

text \<open>\<^verbatim>\<open>BootstrapAdmin\<close> and \<^verbatim>\<open>BootstrapDemo\<close> differ in the role they assign.\<close>

definition bootstrap_account :: "env \<Rightarrow> string \<Rightarrow> string \<Rightarrow> string \<Rightarrow> (world, boot_error, unit) prog" where
  "bootstrap_account E role email plainPassword =
     (if email = [] \<or> plainPassword = [] then ok ()
      else State_Monad.bind (exec E (sql_GetUserByEmail email)) (\<lambda>found. case found of
        Inr _ \<Rightarrow> ok ()
      | Inl e \<Rightarrow>
        if e \<noteq> NoRows then bail (DbError e)
        else
        or_return (Hash E plainPassword) HashFailed (\<lambda>hash.
        raising DbError (
          check (tx_begin E) (\<lambda>_.
          deferring_rollback (
            check (set_tenant E defaultTenantUUID) (\<lambda>_.
            check (exec E (sql_CreateUser email hash)) (\<lambda>user.
            check (exec E (sql_AssignRoleToUser (u_ID user) role defaultTenantUUID None)) (\<lambda>_.
            check (exec E (sql_CreateMembership (u_ID user) defaultTenantUUID)) (\<lambda>_.
            tx_commit E))))))))))"

definition BootstrapAdmin :: "env \<Rightarrow> string \<Rightarrow> string \<Rightarrow> (world, boot_error, unit) prog" where
  "BootstrapAdmin E email plainPassword = bootstrap_account E ''admin'' email plainPassword"

definition BootstrapDemo :: "env \<Rightarrow> string \<Rightarrow> string \<Rightarrow> (world, boot_error, unit) prog" where
  "BootstrapDemo E email plainPassword = bootstrap_account E ''viewer'' email plainPassword"

section \<open>Effects\<close>

lemma served_raising [served_intros]:
  "state_io_rel (served E since) m \<Longrightarrow> state_io_rel (served E since) (raising f m)"
  unfolding raising_def by (intro served_intros)

lemma served_tenants [served_intros]:
  "state_io_rel (served E since) (ListMyMemberships E ctx)"
  "state_io_rel (served E since) (CreateTenant E ctx slug nm)"
  "state_io_rel (served E since) (ListTenants E ctx)"
  "state_io_rel (served E since) (CreateProject E ctx slug nm)"
  "state_io_rel (served E since) (ListProjects E ctx)"
  "state_io_rel (served E since) (AddMember E ctx em)"
  "state_io_rel (served E since) (RemoveMember E ctx u)"
  "state_io_rel (served E since) (ListMembers E ctx)"
  "state_io_rel (served E since) (bootstrap_account E role em pw)"
  "state_io_rel (served E since) (BootstrapAdmin E em pw)"
  "state_io_rel (served E since) (BootstrapDemo E em pw)"
  unfolding ListMyMemberships_def CreateTenant_def ListTenants_def CreateProject_def ListProjects_def
    AddMember_def RemoveMember_def ListMembers_def BootstrapAdmin_def BootstrapDemo_def bootstrap_account_def
  by (intro served_intros)+

end
