(* ===== verification/ApiKeys.thy ===== *)
theory ApiKeys
  imports Common
begin

text \<open>API keys: the handlers of \<^verbatim>\<open>internal/handler/m4.go\<close> that mint, list, revoke and validate them.\<close>

section \<open>Minting\<close>

definition randToken :: "env \<Rightarrow> nat \<Rightarrow> (world, unit, string) prog" where
  "randToken E n = check (rand_read E n) (\<lambda>b. ok (hex_encode b))"

text \<open>\<^verbatim>\<open>time.Duration(ttl) * time.Second\<close> is a product of 64-bit integers.\<close>

definition ttl_duration :: "int \<Rightarrow> time" where
  "ttl_duration ttl = signed_take_bit 63 (ttl * second)"

record CreatedApiKey =
  ck_Secret :: string
  ck_ID :: string
  ck_Name :: string
  ck_Scopes :: "string list"
  ck_CreatedAt :: time
  ck_ExpiresAt :: "time option"

definition api_key_secret :: "string \<Rightarrow> string \<Rightarrow> string" where
  "api_key_secret keyID secret = ''iamk_'' @ keyID @ ''_'' @ secret"

definition expiry :: "env \<Rightarrow> int \<Rightarrow> (world, time option) state" where
  "expiry E ttl =
     (if ttl > 0 then State_Monad.bind (go_now E) (\<lambda>now. State_Monad.return (Some (now + ttl_duration ttl)))
      else State_Monad.return None)"

definition CreateApiKey :: "env \<Rightarrow> identity \<Rightarrow> string \<Rightarrow> string list \<Rightarrow> int \<Rightarrow> CreatedApiKey handler" where
  "CreateApiKey E ctx name scopes ttl =
     check (of_sum (callerID E ctx)) (\<lambda>uid.
     if name = [] then bail (Status InvalidArgument ''name is required'')
     else case List.find (\<lambda>s. \<not> id_HasPermission ctx s) scopes of
       Some s \<Rightarrow> bail (Status PermissionDenied (''cannot grant a scope you do not hold: '' @ s))
     | None \<Rightarrow>
     or_return (randToken E 8) (Status Internal ''failed to generate key'') (\<lambda>keyID.
     or_return (randToken E 24) (Status Internal ''failed to generate key'') (\<lambda>secret.
     let full = api_key_secret keyID secret in
     State_Monad.bind (expiry E ttl) (\<lambda>expires.
     check (of_sum (activeTenant E ctx)) (\<lambda>tenant.
     or_return (exec E (sql_CreateApiKey keyID uid (hashToken E full) name scopes expires tenant
                          (parseOptionalUUID E (id_ProjectID ctx))))
       (Status Internal ''failed to create api key'') (\<lambda>_.
     ignoring (audit E ctx ''apikey.create'' keyID name) (
     State_Monad.bind (go_now E) (\<lambda>now.
     ok \<lparr>ck_Secret = full, ck_ID = keyID, ck_Name = name, ck_Scopes = scopes,
         ck_CreatedAt = now, ck_ExpiresAt = expires\<rparr>))))))))"

section \<open>Listing and revoking\<close>

text \<open>What a listing shows of a key: never its hash.\<close>

record ApiKeyInfo =
  ki_ID :: string
  ki_Name :: string
  ki_Scopes :: "string list"
  ki_CreatedAt :: time
  ki_ExpiresAt :: "time option"
  ki_LastUsedAt :: "time option"

definition api_key_info :: "ApiKey \<Rightarrow> ApiKeyInfo" where
  "api_key_info k = \<lparr>ki_ID = k_ID k, ki_Name = k_Name k, ki_Scopes = k_Scopes k,
     ki_CreatedAt = k_CreatedAt k, ki_ExpiresAt = k_ExpiresAt k, ki_LastUsedAt = k_LastUsedAt k\<rparr>"

definition ListApiKeys :: "env \<Rightarrow> identity \<Rightarrow> ApiKeyInfo list handler" where
  "ListApiKeys E ctx =
     check (of_sum (callerID E ctx)) (\<lambda>uid.
     or_return (exec E (sql_ListApiKeysByUser uid)) (Status Internal ''failed to list api keys'') (\<lambda>rows.
     ok (map api_key_info rows)))"

definition RevokeApiKey :: "env \<Rightarrow> identity \<Rightarrow> string \<Rightarrow> unit handler" where
  "RevokeApiKey E ctx key_id =
     check (of_sum (callerID E ctx)) (\<lambda>uid.
     or_return (exec E (sql_RevokeApiKey key_id uid)) (Status Internal ''failed to revoke api key'') (\<lambda>_.
     ignoring (audit E ctx ''apikey.revoke'' key_id []) (ok ())))"

section \<open>Validating\<close>

text \<open>\<^verbatim>\<open>row.ExpiresAt.Valid && row.ExpiresAt.Time.Before(time.Now())\<close>\<close>

definition key_expired :: "env \<Rightarrow> ApiKey \<Rightarrow> (world, bool) state" where
  "key_expired E row = (case k_ExpiresAt row of
     None \<Rightarrow> State_Monad.return False
   | Some t \<Rightarrow> State_Monad.bind (go_now E) (\<lambda>now. State_Monad.return (t < now)))"

definition effective_scopes :: "string list \<Rightarrow> string list \<Rightarrow> string list" where
  "effective_scopes scopes perms = filter (\<lambda>s. s \<in> set perms) scopes"

definition ValidateApiKey :: "env \<Rightarrow> string \<Rightarrow> (string \<times> string \<times> string list) handler" where
  "ValidateApiKey E apiKey =
     or_return (exec E (sql_GetApiKeyByHash (hashToken E apiKey))) (Status Unauthenticated ''invalid api key'') (\<lambda>row.
     if k_RevokedAt row \<noteq> None then bail (Status Unauthenticated ''api key revoked'')
     else
     State_Monad.bind (key_expired E row) (\<lambda>expired.
     if expired then bail (Status Unauthenticated ''api key expired'')
     else
     or_return (exec E (sql_GetUserByID (k_UserID row))) (Status Unauthenticated ''invalid api key'') (\<lambda>user.
     if u_DeletedAt user \<noteq> None then bail (Status Unauthenticated ''invalid api key'')
     else
     or_return (exec E (sql_IsActiveMember (k_UserID row) (k_TenantID row)))
       (Status Unauthenticated ''api key tenant membership revoked'') (\<lambda>member.
     if \<not> member then bail (Status Unauthenticated ''api key tenant membership revoked'')
     else
     or_return (withTenantGUC E (k_TenantID row)
         (exec E (sql_GetUserPermissionsScoped (k_UserID row) (k_TenantID row) (k_ProjectID row))))
       (Status Internal ''failed to load permissions'') (\<lambda>perms.
     ignoring (exec E (sql_TouchApiKey (k_ID row))) (
     ok (uuid_string E (k_UserID row), u_Email user, effective_scopes (k_Scopes row) perms)))))))"

section \<open>Effects\<close>

lemma served_api_key_parts [served_intros]:
  "state_io_rel (served E since) (randToken E n)"
  "state_io_rel (served E since) (expiry E ttl)"
  "state_io_rel (served E since) (key_expired E row)"
  unfolding randToken_def expiry_def key_expired_def by (intro served_intros)+

lemma served_key_minting:
  assumes "\<And>t. (\<And>kid. key_mintable E since (hashToken E (api_key_secret kid t))) \<Longrightarrow> state_io_rel (served E since) (m t)"
  shows "state_io_rel (served E since) (or_return (randToken E 24) e m)"
  unfolding randToken_def
  by (rule served_drawing, rule assms) (fastforce simp: key_mintable_def api_key_secret_def)

lemma served_CreateApiKey [served_intros]: "state_io_rel (served E since) (CreateApiKey E ctx nm scs ttl)"
  unfolding CreateApiKey_def Let_def by (intro served_key_minting served_intros; assumption?)

lemma served_api_keys [served_intros]:
  "state_io_rel (served E since) (ListApiKeys E ctx)"
  "state_io_rel (served E since) (RevokeApiKey E ctx kid)"
  "state_io_rel (served E since) (ValidateApiKey E key)"
  unfolding ListApiKeys_def RevokeApiKey_def ValidateApiKey_def
  by (intro served_intros)+

end
