(* ===== verification/Oidc.thy ===== *)
theory Oidc
  imports Common
begin

text \<open>
  The OAuth 2 / OIDC provider: \<^verbatim>\<open>internal/handler/oidc_flow.go\<close> (clients, authorization codes,
  consents, the code exchange with PKCE) and \<^verbatim>\<open>internal/handler/oidc.go\<close> (the JWKS).
\<close>

section \<open>PKCE\<close>

definition verifyPKCE :: "env \<Rightarrow> string \<Rightarrow> string \<Rightarrow> string \<Rightarrow> bool" where
  "verifyPKCE E challenge mthd verifier =
     (if mthd = ''S256'' then b64_raw_url_encode (sha256 E verifier) = challenge
      else if mthd = ''plain'' \<or> mthd = [] then verifier = challenge
      else False)"

section \<open>Clients\<close>

text \<open>The error of \<^verbatim>\<open>rand.Read\<close> is dropped: the buffer then still holds zeros.\<close>

definition randCode :: "env \<Rightarrow> (world, string) state" where
  "randCode E = State_Monad.bind (rand_read E 32) (\<lambda>r. State_Monad.return
     (b64_raw_url_encode (case r of Inl _ \<Rightarrow> replicate 32 (CHR 0x00) | Inr b \<Rightarrow> b)))"

text \<open>\<^verbatim>\<open>authv1.OAuthClient\<close> has no secret.\<close>

record ClientInfo =
  ci_ClientId :: string
  ci_Name :: string
  ci_RedirectUris :: "string list"
  ci_Scopes :: "string list"
  ci_GrantTypes :: "string list"
  ci_IsConfidential :: bool

definition client_info :: "OauthClient \<Rightarrow> ClientInfo" where
  "client_info c = \<lparr>ci_ClientId = oc_ClientID c, ci_Name = oc_Name c, ci_RedirectUris = oc_RedirectUris c,
     ci_Scopes = oc_Scopes c, ci_GrantTypes = oc_GrantTypes c, ci_IsConfidential = oc_IsConfidential c\<rparr>"

definition GetClient :: "env \<Rightarrow> string \<Rightarrow> ClientInfo handler" where
  "GetClient E client_id =
     State_Monad.bind (exec E (sql_SelectClient client_id)) (\<lambda>r. case r of
       Inl e \<Rightarrow> if e = NoRows then bail (Status NotFound ''client not found'')
                else bail (Status Internal ''client lookup failed'')
     | Inr c \<Rightarrow> ok (client_info c))"

definition RegisterClient ::
  "env \<Rightarrow> identity \<Rightarrow> string \<Rightarrow> string list \<Rightarrow> string list \<Rightarrow> bool \<Rightarrow> (string \<times> string) handler" where
  "RegisterClient E ctx name redirect_uris scopes is_confidential =
     check (requirePerm ctx ''role:write'') (\<lambda>_.
     check (of_sum (activeTenant E ctx)) (\<lambda>tenant.
     State_Monad.bind (new_uuid E) (\<lambda>cid.
     State_Monad.bind (if is_confidential then randCode E else State_Monad.return []) (\<lambda>secret.
     let scopes = (if scopes = [] then [''openid'', ''profile'', ''email''] else scopes) in
     or_return (exec E (sql_InsertClient
         \<lparr>oc_ClientID = uuid_string E cid,
          oc_ClientSecretHash = (if is_confidential then Some (hashToken E secret) else None),
          oc_Name = name, oc_RedirectUris = redirect_uris,
          oc_GrantTypes = [''authorization_code'', ''refresh_token''], oc_Scopes = scopes,
          oc_IsConfidential = is_confidential, oc_TenantID = tenant\<rparr>))
       (Status Internal ''could not register client'') (\<lambda>_.
     ok (uuid_string E cid, secret))))))"

text \<open>The migration gives a client without a tenant the default tenant.\<close>

definition BootstrapOIDCClient :: "env \<Rightarrow> (world, db_err, unit) prog" where
  "BootstrapOIDCClient E =
     (let clientID = Getenv E ''OIDC_CONSOLE_CLIENT_ID'' ''iam-admin-console'';
          secret = Getenv E ''OIDC_CONSOLE_SECRET'' ''console-demo-secret-change-me'';
          redirects = split_on (CHR '','')
            (Getenv E ''OIDC_CONSOLE_REDIRECT_URIS'' ''http://localhost:3000/api/auth/callback/iam'')
      in exec E (sql_InsertClientIfAbsent
         \<lparr>oc_ClientID = clientID, oc_ClientSecretHash = Some (hashToken E secret),
          oc_Name = ''IAM Admin Console'', oc_RedirectUris = redirects,
          oc_GrantTypes = [''authorization_code'', ''refresh_token''],
          oc_Scopes = [''openid'', ''profile'', ''email''], oc_IsConfidential = True,
          oc_TenantID = defaultTenantUUID\<rparr>))"

section \<open>Authorization codes\<close>

definition CreateAuthorizationCode ::
  "env \<Rightarrow> string \<Rightarrow> string \<Rightarrow> string \<Rightarrow> string \<Rightarrow> string \<Rightarrow> string \<Rightarrow> string \<Rightarrow> string handler" where
  "CreateAuthorizationCode E user_id client_id redirect_uri scope challenge mthd nonce =
     (case uuid_parse E user_id of
       None \<Rightarrow> bail (Status InvalidArgument ''invalid user id'')
     | Some uid \<Rightarrow>
     or_return (exec E (sql_ClientTenant client_id)) (Status NotFound ''client not found'') (\<lambda>clientTenant.
     or_return (exec E (sql_IsActiveMember uid clientTenant))
       (Status PermissionDenied ''not a member of this client's organization'') (\<lambda>member.
     if \<not> member then bail (Status PermissionDenied ''not a member of this client's organization'')
     else
     State_Monad.bind (randCode E) (\<lambda>code.
     or_return (exec E (sql_InsertCode (hashToken E code) client_id uid redirect_uri scope challenge mthd nonce))
       (Status Internal ''could not create authorization code'') (\<lambda>_.
     ok code)))))"

text \<open>The client's authentication: the secret of a confidential client, else PKCE.\<close>

definition authenticate_client :: "env \<Rightarrow> string \<Rightarrow> string \<Rightarrow> bool \<Rightarrow> unit handler" where
  "authenticate_client E clientID client_secret hasPKCE =
     or_return (exec E (sql_ClientSecret clientID)) (Status InvalidArgument ''invalid_client'') (\<lambda>(secretHash, isConfidential).
     if isConfidential then
       (if secretHash = None \<or> Some (hashToken E client_secret) \<noteq> secretHash
        then bail (Status Unauthenticated ''invalid_client'') else ok ())
     else if \<not> hasPKCE then bail (Status InvalidArgument ''PKCE required for public clients'')
     else ok ())"

text \<open>Reading and claiming a code; the code presented must be unused, alive and the client's own.\<close>

definition redeem_code :: "env \<Rightarrow> string \<Rightarrow> string \<Rightarrow> string \<Rightarrow> OauthAuthorizationCode handler" where
  "redeem_code E codeHash client_id redirect_uri =
     or_return (exec E (sql_SelectCode codeHash)) (Status InvalidArgument ''invalid_grant'') (\<lambda>(a, expired).
     if ac_Used a \<or> expired \<or> ac_ClientID a \<noteq> client_id \<or> ac_RedirectUri a \<noteq> redirect_uri
     then bail (Status InvalidArgument ''invalid_grant'')
     else
     or_return (exec E (sql_ClaimCode codeHash)) (Status InvalidArgument ''invalid_grant'') (\<lambda>rows.
     if rows \<noteq> 1 then bail (Status InvalidArgument ''invalid_grant'') else ok a))"

record OidcTokenResponse =
  ot_AccessToken :: string
  ot_IdToken :: string
  ot_RefreshToken :: string
  ot_ExpiresIn :: int
  ot_TokenType :: string
  ot_Scope :: string

definition or_empty :: "string option \<Rightarrow> string" where
  "or_empty s = (case s of None \<Rightarrow> [] | Some t \<Rightarrow> t)"

definition hasPKCE :: "OauthAuthorizationCode \<Rightarrow> bool" where
  "hasPKCE a \<longleftrightarrow> or_empty (ac_CodeChallenge a) \<noteq> []"

definition ExchangeAuthorizationCode ::
  "env \<Rightarrow> AuthHandler \<Rightarrow> string \<Rightarrow> string \<Rightarrow> string \<Rightarrow> string \<Rightarrow> string \<Rightarrow> OidcTokenResponse handler" where
  "ExchangeAuthorizationCode E h code client_id redirect_uri code_verifier client_secret =
     check (redeem_code E (hashToken E code) client_id redirect_uri) (\<lambda>a.
     if hasPKCE a \<and> \<not> verifyPKCE E (or_empty (ac_CodeChallenge a)) (or_empty (ac_CodeChallengeMethod a)) code_verifier
     then bail (Status InvalidArgument ''invalid_grant'')
     else
     check (authenticate_client E (ac_ClientID a) client_secret (hasPKCE a)) (\<lambda>_.
     or_return (exec E (sql_SelectUserEmail (ac_UserID a))) (Status Internal ''user lookup failed'') (\<lambda>email.
     or_return (exec E (sql_ClientTenant (ac_ClientID a))) (Status Internal ''client tenant lookup failed'') (\<lambda>clientTenant.
     or_return (exec E (sql_IsActiveMember (ac_UserID a) clientTenant)) (Status Internal ''membership check failed'') (\<lambda>member.
     if \<not> member then bail (Status PermissionDenied ''not a member of this organization'')
     else
     check (issueTokens E h (ac_UserID a) email clientTenant None) (\<lambda>tp.
     let issuer = Getenv E ''OIDC_ISSUER'' ''http://localhost:8080'' in
     or_return (IssueIDToken E (h_jwt h) (uuid_string E (ac_UserID a)) email (ac_ClientID a) (or_empty (ac_Nonce a)) issuer)
       (Status Internal ''failed to sign id_token'') (\<lambda>idToken.
     ok \<lparr>ot_AccessToken = tp_AccessToken tp, ot_IdToken = idToken, ot_RefreshToken = tp_RefreshToken tp,
         ot_ExpiresIn = tp_ExpiresIn tp, ot_TokenType = ''Bearer'', ot_Scope = ac_Scope a\<rparr>)))))))"

section \<open>Consents\<close>

definition GetConsent :: "env \<Rightarrow> string \<Rightarrow> string \<Rightarrow> string list handler" where
  "GetConsent E user_id client_id =
     (case uuid_parse E user_id of
       None \<Rightarrow> bail (Status InvalidArgument ''invalid user id'')
     | Some uid \<Rightarrow>
     State_Monad.bind (exec E (sql_SelectConsent uid client_id)) (\<lambda>r. case r of
       Inl e \<Rightarrow> if e = NoRows then ok [] else bail (Status Internal ''consent lookup failed'')
     | Inr scopes \<Rightarrow> ok scopes))"

definition SaveConsent :: "env \<Rightarrow> string \<Rightarrow> string \<Rightarrow> string list \<Rightarrow> unit handler" where
  "SaveConsent E user_id client_id scopes =
     (case uuid_parse E user_id of
       None \<Rightarrow> bail (Status InvalidArgument ''invalid user id'')
     | Some uid \<Rightarrow>
     or_return (exec E (sql_UpsertConsent uid client_id scopes)) (Status Internal ''could not save consent'') ok)"

section \<open>JWKS\<close>

text \<open>\<^verbatim>\<open>big.Int.Bytes\<close>: big-endian, without leading zeros.\<close>

fun nat_bytes :: "nat \<Rightarrow> bytes" where
  "nat_bytes n = (if n = 0 then [] else nat_bytes (n div 256) @ [char_of (n mod 256)])"

declare nat_bytes.simps [simp del]

definition bytes_nat :: "bytes \<Rightarrow> nat" where
  "bytes_nat bs = foldl (\<lambda>n b. 256 * n + byte_val b) 0 bs"

lemma bytes_nat_bytes: "bytes_nat (nat_bytes n) = n"
proof (induction n rule: nat_bytes.induct)
  case (1 n)
  then show ?case by (subst nat_bytes.simps) (auto simp: bytes_nat_def of_char_mod_256)
qed

interpretation big_int: codec nat_bytes "\<lambda>bs. Some (bytes_nat bs)"
  by unfold_locales (simp add: bytes_nat_bytes)

record Jwk =
  jwk_Kid :: string
  jwk_Kty :: string
  jwk_Use :: string
  jwk_Alg :: string
  jwk_N :: string
  jwk_E :: string

definition jwk_of :: "string \<times> PublicKey \<Rightarrow> Jwk" where
  "jwk_of = (\<lambda>(kid, pub). \<lparr>jwk_Kid = kid, jwk_Kty = ''RSA'', jwk_Use = ''sig'', jwk_Alg = ''RS256'',
     jwk_N = b64_raw_url_encode (nat_bytes (pk_N pub)), jwk_E = b64_raw_url_encode (nat_bytes (pk_E pub))\<rparr>)"

text \<open>Go lists the map in no particular order.\<close>

definition GetJwks :: "AuthHandler \<Rightarrow> Jwk list" where
  "GetJwks h = map jwk_of (j_verifiers (h_jwt h))"

section \<open>Effects\<close>

lemma served_randCode [served_intros]: "state_io_rel (served E since) (randCode E)"
  unfolding randCode_def by (intro served_intros)

lemma served_oidc_parts [served_intros]:
  "state_io_rel (served E since) (authenticate_client E cid sec pk)"
  "state_io_rel (served E since) (redeem_code E hh cid ru)"
  unfolding authenticate_client_def redeem_code_def by (intro served_intros)+

lemma served_oidc [served_intros]:
  "state_io_rel (served E since) (GetClient E cid)"
  "state_io_rel (served E since) (RegisterClient E ctx nm uris scs conf)"
  "state_io_rel (served E since) (BootstrapOIDCClient E)"
  "state_io_rel (served E since) (CreateAuthorizationCode E u cid ru sc ch me no)"
  "state_io_rel (served E since) (ExchangeAuthorizationCode E h code cid ru ver sec)"
  "state_io_rel (served E since) (GetConsent E u cid)"
  "state_io_rel (served E since) (SaveConsent E u cid scs)"
  unfolding GetClient_def RegisterClient_def BootstrapOIDCClient_def CreateAuthorizationCode_def
    ExchangeAuthorizationCode_def GetConsent_def SaveConsent_def
  by (intro served_intros)+

end
