(* ===== verification/Events.thy ===== *)
theory Events
  imports Common "HOL-Library.AList"
begin

text \<open>
  Events: the outbox relay of \<^verbatim>\<open>internal/outbox/relay.go\<close> and the compensator of
  \<^verbatim>\<open>internal/saga/saga.go\<close>; and the loading of the signing keys at start,
  \<^verbatim>\<open>internal/jwt/keys.go\<close>.
\<close>

section \<open>Outbox relay\<close>

record Relay =
  r_interval :: time
  r_batch :: int

definition NewRelay :: Relay where
  "NewRelay = \<lparr>r_interval = second, r_batch = 100\<rparr>"

text \<open>
  \<^verbatim>\<open>js.Publish\<close> waits for the server's acknowledgement. When it returns an error the message
  may still have arrived: \<open>lost\<close> says whether it did.
\<close>

definition Publish :: "env \<Rightarrow> string \<Rightarrow> bytes \<Rightarrow> string \<Rightarrow> (world, unit, unit) prog" where
  "Publish E subject payload msgId = State (\<lambda>w.
     let sent = w\<lparr>outputs := outputs w @ [Published subject payload msgId], step := Suc (step w)\<rparr>;
         unsent = w\<lparr>step := Suc (step w)\<rparr>
     in if \<not> io_fail E (step w) then (Inr (), sent)
        else if lost E (step w) then (Inl (), unsent) else (Inl (), sent))"

datatype drain_error = FetchFailed | PublishFailed | MarkFailed

fun publish_rows :: "env \<Rightarrow> Outbox list \<Rightarrow> (world, drain_error, unit) prog" where
  "publish_rows E [] = ok ()"
| "publish_rows E (row # rows) =
     or_return (Publish E (subject_prefix E @ o_EventType row) (o_Payload row) (uuid_string E (o_ID row))) PublishFailed (\<lambda>_.
     or_return (exec E (sql_MarkOutboxPublished (o_ID row))) MarkFailed (\<lambda>_.
     publish_rows E rows))"

definition drain :: "env \<Rightarrow> Relay \<Rightarrow> (world, drain_error, unit) prog" where
  "drain E r = or_return (exec E (sql_FetchUnpublishedOutbox (r_batch r))) FetchFailed (\<lambda>rows. publish_rows E rows)"

text \<open>The polling loop until the context is cancelled: \<open>n\<close> ticks.\<close>

fun relay_ticks :: "env \<Rightarrow> Relay \<Rightarrow> nat \<Rightarrow> (world, unit) state" where
  "relay_ticks E r 0 = skip"
| "relay_ticks E r (Suc n) = ignoring (drain E r) (relay_ticks E r n)"

section \<open>Saga\<close>

text \<open>How a message is settled.\<close>

datatype settled = Term | Ack

definition saga_handle :: "env \<Rightarrow> bytes \<Rightarrow> (world, settled) state" where
  "saga_handle E data = (case unmarshal_failure E data of
     None \<Rightarrow> State_Monad.return Term
   | Some (userID, reason) \<Rightarrow>
       (case uuid_parse E userID of
          None \<Rightarrow> State_Monad.return Term
        | Some _ \<Rightarrow>
            ignoring (exec E (sql_InsertAuditEvent ''system'' ''saga'' ''profile.creation_failed'' userID reason None))
              (State_Monad.return Ack)))"

section \<open>Signing keys\<close>

datatype keys_error = KeysDb db_err | GenerateFailed | BadPublicPem | BadPrivatePem | NoActiveKey

record KeySet =
  ks_Active :: SigningKey
  ks_Verifiers :: "(string \<times> PublicKey) list"

definition parsePrivatePEM :: "env \<Rightarrow> string \<Rightarrow> private_key option" where
  "parsePrivatePEM E s = (case pem_decode E s of None \<Rightarrow> None | Some block \<Rightarrow> ParsePKCS1PrivateKey E block)"

definition parsePublicPEM :: "env \<Rightarrow> string \<Rightarrow> PublicKey option" where
  "parsePublicPEM E s = (case pem_decode E s of
     None \<Rightarrow> None
   | Some block \<Rightarrow> (case ParsePKIXPublicKey E block of
       None \<Rightarrow> None
     | Some OtherKey \<Rightarrow> None
     | Some (RSAKey pub) \<Rightarrow> Some pub))"

text \<open>
  The loop over the rows, from the verifiers and the active key found so far. Verifiers are a
  map: a later row of the same \<^verbatim>\<open>kid\<close> replaces the earlier one.
\<close>

fun load_rows ::
  "env \<Rightarrow> OidcSigningKey list \<Rightarrow> (string \<times> PublicKey) list \<Rightarrow> SigningKey option
   \<Rightarrow> keys_error + (string \<times> PublicKey) list \<times> SigningKey option" where
  "load_rows E [] vs active = Inr (vs, active)"
| "load_rows E (r # rs) vs active =
     (case parsePublicPEM E (sk_PublicPem r) of
        None \<Rightarrow> Inl BadPublicPem
      | Some pub \<Rightarrow>
          if sk_Active r then
            (case parsePrivatePEM E (sk_PrivatePem r) of
               None \<Rightarrow> Inl BadPrivatePem
             | Some priv \<Rightarrow> load_rows E rs (AList.update (sk_Kid r) pub vs) (Some \<lparr>key_Kid = sk_Kid r, key_Private = priv\<rparr>))
          else load_rows E rs (AList.update (sk_Kid r) pub vs) active)"

definition generateRSA :: "env \<Rightarrow> (world, unit, private_key \<times> string \<times> string \<times> string) prog" where
  "generateRSA E = check (State (\<lambda>w. (case rsa_generate E (step w) of None \<Rightarrow> Inl () | Some k \<Rightarrow> Inr k,
                                     w\<lparr>step := Suc (step w)\<rparr>))) (\<lambda>key.
     State_Monad.bind (new_uuid E) (\<lambda>kid.
     let privPEM = pem_encode E ''RSA PRIVATE KEY'' (MarshalPKCS1PrivateKey E key) in
     check (from_option () (MarshalPKIXPublicKey E (rsa_public E key))) (\<lambda>pubDER.
     ok (key, uuid_string E kid, privPEM, pem_encode E ''PUBLIC KEY'' pubDER))))"

definition LoadKeys :: "env \<Rightarrow> (world, keys_error, KeySet) prog" where
  "LoadKeys E =
     State_Monad.bind (exec E sql_SelectSigningKeys) (\<lambda>r. case r of
       Inl e \<Rightarrow> bail (KeysDb e)
     | Inr found \<Rightarrow>
         if found = [] then
           or_return (generateRSA E) GenerateFailed (\<lambda>(key, kid, privPEM, pubPEM).
           State_Monad.bind (exec E (sql_InsertSigningKey kid privPEM pubPEM)) (\<lambda>r. case r of
             Inl e \<Rightarrow> bail (KeysDb e)
           | Inr _ \<Rightarrow> ok \<lparr>ks_Active = \<lparr>key_Kid = kid, key_Private = key\<rparr>, ks_Verifiers = [(kid, rsa_public E key)]\<rparr>))
         else
           (case load_rows E found [] None of
              Inl e \<Rightarrow> bail e
            | Inr (vs, None) \<Rightarrow> bail NoActiveKey
            | Inr (vs, Some active) \<Rightarrow> ok \<lparr>ks_Active = active, ks_Verifiers = vs\<rparr>))"

section \<open>Effects\<close>

lemma served_Publish [served_intros]: "state_io_rel (served E since) (Publish E su pl mid)"
  unfolding Publish_def
  by (rule served_of_path) (auto intro!: state_io_relI path.same_db_effect simp: idle_def Let_def split: if_splits)

lemma served_publish_rows [served_intros]: "state_io_rel (served E since) (publish_rows E rows)"
  by (induction rows) (auto intro!: served_intros)

lemma served_drain [served_intros]: "state_io_rel (served E since) (drain E r)"
  unfolding drain_def by (intro served_intros)

lemma served_relay_ticks [served_intros]: "state_io_rel (served E since) (relay_ticks E r n)"
  by (induction n) (auto intro!: served_intros)

lemma served_saga_handle [served_intros]: "state_io_rel (served E since) (saga_handle E data)"
  unfolding saga_handle_def by (intro served_intros)

lemma served_LoadKeys [served_intros]: "state_io_rel (served E since) (LoadKeys E)"
  unfolding LoadKeys_def generateRSA_def by (intro served_intros served_step)

end
