(* ===== verification/Service.thy ===== *)
theory Service
  imports Login Sessions Recovery Rbac Tenants ApiKeys Oidc Events
begin

text \<open>
  The service as a whole: every gRPC method of \<^verbatim>\<open>AuthService\<close>, a tick of the outbox relay, a
  saga message and the bootstrap steps of \<^verbatim>\<open>cmd/main.go\<close> as one type of request, and a run of the
  service as a sequence of requests. What \<open>serve\<close> keeps, every run keeps.
\<close>

section \<open>Requests\<close>

datatype login_request =
    RRegister string string
  | RLogin string string
  | RLoginTotp string string
  | REnrollTotp
  | RGetTotpStatus
  | RActivateTotp string
  | RDisableTotp string
  | RDeleteUser string bool
  | RRestoreUser string

datatype session_request =
    RRefresh string
  | RLogout string string
  | RValidateToken string
  | RSwitchTenant string string

datatype recovery_request =
    RRequestEmailVerification string
  | RVerifyEmail string
  | RRequestPasswordReset string
  | RResetPassword string string
  | RChangePassword string string
  | RListAuditEvents int

datatype rbac_request =
    RCreateRole string string
  | RUpdateRole string string
  | RDeleteRole string
  | RListRoles
  | RAssignRole string string string
  | RAssignRoleBulk "string list" string string
  | RRevokeRole string string string
  | RListPermissions
  | RGrantPermission string string
  | RRevokePermission string string
  | RGetUserRoleAssignments string

datatype tenant_request =
    RListMyMemberships
  | RCreateTenant string string
  | RListTenants
  | RCreateProject string string
  | RListProjects
  | RAddMember string
  | RRemoveMember string
  | RListMembers

datatype api_key_request =
    RCreateApiKey string "string list" int
  | RListApiKeys
  | RRevokeApiKey string
  | RValidateApiKey string

datatype oidc_request =
    RGetClient string
  | RRegisterClient string "string list" "string list" bool
  | RCreateAuthorizationCode string string string string string string string
  | RExchangeAuthorizationCode string string string string string
  | RGetConsent string string
  | RSaveConsent string string "string list"

datatype background_request =
    RRelayTick
  | RSagaMessage bytes
  | RBootstrapAdmin string string
  | RBootstrapDemo string string
  | RBootstrapOIDCClient

datatype request =
    LoginRequest login_request
  | SessionRequest session_request
  | RecoveryRequest recovery_request
  | RbacRequest rbac_request
  | TenantRequest tenant_request
  | ApiKeyRequest api_key_request
  | OidcRequest oidc_request
  | BackgroundRequest background_request

text \<open>Only the effect of a request on the world matters to a run.\<close>

definition effect :: "(world, 'a) state \<Rightarrow> (world, unit) state" where
  "effect m = ignoring m skip"

fun serve_login :: "env \<Rightarrow> AuthHandler \<Rightarrow> identity \<Rightarrow> login_request \<Rightarrow> (world, unit) state" where
  "serve_login E h ctx (RRegister email pw) = effect (Register E ctx email pw)"
| "serve_login E h ctx (RLogin email pw) = effect (Login E h ctx email pw)"
| "serve_login E h ctx (RLoginTotp tok code) = effect (LoginTotp E h ctx tok code)"
| "serve_login E h ctx REnrollTotp = effect (EnrollTotp E h ctx)"
| "serve_login E h ctx RGetTotpStatus = effect (GetTotpStatus E ctx)"
| "serve_login E h ctx (RActivateTotp code) = effect (ActivateTotp E h ctx code)"
| "serve_login E h ctx (RDisableTotp code) = effect (DisableTotp E h ctx code)"
| "serve_login E h ctx (RDeleteUser u hard) = effect (DeleteUser E ctx u hard)"
| "serve_login E h ctx (RRestoreUser u) = effect (RestoreUser E ctx u)"

fun serve_session :: "env \<Rightarrow> AuthHandler \<Rightarrow> identity \<Rightarrow> session_request \<Rightarrow> (world, unit) state" where
  "serve_session E h ctx (RRefresh tok) = effect (Refresh E h ctx tok)"
| "serve_session E h ctx (RLogout r a) = effect (Logout E h ctx r a)"
| "serve_session E h ctx (RValidateToken a) = effect (ValidateToken E h a)"
| "serve_session E h ctx (RSwitchTenant t p) = effect (SwitchTenant E h ctx t p)"

fun serve_recovery :: "env \<Rightarrow> AuthHandler \<Rightarrow> identity \<Rightarrow> recovery_request \<Rightarrow> (world, unit) state" where
  "serve_recovery E h ctx (RRequestEmailVerification em) = effect (RequestEmailVerification E ctx em)"
| "serve_recovery E h ctx (RVerifyEmail tok) = effect (VerifyEmail E ctx tok)"
| "serve_recovery E h ctx (RRequestPasswordReset em) = effect (RequestPasswordReset E ctx em)"
| "serve_recovery E h ctx (RResetPassword tok pw) = effect (ResetPassword E ctx tok pw)"
| "serve_recovery E h ctx (RChangePassword old new) = effect (ChangePassword E ctx old new)"
| "serve_recovery E h ctx (RListAuditEvents n) = effect (ListAuditEvents E ctx n)"

fun serve_rbac :: "env \<Rightarrow> AuthHandler \<Rightarrow> identity \<Rightarrow> rbac_request \<Rightarrow> (world, unit) state" where
  "serve_rbac E h ctx (RCreateRole nm ds) = effect (CreateRole E ctx nm ds)"
| "serve_rbac E h ctx (RUpdateRole nm ds) = effect (UpdateRole E ctx nm ds)"
| "serve_rbac E h ctx (RDeleteRole nm) = effect (DeleteRole E ctx nm)"
| "serve_rbac E h ctx RListRoles = effect (ListRoles E ctx)"
| "serve_rbac E h ctx (RAssignRole u nm p) = effect (AssignRole E h ctx u nm p)"
| "serve_rbac E h ctx (RAssignRoleBulk us nm p) = effect (AssignRoleBulk E h ctx us nm p)"
| "serve_rbac E h ctx (RRevokeRole u nm p) = effect (RevokeRole E h ctx u nm p)"
| "serve_rbac E h ctx RListPermissions = effect (ListPermissions E ctx)"
| "serve_rbac E h ctx (RGrantPermission nm pn) = effect (GrantPermission E ctx nm pn)"
| "serve_rbac E h ctx (RRevokePermission nm pn) = effect (RevokePermission E ctx nm pn)"
| "serve_rbac E h ctx (RGetUserRoleAssignments u) = effect (GetUserRoleAssignments E ctx u)"

fun serve_tenant :: "env \<Rightarrow> AuthHandler \<Rightarrow> identity \<Rightarrow> tenant_request \<Rightarrow> (world, unit) state" where
  "serve_tenant E h ctx RListMyMemberships = effect (ListMyMemberships E ctx)"
| "serve_tenant E h ctx (RCreateTenant sl nm) = effect (CreateTenant E ctx sl nm)"
| "serve_tenant E h ctx RListTenants = effect (ListTenants E ctx)"
| "serve_tenant E h ctx (RCreateProject sl nm) = effect (CreateProject E ctx sl nm)"
| "serve_tenant E h ctx RListProjects = effect (ListProjects E ctx)"
| "serve_tenant E h ctx (RAddMember em) = effect (AddMember E ctx em)"
| "serve_tenant E h ctx (RRemoveMember u) = effect (RemoveMember E ctx u)"
| "serve_tenant E h ctx RListMembers = effect (ListMembers E ctx)"

fun serve_api_key :: "env \<Rightarrow> AuthHandler \<Rightarrow> identity \<Rightarrow> api_key_request \<Rightarrow> (world, unit) state" where
  "serve_api_key E h ctx (RCreateApiKey nm scs ttl) = effect (CreateApiKey E ctx nm scs ttl)"
| "serve_api_key E h ctx RListApiKeys = effect (ListApiKeys E ctx)"
| "serve_api_key E h ctx (RRevokeApiKey k) = effect (RevokeApiKey E ctx k)"
| "serve_api_key E h ctx (RValidateApiKey key) = effect (ValidateApiKey E key)"

fun serve_oidc :: "env \<Rightarrow> AuthHandler \<Rightarrow> identity \<Rightarrow> oidc_request \<Rightarrow> (world, unit) state" where
  "serve_oidc E h ctx (RGetClient cid) = effect (GetClient E cid)"
| "serve_oidc E h ctx (RRegisterClient nm uris scs conf) = effect (RegisterClient E ctx nm uris scs conf)"
| "serve_oidc E h ctx (RCreateAuthorizationCode u cid ru sc ch me no) =
     effect (CreateAuthorizationCode E u cid ru sc ch me no)"
| "serve_oidc E h ctx (RExchangeAuthorizationCode code cid ru ver sec) =
     effect (ExchangeAuthorizationCode E h code cid ru ver sec)"
| "serve_oidc E h ctx (RGetConsent u cid) = effect (GetConsent E u cid)"
| "serve_oidc E h ctx (RSaveConsent u cid scs) = effect (SaveConsent E u cid scs)"

fun serve_background :: "env \<Rightarrow> AuthHandler \<Rightarrow> identity \<Rightarrow> background_request \<Rightarrow> (world, unit) state" where
  "serve_background E h ctx RRelayTick = effect (drain E NewRelay)"
| "serve_background E h ctx (RSagaMessage data) = effect (saga_handle E data)"
| "serve_background E h ctx (RBootstrapAdmin em pw) = effect (BootstrapAdmin E em pw)"
| "serve_background E h ctx (RBootstrapDemo em pw) = effect (BootstrapDemo E em pw)"
| "serve_background E h ctx RBootstrapOIDCClient = effect (BootstrapOIDCClient E)"

fun serve :: "env \<Rightarrow> AuthHandler \<Rightarrow> identity \<Rightarrow> request \<Rightarrow> (world, unit) state" where
  "serve E h ctx (LoginRequest r) = serve_login E h ctx r"
| "serve E h ctx (SessionRequest r) = serve_session E h ctx r"
| "serve E h ctx (RecoveryRequest r) = serve_recovery E h ctx r"
| "serve E h ctx (RbacRequest r) = serve_rbac E h ctx r"
| "serve E h ctx (TenantRequest r) = serve_tenant E h ctx r"
| "serve E h ctx (ApiKeyRequest r) = serve_api_key E h ctx r"
| "serve E h ctx (OidcRequest r) = serve_oidc E h ctx r"
| "serve E h ctx (BackgroundRequest r) = serve_background E h ctx r"

text \<open>A run: each request with the identity its caller presents.\<close>

fun serve_all :: "env \<Rightarrow> AuthHandler \<Rightarrow> (identity \<times> request) list \<Rightarrow> world \<Rightarrow> world" where
  "serve_all E h [] w = w"
| "serve_all E h ((ctx, r) # rs) w = serve_all E h rs (snd (run_state (serve E h ctx r) w))"

lemma run_effect [simp]: "run_state (effect m) w = ((), snd (run_state m w))"
  by (simp add: effect_def)

lemma served_effect: "state_io_rel (served E since) m \<Longrightarrow> state_io_rel (served E since) (effect m)"
  unfolding effect_def by (intro served_intros)

lemma served_login_request: "state_io_rel (served E since) (serve_login E h ctx r)"
  by (cases r; simp only: serve_login.simps; rule served_effect; intro served_intros)

lemma served_session_request: "state_io_rel (served E since) (serve_session E h ctx r)"
  by (cases r; simp only: serve_session.simps; rule served_effect; intro served_intros)

lemma served_recovery_request: "state_io_rel (served E since) (serve_recovery E h ctx r)"
  by (cases r; simp only: serve_recovery.simps; rule served_effect; intro served_intros)

lemma served_rbac_request: "state_io_rel (served E since) (serve_rbac E h ctx r)"
  by (cases r; simp only: serve_rbac.simps; rule served_effect; intro served_intros)

lemma served_tenant_request: "state_io_rel (served E since) (serve_tenant E h ctx r)"
  by (cases r; simp only: serve_tenant.simps; rule served_effect; intro served_intros)

lemma served_api_key_request: "state_io_rel (served E since) (serve_api_key E h ctx r)"
  by (cases r; simp only: serve_api_key.simps; rule served_effect; intro served_intros)

lemma served_oidc_request: "state_io_rel (served E since) (serve_oidc E h ctx r)"
  by (cases r; simp only: serve_oidc.simps; rule served_effect; intro served_intros)

lemma served_background_request: "state_io_rel (served E since) (serve_background E h ctx r)"
  by (cases r; simp only: serve_background.simps; rule served_effect; intro served_intros)

lemma served_serve: "state_io_rel (served E since) (serve E h ctx r)"
  by (cases r) (simp_all add: served_login_request served_session_request served_recovery_request served_rbac_request 
      served_tenant_request served_api_key_request served_oidc_request served_background_request)

lemma served_all: "served E since w (serve_all E h rs w)"
proof (induction rs arbitrary: w)
  case Nil
  show ?case by (simp add: served.refl)
next
  case (Cons x rs)
  obtain ctx r where x: "x = (ctx, r)" by (cases x)
  have "served E since w (snd (run_state (serve E h ctx r) w))"
    using served_serve [of E since h ctx r] by (simp add: state_io_rel_def)
  then show ?case using Cons by (simp add: x served.trans)
qed

text \<open>What the steps of the database keep, every run keeps.\<close>

context kept_property
begin

lemma kept_by_run:
  assumes "idle w" "since \<le> step w" "P (db w)"
  shows "idle (serve_all E h rs w) \<and> since \<le> step (serve_all E h rs w) \<and> P (db (serve_all E h rs w))"
proof (rule kept_by_served)
  show "served E since w (serve_all E h rs w)" by (rule served_all)
qed (use assms in auto)

end

end
