(* ===== verification/Runs.thy ===== *)
theory Runs
  imports Session
begin

text \<open>
  Inversion of runs: what must have happened when a computation returned a result, statement by
  statement and for the transaction helpers.
\<close>

section \<open>Combinators\<close>

named_theorems run_elims "what happened before a computation returned"

lemma check_InrE [run_elims]:
  assumes "run_state (check m k) s = (Inr x, s')"
  obtains y t where "run_state m s = (Inr y, t)" and "run_state (k y) t = (Inr x, s')"
  using assms by (auto split: prod.splits sum.splits)

lemma or_return_InrE [run_elims]:
  assumes "run_state (or_return m e k) s = (Inr x, s')"
  obtains y t where "run_state m s = (Inr y, t)" and "run_state (k y) t = (Inr x, s')"
  using assms by (auto split: prod.splits sum.splits)

lemma bindE [run_elims]:
  assumes "run_state (State_Monad.bind m k) s = (x, s')"
  obtains y t where "run_state m s = (y, t)" and "run_state (k y) t = (x, s')"
  using assms by (auto split: prod.splits)

lemma ignoringE [run_elims]:
  assumes "run_state (ignoring m k) s = (x, s')"
  obtains y t where "run_state m s = (y, t)" and "run_state k t = (x, s')"
  using assms by (cases "run_state m s") auto

text \<open>A computation that returned passed every test on its way.\<close>

lemma guard_InrE [run_elims]:
  assumes "run_state (if b then bail e else m) s = (Inr x, s')"
  obtains "\<not> b" and "run_state m s = (Inr x, s')"
  using assms by (auto split: if_splits)

lemma present_InrE [run_elims]:
  assumes "run_state (case v of None \<Rightarrow> bail e | Some y \<Rightarrow> k y) s = (Inr x, s')"
  obtains y where "v = Some y" and "run_state (k y) s = (Inr x, s')"
  using assms by (auto split: option.splits)

lemma absent_InrE [run_elims]:
  assumes "run_state (case v of None \<Rightarrow> m | Some y \<Rightarrow> bail (e y)) s = (Inr x, s')"
  obtains "v = None" and "run_state m s = (Inr x, s')"
  using assms by (auto split: option.splits)

lemma let_runE [run_elims]:
  assumes "run_state (let y = a in f y) s = (x, s')"
  obtains "run_state (f a) s = (x, s')"
  using assms by simp

lemma ok_InrE [run_elims]:
  assumes "run_state (ok y) s = (Inr x, s')"
  obtains "x = y" and "s' = s"
  using assms by simp

section \<open>Statements outside a transaction\<close>

lemma run_fetch_idle:
  "idle w \<Longrightarrow> run_state (exec E (fetch f)) w =
     (if io_fail E (step w) then Inl IOError else Inr (f (stmt_of E w) (db w)), tick w)"
  by (simp add: run_exec fetch_def tick_def)

lemma run_fetch_one_idle:
  "idle w \<Longrightarrow> run_state (exec E (fetch_one f)) w =
     (if io_fail E (step w) then Inl IOError
      else case f (stmt_of E w) (db w) of [] \<Rightarrow> Inl NoRows | x # _ \<Rightarrow> Inr x, tick w)"
  by (simp add: run_exec fetch_one_def tick_def split: list.splits)

lemma run_perform_idle:
  "idle w \<Longrightarrow> run_state (exec E (perform f)) w =
     (if io_fail E (step w) then (Inl IOError, tick w)
      else (Inr (), tick (w\<lparr>db := f (stmt_of E w) (db w)\<rparr>)))"
  by (simp add: run_exec perform_def)

text \<open>Whatever a statement does, it ran once, on the database it found.\<close>

lemma exec_cases:
  assumes "run_state (exec E q) w = (r, w')" and "idle w"
  obtains (failed) e where "r = Inl e" and "db w' = db w" and "idle w'"
  | (ran) x where "r = Inr x" and "q (stmt_of E w) (db w) = Inr (x, db w')" and "\<not> io_fail E (step w)" and "idle w'"
  using assms by (auto simp: run_exec split: if_splits sum.splits db_err.splits prod.splits)

lemma exec_keeps:
  assumes "run_state (exec E q) w = (r, w')"
  shows "step w' = Suc (step w)" "redis_log w' = redis_log w" "outputs w' = outputs w"
    "idle w \<Longrightarrow> idle w'"
  using assms by (auto simp: run_exec split: if_splits sum.splits db_err.splits prod.splits)

lemma exec_Inr_idle:
  assumes "run_state (exec E q) w = (Inr x, w')" and "idle w"
  shows "q (stmt_of E w) (db w) = Inr (x, db w')" "idle w'" "\<not> io_fail E (step w)"
  using assms by (auto elim: exec_cases)

lemma perform_Inr: "perform f c d = Inr (x, d') \<longleftrightarrow> d' = f c d"
  by (auto simp: perform_def)

lemma fetch_Inr: "fetch f c d = Inr (x, d') \<longleftrightarrow> x = f c d \<and> d' = d"
  by (auto simp: fetch_def)

lemma stmt_of_idle:
  "idle w \<Longrightarrow> s_role (stmt_of E w) = conn_role E" "idle w \<Longrightarrow> s_guc (stmt_of E w) = None"
  "s_collate (stmt_of E w) = collate E"
  "idle w \<Longrightarrow> s_now (stmt_of E w) = dbclock E (step w)"
  by (simp_all add: stmt_of_def idle_def)

section \<open>Statements under a tenant\<close>

text \<open>
  One statement in \<^verbatim>\<open>withTenant\<close>: either it was committed, having run as \<open>IamRls\<close> with the
  tenant set, or the database is as before. In \<^verbatim>\<open>withTenantGUC\<close> it runs with the role of the
  connection.
\<close>

definition ran_as :: "env \<Rightarrow> db_role \<Rightarrow> uuid \<Rightarrow> stmt \<Rightarrow> bool" where
  "ran_as E r t c \<longleftrightarrow> s_role c = r \<and> s_guc c = Some t \<and> s_collate c = collate E"

lemma withTenant_cases:
  assumes "run_state (withTenant E t (exec E q)) w = (r, w')" and "idle w"
  obtains (failed) e where "r = Inl e" and "db w' = db w"
  | (ran) x c where "r = Inr x" and "q c (db w) = Inr (x, db w')" and "ran_as E IamRls t c"
proof -
  let ?c = "\<lparr>s_now = dbclock E (step w), s_uuid = fresh_uuid E (Suc (Suc (Suc (step w)))), s_serial = nextval E (Suc (Suc (Suc (step w)))),
     s_role = IamRls, s_guc = Some t, s_collate = collate E\<rparr>"
  have "(\<exists>e. r = Inl e \<and> db w' = db w)
      \<or> (\<exists>x. r = Inr x \<and> q ?c (db w) = Inr (x, db w'))"
    using assms
    by (auto simp: withTenant_def run_tx_begin run_deferring_rollback set_local_role_def set_tenant_def
        run_tx_setting run_exec run_tx_commit abort_tx_def in_aborted_tx_def tick_def stmt_of_def idle_def
        split: if_splits sum.splits db_err.splits prod.splits)
  moreover have "ran_as E IamRls t ?c" by (simp add: ran_as_def)
  ultimately show thesis using failed ran by blast
qed

lemma withTenantGUC_cases:
  assumes "run_state (withTenantGUC E t (exec E q)) w = (r, w')" and "idle w"
  obtains (failed) e where "r = Inl e" and "db w' = db w"
  | (ran) x c where "r = Inr x" and "q c (db w) = Inr (x, db w')" and "ran_as E (conn_role E) t c"
proof -
  let ?c = "\<lparr>s_now = dbclock E (step w), s_uuid = fresh_uuid E (Suc (Suc (step w))), s_serial = nextval E (Suc (Suc (step w))),
     s_role = conn_role E, s_guc = Some t, s_collate = collate E\<rparr>"
  have "(\<exists>e. r = Inl e \<and> db w' = db w)
      \<or> (\<exists>x. r = Inr x \<and> q ?c (db w) = Inr (x, db w'))"
    using assms
    by (auto simp: withTenantGUC_def run_tx_begin run_deferring_rollback set_tenant_def
        run_tx_setting run_exec run_tx_commit abort_tx_def in_aborted_tx_def tick_def stmt_of_def idle_def
        split: if_splits sum.splits db_err.splits prod.splits)
  moreover have "ran_as E (conn_role E) t ?c" by (simp add: ran_as_def)
  ultimately show thesis using failed ran by blast
qed

lemma withTenant_keeps:
  assumes "run_state (withTenant E t (exec E q)) w = (r, w')" and "idle w"
  shows "idle w'" "redis_log w' = redis_log w" "outputs w' = outputs w"
proof -
  have "idle w' \<and> redis_log w' = redis_log w \<and> outputs w' = outputs w"
    using assms
    by (auto simp: withTenant_def run_tx_begin run_deferring_rollback set_local_role_def set_tenant_def
        run_tx_setting run_exec run_tx_commit abort_tx_def in_aborted_tx_def tick_def idle_def
        split: if_splits sum.splits db_err.splits prod.splits)
  then show "idle w'" "redis_log w' = redis_log w" "outputs w' = outputs w" by simp_all
qed

lemma withTenantGUC_keeps:
  assumes "run_state (withTenantGUC E t (exec E q)) w = (r, w')" and "idle w"
  shows "idle w'" "redis_log w' = redis_log w" "outputs w' = outputs w"
proof -
  have "idle w' \<and> redis_log w' = redis_log w \<and> outputs w' = outputs w"
    using assms
    by (auto simp: withTenantGUC_def run_tx_begin run_deferring_rollback set_tenant_def
        run_tx_setting run_exec run_tx_commit abort_tx_def in_aborted_tx_def tick_def idle_def
        split: if_splits sum.splits db_err.splits prod.splits)
  then show "idle w'" "redis_log w' = redis_log w" "outputs w' = outputs w" by simp_all
qed

end
