(* ===== verification/Fixture.thy ===== *)
theory Fixture
  imports Service Runs
begin

text \<open>
  A concrete environment, handler and database for the witnesses: every parameter is an
  executable function that meets the contracts of its library (shown at the end), time
  advances one second per step, and nothing fails.
\<close>

section \<open>A token format\<close>

text \<open>Texts with a terminator, numbers as decimals: a payload is written and read back.\<close>

fun enc_str :: "string \<Rightarrow> string" where
  "enc_str [] = ''.''"
| "enc_str (c # s) = CHR ''+'' # c # enc_str s"

fun dec_str :: "string \<Rightarrow> (string \<times> string) option" where
  "dec_str (x # r) = (if x = CHR ''.'' then Some ([], r)
     else case r of [] \<Rightarrow> None
       | c # r' \<Rightarrow> map_option (\<lambda>(s, t). (c # s, t)) (dec_str r'))"
| "dec_str [] = None"

lemma dec_enc_str [simp]: "dec_str (enc_str s @ r) = Some (s, r)"
  by (induction s) auto

definition enc_json :: "json \<Rightarrow> string" where
  "enc_json j = (case j of JStr s \<Rightarrow> CHR ''s'' # enc_str s
     | JNum n \<Rightarrow> if n < 0 then CHR ''-'' # enc_str (decimal (nat (- n))) else CHR ''n'' # enc_str (decimal (nat n)))"

definition dec_json :: "string \<Rightarrow> (json \<times> string) option" where
  "dec_json t = (case t of [] \<Rightarrow> None | c # r \<Rightarrow> (case dec_str r of None \<Rightarrow> None
     | Some (s, r') \<Rightarrow> Some (if c = CHR ''s'' then JStr s
         else if c = CHR ''-'' then JNum (- int (digits_value s)) else JNum (int (digits_value s)), r')))"

lemma dec_enc_json [simp]: "dec_json (enc_json j @ r) = Some (j, r)"
  by (cases j) (auto simp: enc_json_def dec_json_def digits_value_decimal)

fun enc_obj :: "json_obj \<Rightarrow> string" where
  "enc_obj [] = ''.''"
| "enc_obj ((k, v) # o') = CHR '','' # enc_str k @ enc_json v @ enc_obj o'"

fun dec_obj :: "nat \<Rightarrow> string \<Rightarrow> json_obj option" where
  "dec_obj 0 t = None"
| "dec_obj (Suc n) t = (case t of [] \<Rightarrow> None | x # r \<Rightarrow>
     if x = CHR ''.'' then Some []
     else (case dec_str r of None \<Rightarrow> None | Some (k, r1) \<Rightarrow>
       (case dec_json r1 of None \<Rightarrow> None | Some (v, r2) \<Rightarrow> map_option (\<lambda>o'. (k, v) # o') (dec_obj n r2))))"

lemma dec_enc_obj: "length p < n \<Longrightarrow> dec_obj n (enc_obj p) = Some p"
proof (induction p arbitrary: n)
  case Nil
  then show ?case by (cases n) auto
next
  case (Cons x p)
  then show ?case by (cases n; cases x) auto
qed

lemma length_enc_obj: "length p < length (enc_obj p)"
  by (induction p) auto

section \<open>The environment\<close>

definition T0_uuid_string :: "uuid \<Rightarrow> string" where
  "T0_uuid_string u = decimal (unat u)"

definition T0_uuid_parse :: "string \<Rightarrow> uuid option" where
  "T0_uuid_parse s = (if s = [] \<or> \<not> list_all is_digit s then None else Some (word_of_nat (digits_value s)))"

definition T0_sign :: "string \<Rightarrow> json_obj \<Rightarrow> private_key \<Rightarrow> string option" where
  "T0_sign kid p k = Some (enc_str kid @ enc_str (decimal k) @ enc_obj p)"

definition T0_decode :: "string \<Rightarrow> (bool \<times> string option \<times> json_obj) option" where
  "T0_decode t = (case dec_str t of None \<Rightarrow> None | Some (kid, r) \<Rightarrow>
     (case dec_str r of None \<Rightarrow> None | Some (_, r') \<Rightarrow>
       map_option (\<lambda>p. (True, Some kid, p)) (dec_obj (length r') r')))"

definition T0_verify :: "PublicKey \<Rightarrow> string \<Rightarrow> bool" where
  "T0_verify pub t = (case dec_str t of None \<Rightarrow> False | Some (kid, r) \<Rightarrow>
     (case dec_str r of None \<Rightarrow> False | Some (k, r') \<Rightarrow>
        decimal (pk_N pub) = k \<and> pk_E pub = 65537
        \<and> (case dec_obj (length r') r' of None \<Rightarrow> False | Some p \<Rightarrow> T0_sign kid p (pk_N pub) = Some t)))"

definition T0_validate :: "string \<Rightarrow> time \<Rightarrow> time \<Rightarrow> json_obj \<Rightarrow> bool" where
  "T0_validate iss lee now p =
     ((case map_of p ''exp'' of Some (JNum s) \<Rightarrow> now < claim_time s + lee | None \<Rightarrow> True | _ \<Rightarrow> False)
      \<and> map_of p ''iss'' = Some (JStr iss))"

definition T0_redis :: "redis_log \<Rightarrow> time \<Rightarrow> redis_cmd \<Rightarrow> redis_reply" where
  "T0_redis log now c = (case c of
     RSet k v ttl \<Rightarrow> ROk
   | RExists k \<Rightarrow> RInt (if redis_alive log now k = None then 0 else 1)
   | RGet k \<Rightarrow> (case redis_alive log now k of None \<Rightarrow> RErr | Some v \<Rightarrow> RVal v)
   | RScan _ _ _ \<Rightarrow> RKeys [] 0
   | RDel ks \<Rightarrow> ROk)"

definition T0_event :: "event \<Rightarrow> string" where
  "T0_event ev = (case ev of UserRegistered _ _ _ \<Rightarrow> ''user.registered''
     | UserDeleted _ _ \<Rightarrow> ''user.deleted'' | UserRestored _ \<Rightarrow> ''user.restored'')"

definition E0 :: env where
  "E0 = \<lparr>io_fail = (\<lambda>_. False), lost = (\<lambda>_. False), clock = (\<lambda>n. int n * second),
     dbclock = (\<lambda>n. int n * second), rand = (\<lambda>n k. Some (replicate k (char_of n))),
     fresh_uuid = (\<lambda>n. word_of_nat (n + 1000)), nextval = (\<lambda>n. int n + 1000),
     rsa_generate = (\<lambda>n. Some 7),
     totp_generate = (\<lambda>n iss acc. Some (''SECRET'', ''otpauth'')),
     uuid_parse = T0_uuid_parse, uuid_string = T0_uuid_string, sha256 = (\<lambda>s. s),
     argon2 = (\<lambda>plain salt t m p n. take n (plain @ replicate n (CHR ''0''))),
     rsa_public = (\<lambda>k. \<lparr>pk_N = k, pk_E = 65537\<rparr>),
     pem_encode = (\<lambda>kind block. kind @ CHR '':'' # block), pem_decode = (\<lambda>s. Some (tl (dropWhile (\<lambda>c. c \<noteq> CHR '':'') s))),
     MarshalPKCS1PrivateKey = decimal, ParsePKCS1PrivateKey = (\<lambda>b. Some (digits_value b)),
     MarshalPKIXPublicKey = (\<lambda>k. Some (decimal (pk_N k))),
     ParsePKIXPublicKey = (\<lambda>b. Some (RSAKey \<lparr>pk_N = digits_value b, pk_E = 65537\<rparr>)),
     jwt_sign = T0_sign, jwt_decode = T0_decode, jwt_verify = T0_verify, jwt_validate = T0_validate,
     totp_validate = (\<lambda>now code secret. code = ''123456'' \<and> secret = ''SECRET''),
     gcm_seal = (\<lambda>k n pt. pt), gcm_open = (\<lambda>k n ct. Some ct), redis = T0_redis,
     marshal_event = (\<lambda>ev. Some (T0_event ev)), event_type = T0_event,
     unmarshal_failure = (\<lambda>s. if s = [] then None else Some (s, ''reason'')),
     subject_prefix = ''auth.'', conn_role = Superuser, collate = (\<lambda>s. s), AuditEnabled = True,
     LoginMaxFailures = 3, LockoutDuration = 15 * minute, RequireEmailVerification = False,
     IsProduction = False, scan_rounds = 10, Getenv = (\<lambda>k d. d)\<rparr>"

text \<open>The same environment with an uncooperative database connection, or with the role \<^verbatim>\<open>iam_app\<close>.\<close>

definition E0_failing :: "nat set \<Rightarrow> env" where
  "E0_failing ns = E0\<lparr>io_fail := (\<lambda>n. n \<in> ns)\<rparr>"

definition E0_iam_app :: env where
  "E0_iam_app = E0\<lparr>conn_role := IamApp\<rparr>"

section \<open>The handler and its callers\<close>

definition m0 :: Manager where
  "m0 = NewManager \<lparr>key_Kid = ''k1'', key_Private = 7\<rparr> [(''k1'', \<lparr>pk_N = 7, pk_E = 65537\<rparr>)] ''iam'' (15 * minute)"

definition h0 :: AuthHandler where
  "h0 = \<lparr>h_jwt = m0, h_refreshTTL = 24 * hour, h_dummyHash = [], h_cache = \<lparr>c_rdb = False\<rparr>,
     h_totpEnc = \<lparr>e_gcm = Some (replicate 32 (CHR ''k''))\<rparr>\<rparr>"

definition h0_redis :: AuthHandler where
  "h0_redis = h0\<lparr>h_cache := \<lparr>c_rdb = True\<rparr>\<rparr>"

definition anyone :: identity where
  "anyone = \<lparr>id_UserID = [], id_Email = [], id_TenantID = [], id_ProjectID = [], id_HasPermission = (\<lambda>_. False)\<rparr>"

definition admin :: identity where
  "admin = \<lparr>id_UserID = ''10'', id_Email = ''a@x'', id_TenantID = ''1'', id_ProjectID = [], id_HasPermission = (\<lambda>_. True)\<rparr>"

section \<open>The database\<close>

definition user0 :: User where
  "user0 = \<lparr>u_ID = 10, u_Email = ''a@x'', u_PasswordHash = phc (replicate 16 (CHR ''s'')) (''secret42'' @ replicate 24 (CHR ''0'')),
     u_Status = ''active'', u_CreatedAt = 0, u_UpdatedAt = 0, u_EmailVerified = False, u_FailedLoginAttempts = 0,
     u_LockedUntil = None, u_TotpSecret = None, u_TotpEnabled = False, u_DeletedAt = None\<rparr>"

text \<open>\<open>user0\<close> with two-factor authentication, and with its account locked.\<close>

definition user0_totp :: User where
  "user0_totp = user0\<lparr>u_TotpSecret := Some ''SECRET'', u_TotpEnabled := True\<rparr>"

definition user0_locked :: User where
  "user0_locked = user0\<lparr>u_LockedUntil := Some (10 * minute)\<rparr>"

definition d0 :: database where
  "d0 = empty_db\<lparr>users := [user0],
     tenants := [\<lparr>t_ID = 1, t_Slug = ''default'', t_Name = ''Default'', t_Status = ''active'', t_CreatedAt = 0\<rparr>,
                 \<lparr>t_ID = 2, t_Slug = ''other'', t_Name = ''Other'', t_Status = ''active'', t_CreatedAt = 0\<rparr>],
     roles := [\<lparr>r_ID = 1, r_Name = ''admin'', r_Description = [], r_TenantID = None\<rparr>,
               \<lparr>r_ID = 2, r_Name = ''user'', r_Description = [], r_TenantID = None\<rparr>,
               \<lparr>r_ID = 3, r_Name = ''viewer'', r_Description = [], r_TenantID = None\<rparr>],
     permissions := [\<lparr>p_ID = 1, p_Name = ''role:read'', p_Description = []\<rparr>,
                     \<lparr>p_ID = 2, p_Name = ''role:write'', p_Description = []\<rparr>],
     role_permissions := [\<lparr>rp_RoleID = 1, rp_PermissionID = 1\<rparr>, \<lparr>rp_RoleID = 1, rp_PermissionID = 2\<rparr>,
                          \<lparr>rp_RoleID = 3, rp_PermissionID = 1\<rparr>],
     user_roles := [\<lparr>ur_UserID = 10, ur_RoleID = 1, ur_TenantID = 1, ur_ProjectID = None\<rparr>],
     memberships := [\<lparr>m_UserID = 10, m_TenantID = 1, m_Status = ''active'', m_CreatedAt = 0\<rparr>]\<rparr>"

definition world0 :: "database \<Rightarrow> nat \<Rightarrow> world" where
  "world0 d n = \<lparr>db = d, step = n, tx = None, redis_log = [], outputs = []\<rparr>"

lemma idle_world0 [simp]: "idle (world0 d n)" "db (world0 d n) = d" "step (world0 d n) = n"
  "redis_log (world0 d n) = []" "outputs (world0 d n) = []" "tx (world0 d n) = None"
  by (simp_all add: world0_def idle_def)

lemma wf_d0: "wf_db d0"
  by (simp add: wf_db_def wf_defs d0_def empty_db_def user0_def user_role_key_def)

section \<open>The contracts\<close>

lemma E0_select [simp]:
  "io_fail E0 n = False" "lost E0 n = False" "clock E0 n = int n * second" "dbclock E0 n = int n * second"
  "rand E0 n k = Some (replicate k (char_of n))" "fresh_uuid E0 n = word_of_nat (n + 1000)"
  "nextval E0 n = int n + 1000" "rsa_generate E0 n = Some 7"
  "totp_generate E0 n iss acc = Some (''SECRET'', ''otpauth'')"
  "sha256 E0 s = s" "argon2 E0 plain salt t m p k = take k (plain @ replicate k (CHR ''0''))"
  "uuid_parse E0 = T0_uuid_parse" "uuid_string E0 = T0_uuid_string" "jwt_sign E0 = T0_sign"
  "jwt_decode E0 = T0_decode" "jwt_verify E0 = T0_verify" "jwt_validate E0 = T0_validate"
  "rsa_public E0 n = \<lparr>pk_N = n, pk_E = 65537\<rparr>" "redis E0 = T0_redis"
  "pem_encode E0 kind block = kind @ CHR '':'' # block" "pem_decode E0 s = Some (tl (dropWhile (\<lambda>c. c \<noteq> CHR '':'') s))"
  "MarshalPKCS1PrivateKey E0 = decimal" "ParsePKCS1PrivateKey E0 b = Some (digits_value b)"
  "MarshalPKIXPublicKey E0 pub = Some (decimal (pk_N pub))" "ParsePKIXPublicKey E0 b = Some (RSAKey \<lparr>pk_N = digits_value b, pk_E = 65537\<rparr>)"
  "totp_validate E0 now code secret \<longleftrightarrow> code = ''123456'' \<and> secret = ''SECRET''"
  "gcm_seal E0 key nonce pt = pt" "gcm_open E0 key nonce pt = Some pt"
  "marshal_event E0 ev = Some (T0_event ev)" "event_type E0 ev = T0_event ev"
  "unmarshal_failure E0 s = (if s = [] then None else Some (s, ''reason''))"
  "subject_prefix E0 = ''auth.''" "conn_role E0 = Superuser" "collate E0 s = s" "AuditEnabled E0"
  "LoginMaxFailures E0 = 3" "LockoutDuration E0 = 15 * minute" "\<not> RequireEmailVerification E0"
  "\<not> IsProduction E0" "scan_rounds E0 = 10" "Getenv E0 s dflt = dflt"
  by (simp_all add: E0_def)

text \<open>What to unfold to run a handler in the fixture.\<close>

lemmas eval_query = fetch_def fetch_one_def perform_def stmt_of_def update_where_def delete_where_def
  rls_ok_def has_user_def has_tenant_def project_ref_ok_def scalar_def
lemmas eval_exec = run_exec run_tx_begin run_tx_commit run_deferring_rollback set_tenant_def set_local_role_def
  run_tx_setting tick_def abort_tx_def in_aborted_tx_def idle_def
lemmas eval_identity = sql_GetUserByEmail_def sql_GetUserByID_def sql_IsUserActive_def sql_ResetLoginState_def
  sql_IncrementLoginFailure_def sql_LockUser_def update_user_def sql_InsertAuditEvent_def sql_CreateUser_def
  sql_InsertOutbox_def
lemmas eval_tenant = sql_ListMembershipsByUser_def sql_IsActiveMember_def active_member_def
  sql_CreateMembership_def sql_AssignRoleToUser_def roles_in_tenant_def visible_roles_def insert_user_role_def
  user_role_key_def
lemmas eval_tokens = sql_CreateRefreshToken_def sql_GetRefreshToken_def sql_RotateRefreshToken_def
  sql_RevokeAllUserRefreshTokens_def sql_RevokeRefreshToken_def sql_IsTokenRevoked_def sql_RevokeAccessJTI_def
lemmas eval_common = requirePerm_def activeTenant_def callerID_def auditAs_def audit_def auditTenant_def pgTenant_def
  parseOptionalUUID_def issueForActiveTenant_def issueTokens_def Issue_def run_sign T0_sign_def run_newRefreshToken
  hashToken_def
lemmas eval_fixture = d0_def empty_db_def user0_def user0_totp_def user0_locked_def world0_def h0_def anyone_def admin_def
  m0_def NewManager_def duration_defs
lemmas evals = Let_def eval_query eval_exec eval_identity eval_tenant eval_tokens eval_common eval_fixture

lemma E0_jwt_contract: "jwt_contract E0"
proof -
  have "T0_decode t = Some (True, Some kid, p) \<and> T0_verify \<lparr>pk_N = k, pk_E = 65537\<rparr> t"
    if "T0_sign kid p k = Some t" for kid p k t
    using that dec_enc_obj [OF length_enc_obj, of p]
    by (auto simp: T0_sign_def T0_decode_def T0_verify_def)
  then show ?thesis by (simp add: jwt_contract_def T0_validate_def)
qed

lemma E0_unforgeable: "unforgeable E0"
  by (auto simp: unforgeable_def T0_verify_def split: option.splits)

lemma m0_wf: "wf_manager E0 m0"
  by (simp add: wf_manager_def m0_def NewManager_def)

lemma E0_honest_redis: "honest_redis E0"
  by (auto simp: honest_redis_def T0_redis_def)

lemma E0_other_contracts: "gcm_contract E0" "rand_contract E0" "argon2_length E0"
  by (auto simp: gcm_contract_def rand_contract_def argon2_length_def E0_def)

lemma T0_uuid_roundtrip [simp]: "T0_uuid_parse (T0_uuid_string u) = Some u" "T0_uuid_string u \<noteq> []"
proof -
  have "list_all is_digit (decimal n)" for n
    using decimal_digits [of n] by (auto simp: list_all_iff is_digit_def)
  then show "T0_uuid_parse (T0_uuid_string u) = Some u" "T0_uuid_string u \<noteq> []"
    using decimal_digits [of "unat u"]
    by (auto simp: T0_uuid_parse_def T0_uuid_string_def digits_value_decimal)
qed

text \<open>\<^verbatim>\<open>google/uuid\<close>: a uuid parses back from its text, which is not empty.\<close>

definition uuid_text :: "env \<Rightarrow> bool" where
  "uuid_text E \<longleftrightarrow> (\<forall>u. uuid_parse E (uuid_string E u) = Some u \<and> uuid_string E u \<noteq> [])"

lemma E0_uuid_text: "uuid_text E0"
  by (simp add: uuid_text_def)

section \<open>Tokens\<close>

text \<open>The access token of \<open>user0\<close> in the default tenant, issued at instant 0.\<close>

definition claims0 :: Claims where
  "claims0 = access_claims m0 ''jti'' 0 (T0_uuid_string 10) ''a@x'' (T0_uuid_string 1) []"

definition tok0 :: string where
  "tok0 = enc_str ''k1'' @ enc_str (decimal 7) @ enc_obj (claims_json claims0)"

lemma sign_tok0: "jwt_sign E0 (key_Kid (j_active m0)) (claims_json claims0) (key_Private (j_active m0)) = Some tok0"
  by (simp add: T0_sign_def tok0_def m0_def NewManager_def)

lemma claims0_simps [simp]:
  "cl_ID claims0 = ''jti''" "cl_Subject claims0 = T0_uuid_string 10" "cl_TenantID claims0 = T0_uuid_string 1"
  "cl_ProjectID claims0 = []" "cl_Purpose claims0 = []" "cl_TokenUse claims0 = ''access''"
  "cl_ExpiresAt claims0 = Some 900" "cl_Email claims0 = ''a@x''"
  by (simp_all add: claims0_def access_claims_def no_claims_def tokenUseAccess_def numeric_date_def m0_def
      NewManager_def duration_defs)

lemma tok0_not_empty [simp]: "tok0 \<noteq> []"
  by (simp add: tok0_def)

lemma h0_simps [simp]: "h_jwt h0 = m0" "\<not> c_rdb (h_cache h0)" "h_jwt h0_redis = m0" "c_rdb (h_cache h0_redis)"
  by (simp_all add: h0_def h0_redis_def)

end
