(* ===== verification/Session_Facts.thy ===== *)
theory Session_Facts
  imports Fixture
begin

text \<open>
  What each part of \<open>ValidateToken\<close>, \<open>Refresh\<close> and \<open>Logout\<close> established when it returned, and what
  issuing a token pair does to the database.
\<close>

section \<open>Rows by their keys\<close>

text \<open>The first row of a filtered table is the one \<open>List.find\<close> finds.\<close>

lemma fetch_one_find:
  "fetch_one (\<lambda>c d. filter P (tab d)) c d = (case List.find P (tab d) of None \<Rightarrow> Inl NoRows | Some x \<Rightarrow> Inr (x, d))"
proof -
  have "(case filter P xs of [] \<Rightarrow> Inl NoRows | x # _ \<Rightarrow> Inr (x, d)) = (case List.find P xs of None \<Rightarrow> Inl NoRows | Some x \<Rightarrow> Inr (x, d))" for xs
    by (induction xs) auto
  then show ?thesis by (simp add: fetch_one_def)
qed

text \<open>The row a refresh token is stored under.\<close>

definition row_of :: "database \<Rightarrow> string \<Rightarrow> RefreshToken option" where
  "row_of d h = List.find (\<lambda>r. rt_TokenHash r = h) (refresh_tokens d)"

lemma row_of_query:
  "sql_GetRefreshToken h c d = (case row_of d h of None \<Rightarrow> Inl NoRows | Some r \<Rightarrow> Inr (r, d))"
by (simp add: sql_GetRefreshToken_def fetch_one_find row_of_def)

lemma row_ofD: "row_of d h = Some r \<Longrightarrow> r \<in> set (refresh_tokens d) \<and> rt_TokenHash r = h"
  unfolding row_of_def by (rule find_SomeD)

lemma row_ofI:
  "wf_db d \<Longrightarrow> r \<in> set (refresh_tokens d) \<Longrightarrow> rt_TokenHash r = h \<Longrightarrow> row_of d h = Some r"
  unfolding row_of_def by (rule find_unique) (auto dest: wf_dbD(2) simp: wf_refresh_tokens_def)

text \<open>Which rows a user has is all that counts for reading the user back.\<close>

definition user_of :: "database \<Rightarrow> uuid \<Rightarrow> User option" where
  "user_of d uid = List.find (\<lambda>u. u_ID u = uid) (users d)"

lemma user_of_query:
  "sql_GetUserByID uid c d = (case user_of d uid of None \<Rightarrow> Inl NoRows | Some u \<Rightarrow> Inr (u, d))"
by (simp add: sql_GetUserByID_def fetch_one_find user_of_def)

lemma user_ofD: "user_of d uid = Some u \<Longrightarrow> u \<in> set (users d) \<and> u_ID u = uid"
  unfolding user_of_def by (rule find_SomeD)

text \<open>A query that finds its row, without a failure.\<close>

lemma run_exec_ok:
  "idle w \<Longrightarrow> \<not> io_fail E (step w) \<Longrightarrow> q (stmt_of E w) (db w) = Inr (x, d) \<Longrightarrow>
   run_state (exec E q) w = (Inr x, tick (w\<lparr>db := d\<rparr>))"
  by (simp add: run_exec_idle)

text \<open>The account of an email address.\<close>

definition user_by_email :: "database \<Rightarrow> string \<Rightarrow> User option" where
  "user_by_email d email = List.find (\<lambda>u. u_Email u = email) (users d)"

lemma user_by_email_query:
  "sql_GetUserByEmail email c d = (case user_by_email d email of None \<Rightarrow> Inl NoRows | Some u \<Rightarrow> Inr (u, d))"
  by (simp add: sql_GetUserByEmail_def fetch_one_find user_by_email_def)

lemma user_by_emailD: "user_by_email d email = Some u \<Longrightarrow> u \<in> set (users d) \<and> u_Email u = email"
  unfolding user_by_email_def by (rule find_SomeD)

section \<open>The checks of ValidateToken\<close>

lemma ParseAccess_InrD:
  assumes "run_state (ParseAccess E m tok) w = (Inr c, w')"
  shows "parse_at E m (clock E (step w)) tok = Some c" "is_access c"
    "db w' = db w" "idle w' = idle w" "redis_log w' = redis_log w"
  using assms by (auto simp: run_ParseAccess idle_def split: option.splits if_splits)

lemma check_revoked_InrD:
  assumes "run_state (check_revoked E h jti) w = (Inr u, w')" and "idle w"
  shows "db w' = db w" "idle w'"
    "\<not> c_rdb (h_cache h) \<Longrightarrow> jti \<noteq> [] \<Longrightarrow> jti \<notin> rv_Jti ` set (revoked_tokens (db w))"
proof -
  have "db w' = db w \<and> idle w'
      \<and> (\<not> c_rdb (h_cache h) \<longrightarrow> jti \<noteq> [] \<longrightarrow> jti \<notin> rv_Jti ` set (revoked_tokens (db w)))"
    using assms by (auto simp: check_revoked_def IsDenied_def sql_IsTokenRevoked_def run_fetch_idle idle_def
        run_exec fetch_def tick_def in_aborted_tx_def
        split: if_splits option.splits prod.splits sum.splits redis_reply.splits)
  then show "db w' = db w" "idle w'"
    "\<not> c_rdb (h_cache h) \<Longrightarrow> jti \<noteq> [] \<Longrightarrow> jti \<notin> rv_Jti ` set (revoked_tokens (db w))" by simp_all
qed

lemma check_active_InrD:
  assumes "run_state (check_active E uid) w = (Inr u, w')" and "idle w"
  shows "db w' = db w" "idle w'" "\<exists>x \<in> set (users (db w)). u_ID x = uid \<and> u_DeletedAt x = None"
proof -
  have "db w' = db w \<and> idle w' \<and> (\<exists>x \<in> set (users (db w)). u_ID x = uid \<and> u_DeletedAt x = None)"
    using assms by (auto simp: check_active_def sql_IsUserActive_def run_fetch_one_idle Cons_eq_map_conv
        dest!: filter_eq_ConsD split: if_splits list.splits)
  then show "db w' = db w" "idle w'" "\<exists>x \<in> set (users (db w)). u_ID x = uid \<and> u_DeletedAt x = None" by simp_all
qed

lemma check_member_InrD:
  assumes "run_state (check_member E uid tenant) w = (Inr t, w')" and "idle w"
  shows "db w' = db w" "idle w'" "tenant = [] \<Longrightarrow> t = None"
    "tenant \<noteq> [] \<Longrightarrow> \<exists>tid. uuid_parse E tenant = Some tid \<and> t = Some tid \<and> active_member (db w) uid tid"
proof -
  have "db w' = db w \<and> idle w' \<and> (tenant = [] \<longrightarrow> t = None) \<and>
     (tenant \<noteq> [] \<longrightarrow> (\<exists>tid. uuid_parse E tenant = Some tid \<and> t = Some tid \<and> active_member (db w) uid tid))"
    using assms by (auto simp: check_member_def sql_IsActiveMember_def run_fetch_idle split: if_splits option.splits)
  then show "db w' = db w" "idle w'" "tenant = [] \<Longrightarrow> t = None"
    "tenant \<noteq> [] \<Longrightarrow> \<exists>tid. uuid_parse E tenant = Some tid \<and> t = Some tid \<and> active_member (db w) uid tid"
    by simp_all
qed

text \<open>A read through \<open>withTenantGUC\<close> returns the rows of the database it found.\<close>

lemma withTenantGUC_fetchD:
  assumes "run_state (withTenantGUC E t (exec E (fetch f))) w = (Inr x, w')" and "idle w"
  shows "db w' = db w" "idle w'" "\<exists>c. x = f c (db w) \<and> ran_as E (conn_role E) t c"
proof -
  show "idle w'" by (rule withTenantGUC_keeps(1) [OF assms])
  show "db w' = db w" "\<exists>c. x = f c (db w) \<and> ran_as E (conn_role E) t c"
    using assms by (auto elim!: withTenantGUC_cases simp: fetch_def; blast)+
qed

text \<open>The names of the permissions a list of assignments gives.\<close>

lemma set_permission_names_of:
  "set (permission_names_of d urs) =
     {p_Name p | p rp ur. ur \<in> set urs \<and> rp \<in> set (role_permissions d) \<and> rp_RoleID rp = ur_RoleID ur
        \<and> p \<in> set (permissions d) \<and> p_ID p = rp_PermissionID rp}"
  by (auto simp: permission_names_of_def role_permission_names_def)

text \<open>
  With the tenant set, row-level security hides none of the tenant's own assignments, whatever
  the role of the connection.
\<close>

lemma scoped_assignments_as:
  "ran_as E r t c \<Longrightarrow> scoped_assignments uid t project c d =
     filter (\<lambda>ur. ur_UserID ur = uid \<and> ur_TenantID ur = t \<and> in_scope project ur) (user_roles d)"
  by (auto simp: scoped_assignments_def assignments_def visible_user_roles_def ran_as_def rls_ok_def
      intro!: filter_cong)

definition granted :: "database \<Rightarrow> uuid \<Rightarrow> uuid \<Rightarrow> uuid option \<Rightarrow> string set" where
  "granted d uid t project =
     {p_Name p | p rp ur. ur \<in> set (user_roles d) \<and> ur_UserID ur = uid \<and> ur_TenantID ur = t \<and> in_scope project ur
        \<and> rp \<in> set (role_permissions d) \<and> rp_RoleID rp = ur_RoleID ur
        \<and> p \<in> set (permissions d) \<and> p_ID p = rp_PermissionID rp}"

lemma granted_names:
  "set (permission_names_of d (filter (\<lambda>ur. ur_UserID ur = uid \<and> ur_TenantID ur = t \<and> in_scope project ur) (user_roles d)))
    = granted d uid t project"
  unfolding set_permission_names_of granted_def by (simp add: conj_assoc)

lemma scoped_permissions_granted:
  assumes "run_state (withTenantGUC E t (exec E (sql_GetUserPermissionsScoped uid t project))) w = (Inr perms, w')"
    and "idle w"
  shows "db w' = db w" "idle w'" "set perms = granted (db w) uid t project"
proof -
  note fetched = withTenantGUC_fetchD [OF assms(1) [unfolded sql_GetUserPermissionsScoped_def] assms(2)]
  from fetched show "db w' = db w" "idle w'" by simp_all
  from fetched(3) show "set perms = granted (db w) uid t project"
    by (auto simp: scoped_assignments_as granted_names)
qed

lemma load_InrD:
  assumes "idle w"
  shows "run_state (load_roles E uid ten p) w = (Inr x, w') \<Longrightarrow> db w' = db w \<and> idle w'"
    and "run_state (load_perms E uid ten p) w = (Inr y, w'') \<Longrightarrow> db w'' = db w \<and> idle w''
      \<and> (\<forall>t. ten = Some t \<longrightarrow> set y = granted (db w) uid t p)"
proof -
  show "run_state (load_roles E uid ten p) w = (Inr x, w') \<Longrightarrow> db w' = db w \<and> idle w'"
    using assms by (auto simp: load_roles_def sql_GetUserRoles_def sql_GetUserRolesScoped_def run_fetch_idle
        split: option.splits if_splits dest: withTenantGUC_fetchD)
  show "run_state (load_perms E uid ten p) w = (Inr y, w'') \<Longrightarrow> db w'' = db w \<and> idle w''
      \<and> (\<forall>t. ten = Some t \<longrightarrow> set y = granted (db w) uid t p)"
    using assms by (auto simp: load_perms_def sql_GetUserPermissions_def run_fetch_idle
        split: option.splits if_splits dest: scoped_permissions_granted)
qed

lemma cached_perms_InrD:
  assumes "run_state (cached_perms E h c uid ten) w = (Inr ps, w')" and "idle w"
  shows "db w' = db w" "idle w'"
    "\<not> c_rdb (h_cache h) \<Longrightarrow> ten = Some t \<Longrightarrow> set ps = granted (db w) uid t (parseOptionalUUID E (cl_ProjectID c))"
proof -
  have "db w' = db w \<and> idle w' \<and> (\<not> c_rdb (h_cache h) \<longrightarrow> ten = Some t \<longrightarrow>
      set ps = granted (db w) uid t (parseOptionalUUID E (cl_ProjectID c)))"
  proof (cases "c_rdb (h_cache h)")
    case False
    then show ?thesis using assms load_InrD(2) [OF assms(2)]
      by (fastforce simp: cached_perms_def GetPerms_def SetPerms_def split: prod.splits sum.splits)
  next
    case True
    have idle: "idle (w\<lparr>redis_log := l, step := n\<rparr>)" for l n using assms(2) by (simp add: idle_def)
    from True assms(1) idle show ?thesis
      by (auto simp: cached_perms_def GetPerms_def SetPerms_def idle_def
          split: prod.splits sum.splits option.splits redis_reply.splits redis_val.splits
          dest!: load_InrD(2) [OF idle])
  qed
  then show "db w' = db w" "idle w'"
    "\<not> c_rdb (h_cache h) \<Longrightarrow> ten = Some t \<Longrightarrow> set ps = granted (db w) uid t (parseOptionalUUID E (cl_ProjectID c))"
    by simp_all
qed

section \<open>Stages of the handlers\<close>

text \<open>The stages a validated token went through.\<close>

lemma ValidateToken_InrE:
  assumes "run_state (ValidateToken E h tok) w = (Inr r, w')"
  obtains c w1 u w2 uid v w3 ten w4 ros w5 ps
  where "run_state (ParseAccess E (h_jwt h) tok) w = (Inr c, w1)"
    and "run_state (check_revoked E h (cl_ID c)) w1 = (Inr u, w2)"
    and "uuid_parse E (cl_Subject c) = Some uid"
    and "run_state (check_active E uid) w2 = (Inr v, w3)"
    and "run_state (check_member E uid (cl_TenantID c)) w3 = (Inr ten, w4)"
    and "run_state (load_roles E uid ten (parseOptionalUUID E (cl_ProjectID c))) w4 = (Inr ros, w5)"
    and "run_state (cached_perms E h c uid ten) w5 = (Inr ps, w')"
    and "r = \<lparr>vt_UserId = cl_Subject c, vt_Email = cl_Email c, vt_Roles = ros,
             vt_Permissions = ps, vt_TenantId = cl_TenantID c, vt_ProjectId = cl_ProjectID c\<rparr>"
  using assms unfolding ValidateToken_def by (elim run_elims) (simp add: that)

section \<open>Issued token pairs\<close>

text \<open>What a successful \<open>issueTokens\<close> did: one signed access token, one new row for the refresh token.\<close>

definition issued_claims :: "env \<Rightarrow> AuthHandler \<Rightarrow> nat \<Rightarrow> uuid \<Rightarrow> string \<Rightarrow> uuid \<Rightarrow> uuid option \<Rightarrow> Claims" where
  "issued_claims E h n uid email t p = access_claims (h_jwt h) (uuid_string E (fresh_uuid E (Suc n))) (clock E n)
     (uuid_string E uid) email (uuid_string E t) (case p of None \<Rightarrow> [] | Some q \<Rightarrow> uuid_string E q)"

definition live_row :: "RefreshToken \<Rightarrow> bool" where
  "live_row r \<longleftrightarrow> rt_RevokedAt r = None \<and> rt_ReplacedBy r = None"

lemma issueTokens_InrD:
  assumes "run_state (issueTokens E h uid email t p) w = (Inr pair, w')" and "idle w"
  shows "jwt_sign E (key_Kid (j_active (h_jwt h))) (claims_json (issued_claims E h (step w) uid email t p))
           (key_Private (j_active (h_jwt h))) = Some (tp_AccessToken pair)" (is ?signed)
    and "\<exists>row. db w' = (db w)\<lparr>refresh_tokens := refresh_tokens (db w) @ [row]\<rparr>
          \<and> rt_TokenHash row = hashToken E (tp_RefreshToken pair)
          \<and> rt_TokenHash row \<notin> rt_TokenHash ` set (refresh_tokens (db w))
          \<and> rt_UserID row = uid \<and> rt_TenantID row = t \<and> rt_ProjectID row = p \<and> live_row row
          \<and> rt_ExpiresAt row = clock E (step w + 3) + h_refreshTTL h" (is ?stored)
    and "mintable E (step w) (hashToken E (tp_RefreshToken pair))" (is ?fresh)
    and "idle w'" "step w' = step w + 5" "redis_log w' = redis_log w" "\<not> tp_MfaRequired pair"
proof -
  have "?signed \<and> ?stored \<and> (\<exists>b. rand E (step w + 2) 32 = Some b \<and> tp_RefreshToken pair = hex_encode b)
      \<and> idle w' \<and> step w' = step w + 5 \<and> redis_log w' = redis_log w \<and> \<not> tp_MfaRequired pair"
    using assms
    by (auto simp: issueTokens_def Issue_def run_sign run_newRefreshToken run_exec issued_claims_def
        sql_CreateRefreshToken_def Let_def in_aborted_tx_def idle_def live_row_def tick_def numeral_eq_Suc
        split: option.splits sum.splits prod.splits if_splits db_err.splits)
  then show ?signed ?stored "idle w'" "step w' = step w + 5" "redis_log w' = redis_log w" "\<not> tp_MfaRequired pair"
    and ?fresh
    by (auto simp: mintable_def intro: exI [of _ "step w + 2"])
qed

text \<open>Claims of an issued access token, and until when it parses.\<close>

lemma issued_claims_simps [simp]:
  "cl_ID (issued_claims E h n uid em t p) = uuid_string E (fresh_uuid E (Suc n))"
  "cl_Subject (issued_claims E h n uid em t p) = uuid_string E uid"
  "cl_Email (issued_claims E h n uid em t p) = em"
  "cl_TenantID (issued_claims E h n uid em t p) = uuid_string E t"
  "cl_ProjectID (issued_claims E h n uid em t p) = (case p of None \<Rightarrow> [] | Some q \<Rightarrow> uuid_string E q)"
  "cl_Purpose (issued_claims E h n uid em t p) = []"
  "cl_TokenUse (issued_claims E h n uid em t p) = tokenUseAccess"
  "cl_Issuer (issued_claims E h n uid em t p) = j_issuer (h_jwt h)"
  "cl_ExpiresAt (issued_claims E h n uid em t p) = Some (numeric_date (clock E n + j_accessTTL (h_jwt h)))"
  by (simp_all add: issued_claims_def access_claims_def no_claims_def)

lemma parse_issued:
  assumes "jwt_contract E" "wf_manager E m"
    and "jwt_sign E (key_Kid (j_active m)) (claims_json c) (key_Private (j_active m)) = Some tok"
    and "cl_Issuer c = j_issuer m" "cl_ExpiresAt c = Some s"
  shows "parse_at E m now tok = (if now < claim_time s + clockSkewLeeway then Some c else None)"
  using parse_signed [OF assms(1-3)] assms(2,4,5)
  by (simp add: validate_claims [OF assms(1)] claims_roundtrip wf_manager_def)

lemma parse_tok0: "parse_at E0 m0 now tok0 = (if now < 960 * second then Some claims0 else None)"
proof -
  have "cl_Issuer claims0 = j_issuer m0"
    by (simp add: claims0_def access_claims_def)
  from parse_issued [OF E0_jwt_contract m0_wf sign_tok0 this claims0_simps(7)] show ?thesis
    by (simp add: claim_time_def clockSkewLeeway_def second_def)
qed

lemma claims0_access: "is_access claims0"
  by (simp add: is_access_def tokenUseAccess_def)

section \<open>Validation that succeeds\<close>

lemma withTenantGUC_fetch_ok:
  assumes "idle w" "\<forall>n. \<not> io_fail E n"
  shows "\<exists>x w'. run_state (withTenantGUC E t (exec E (fetch f))) w = (Inr x, w') \<and> db w' = db w \<and> idle w'"
  using assms
  by (simp add: withTenantGUC_def run_tx_begin run_deferring_rollback set_tenant_def run_tx_setting run_exec fetch_def
      run_tx_commit in_aborted_tx_def tick_def idle_def)

lemma load_ok:
  assumes "idle w" "\<forall>n. \<not> io_fail E n"
  shows "\<exists>x w'. run_state (load_roles E uid (Some t) p) w = (Inr x, w') \<and> idle w'"
    and "\<exists>y w''. run_state (load_perms E uid (Some t) p) w = (Inr y, w'') \<and> idle w''"
proof -
  show "\<exists>x w'. run_state (load_roles E uid (Some t) p) w = (Inr x, w') \<and> idle w'"
    unfolding load_roles_def sql_GetUserRolesScoped_def option.case
    using withTenantGUC_fetch_ok [OF assms, of t
      "\<lambda>c d. sort_key (s_collate c) (role_names_of c d (scoped_assignments uid t p c d))"] by blast
  show "\<exists>y w''. run_state (load_perms E uid (Some t) p) w = (Inr y, w'') \<and> idle w''"
    unfolding load_perms_def sql_GetUserPermissionsScoped_def option.case
    using withTenantGUC_fetch_ok [OF assms, of t
      "\<lambda>c d. sort_key (s_collate c) (remdups (permission_names_of d (scoped_assignments uid t p c d)))"] by blast
qed

lemma cached_perms_ok:
  assumes "idle w" "\<forall>n. \<not> io_fail E n" "\<not> c_rdb (h_cache h)"
  shows "\<exists>y w''. run_state (cached_perms E h c uid (Some t)) w = (Inr y, w'')"
proof -
  obtain y w'' where "run_state (load_perms E uid (Some t) (parseOptionalUUID E (cl_ProjectID c))) w = (Inr y, w'')"
    using load_ok(2) [OF assms(1,2)] by blast
  then show ?thesis using assms(3) by (simp add: cached_perms_def GetPerms_def SetPerms_def)
qed

definition active_user :: "database \<Rightarrow> uuid \<Rightarrow> bool" where
  "active_user d uid \<longleftrightarrow> (case filter (\<lambda>u. u_ID u = uid) (users d) of [] \<Rightarrow> False | u # _ \<Rightarrow> u_DeletedAt u = None)"

lemma ValidateToken_ok:
  assumes "parse_at E (h_jwt h) (clock E (step v)) tok = Some c" "is_access c"
    and "\<not> c_rdb (h_cache h)" "\<forall>n. \<not> io_fail E n" "idle v"
    and "cl_ID c \<notin> rv_Jti ` set (revoked_tokens (db v))"
    and "uuid_parse E (cl_Subject c) = Some uid" and "active_user (db v) uid"
    and "cl_TenantID c \<noteq> []" "uuid_parse E (cl_TenantID c) = Some t" and "active_member (db v) uid t"
  shows "\<exists>r v'. run_state (ValidateToken E h tok) v = (Inr r, v')
     \<and> vt_UserId r = cl_Subject c \<and> vt_Email r = cl_Email c \<and> vt_TenantId r = cl_TenantID c"
proof -
  let ?v1 = "tick v" and ?v2 = "tick (tick v)" and ?v3 = "tick (tick (tick v))" and ?v4 = "tick (tick (tick (tick v)))"
  have "cl_ID c \<noteq> []" using assms(2) by (simp add: is_access_def)
  have "run_state (ParseAccess E (h_jwt h) tok) v = (Inr c, ?v1)"
    by (simp add: run_ParseAccess assms(1,2) tick_def)
  moreover have "run_state (check_revoked E h (cl_ID c)) ?v1 = (Inr (), ?v2)"
    using assms(3-6) \<open>cl_ID c \<noteq> []\<close> by (simp add: check_revoked_def IsDenied_def sql_IsTokenRevoked_def run_fetch_idle)
  moreover have "run_state (check_active E uid) ?v2 = (Inr (), ?v3)"
    using assms(4,5,8) by (auto simp: check_active_def sql_IsUserActive_def run_fetch_one_idle active_user_def split: list.splits)
  moreover have "run_state (check_member E uid (cl_TenantID c)) ?v3 = (Inr (Some t), ?v4)"
    using assms(4,5,9-11) by (simp add: check_member_def sql_IsActiveMember_def run_fetch_idle)
  moreover obtain ros v5 where roles: "run_state (load_roles E uid (Some t) (parseOptionalUUID E (cl_ProjectID c))) ?v4 = (Inr ros, v5)"
    "idle v5"
    using load_ok(1) [of ?v4 E] assms(4,5) by fastforce
  moreover obtain ps v6 where "run_state (cached_perms E h c uid (Some t)) v5 = (Inr ps, v6)"
    using cached_perms_ok [OF roles(2) assms(4,3)] by blast
  ultimately show ?thesis by (simp add: ValidateToken_def assms(7) del: tick_simps)
qed

end
