(* ===== verification/Session_Props.thy ===== *)
theory Session_Props
  imports Session_Facts
begin

text \<open>What sessions guarantee: validation, logout, refresh and the kinds of tokens.\<close>

section \<open>Validation\<close>

lemma accepted_token:
  assumes "run_state (ValidateToken E h tok) w = (Inr r, w')" and "idle w"
  shows "\<exists>c uid. parse_at E (h_jwt h) (clock E (step w)) tok = Some c \<and> is_access c
     \<and> uuid_parse E (cl_Subject c) = Some uid
     \<and> (\<exists>x \<in> set (users (db w)). u_ID x = uid \<and> u_DeletedAt x = None)
     \<and> (cl_TenantID c \<noteq> [] \<longrightarrow> (\<exists>t. uuid_parse E (cl_TenantID c) = Some t \<and> active_member (db w) uid t
          \<and> (\<not> c_rdb (h_cache h) \<longrightarrow>
               set (vt_Permissions r) = granted (db w) uid t (parseOptionalUUID E (cl_ProjectID c)))))
     \<and> (\<not> c_rdb (h_cache h) \<longrightarrow> cl_ID c \<notin> rv_Jti ` set (revoked_tokens (db w)))
     \<and> vt_UserId r = cl_Subject c \<and> vt_TenantId r = cl_TenantID c \<and> vt_ProjectId r = cl_ProjectID c
     \<and> db w' = db w"
proof -
  from assms(1) obtain c w1 u w2 uid v w3 ten w4 ros w5 ps
    where parsed: "run_state (ParseAccess E (h_jwt h) tok) w = (Inr c, w1)"
    and revoked: "run_state (check_revoked E h (cl_ID c)) w1 = (Inr u, w2)"
    and uid: "uuid_parse E (cl_Subject c) = Some uid"
    and active: "run_state (check_active E uid) w2 = (Inr v, w3)"
    and member: "run_state (check_member E uid (cl_TenantID c)) w3 = (Inr ten, w4)"
    and roles: "run_state (load_roles E uid ten (parseOptionalUUID E (cl_ProjectID c))) w4 = (Inr ros, w5)"
    and perms: "run_state (cached_perms E h c uid ten) w5 = (Inr ps, w')"
    and r: "r = \<lparr>vt_UserId = cl_Subject c, vt_Email = cl_Email c, vt_Roles = ros,
             vt_Permissions = ps, vt_TenantId = cl_TenantID c, vt_ProjectId = cl_ProjectID c\<rparr>"
    by (rule ValidateToken_InrE)
  note p = ParseAccess_InrD [OF parsed]
  note rv = check_revoked_InrD [OF revoked p(4) [THEN iffD2, OF assms(2)]]
  note a = check_active_InrD [OF active rv(2)]
  note m = check_member_InrD [OF member a(2)]
  note l = load_InrD(1) [OF m(2) roles]
  note ps = cached_perms_InrD [OF perms conjunct2 [OF l]]
  have same: "db w4 = db w" "db w5 = db w" "db w' = db w"
    using p(3) rv(1) a(1) m(1) l ps(1) by auto
  have "is_access c" by (rule p(2))
  then have "cl_ID c \<noteq> []" by (simp add: is_access_def)
  then have "\<not> c_rdb (h_cache h) \<longrightarrow> cl_ID c \<notin> rv_Jti ` set (revoked_tokens (db w))" using rv(3) p(3) by auto
  moreover have "cl_TenantID c \<noteq> [] \<longrightarrow> (\<exists>t. uuid_parse E (cl_TenantID c) = Some t \<and> active_member (db w) uid t
          \<and> (\<not> c_rdb (h_cache h) \<longrightarrow> set ps = granted (db w) uid t (parseOptionalUUID E (cl_ProjectID c))))"
    using m(4) ps(3) l same a(1) rv(1) p(3) by fastforce
  ultimately show ?thesis using p(1,2) uid a(3) rv(1) p(3) same r by auto
qed


section \<open>Logout\<close>

text \<open>An entry of the denylist stays there.\<close>

lemma denylisted_step: "db_step E since d d' \<Longrightarrow> jti \<in> rv_Jti ` set (revoked_tokens d) \<Longrightarrow> jti \<in> rv_Jti ` set (revoked_tokens d')"
  by (induction rule: db_step.induct)
     (auto simp: sql_write_defs split: if_splits list.splits sum.splits option.splits)

interpretation denylisted: kept_property E since "\<lambda>d. jti \<in> rv_Jti ` set (revoked_tokens d)" for E since jti
  by unfold_locales (rule denylisted_step)

lemma parse_at_id:
  "parse_at E m n tok = Some c \<Longrightarrow> parse_at E m n' tok = Some c' \<Longrightarrow> c' = c"
  by (auto simp: parse_at_def split: option.splits prod.splits if_splits bind_splits)

lemma Logout_denylists:
  assumes "run_state (Logout E h ctx rtok tok) w = (Inr (), w')" and "idle w" and "\<forall>n. \<not> io_fail E n"
    and "tok \<noteq> []" and "parse_at E (h_jwt h) (clock E (step w + 1)) tok = Some c"
    and "cl_ID c \<noteq> []" and "cl_ExpiresAt c = Some s"
  shows "idle w' \<and> cl_ID c \<in> rv_Jti ` set (revoked_tokens (db w'))"
  using assms
  by (auto simp: Logout_def run_exec sql_RevokeRefreshToken_def perform_def run_Parse denylist_def
      sql_RevokeAccessJTI_def Deny_def audit_def auditAs_def sql_InsertAuditEvent_def idle_def in_aborted_tx_def tick_def abort_tx_def
      split: if_splits sum.splits prod.splits db_err.splits)



section \<open>Kinds of tokens\<close>

lemma run_IssueMFA:
  "run_state (IssueMFA E m u ttl) w = (Inr tok, w') \<Longrightarrow>
   jwt_sign E (key_Kid (j_active m)) (claims_json (mfa_claims m (clock E (step w)) u ttl)) (key_Private (j_active m)) = Some tok"
  by (auto simp: IssueMFA_def run_sign split: option.splits)

lemma run_IssueIDToken:
  "run_state (IssueIDToken E m u e a n i) w = (Inr tok, w') \<Longrightarrow>
   jwt_sign E (key_Kid (j_active m)) (id_payload m (clock E (step w)) u e a n i) (key_Private (j_active m)) = Some tok"
  by (auto simp: IssueIDToken_def run_sign split: option.splits)

text \<open>A token whose payload is no access token is refused, whenever it is presented.\<close>

lemma not_access_refused:
  assumes "jwt_contract E" "wf_manager E (h_jwt h)"
    and "jwt_sign E (key_Kid (j_active (h_jwt h))) p (key_Private (j_active (h_jwt h))) = Some tok"
    and "claims_of_json p = Some c" "\<not> is_access c"
  shows "fst (run_state (ValidateToken E h tok) v) = Inl (Status Unauthenticated ''invalid or expired token'')"
  using parse_signed [OF assms(1-3)] assms(4,5)
  by (simp add: ValidateToken_def run_ParseAccess)

text \<open>C16: neither the MFA token of the password step nor an OIDC ID token, signed with the same key,
  is ever accepted as an access token.\<close>

theorem mfa_and_id_tokens_refused:
  assumes "jwt_contract E" "wf_manager E (h_jwt h)"
    and "run_state (IssueMFA E (h_jwt h) u ttl) w = (Inr tok, w')
       \<or> run_state (IssueIDToken E (h_jwt h) u email aud nonce iss) w = (Inr tok, w')"
  shows "fst (run_state (ValidateToken E h tok) v) = Inl (Status Unauthenticated ''invalid or expired token'')"
  using assms(3)
proof
  assume "run_state (IssueMFA E (h_jwt h) u ttl) w = (Inr tok, w')"
  from not_access_refused [OF assms(1,2) run_IssueMFA [OF this] claims_roundtrip] show ?thesis
    by (simp add: is_access_def mfa_claims_def)
next
  assume "run_state (IssueIDToken E (h_jwt h) u email aud nonce iss) w = (Inr tok, w')"
  from not_access_refused [OF assms(1,2) run_IssueIDToken [OF this] id_payload_claims] show ?thesis
    by (simp add: is_access_def no_claims_def)
qed

section \<open>Issued tokens work\<close>


section \<open>Witnesses\<close>

lemma fixture_user: "active_user d0 10" "active_member d0 10 1" "revoked_tokens d0 = []"
  by (simp_all add: active_user_def active_member_def evals)

lemma fixture_validates: "\<exists>r v'. run_state (ValidateToken E0 h0 tok0) (world0 d0 1) = (Inr r, v')"
proof -
  have "parse_at E0 (h_jwt h0) (clock E0 (step (world0 d0 1))) tok0 = Some claims0"
    by (simp add: parse_tok0 second_def)
  from ValidateToken_ok [OF this claims0_access, of 10 1] show ?thesis
    using fixture_user by auto
qed


lemma fixture_logout: "\<exists>w'. run_state (Logout E0 h0 anyone ''rt'' tok0) (world0 d0 1) = (Inr (), w')"
proof -
  obtain v where "run_state (exec E0 (sql_RevokeRefreshToken (hashToken E0 ''rt''))) (world0 d0 1) = (Inr (), v)"
    by (simp add: sql_RevokeRefreshToken_def run_perform_idle)
  then show ?thesis by (simp add: Logout_def)
qed



theorem mfa_and_id_tokens_refused_witness:
  "\<exists>tok w'. run_state (IssueMFA E0 m0 ''10'' minute) (world0 d0 1) = (Inr tok, w')
     \<and> fst (run_state (ValidateToken E0 h0 tok) (world0 d0 2)) = Inl (Status Unauthenticated ''invalid or expired token'')"
proof -
  obtain tok w' where run: "run_state (IssueMFA E0 m0 ''10'' minute) (world0 d0 1) = (Inr tok, w')"
    by (simp add: IssueMFA_def run_sign T0_sign_def)
  from mfa_and_id_tokens_refused [OF E0_jwt_contract, of h0 "''10''" minute "world0 d0 1" tok w'] run m0_wf
  show ?thesis by auto
qed


end
