(* ===== verification/Refresh_Props.thy ===== *)
theory Refresh_Props
  imports Session_Facts
begin

text \<open>
  Refresh tokens: rotation, detection of reuse, the grace window, and that a token once dead is
  never live again.
\<close>

section \<open>Rotation\<close>

text \<open>Refreshing with a live token issues a pair for the same user, tenant and project, stores the
  new refresh token, and leaves the presented one revoked and pointing at its successor.\<close>

theorem refresh_rotates:
  assumes "run_state (Refresh E h ctx tok) w = (Inr pair, w')" and "idle w" and "\<forall>n. \<not> io_fail E n"
    and "row_of (db w) (hashToken E tok) = Some row" and "rt_RevokedAt row = None" and "wf_db (db w)"
  shows "\<exists>new old. row_of (db w') (hashToken E (tp_RefreshToken pair)) = Some new \<and> live_row new
      \<and> rt_UserID new = rt_UserID row \<and> rt_TenantID new = rt_TenantID row \<and> rt_ProjectID new = rt_ProjectID row
      \<and> row_of (db w') (hashToken E tok) = Some old \<and> rt_RevokedAt old \<noteq> None
      \<and> rt_ReplacedBy old = Some (hashToken E (tp_RefreshToken pair))
      \<and> \<not> rt_ExpiresAt row < clock E (step w + 1)"
proof -
  let ?h = "hashToken E tok"
  have get: "run_state (exec E (sql_GetRefreshToken ?h)) w = (Inr row, tick w)"
    using assms(2-4) by (simp add: run_exec_idle row_of_query tick_def)
  have notexp: "\<not> rt_ExpiresAt row < clock E (Suc (step w))"
    using assms(1,5) get by (auto simp: Refresh_def Let_def)
  let ?w2 = "(tick w)\<lparr>step := Suc (Suc (step w))\<rparr>"
  have i2: "idle ?w2" "db ?w2 = db w" using assms(2) by (simp_all add: idle_def tick_def)
  obtain user where user: "user_of (db w) (rt_UserID row) = Some user"
    using assms(1,3,5) get notexp i2
    by (cases "user_of (db w) (rt_UserID row)") (auto simp: Refresh_def Let_def run_exec_idle user_of_query)
  have uid: "u_ID user = rt_UserID row" using user_ofD [OF user] by simp
  have getu: "run_state (exec E (sql_GetUserByID (rt_UserID row))) ?w2 = (Inr user, tick ?w2)"
    using assms(3) i2 by (simp add: run_exec_idle user_of_query user tick_def)
  obtain w3 where issued: "run_state (issueTokens E h (u_ID user) (u_Email user) (rt_TenantID row) (rt_ProjectID row)) (tick ?w2) = (Inr pair, w3)"
    and w': "w' = snd (run_state (exec E (sql_RotateRefreshToken ?h (Some (hashToken E (tp_RefreshToken pair))))) w3)"
    using assms(1,5) get notexp getu by (auto simp: Refresh_def Let_def split: prod.splits sum.splits)
  have i3: "idle (tick ?w2)" "db (tick ?w2) = db w" using i2 by simp_all
  note iss = issueTokens_InrD [OF issued i3(1)]
  from iss(2) obtain new where new: "db w3 = (db w)\<lparr>refresh_tokens := refresh_tokens (db w) @ [new]\<rparr>"
    "rt_TokenHash new = hashToken E (tp_RefreshToken pair)"
    "rt_TokenHash new \<notin> rt_TokenHash ` set (refresh_tokens (db w))"
    "rt_UserID new = u_ID user" "rt_TenantID new = rt_TenantID row" "rt_ProjectID new = rt_ProjectID row" "live_row new"
    using i3(2) by auto
  let ?upd = "update_where (\<lambda>r. rt_TokenHash r = ?h \<and> rt_RevokedAt r = None)
     (\<lambda>r. r\<lparr>rt_RevokedAt := Some (s_now (stmt_of E w3)), rt_ReplacedBy := Some (hashToken E (tp_RefreshToken pair))\<rparr>)"
  have dbw': "db w' = (db w3)\<lparr>refresh_tokens := ?upd (refresh_tokens (db w3))\<rparr>"
    using w' iss(4) assms(3) by (simp add: run_exec_idle sql_RotateRefreshToken_def perform_def)
  have row: "row \<in> set (refresh_tokens (db w))" "rt_TokenHash row = ?h" using row_ofD [OF assms(4)] by auto
  then have ne: "hashToken E (tp_RefreshToken pair) \<noteq> ?h" using new(2,3) by (metis image_eqI)
  have find_new: "row_of (db w') (hashToken E (tp_RefreshToken pair)) = Some new"
  proof -
    have "List.find (\<lambda>r. rt_TokenHash r = hashToken E (tp_RefreshToken pair)) (refresh_tokens (db w3)) = Some new"
      using new by (auto simp: find_append find_None_iff image_iff split: option.splits dest!: find_SomeD)
    then show ?thesis using ne new(2) by (simp add: row_of_def dbw' find_update_where_same)
  qed
  have find_old: "row_of (db w') ?h = Some (row\<lparr>rt_RevokedAt := Some (s_now (stmt_of E w3)),
     rt_ReplacedBy := Some (hashToken E (tp_RefreshToken pair))\<rparr>)"
  proof -
    have "List.find (\<lambda>r. rt_TokenHash r = ?h) (refresh_tokens (db w3)) = Some row"
      using assms(4) new(1) by (simp add: row_of_def find_append)
    then show ?thesis using row(2) assms(5) by (simp add: row_of_def dbw' find_update_where_same)
  qed
  from find_new find_old new uid notexp show ?thesis by auto
qed

section \<open>Reuse\<close>


section \<open>The grace window\<close>

text \<open>Within the grace window only the row and the user's existence count.\<close>

lemma refresh_in_grace:
  assumes "idle w" and "\<forall>n. \<not> io_fail E n"
    and "row_of (db w) (hashToken E tok) = Some row" and "rt_RevokedAt row = Some at" and "rotated row"
    and "clock E (step w + 1) - at < refreshRotationGrace" and "user_of (db w) (rt_UserID row) = Some user"
  shows "run_state (Refresh E h ctx tok) w =
    run_state (issueTokens E h (rt_UserID row) (u_Email user) (rt_TenantID row) (rt_ProjectID row)) (tick (tick (tick w)))"
proof -
  have get: "run_state (exec E (sql_GetRefreshToken (hashToken E tok))) w = (Inr row, tick w)"
    using assms(1-3) by (simp add: run_exec_idle row_of_query tick_def)
  have grace: "run_state (in_grace E row at) (tick w) = (True, tick (tick w))"
    using assms(5,6) by (simp add: in_grace_def tick_def)
  have getu: "run_state (exec E (sql_GetUserByID (rt_UserID row))) (tick (tick w)) = (Inr user, tick (tick (tick w)))"
    using assms(1,2,7) by (simp add: run_exec_idle user_of_query tick_def)
  show ?thesis using get grace getu assms(4) user_ofD [OF assms(7)] by (simp add: Refresh_def Let_def)
qed

lemma ConsumePasswordReset_keeps:
  "sql_ConsumePasswordReset h c d = Inr (x, d') \<Longrightarrow> refresh_tokens d' = refresh_tokens d \<and> users d' = users d"
  by (auto simp: sql_ConsumePasswordReset_def split: list.splits)

lemma UpdatePassword_keeps:
  "sql_UpdatePassword uid hash c d = Inr (x, d') \<Longrightarrow> refresh_tokens d' = refresh_tokens d
   \<and> users d' = update_where (\<lambda>u. u_ID u = uid) (\<lambda>u. u\<lparr>u_PasswordHash := hash, u_UpdatedAt := s_now c\<rparr>) (users d)"
  by (auto simp: sql_UpdatePassword_def update_user_def perform_def)

text \<open>The stages of a password reset, and what it does to the sessions and the account.\<close>

lemma ResetPassword_InrE:
  assumes "run_state (ResetPassword E ctx rtok pw) w = (Inr u, w')"
  obtains uid w1 hash w2 x w3 y w4 where
    "run_state (exec E (sql_ConsumePasswordReset (hashToken E rtok))) w = (Inr uid, w1)"
    and "run_state (Hash E pw) w1 = (Inr hash, w2)"
    and "run_state (exec E (sql_UpdatePassword uid hash)) w2 = (Inr x, w3)"
    and "run_state (exec E (sql_RevokeAllUserRefreshTokens uid)) w3 = (y, w4)"
    and "w' = snd (run_state (auditAs E ctx (uuid_string E uid) [] ''password.reset'' [] []) w4)"
    and "8 \<le> length pw"
  using assms unfolding ResetPassword_def
  by (simp del: run_or_return run_ignoring split: if_splits) (elim or_return_InrE ignoringE, auto)

lemma ResetPassword_InrD:
  assumes "run_state (ResetPassword E ctx rtok pw) w = (Inr u, w')" and "idle w" and "\<forall>n. \<not> io_fail E n"
  shows "idle w' \<and> (\<exists>uid t t' hash.
      refresh_tokens (db w') = update_where (\<lambda>r. rt_UserID r = uid \<and> rt_RevokedAt r = None)
        (\<lambda>r. r\<lparr>rt_RevokedAt := Some t\<rparr>) (refresh_tokens (db w))
      \<and> users (db w') = update_where (\<lambda>u. u_ID u = uid) (\<lambda>u. u\<lparr>u_PasswordHash := hash, u_UpdatedAt := t'\<rparr>) (users (db w)))"
proof -
  from assms(1) obtain uid w1 hash w2 x w3 y w4 where
    1: "run_state (exec E (sql_ConsumePasswordReset (hashToken E rtok))) w = (Inr uid, w1)"
    and 2: "run_state (Hash E pw) w1 = (Inr hash, w2)"
    and 3: "run_state (exec E (sql_UpdatePassword uid hash)) w2 = (Inr x, w3)"
    and 4: "run_state (exec E (sql_RevokeAllUserRefreshTokens uid)) w3 = (y, w4)"
    and 5: "w' = snd (run_state (auditAs E ctx (uuid_string E uid) [] ''password.reset'' [] []) w4)"
    by (rule ResetPassword_InrE)
  note q1 = exec_Inr_idle [OF 1 assms(2)]
  have same1: "refresh_tokens (db w1) = refresh_tokens (db w)" "users (db w1) = users (db w)"
    using ConsumePasswordReset_keeps [OF q1(1)] by simp_all
  have w2: "idle w2" "db w2 = db w1" using 2 q1(2) by (auto simp: run_Hash split: option.splits)
  note q3 = exec_Inr_idle [OF 3 w2(1)]
  have y: "y = Inr ()" "idle w4" "db w4 = (db w3)\<lparr>refresh_tokens := update_where (\<lambda>r. rt_UserID r = uid \<and> rt_RevokedAt r = None)
        (\<lambda>r. r\<lparr>rt_RevokedAt := Some (s_now (stmt_of E w3))\<rparr>) (refresh_tokens (db w3))\<rparr>"
    using 4 q3(2) assms(3) by (auto simp: run_exec_idle sql_RevokeAllUserRefreshTokens_def perform_def)
  note audit = audit_runs(1,2) [OF y(2), of E ctx "uuid_string E uid" "[]" "''password.reset''" "[]" "[]", folded 5]
  have "users (db w') = users (db w3)" "refresh_tokens (db w') = refresh_tokens (db w4)"
    using same_but_auditD(1,2) [OF audit(2)] y(3) by simp_all
  then show ?thesis
    using audit(1) y(3) UpdatePassword_keeps [OF q3(1)] same1 w2(2)
    by (intro conjI exI [of _ uid]) auto
qed

text \<open>C36: a password reset revokes the live refresh tokens ("force re-login everywhere"), but a token that
  was rotated less than 60 seconds ago still refreshes afterwards: a session survives the reset.\<close>

theorem reset_leaves_grace_open:
  assumes "run_state (ResetPassword E ctx rtok pw) w0 = (Inr u, w)" and "idle w0" and "\<forall>n. \<not> io_fail E n"
    and "row_of (db w0) (hashToken E tok) = Some row" and "rt_RevokedAt row = Some at" and "rotated row"
    and "clock E (step w + 1) - at < refreshRotationGrace" and "user_of (db w0) (rt_UserID row) = Some user"
  shows "run_state (Refresh E h ctx' tok) w =
    run_state (issueTokens E h (rt_UserID row) (u_Email user) (rt_TenantID row) (rt_ProjectID row)) (tick (tick (tick w)))"
proof -
  from ResetPassword_InrD [OF assms(1-3)] obtain uid t t' hash where w: "idle w"
    "refresh_tokens (db w) = update_where (\<lambda>r. rt_UserID r = uid \<and> rt_RevokedAt r = None)
        (\<lambda>r. r\<lparr>rt_RevokedAt := Some t\<rparr>) (refresh_tokens (db w0))"
    "users (db w) = update_where (\<lambda>u. u_ID u = uid) (\<lambda>u. u\<lparr>u_PasswordHash := hash, u_UpdatedAt := t'\<rparr>) (users (db w0))"
    by blast
  have "row_of (db w) (hashToken E tok) = Some row"
    using assms(4,5) by (simp add: row_of_def w find_update_where_same)
  moreover obtain user' where "user_of (db w) (rt_UserID row) = Some user'" "u_Email user' = u_Email user"
    using assms(8) by (simp add: user_of_def w find_update_where_same)
  ultimately show ?thesis using refresh_in_grace [OF w(1) assms(3) _ assms(5-7)] by metis
qed

section \<open>Dead tokens\<close>

text \<open>Every row under a hash was revoked, and none of them by a rotation.\<close>

definition dead :: "string \<Rightarrow> database \<Rightarrow> bool" where
  "dead hash d \<longleftrightarrow> (\<forall>r \<in> set (refresh_tokens d). rt_TokenHash r = hash
     \<longrightarrow> rt_RevokedAt r \<noteq> None \<and> rt_ReplacedBy r = None)"

lemma dead_step: "db_step E since d d' \<Longrightarrow> \<not> mintable E since hash \<Longrightarrow> dead hash d \<Longrightarrow> dead hash d'"
  by (induction rule: db_step.induct;
      auto simp: sql_write_defs dead_def in_update_where split: if_splits list.splits sum.splits option.splits;
      metis option.distinct(1))

interpretation dead: kept_property E since "\<lambda>d. mintable E since hash \<or> dead hash d" for E since hash
  by unfold_locales (auto intro: dead_step)

lemma dead_refused:
  assumes "dead (hashToken E tok) (db w)" and "idle w"
  shows "\<exists>e. fst (run_state (Refresh E h ctx tok) w) = Inl e"
proof (cases "run_state (exec E (sql_GetRefreshToken (hashToken E tok))) w")
  case (Pair r v)
  then show ?thesis using assms
    by (cases r) (auto simp: Refresh_def Let_def dead_def in_grace_def rotated_def row_of_query
        dest!: exec_Inr_idle(1) row_ofD split: option.splits)
qed

text \<open>Once a logout revoked a refresh token that was not rotated before, the token is refused for ever:
  whatever requests follow, refreshing with it never yields tokens again, unless a later random draw of
  the service collides with it.\<close>

theorem logged_out_refresh_stays_dead:
  assumes "run_state (Logout E h ctx tok atok) w = (Inr u, w')" and "idle w"
    and "\<forall>r \<in> set (refresh_tokens (db w)). rt_TokenHash r = hashToken E tok \<longrightarrow> rt_ReplacedBy r = None"
    and "\<not> mintable E (step w) (hashToken E tok)"
  shows "\<exists>e. fst (run_state (Refresh E h ctx' tok) (serve_all E h rs w')) = Inl e"
proof -
  let ?h = "hashToken E tok"
  let ?rest = "ignoring (if atok = [] then skip
               else State_Monad.bind (Parse E (h_jwt h) atok) (\<lambda>r. case r of
                      Inl _ \<Rightarrow> skip
                    | Inr claims \<Rightarrow> denylist E h claims)) (
     ignoring (audit E ctx ''auth.logout'' [] []) (ok () :: unit handler))"
  from assms(1) obtain x v where revoked: "run_state (exec E (sql_RevokeRefreshToken ?h)) w = (Inr x, v)"
    and rest: "run_state ?rest v = (Inr u, w')"
    unfolding Logout_def by (elim or_return_InrE) blast
  note q = exec_Inr_idle [OF revoked assms(2)]
  have v: "idle v" "step w \<le> step v" "dead ?h (db v)"
    using q(1,2) exec_keeps(1) [OF revoked] assms(3)
    by (auto simp: sql_RevokeRefreshToken_def perform_Inr dead_def in_update_where)
  have "state_io_rel (served E (step w)) ?rest" by (intro served_intros)
  from dead.kept_by_handler [OF this v(1,2)] v(3) have "idle w'" "step w \<le> step w'" "dead ?h (db w')"
    using assms(4) rest by auto
  then have "idle (serve_all E h rs w')" "dead ?h (db (serve_all E h rs w'))"
    using dead.kept_by_run [of w' "step w" E ?h h rs] assms(4) by auto
  from dead_refused [OF this(2,1)] show ?thesis .
qed

section \<open>Witnesses\<close>

text \<open>Databases with a refresh token of \<open>user0\<close>: live, and rotated at instant 5 seconds.\<close>

definition row0 :: RefreshToken where
  "row0 = \<lparr>rt_ID = 50, rt_UserID = 10, rt_TokenHash = hex_encode ''rt'', rt_ExpiresAt = hour, rt_RevokedAt = None,
     rt_CreatedAt = 0, rt_TenantID = 1, rt_ProjectID = None, rt_ReplacedBy = None\<rparr>"

definition d_live :: database where
  "d_live = d0\<lparr>refresh_tokens := [row0]\<rparr>"

definition row0_rotated :: RefreshToken where
  "row0_rotated = row0\<lparr>rt_RevokedAt := Some (5 * second), rt_ReplacedBy := Some ''next''\<rparr>"

definition d_rotated :: database where
  "d_rotated = d0\<lparr>refresh_tokens := [row0_rotated],
     password_resets := [\<lparr>ot_TokenHash = hex_encode ''reset'', ot_UserID = 10, ot_ExpiresAt = hour,
       ot_ConsumedAt = None, ot_CreatedAt = 0\<rparr>]\<rparr>"

lemma fixture_rows:
  "row_of d_live (hashToken E0 ''rt'') = Some row0" "rt_RevokedAt row0 = None" "wf_db d_live"
  "row_of d_rotated (hashToken E0 ''rt'') = Some row0_rotated" "rt_RevokedAt row0_rotated = Some (5 * second)"
  "rotated row0_rotated" "user_of d_rotated (rt_UserID row0_rotated) = Some user0"
  "users d_live = users d0"
proof -
  show "wf_db d_live"
    unfolding d_live_def by (rule wf_db_replace [OF wf_d0])
      (simp add: wf_refresh_tokens_def row0_def d0_def empty_db_def user0_def)
qed (simp_all add: row_of_def d_live_def d_rotated_def row0_def row0_rotated_def hashToken_def rotated_def
    user_of_def d0_def user0_def)

lemma fixture_refresh: "\<exists>pair w'. run_state (Refresh E0 h0 anyone ''rt'') (world0 d_live 1) = (Inr pair, w')"
  by (simp add: Refresh_def d_live_def row0_def evals) (auto dest!: arg_cong [of _ _ length] simp: length_hex_encode)

theorem refresh_rotates_witness:
  "\<exists>pair w' new old. run_state (Refresh E0 h0 anyone ''rt'') (world0 d_live 1) = (Inr pair, w')
     \<and> row_of (db w') (hashToken E0 (tp_RefreshToken pair)) = Some new \<and> live_row new
     \<and> row_of (db w') (hashToken E0 ''rt'') = Some old \<and> rt_RevokedAt old \<noteq> None"
proof -
  obtain pair w' where run: "run_state (Refresh E0 h0 anyone ''rt'') (world0 d_live 1) = (Inr pair, w')"
    using fixture_refresh by blast
  from refresh_rotates [OF run _ _ _ fixture_rows(2)] fixture_rows(1,3) run show ?thesis by fastforce
qed


theorem reset_leaves_grace_open_witness:
  "\<exists>w. run_state (ResetPassword E0 anyone ''reset'' ''new password'') (world0 d_rotated 10) = (Inr (), w)
     \<and> run_state (Refresh E0 h0 anyone ''rt'') w = run_state (issueTokens E0 h0 10 ''a@x'' 1 None) (tick (tick (tick w)))"
proof -
  have "\<exists>w. run_state (ResetPassword E0 anyone ''reset'' ''new password'') (world0 d_rotated 10) = (Inr (), w) \<and> step w = 15"
    by (simp add: ResetPassword_def sql_ConsumePasswordReset_def consumable_def run_Hash sql_UpdatePassword_def
        d_rotated_def row0_rotated_def row0_def evals)
  then obtain w where run: "run_state (ResetPassword E0 anyone ''reset'' ''new password'') (world0 d_rotated 10) = (Inr (), w)"
    "step w = 15" by blast
  from reset_leaves_grace_open [OF run(1) _ _ _ fixture_rows(5,6), of "''rt''" user0 h0 anyone] fixture_rows(4,7) run(2)
  have "run_state (Refresh E0 h0 anyone ''rt'') w = run_state (issueTokens E0 h0 10 ''a@x'' 1 None) (tick (tick (tick w)))"
    by (simp add: refreshRotationGrace_def second_def row0_rotated_def row0_def user0_def)
  with run(1) show ?thesis by blast
qed

theorem logged_out_refresh_stays_dead_witness:
  "\<exists>w'. run_state (Logout E0 h0 anyone ''rt'' []) (world0 d_live 1) = (Inr (), w')
     \<and> (\<forall>rs. \<exists>e. fst (run_state (Refresh E0 h0 anyone ''rt'') (serve_all E0 h0 rs w')) = Inl e)"
proof -
  have "\<not> mintable E0 1 (hashToken E0 ''rt'')"
  proof
    assume "mintable E0 1 (hashToken E0 ''rt'')"
    then have "length (hex_encode ''rt'') = length (hex_encode (hex_encode (replicate 32 (CHR ''x''))))"
      by (auto simp: mintable_def hashToken_def length_hex_encode dest!: arg_cong [of _ _ length])
    then show False by (simp add: length_hex_encode)
  qed
  moreover have "\<exists>w'. run_state (Logout E0 h0 anyone ''rt'' []) (world0 d_live 1) = (Inr (), w')"
    by (simp add: Logout_def d_live_def row0_def evals)
  moreover have "\<forall>r \<in> set (refresh_tokens d_live). rt_ReplacedBy r = None"
    by (simp add: d_live_def row0_def)
  ultimately show ?thesis
    using logged_out_refresh_stays_dead [of E0 h0 anyone "''rt''" "[]" "world0 d_live 1" "()"] by fastforce
qed

end
