(* ===== verification/Login_Props.thy ===== *)
theory Login_Props
  imports Session_Facts
begin

text \<open>
  Registration, the password step, the lockout and the second factor: what a successful login
  established, what a failed one gives away, how many passwords can be tried, and that a
  registration happens as a whole or not at all.
\<close>

section \<open>The stages of a login\<close>

lemma is_locked_run:
  assumes "run_state (is_locked E user) w = (l, w')"
  shows "db w' = db w" "idle w' = idle w"
    "l \<longleftrightarrow> (\<exists>t. u_LockedUntil user = Some t \<and> clock E (step w) < t)"
    "step w' = (if u_LockedUntil user = None then step w else Suc (step w))"
  using assms by (auto simp: is_locked_def idle_def split: option.splits)

lemma auditAs_step:
  "step (snd (run_state (auditAs E ctx a b c d e) w)) = (if AuditEnabled E then Suc (step w) else step w)"
  by (auto simp: auditAs_def)

text \<open>Clearing the failure counter leaves everything but users alone.\<close>

lemma ResetLoginState_run:
  assumes "idle w"
  shows "idle (snd (run_state (exec E (sql_ResetLoginState uid)) w))"
    and "refresh_tokens (db (snd (run_state (exec E (sql_ResetLoginState uid)) w))) = refresh_tokens (db w)"
    and "memberships (db (snd (run_state (exec E (sql_ResetLoginState uid)) w))) = memberships (db w)"
    and "tenants (db (snd (run_state (exec E (sql_ResetLoginState uid)) w))) = tenants (db w)"
    and "totp_recovery_codes (db (snd (run_state (exec E (sql_ResetLoginState uid)) w))) = totp_recovery_codes (db w)"
  using assms
  by (auto simp: run_exec sql_ResetLoginState_def update_user_def perform_def split: if_splits)

text \<open>A session is opened in the tenant of an active membership.\<close>

lemma issueForActiveTenant_InrD:
  assumes "run_state (issueForActiveTenant E h uid email) w = (Inr pair, w')" and "idle w"
  shows "\<exists>row t. db w' = (db w)\<lparr>refresh_tokens := refresh_tokens (db w) @ [row]\<rparr>
      \<and> rt_TokenHash row = hashToken E (tp_RefreshToken pair) \<and> rt_UserID row = uid \<and> rt_TenantID row = t
      \<and> rt_ProjectID row = None \<and> live_row row
      \<and> (\<exists>m \<in> set (memberships (db w)). m_UserID m = uid \<and> m_TenantID m = t \<and> m_Status m = ''active'')"
    "\<not> tp_MfaRequired pair" "idle w'"
proof -
  from assms(1) obtain ms w1 where 1: "run_state (exec E (sql_ListMembershipsByUser uid)) w = (Inr ms, w1)"
    and 2: "run_state (case ms of [] \<Rightarrow> bail (Status PermissionDenied ''user has no tenant membership'')
        | (t, _) # _ \<Rightarrow> issueTokens E h uid email (t_ID t) None) w1 = (Inr pair, w')"
    unfolding issueForActiveTenant_def by (elim or_return_InrE) blast
  note q = exec_Inr_idle [OF 1 assms(2)]
  from 2 obtain t st rest where ms: "ms = (t, st) # rest" by (cases ms) auto
  note iss = issueTokens_InrD [OF 2 [unfolded ms, simplified] q(2)]
  have "(t, st) \<in> set ms" by (simp add: ms)
  then have "\<exists>m \<in> set (memberships (db w)). m_UserID m = uid \<and> m_TenantID m = t_ID t \<and> m_Status m = ''active''"
    using q(1) by (auto simp: sql_ListMembershipsByUser_def fetch_Inr)
  moreover have "db w1 = db w" using q(1) by (simp add: sql_ListMembershipsByUser_def fetch_Inr)
  moreover from iss(2) obtain row where "db w' = (db w1)\<lparr>refresh_tokens := refresh_tokens (db w1) @ [row]\<rparr>"
    "rt_TokenHash row = hashToken E (tp_RefreshToken pair)" "rt_UserID row = uid" "rt_TenantID row = t_ID t"
    "rt_ProjectID row = None" "live_row row" by blast
  ultimately show "\<exists>row t. db w' = (db w)\<lparr>refresh_tokens := refresh_tokens (db w) @ [row]\<rparr>
      \<and> rt_TokenHash row = hashToken E (tp_RefreshToken pair) \<and> rt_UserID row = uid \<and> rt_TenantID row = t
      \<and> rt_ProjectID row = None \<and> live_row row
      \<and> (\<exists>m \<in> set (memberships (db w)). m_UserID m = uid \<and> m_TenantID m = t \<and> m_Status m = ''active'')"
    by (intro exI [of _ row] exI [of _ "t_ID t"]) simp
  show "\<not> tp_MfaRequired pair" "idle w'" by (fact iss)+
qed

text \<open>The rest of a login, once the password and the account were found in order.\<close>

definition after_password :: "env \<Rightarrow> AuthHandler \<Rightarrow> identity \<Rightarrow> User \<Rightarrow> TokenPair handler" where
  "after_password E h ctx user =
     (if u_TotpEnabled user then
         ignoring (auditAs E ctx (uuid_string E (u_ID user)) (u_Email user) ''login.mfa_challenge'' [] []) (
         or_return (IssueMFA E (h_jwt h) (uuid_string E (u_ID user)) mfaTokenTTL)
           (Status Internal ''failed to issue mfa token'') (\<lambda>mfaTok.
         ok \<lparr>tp_AccessToken = [], tp_RefreshToken = [], tp_ExpiresIn = 0, tp_TokenType = ''Bearer'',
             tp_MfaRequired = True, tp_MfaToken = mfaTok\<rparr>))
       else
         ignoring (auditAs E ctx (uuid_string E (u_ID user)) (u_Email user) ''login.success'' [] [])
         (issueForActiveTenant E h (u_ID user) (u_Email user)))"

lemma Login_InrE:
  assumes "run_state (Login E h ctx email pw) w = (Inr pair, w')" and "idle w"
  obtains user w2 where "user_by_email (db w) email = Some user"
    and "\<not> (\<exists>t. u_LockedUntil user = Some t \<and> clock E (step w + 1) < t)"
    and "Verify E (u_PasswordHash user) pw"
    and "RequireEmailVerification E \<longrightarrow> u_EmailVerified user" and "u_DeletedAt user = None"
    and "idle w2" and "db w2 = db w"
    and "run_state (after_password E h ctx user) (snd (run_state (exec E (sql_ResetLoginState (u_ID user))) w2)) = (Inr pair, w')"
proof -
  have get: "run_state (exec E (sql_GetUserByEmail email)) w = (if io_fail E (step w) then Inl IOError
      else case user_by_email (db w) email of None \<Rightarrow> Inl NoRows | Some u \<Rightarrow> Inr u, tick w)"
    using assms(2) by (auto simp: run_exec user_by_email_query split: option.splits)
  from assms(1) get obtain user where user: "user_by_email (db w) email = Some user"
    and rest: "run_state (exec E (sql_GetUserByEmail email)) w = (Inr user, tick w)"
    by (cases "user_by_email (db w) email") (auto simp: Login_def split: if_splits)
  obtain l w2 where locked: "run_state (is_locked E user) (tick w) = (l, w2)" by fastforce
  note lk = is_locked_run [OF locked]
  show thesis
    using assms rest locked lk
    by (intro that [OF user, of w2])
       (auto simp: Login_def after_password_def split: if_splits)
qed


section \<open>What a refusal tells\<close>

text \<open>An unknown email, a wrong password and a deleted account (with any password) get the same answer.\<close>

theorem login_hides_accounts:
  assumes "idle w"
    and "user_by_email (db w) email = None
       \<or> (\<exists>user. user_by_email (db w) email = Some user \<and> (\<forall>t. u_LockedUntil user = Some t \<longrightarrow> t \<le> clock E (step w + 1))
            \<and> (\<not> Verify E (u_PasswordHash user) pw \<or> u_DeletedAt user \<noteq> None \<and> \<not> RequireEmailVerification E))"
  shows "fst (run_state (Login E h ctx email pw) w) = Inl (Status Unauthenticated ''invalid credentials'')"
proof -
  have get: "run_state (exec E (sql_GetUserByEmail email)) w = (if io_fail E (step w) then Inl IOError
      else case user_by_email (db w) email of None \<Rightarrow> Inl NoRows | Some u \<Rightarrow> Inr u, tick w)"
    using assms(1) by (auto simp: run_exec user_by_email_query split: option.splits)
  from assms(2) show ?thesis
  proof
    assume "user_by_email (db w) email = None"
    with get show ?thesis by (simp add: Login_def)
  next
    assume "\<exists>user. user_by_email (db w) email = Some user \<and> (\<forall>t. u_LockedUntil user = Some t \<longrightarrow> t \<le> clock E (step w + 1))
            \<and> (\<not> Verify E (u_PasswordHash user) pw \<or> u_DeletedAt user \<noteq> None \<and> \<not> RequireEmailVerification E)"
    then obtain user where user: "user_by_email (db w) email = Some user"
      "\<forall>t. u_LockedUntil user = Some t \<longrightarrow> t \<le> clock E (step w + 1)"
      "\<not> Verify E (u_PasswordHash user) pw \<or> u_DeletedAt user \<noteq> None \<and> \<not> RequireEmailVerification E" by blast
    obtain l w2 where locked: "run_state (is_locked E user) (tick w) = (l, w2)" by fastforce
    have "\<not> l" using is_locked_run(3) [OF locked] user(2) by auto
    with get user locked show ?thesis by (auto simp: Login_def)
  qed
qed

section \<open>The lockout\<close>

lemma user_of_by_email:
  assumes "wf_db d" and "user_by_email d email = Some user"
  shows "user_of d (u_ID user) = Some user"
  using assms user_by_emailD [OF assms(2)] unfolding user_of_def
  by (intro find_unique) (auto dest: wf_dbD(1) simp: wf_users_def)

lemma IncrementLoginFailure_query:
  "sql_IncrementLoginFailure uid c d = (case user_of d uid of None \<Rightarrow> Inl NoRows
     | Some u \<Rightarrow> if u_FailedLoginAttempts u + 1 > 2147483647 then Inl NumericOutOfRange
         else Inr (u_FailedLoginAttempts u + 1, d\<lparr>users := update_where (\<lambda>u. u_ID u = uid)
                (\<lambda>u. u\<lparr>u_FailedLoginAttempts := u_FailedLoginAttempts u + 1\<rparr>) (users d)\<rparr>))"
proof -
  have "List.find P xs = (case filter P xs of [] \<Rightarrow> None | x # _ \<Rightarrow> Some x)" for P and xs :: "User list"
    by (induction xs) auto
  then show ?thesis by (simp add: sql_IncrementLoginFailure_def user_of_def split: list.splits)
qed

text \<open>An account after one more failure at instant \<open>t\<close>.\<close>

definition after_failure :: "env \<Rightarrow> time \<Rightarrow> User \<Rightarrow> User" where
  "after_failure E t user =
     (if u_FailedLoginAttempts user + 1 \<ge> LoginMaxFailures E
      then user\<lparr>u_LockedUntil := Some (t + LockoutDuration E), u_FailedLoginAttempts := 0\<rparr>
      else user\<lparr>u_FailedLoginAttempts := u_FailedLoginAttempts user + 1\<rparr>)"

lemma count_failure_run:
  assumes "idle w" and "\<forall>n. \<not> io_fail E n" and "LoginMaxFailures E > 0"
    and "user_of (db w) uid = Some user" and "u_FailedLoginAttempts user < 2147483647"
  shows "idle (snd (run_state (count_failure E ctx uid em det) w))"
    and "\<exists>f. users (db (snd (run_state (count_failure E ctx uid em det) w))) = update_where (\<lambda>u. u_ID u = uid) f (users (db w))
       \<and> f user = after_failure E (clock E (step w + 1)) user \<and> (\<forall>u. u_ID (f u) = u_ID u \<and> u_Email (f u) = u_Email u)"
proof -
  let ?n = "u_FailedLoginAttempts user + 1"
  let ?d = "(db w)\<lparr>users := update_where (\<lambda>u. u_ID u = uid)
                (\<lambda>u. u\<lparr>u_FailedLoginAttempts := u_FailedLoginAttempts u + 1\<rparr>) (users (db w))\<rparr>"
  have inc: "run_state (exec E (sql_IncrementLoginFailure uid)) w = (Inr ?n, tick (w\<lparr>db := ?d\<rparr>))"
    using assms by (simp add: run_exec_idle IncrementLoginFailure_query)
  let ?w1 = "tick (tick (w\<lparr>db := ?d\<rparr>))"
  let ?until = "clock E (Suc (step w)) + LockoutDuration E"
  let ?w2 = "snd (run_state (exec E (sql_LockUser uid ?until)) ?w1)"
  have idle1: "idle ?w1" using assms(1) by simp
  have lock: "idle ?w2" "db ?w2 = ?d\<lparr>users := update_where (\<lambda>u. u_ID u = uid)
       (\<lambda>u. u\<lparr>u_LockedUntil := Some ?until, u_FailedLoginAttempts := 0\<rparr>) (users ?d)\<rparr>"
    using idle1 assms(2) by (simp_all add: run_exec_idle sql_LockUser_def update_user_def perform_def)
  note a = audit_runs(1,2) [OF lock(1), of E ctx "uuid_string E uid" em "''login.locked''" "[]" det]
  have compose: "update_where (\<lambda>u. u_ID u = uid) g (update_where (\<lambda>u. u_ID u = uid) f us)
      = update_where (\<lambda>u. u_ID u = uid) (\<lambda>u. g (f u)) us" if "\<forall>u. u_ID (f u) = u_ID u" for f g :: "User \<Rightarrow> User" and us
    using that by (auto simp: update_where_def)
  show "idle (snd (run_state (count_failure E ctx uid em det) w))"
    using inc assms(1,3) a(1) by (auto simp: count_failure_def tick_def)
  show "\<exists>f. users (db (snd (run_state (count_failure E ctx uid em det) w))) = update_where (\<lambda>u. u_ID u = uid) f (users (db w))
       \<and> f user = after_failure E (clock E (step w + 1)) user \<and> (\<forall>u. u_ID (f u) = u_ID u \<and> u_Email (f u) = u_Email u)"
  proof (cases "?n \<ge> LoginMaxFailures E")
    case True
    have "users (db (snd (run_state (count_failure E ctx uid em det) w))) = users (db ?w2)"
      using inc True assms(3) same_but_auditD(1) [OF a(2)] by (simp add: count_failure_def tick_def)
    with True show ?thesis
      by (intro exI [of _ "\<lambda>u. u\<lparr>u_FailedLoginAttempts := u_FailedLoginAttempts u + 1, u_LockedUntil := Some ?until, u_FailedLoginAttempts := 0\<rparr>"])
         (simp add: lock compose after_failure_def)
  next
    case False
    with inc assms(3) show ?thesis
      by (intro exI [of _ "\<lambda>u. u\<lparr>u_FailedLoginAttempts := u_FailedLoginAttempts u + 1\<rparr>"])
         (simp add: count_failure_def after_failure_def)
  qed
qed

lemma wrong_password:
  assumes "idle w" and "\<forall>n. \<not> io_fail E n" and "LoginMaxFailures E > 0" and "wf_db (db w)"
    and "user_by_email (db w) email = Some user" and "u_LockedUntil user = None"
    and "\<not> Verify E (u_PasswordHash user) pw" and "u_FailedLoginAttempts user < 2147483647"
  shows "\<exists>w'. run_state (Login E h ctx email pw) w = (Inl (Status Unauthenticated ''invalid credentials''), w')
     \<and> idle w' \<and> wf_db (db w') \<and> user_by_email (db w') email = Some (after_failure E (clock E (step w + 2)) user)"
proof -
  let ?uid = "u_ID user" and ?w1 = "tick w"
  let ?w2 = "snd (run_state (count_failure E ctx ?uid (u_Email user) ''too many failed attempts'') ?w1)"
  let ?w3 = "snd (run_state (auditAs E ctx (uuid_string E ?uid) (u_Email user) ''login.failure'' [] []) ?w2)"
  have get: "run_state (exec E (sql_GetUserByEmail email)) w = (Inr user, ?w1)"
    using assms(1,2,5) by (simp add: run_exec_idle user_by_email_query tick_def)
  have run: "run_state (Login E h ctx email pw) w = (Inl (Status Unauthenticated ''invalid credentials''), ?w3)"
    using get assms(6,7) by (simp add: Login_def is_locked_def)
  have w1: "idle ?w1" "user_of (db ?w1) ?uid = Some user"
    using assms(1) user_of_by_email [OF assms(4,5)] by simp_all
  note cf = count_failure_run [OF w1(1) assms(2,3) w1(2) assms(8), of ctx "u_Email user" "''too many failed attempts''"]
  from cf(2) obtain f where f: "users (db ?w2) = update_where (\<lambda>u. u_ID u = ?uid) f (users (db w))"
    "f user = after_failure E (clock E (step w + 2)) user" "\<forall>u. u_ID (f u) = u_ID u \<and> u_Email (f u) = u_Email u" by auto
  note a = audit_runs(1,2) [OF cf(1), of E ctx "uuid_string E ?uid" "u_Email user" "''login.failure''" "[]" "[]"]
  have "user_by_email (db ?w3) email = Some (after_failure E (clock E (step w + 2)) user)"
    using assms(5) f same_but_auditD(1) [OF a(2)] by (simp add: user_by_email_def find_update_where_same)
  moreover have "wf_db (db ?w3)"
    using wf.kept_by_handler [OF served_login(2) assms(1) _ assms(4), of 0 E h ctx email pw] run by simp
  ultimately show ?thesis using run a(1) by blast
qed

text \<open>Guessing: \<open>k\<close> logins with passwords that do not verify.\<close>

fun guesses :: "env \<Rightarrow> AuthHandler \<Rightarrow> identity \<Rightarrow> string \<Rightarrow> string list \<Rightarrow> world \<Rightarrow> world" where
  "guesses E h ctx email [] w = w"
| "guesses E h ctx email (pw # pws) w = guesses E h ctx email pws (snd (run_state (Login E h ctx email pw) w))"

lemma after_failure_simps [simp]:
  "u_PasswordHash (after_failure E t user) = u_PasswordHash user"
  by (simp add: after_failure_def)

lemma guesses_lock:
  assumes "idle w" and "\<forall>n. \<not> io_fail E n" and "LoginMaxFailures E \<le> 2147483647" and "wf_db (db w)"
    and "user_by_email (db w) email = Some user" and "u_LockedUntil user = None"
    and "\<forall>pw \<in> set pws. \<not> Verify E (u_PasswordHash user) pw"
    and "0 \<le> u_FailedLoginAttempts user" and "u_FailedLoginAttempts user + int (length pws) = LoginMaxFailures E"
    and "pws \<noteq> []"
  shows "\<exists>user' s. idle (guesses E h ctx email pws w) \<and> user_by_email (db (guesses E h ctx email pws w)) email = Some user'
     \<and> u_LockedUntil user' = Some (clock E s + LockoutDuration E) \<and> step w < s"
  using assms(1,4-10)
proof (induction pws arbitrary: w user)
  case Nil
  then show ?case by simp
next
  case (Cons pw pws)
  have max: "LoginMaxFailures E > 0" using Cons.prems(6,7) by auto
  have lim: "u_FailedLoginAttempts user < 2147483647" using Cons.prems(7) assms(3) by auto
  have nv: "\<not> Verify E (u_PasswordHash user) pw" using Cons.prems(5) by simp
  from wrong_password [OF Cons.prems(1) assms(2) max Cons.prems(2,3,4) nv lim, of h ctx] obtain w' where
    run: "run_state (Login E h ctx email pw) w = (Inl (Status Unauthenticated ''invalid credentials''), w')"
    and w': "idle w'" "wf_db (db w')" "user_by_email (db w') email = Some (after_failure E (clock E (step w + 2)) user)"
    by blast
  show ?case
  proof (cases "pws = []")
    case True
    with Cons.prems(7) have "u_FailedLoginAttempts user + 1 \<ge> LoginMaxFailures E" by simp
    with True run w' show ?thesis
      by (intro exI [of _ "after_failure E (clock E (step w + 2)) user"] exI [of _ "step w + 2"])
         (simp add: after_failure_def)
  next
    case False
    with Cons.prems(7) have "\<not> u_FailedLoginAttempts user + 1 \<ge> LoginMaxFailures E" by (cases pws) auto
    then have next_user: "u_LockedUntil (after_failure E (clock E (step w + 2)) user) = None"
      "u_FailedLoginAttempts (after_failure E (clock E (step w + 2)) user) = u_FailedLoginAttempts user + 1"
      using Cons.prems(4) by (simp_all add: after_failure_def)
    have "step w \<le> step w'"
      using served_login(2) [of E 0 h ctx email pw] run by (auto simp: state_io_rel_def served_def dest: spec [of _ w])
    with Cons.IH [OF w' next_user(1) _ _ _ False] Cons.prems(5-7) next_user(2) run show ?thesis
      by simp (metis le_less_trans)
  qed
qed


section \<open>The second factor\<close>

lemma totp_matches_run:
  assumes "run_state (totp_matches E h stored code) w = (v, w')"
  shows "db w' = db w" "idle w' = idle w"
    "v \<longleftrightarrow> (\<exists>secret. Decrypt E (h_totpEnc h) stored = Inr secret \<and> totp_validate E (clock E (step w)) code secret)"
  using assms by (auto simp: totp_matches_def run_totp_Validate idle_def split: sum.splits)

text \<open>A recovery code that was accepted was unused, and is used up.\<close>

lemma consumeRecoveryCode_accepts:
  assumes "run_state (consumeRecoveryCode E uid code) w = (True, w')" and "idle w"
  shows "idle w'" "\<exists>r \<in> set (totp_recovery_codes (db w)). unused_code uid (hashToken E code) r"
    "\<forall>r \<in> set (totp_recovery_codes (db w')). \<not> unused_code uid (hashToken E code) r"
    "users (db w') = users (db w)" "refresh_tokens (db w') = refresh_tokens (db w)"
    "memberships (db w') = memberships (db w)" "tenants (db w') = tenants (db w)"
proof -
  from assms(1) obtain x where run: "run_state (exec E (sql_ConsumeRecoveryCode uid (hashToken E code))) w = (Inr x, w')"
    by (auto simp: consumeRecoveryCode_def split: prod.splits sum.splits)
  note q = exec_Inr_idle [OF run assms(2)]
  show "idle w'" by (fact q)
  from q(1) obtain r rs where f: "filter (unused_code uid (hashToken E code)) (totp_recovery_codes (db w)) = r # rs"
    and d: "db w' = (db w)\<lparr>totp_recovery_codes := update_where (unused_code uid (hashToken E code))
                   (\<lambda>r. r\<lparr>rc_UsedAt := Some (s_now (stmt_of E w))\<rparr>) (totp_recovery_codes (db w))\<rparr>"
    by (auto simp: sql_ConsumeRecoveryCode_def split: list.splits)
  from filter_eq_ConsD [OF f] show "\<exists>r \<in> set (totp_recovery_codes (db w)). unused_code uid (hashToken E code) r" by auto
  show "\<forall>r \<in> set (totp_recovery_codes (db w')). \<not> unused_code uid (hashToken E code) r"
    by (clarsimp simp: d in_update_where) (simp add: unused_code_def split: if_splits)
  show "users (db w') = users (db w)" "refresh_tokens (db w') = refresh_tokens (db w)"
    "memberships (db w') = memberships (db w)" "tenants (db w') = tenants (db w)" by (simp_all add: d)
qed

lemma LoginTotp_InrE:
  assumes "run_state (LoginTotp E h ctx tok code) w = (Inr pair, w')" and "idle w"
  obtains c uid user stored l w1 valid w2 w3
  where "parse_at E (h_jwt h) (clock E (step w)) tok = Some c" and "cl_Purpose c = ''mfa''"
    and "uuid_parse E (cl_Subject c) = Some uid" and "user_of (db w) uid = Some user"
    and "u_TotpSecret user = Some stored" and "u_DeletedAt user = None" and "u_TotpEnabled user"
    and "\<not> (\<exists>t. u_LockedUntil user = Some t \<and> clock E (step w + 2) < t)"
    and "db w1 = db w" and "idle w1" and "step w < step w1" and "step w1 \<le> step w + 3" and "run_state (totp_matches E h stored code) w1 = (valid, w2)"
    and "run_state (second_factor E uid code valid) w2 = (True, w3)"
    and "run_state (issueForActiveTenant E h uid (u_Email user))
      (snd (run_state (auditAs E ctx (uuid_string E uid) (u_Email user) ''login.success'' [] ''2fa'')
        (snd (run_state (exec E (sql_ResetLoginState uid)) w3)))) = (Inr pair, w')"
proof -
  let ?v = "w\<lparr>step := Suc (step w)\<rparr>"
  from assms(1) obtain c where c: "parse_at E (h_jwt h) (clock E (step w)) tok = Some c" "cl_Purpose c = ''mfa''"
    by (auto simp: LoginTotp_def run_Parse split: option.splits if_splits)
  with assms(1) obtain uid where uid: "uuid_parse E (cl_Subject c) = Some uid"
    by (cases "uuid_parse E (cl_Subject c)") (auto simp: LoginTotp_def run_Parse)
  have get: "run_state (exec E (sql_GetUserByID uid)) ?v = (if io_fail E (Suc (step w)) then Inl IOError
      else case user_of (db w) uid of None \<Rightarrow> Inl NoRows | Some u \<Rightarrow> Inr u, tick ?v)"
    using assms(2) by (auto simp: run_exec user_of_query split: option.splits)
  with assms(1) c uid obtain user where user: "user_of (db w) uid = Some user"
    and got: "run_state (exec E (sql_GetUserByID uid)) ?v = (Inr user, tick ?v)"
    by (cases "user_of (db w) uid") (auto simp: LoginTotp_def run_Parse split: if_splits)
  with assms(1) c uid obtain stored where stored: "u_TotpSecret user = Some stored"
    by (cases "u_TotpSecret user") (auto simp: LoginTotp_def run_Parse)
  obtain l w1 where locked: "run_state (is_locked E user) (tick ?v) = (l, w1)" by fastforce
  obtain valid w2 where valid: "run_state (totp_matches E h stored code) w1 = (valid, w2)" by fastforce
  obtain accepted w3 where accepted: "run_state (second_factor E uid code valid) w2 = (accepted, w3)" by fastforce
  note lk = is_locked_run [OF locked]
  have "idle w1" "db w1 = db w" "step w < step w1" "step w1 \<le> step w + 3" using lk(1,2,4) assms(2) by simp_all
  then show thesis
    using assms(1) c uid got stored locked valid accepted lk(3)
    by (intro that [OF c uid user stored, where ?w1.0=w1 and valid=valid and ?w2.0=w2 and ?w3.0=w3])
       (auto simp: LoginTotp_def run_Parse split: if_splits)
qed

text \<open>C19: the second step of a login succeeds only with a genuine, unexpired MFA token of an account that has
  two-factor authentication on and is neither deleted nor locked, and either the current TOTP code of its
  stored secret or one of its recovery codes, which was unused before and is used up after. Only then is a
  session opened.\<close>

theorem login_totp_sound:
  assumes "run_state (LoginTotp E h ctx tok code) w = (Inr pair, w')" and "idle w"
  shows "\<exists>c uid user stored. parse_at E (h_jwt h) (clock E (step w)) tok = Some c \<and> cl_Purpose c = ''mfa''
     \<and> uuid_parse E (cl_Subject c) = Some uid \<and> user_of (db w) uid = Some user \<and> u_TotpSecret user = Some stored
     \<and> u_DeletedAt user = None \<and> u_TotpEnabled user
     \<and> \<not> (\<exists>t. u_LockedUntil user = Some t \<and> clock E (step w + 2) < t)
     \<and> ((\<exists>secret n. Decrypt E (h_totpEnc h) stored = Inr secret \<and> totp_validate E (clock E n) code secret
              \<and> step w < n \<and> n \<le> step w + 3)
        \<or> (\<exists>r \<in> set (totp_recovery_codes (db w)). unused_code uid (hashToken E code) r)
          \<and> (\<forall>r \<in> set (totp_recovery_codes (db w')). \<not> unused_code uid (hashToken E code) r))
     \<and> (\<exists>row. refresh_tokens (db w') = refresh_tokens (db w) @ [row] \<and> rt_UserID row = uid \<and> live_row row
          \<and> rt_TokenHash row = hashToken E (tp_RefreshToken pair))"
proof -
  from assms obtain c uid user stored l w1 valid w2 w3
    where facts: "parse_at E (h_jwt h) (clock E (step w)) tok = Some c" "cl_Purpose c = ''mfa''"
    "uuid_parse E (cl_Subject c) = Some uid" "user_of (db w) uid = Some user"
    "u_TotpSecret user = Some stored" "u_DeletedAt user = None" "u_TotpEnabled user"
    "\<not> (\<exists>t. u_LockedUntil user = Some t \<and> clock E (step w + 2) < t)"
    and w1: "db w1 = db w" "idle w1" "step w < step w1" "step w1 \<le> step w + 3" and m: "run_state (totp_matches E h stored code) w1 = (valid, w2)"
    and s: "run_state (second_factor E uid code valid) w2 = (True, w3)"
    and i: "run_state (issueForActiveTenant E h uid (u_Email user))
      (snd (run_state (auditAs E ctx (uuid_string E uid) (u_Email user) ''login.success'' [] ''2fa'')
        (snd (run_state (exec E (sql_ResetLoginState uid)) w3)))) = (Inr pair, w')"
    by (rule LoginTotp_InrE)
  note tm = totp_matches_run [OF m]
  have w2: "idle w2" "db w2 = db w" using tm(1,2) w1 by simp_all
  have w3: "idle w3" "refresh_tokens (db w3) = refresh_tokens (db w)"
    "valid \<or> (\<exists>r \<in> set (totp_recovery_codes (db w)). unused_code uid (hashToken E code) r)
        \<and> (\<forall>r \<in> set (totp_recovery_codes (db w3)). \<not> unused_code uid (hashToken E code) r)"
    using s w2 consumeRecoveryCode_accepts [OF _ w2(1), of E uid code w3]
    by (cases valid; auto simp: second_factor_def)+
  note r = ResetLoginState_run [OF w3(1), of E uid]
  note a = audit_runs(1,2) [OF r(1), of E ctx "uuid_string E uid" "u_Email user" "''login.success''" "[]" "''2fa''"]
  note iss = issueForActiveTenant_InrD [OF i a(1)]
  have "refresh_tokens (db w') = refresh_tokens (db w3) @ [last (refresh_tokens (db w'))]"
    "totp_recovery_codes (db w') = totp_recovery_codes (db w3)"
    using iss(1) same_but_auditD(2,12) [OF a(2)] r(2,5) by auto
  with facts tm(3) w1(3,4) w3 iss(1) show ?thesis
    by (intro exI [of _ c] exI [of _ uid] exI [of _ user] exI [of _ stored]) auto
qed

section \<open>Witnesses\<close>

lemma fixture_password:
  "Verify E0 (u_PasswordHash user0) ''secret42''" "\<not> Verify E0 (u_PasswordHash user0) ''guess''"
  by (simp_all add: user0_def Verify_phc)

lemma fixture_login: "\<exists>pair w'. run_state (Login E0 h0 anyone ''a@x'' ''secret42'') (world0 d0 1) = (Inr pair, w')"
  using fixture_password(1) by (simp add: Login_def is_locked_def evals)


lemma fixture_by_email: "user_by_email d0 ''a@x'' = Some user0" "user_by_email d0 ''b@x'' = None"
  by (simp_all add: user_by_email_def d0_def empty_db_def) (simp_all add: user0_def)

theorem login_hides_accounts_witness:
  "fst (run_state (Login E0 h0 anyone ''a@x'' ''guess'') (world0 d0 1)) = Inl (Status Unauthenticated ''invalid credentials'')
   \<and> fst (run_state (Login E0 h0 anyone ''b@x'' ''guess'') (world0 d0 1)) = Inl (Status Unauthenticated ''invalid credentials'')"
proof -
  have "u_LockedUntil user0 = None" by (simp add: user0_def)
  then show ?thesis
    using login_hides_accounts [of "world0 d0 1" "''a@x''" E0 "''guess''" h0 anyone]
      login_hides_accounts [of "world0 d0 1" "''b@x''" E0 "''guess''" h0 anyone]
    by (simp add: fixture_by_email fixture_password)
qed


text \<open>The MFA token of \<open>user0\<close>, issued at instant 0, and the world after two-factor authentication was enabled.\<close>

definition mfa0 :: string where
  "mfa0 = enc_str ''k1'' @ enc_str (decimal 7) @ enc_obj (claims_json (mfa_claims m0 0 (T0_uuid_string 10) mfaTokenTTL))"

definition d_totp :: database where "d_totp = d0\<lparr>users := [user0_totp]\<rparr>"

lemma parse_mfa0: "parse_at E0 m0 second mfa0 = Some (mfa_claims m0 0 (T0_uuid_string 10) mfaTokenTTL)"
proof -
  have signed: "jwt_sign E0 (key_Kid (j_active m0)) (claims_json (mfa_claims m0 0 (T0_uuid_string 10) mfaTokenTTL)) (key_Private (j_active m0)) = Some mfa0"
    by (simp add: T0_sign_def mfa0_def m0_def NewManager_def)
  have "cl_Issuer (mfa_claims m0 0 (T0_uuid_string 10) mfaTokenTTL) = j_issuer m0"
    "cl_ExpiresAt (mfa_claims m0 0 (T0_uuid_string 10) mfaTokenTTL) = Some 300"
    by (simp_all add: mfa_claims_def numeric_date_def mfaTokenTTL_def duration_defs)
  from parse_issued [OF E0_jwt_contract m0_wf signed this] show ?thesis
    by (simp add: claim_time_def clockSkewLeeway_def second_def)
qed

theorem login_totp_sound_witness:
  "\<exists>pair w' c. run_state (LoginTotp E0 h0 anyone mfa0 ''123456'') (world0 d_totp 1) = (Inr pair, w')
     \<and> parse_at E0 m0 second mfa0 = Some c \<and> cl_Purpose c = ''mfa''"
proof -
  have c: "cl_Purpose (mfa_claims m0 0 (T0_uuid_string 10) mfaTokenTTL) = ''mfa''"
    "cl_Subject (mfa_claims m0 0 (T0_uuid_string 10) mfaTokenTTL) = T0_uuid_string 10"
    by (simp_all add: mfa_claims_def)
  obtain pair w' where run: "run_state (LoginTotp E0 h0 anyone mfa0 ''123456'') (world0 d_totp 1) = (Inr pair, w')"
    by (simp add: LoginTotp_def run_Parse parse_mfa0 c)
       (simp add: is_locked_def totp_matches_def second_factor_def Decrypt_def has_prefix_def prefix_def
         run_totp_Validate d_totp_def evals)
  from login_totp_sound [OF run idle_world0(1)] run show ?thesis by auto
qed

end
