(* ===== verification/Transactions.thy ===== *)
theory Transactions
  imports Session_Facts
begin

text \<open>
  Handlers that do their work in one transaction: when they return an error nothing of it is left,
  and when they succeed the statements ran one after the other and were committed together.
\<close>

section \<open>Errors leave nothing\<close>

text \<open>A transaction is open that started from \<open>d\<close>.\<close>

definition open_on :: "database \<Rightarrow> world \<Rightarrow> bool" where
  "open_on d w \<longleftrightarrow> (\<exists>t. tx w = Some t \<and> tx_snap t = d)"

definition stays_open :: "world \<Rightarrow> world \<Rightarrow> bool" where
  "stays_open w w' \<longleftrightarrow> (\<forall>d. open_on d w \<longrightarrow> open_on d w')"

interpretation stays_open: preorder_effect stays_open
  by unfold_locales (auto simp: stays_open_def)

text \<open>Started inside a transaction, a computation that fails has not committed it.\<close>

definition atomic :: "(world, 'e, 'a) prog \<Rightarrow> bool" where
  "atomic m \<longleftrightarrow> (\<forall>d w e w'. open_on d w \<longrightarrow> run_state m w = (Inl e, w')
     \<longrightarrow> open_on d w' \<or> (tx w' = None \<and> db w' = d))"

named_theorems atomic_intros "a computation is atomic"

lemma stays_open_exec [atomic_intros]: "state_io_rel stays_open (exec E q)"
  by (rule state_io_relI)
     (auto simp: stays_open_def open_on_def run_exec abort_tx_def tick_def split: if_splits sum.splits db_err.splits prod.splits)

lemma stays_open_set_tenant [atomic_intros]: "state_io_rel stays_open (set_tenant E t)"
  by (rule state_io_relI)
     (auto simp: stays_open_def open_on_def set_tenant_def run_tx_setting abort_tx_def tick_def split: if_splits)

lemmas stays_open_control [atomic_intros] = stays_open.ok_effect stays_open.bail_effect stays_open.check_effect
  stays_open.or_return_effect stays_open.ignoring_effect stays_open.from_option_effect stays_open.if_effect

lemma atomic_or_return [atomic_intros]:
  assumes "state_io_rel stays_open m" and "\<And>x. atomic (k x)"
  shows "atomic (or_return m e k)"
  unfolding atomic_def
proof (intro allI impI)
  fix d w e' w'
  assume "open_on d w" and run: "run_state (or_return m e k) w = (Inl e', w')"
  obtain r v where m: "run_state m w = (r, v)" by fastforce
  with assms(1) \<open>open_on d w\<close> have "open_on d v" by (auto simp: state_io_rel_def stays_open_def dest: spec [of _ w])
  with run m assms(2) show "open_on d w' \<or> (tx w' = None \<and> db w' = d)"
    by (cases r) (auto simp: atomic_def)
qed

lemma atomic_check [atomic_intros]:
  assumes "state_io_rel stays_open m" and "\<And>x. atomic (k x)"
  shows "atomic (check m k)"
  unfolding atomic_def
proof (intro allI impI)
  fix d w e' w'
  assume "open_on d w" and run: "run_state (check m k) w = (Inl e', w')"
  obtain r v where m: "run_state m w = (r, v)" by fastforce
  with assms(1) \<open>open_on d w\<close> have "open_on d v" by (auto simp: state_io_rel_def stays_open_def dest: spec [of _ w])
  with run m assms(2) show "open_on d w' \<or> (tx w' = None \<and> db w' = d)"
    by (cases r) (auto simp: atomic_def)
qed

text \<open>The commit, after which only the audit entry is written.\<close>

lemma atomic_commit [atomic_intros]:
  "atomic (or_return (tx_commit E) e (\<lambda>_. ignoring m (ok x)))" "atomic (tx_commit E)"
  by (auto simp: atomic_def open_on_def run_tx_commit split: if_splits option.splits)

lemma atomic_let [atomic_intros]: "(\<And>x. atomic (k x)) \<Longrightarrow> atomic (let x = a in k x)"
  by simp

text \<open>A handler that begins a transaction, runs an atomic body and defers the rollback.\<close>

lemma atomic_transaction:
  assumes "atomic m" and "idle w" and "run_state (or_return (tx_begin E) e (\<lambda>_. deferring_rollback m)) w = (Inl e', w')"
  shows "db w' = db w"
proof (cases "run_state (tx_begin E) w")
  case (Pair b v)
  show ?thesis
  proof (cases b)
    case (Inl x)
    with assms(2,3) Pair show ?thesis by (auto simp: run_tx_begin split: if_splits)
  next
    case (Inr x)
    with Pair assms(2) have "open_on (db w) v" by (auto simp: run_tx_begin open_on_def split: if_splits)
    moreover obtain r u where m: "run_state m v = (r, u)" by fastforce
    moreover have "r = Inl e'" "w' = (case tx u of None \<Rightarrow> u | Some t \<Rightarrow> u\<lparr>db := tx_snap t, tx := None\<rparr>)"
      using assms(3) Pair Inr m by (auto simp: run_deferring_rollback)
    ultimately show ?thesis using assms(1) by (fastforce simp: atomic_def open_on_def)
  qed
qed

lemma failed_Register:
  assumes "idle w" and run: "run_state (Register E ctx email pw) w = (Inl e1, w1)"
  shows "db w1 = db w"
proof -
  obtain r v where h: "run_state (Hash E pw) w = (r, v)" by fastforce
  then have v: "idle v" "db v = db w" using assms by (auto simp: run_Hash split: option.splits)
  show ?thesis
  proof (cases "email = [] \<or> pw = [] \<or> isl r")
    case True
    then show ?thesis using run h v by (cases r) (auto simp: Register_def split: if_splits)
  next
    case False
    then obtain hash where "r = Inr hash" by (cases r) auto
    with False run h show ?thesis unfolding Register_def v(2) [symmetric]
      by (simp del: run_or_return add: run_or_return [of "Hash E pw"])
         (erule atomic_transaction [OF _ v(1), rotated], intro atomic_intros)
  qed
qed

lemma failed_DeleteUser:
  assumes "idle w" and run: "run_state (DeleteUser E ctx uid hard) w = (Inl e, w')"
  shows "db w' = db w"
proof (cases "id_HasPermission ctx ''user:delete'' \<and> uuid_parse E uid \<noteq> None")
  case False
  then show ?thesis using run by (auto simp: DeleteUser_def run_requirePerm split: option.splits if_splits)
next
  case True
  then obtain u where "uuid_parse E uid = Some u" "id_HasPermission ctx ''user:delete''" by auto
  with run show ?thesis unfolding DeleteUser_def
    by (simp del: run_or_return run_check add: run_check [of "requirePerm ctx ''user:delete''"] run_requirePerm)
       (erule atomic_transaction [OF _ assms(1), rotated], intro atomic_intros)
qed

lemma failed_RestoreUser:
  assumes "idle w" and run: "run_state (RestoreUser E ctx uid) w = (Inl e, w')"
  shows "db w' = db w"
proof (cases "id_HasPermission ctx ''user:delete'' \<and> uuid_parse E uid \<noteq> None")
  case False
  then show ?thesis using run by (auto simp: RestoreUser_def run_requirePerm split: option.splits if_splits)
next
  case True
  then obtain u where "uuid_parse E uid = Some u" "id_HasPermission ctx ''user:delete''" by auto
  with run show ?thesis unfolding RestoreUser_def
    by (simp del: run_or_return run_check add: run_check [of "requirePerm ctx ''user:delete''"] run_requirePerm)
       (erule atomic_transaction [OF _ assms(1), rotated], intro atomic_intros)
qed

lemma failed_CreateTenant:
  assumes "idle w" and run: "run_state (CreateTenant E ctx slug nm) w = (Inl e, w')"
  shows "db w' = db w"
proof (cases "id_HasPermission ctx ''tenant:write'' \<and> slug \<noteq> [] \<and> nm \<noteq> [] \<and> \<not> isl (callerID E ctx)")
  case False
  then show ?thesis using run by (auto simp: CreateTenant_def run_requirePerm split: option.splits if_splits sum.splits)
next
  case True
  then obtain u where "callerID E ctx = Inr u" "id_HasPermission ctx ''tenant:write''" "slug \<noteq> []" "nm \<noteq> []"
    by (cases "callerID E ctx") auto
  with run show ?thesis unfolding CreateTenant_def
    by (simp del: run_or_return run_check add: run_check [of "requirePerm ctx ''tenant:write''"] run_check [of "of_sum r" for r] run_requirePerm)
       (erule atomic_transaction [OF _ assms(1), rotated], intro atomic_intros)
qed


section \<open>Successes\<close>

lemma exec_InrD:
  "run_state (exec E q) w = (Inr x, w') \<Longrightarrow> q (stmt_of E w) (db w) = Inr (x, db w') \<and> tx w' = tx w \<and> step w' = Suc (step w)"
  by (auto simp: run_exec tick_def split: if_splits sum.splits db_err.splits prod.splits)

lemma set_tenant_InrD:
  "run_state (set_tenant E t) w = (Inr x, w') \<Longrightarrow> db w' = db w \<and> tx w' = map_option (\<lambda>x. x\<lparr>tx_guc := Some t\<rparr>) (tx w)"
  by (auto simp: set_tenant_def run_tx_setting tick_def split: if_splits)

lemma tx_begin_InrD:
  "run_state (tx_begin E) w = (Inr x, w') \<Longrightarrow> db w' = db w \<and> idle w
     \<and> (\<exists>t. tx w' = Some t \<and> tx_role t = conn_role E \<and> tx_guc t = None \<and> tx_snap t = db w)"
  by (auto simp: run_tx_begin split: if_splits)

lemma tx_commit_InrD: "run_state (tx_commit E) w = (Inr x, w') \<Longrightarrow> db w' = db w \<and> tx w' = None"
  by (auto simp: run_tx_commit tick_def split: if_splits option.splits)

text \<open>A transaction that succeeded: begun, its body run, and left as it is when it committed.\<close>

lemma transaction_InrE:
  assumes "run_state (or_return (tx_begin E) e (\<lambda>_. deferring_rollback m)) w = (Inr x, w')"
  obtains b v u where "run_state (tx_begin E) w = (Inr b, v)" and "run_state m v = (Inr x, u)"
    and "tx u = None \<longrightarrow> w' = u"
proof -
  from assms obtain b v where b: "run_state (tx_begin E) w = (Inr b, v)"
    and d: "run_state (deferring_rollback m) v = (Inr x, w')" by (elim or_return_InrE)
  obtain r u where m: "run_state m v = (r, u)" by fastforce
  with d have "r = Inr x" "w' = (case tx u of None \<Rightarrow> u | Some t \<Rightarrow> u\<lparr>db := tx_snap t, tx := None\<rparr>)"
    by (auto simp: run_deferring_rollback)
  with b m show thesis by (intro that [of b v u]) auto
qed

lemma AssignRoleToUser_keeps:
  "sql_AssignRoleToUser uid n t p c d = Inr (x, d') \<Longrightarrow> d' = d\<lparr>user_roles := user_roles d'\<rparr>"
  by (auto simp: sql_AssignRoleToUser_def insert_user_role_def split: list.splits if_splits)

lemma CreateMembership_adds:
  assumes "sql_CreateMembership uid t c d = Inr (x, d')"
  shows "d' = d\<lparr>memberships := memberships d'\<rparr>" "set (memberships d) \<subseteq> set (memberships d')"
    "\<exists>m \<in> set (memberships d'). m_UserID m = uid \<and> m_TenantID m = t"
  using assms by (auto simp: sql_CreateMembership_def split: if_splits)

lemma Register_InrE:
  assumes "run_state (Register E ctx email pw) w = (Inr (uid, em), w')" and "idle w"
  obtains user payload c1 c2 c3 c4 hash v d1 d2 d3 d4
  where "run_state (Hash E pw) w = (Inr hash, v)"
    and "sql_CreateUser email hash c1 (db w) = Inr (user, d1)"
    and "sql_AssignRoleToUser (u_ID user) defaultRole defaultTenantUUID None c2 d1 = Inr ((), d2)"
    and "sql_CreateMembership (u_ID user) defaultTenantUUID c3 d2 = Inr ((), d3)"
    and "marshal_event E (UserRegistered (u_ID user) (u_Email user) (displayFromEmail (u_Email user))) = Some payload"
    and "sql_InsertOutbox (u_ID user) (event_type E (UserRegistered (u_ID user) (u_Email user) (displayFromEmail (u_Email user)))) payload c4 d3 = Inr ((), d4)"
    and "same_but_audit d4 (db w')" and "idle w'" and "uid = uuid_string E (u_ID user)" and "em = u_Email user"
proof -
  from assms(1) have "\<not> (email = [] \<or> pw = [])" by (auto simp: Register_def split: if_splits)
  with assms(1) obtain hash v b v1 x1 v2 user v3 x2 v4 x3 v5 payload v6 x4 v7 x5 v8 u where
    1: "run_state (Hash E pw) w = (Inr hash, v)"
    and 2: "run_state (tx_begin E) v = (Inr b, v1)"
    and s1: "run_state (set_tenant E defaultTenantUUID) v1 = (Inr x1, v2)"
    and s2: "run_state (exec E (sql_CreateUser email hash)) v2 = (Inr user, v3)"
    and s3: "run_state (exec E (sql_AssignRoleToUser (u_ID user) defaultRole defaultTenantUUID None)) v3 = (Inr x2, v4)"
    and s4: "run_state (exec E (sql_CreateMembership (u_ID user) defaultTenantUUID)) v4 = (Inr x3, v5)"
    and s5: "run_state (from_option () (marshal_event E (UserRegistered (u_ID user) (u_Email user) (displayFromEmail (u_Email user))))) v5 = (Inr payload, v6)"
    and s6: "run_state (exec E (sql_InsertOutbox (u_ID user) (event_type E (UserRegistered (u_ID user) (u_Email user) (displayFromEmail (u_Email user)))) payload)) v6 = (Inr x4, v7)"
    and s7: "run_state (tx_commit E) v7 = (Inr x5, v8)"
    and s8: "run_state (ignoring (auditAs E ctx (uuid_string E (u_ID user)) (u_Email user) ''user.register'' [] []) (
        ok (uuid_string E (u_ID user), u_Email user) :: (string \<times> string) handler)) v8 = (Inr (uid, em), u)"
    and same: "tx u = None \<longrightarrow> w' = u"
    unfolding Register_def Let_def
    by (simp only: if_False) (elim transaction_InrE or_return_InrE, (drule meta_spec)+, (drule meta_mp, assumption)+, assumption)
  have v: "db v = db w" "idle v" using 1 assms(2) by (auto simp: run_Hash split: option.splits)
  note d = tx_begin_InrD [OF 2] set_tenant_InrD [OF s1] exec_InrD [OF s2] exec_InrD [OF s3] exec_InrD [OF s4] exec_InrD [OF s6]
    tx_commit_InrD [OF s7]
  have m: "marshal_event E (UserRegistered (u_ID user) (u_Email user) (displayFromEmail (u_Email user))) = Some payload" "v6 = v5"
    using s5 by (auto simp: run_from_option split: option.splits)
  have "idle v8" using d by (simp add: idle_def)
  note a = audit_runs(1,2) [OF this, of E ctx "uuid_string E (u_ID user)" "u_Email user" "''user.register''" "[]" "[]"]
  have u: "idle u" "same_but_audit (db v8) (db u)" "uid = uuid_string E (u_ID user)" "em = u_Email user" using a s8 by auto
  then have "w' = u" using same by (simp add: idle_def)
  with 1 d m u v show thesis by (intro that [of hash v _ user _ _ _ _ _ payload _ "db v7"]) auto
qed


section \<open>Deleting a user\<close>

lemma DeleteUser_soft_InrE:
  assumes "run_state (DeleteUser E ctx user_id False) w = (Inr x, w')" and "idle w"
  obtains uid payload c1 c2 c3 d1 d2 d3
  where "uuid_parse E user_id = Some uid" and "id_HasPermission ctx ''user:delete''"
    and "sql_SoftDeleteUser uid c1 (db w) = Inr ((), d1)"
    and "sql_RevokeAllUserRefreshTokens uid c2 d1 = Inr ((), d2)"
    and "sql_InsertOutbox uid (event_type E (UserDeleted uid False)) payload c3 d2 = Inr ((), d3)"
    and "marshal_event E (UserDeleted uid False) = Some payload"
    and "same_but_audit d3 (db w')" and "idle w'"
proof -
  from assms(1) have perm: "id_HasPermission ctx ''user:delete''"
    by (auto simp: DeleteUser_def run_requirePerm split: if_splits)
  with assms(1) obtain uid where uid: "uuid_parse E user_id = Some uid"
    by (cases "uuid_parse E user_id") (auto simp: DeleteUser_def run_requirePerm)
  have step0: "run_state (requirePerm ctx ''user:delete'') w = (Inr (), w)" using perm by (simp add: run_requirePerm)
  from assms(1) obtain b v x1 v1 y v2 payload v3 x2 v4 x3 v5 u where
    1: "run_state (tx_begin E) w = (Inr b, v)"
    and 2: "run_state (exec E (sql_SoftDeleteUser uid)) v = (Inr x1, v1)"
    and 3: "run_state (exec E (sql_RevokeAllUserRefreshTokens uid)) v1 = (y, v2)"
    and 4: "run_state (from_option () (marshal_event E (UserDeleted uid False))) v2 = (Inr payload, v3)"
    and 5: "run_state (exec E (sql_InsertOutbox uid (event_type E (UserDeleted uid False)) payload)) v3 = (Inr x2, v4)"
    and 6: "run_state (tx_commit E) v4 = (Inr x3, v5)"
    and 7: "run_state (ignoring (audit E ctx ''user.delete'' user_id ''soft'') (ok () :: unit handler)) v5 = (Inr x, u)"
    and same: "tx u = None \<longrightarrow> w' = u"
    unfolding DeleteUser_def run_check [of "requirePerm ctx ''user:delete''"] step0 prod.case sum.case uid option.case if_False
    by (elim transaction_InrE check_InrE or_return_InrE ignoringE) (auto elim!: check_InrE or_return_InrE ignoringE)
  note d = tx_begin_InrD [OF 1] exec_InrD [OF 2] exec_InrD [OF 5] tx_commit_InrD [OF 6]
  have m: "marshal_event E (UserDeleted uid False) = Some payload" "v3 = v2"
    using 4 by (auto simp: run_from_option split: option.splits)
  have "y = Inr ()"
  proof (rule ccontr)
    assume "y \<noteq> Inr ()"
    then obtain e where "y = Inl e" by (cases y) auto
    with 3 have "in_aborted_tx v2 \<or> e = NoRows"
      using d by (auto simp: run_exec in_aborted_tx_def abort_tx_def tick_def split: if_splits sum.splits db_err.splits)
    moreover have "e \<noteq> NoRows" using 3 \<open>y = Inl e\<close>
      by (auto simp: run_exec sql_RevokeAllUserRefreshTokens_def perform_def split: if_splits)
    ultimately show False using 5 m by (simp add: run_exec)
  qed
  note d3 = exec_InrD [OF 3 [unfolded this]]
  have "idle v5" using d by (simp add: idle_def)
  note a = audit_runs(1,2) [OF this, of E ctx "id_UserID ctx" "id_Email ctx" "''user.delete''" user_id "''soft''"]
  have u: "idle u" "same_but_audit (db v5) (db u)" using a 7 by (auto simp: audit_def)
  then have "w' = u" using same by (simp add: idle_def)
  with d d3 m u uid perm show thesis by (intro that [of uid _ _ _ _ payload _ "db v4"]) auto
qed

lemma inactive_refused:
  assumes "parse_at E (h_jwt h) (clock E (step v)) tok = Some c" and "uuid_parse E (cl_Subject c) = Some uid"
    and "\<forall>x \<in> set (users (db v)). u_ID x = uid \<longrightarrow> u_DeletedAt x \<noteq> None" and "idle v"
  shows "\<exists>e. fst (run_state (ValidateToken E h tok) v) = Inl e"
proof (rule ccontr)
  assume "\<not> ?thesis"
  then obtain r v' where "run_state (ValidateToken E h tok) v = (Inr r, v')"
    by (cases "run_state (ValidateToken E h tok) v"; cases "fst (run_state (ValidateToken E h tok) v)") auto
  then obtain c' v1 u v2 uid' x v3 where p: "run_state (ParseAccess E (h_jwt h) tok) v = (Inr c', v1)"
    and r: "run_state (check_revoked E h (cl_ID c')) v1 = (Inr u, v2)" and s: "uuid_parse E (cl_Subject c') = Some uid'"
    and a: "run_state (check_active E uid') v2 = (Inr x, v3)"
    by (rule ValidateToken_InrE)
  note p' = ParseAccess_InrD [OF p]
  note r' = check_revoked_InrD(1,2) [OF r p'(4) [THEN iffD2, OF assms(4)]]
  have "c' = c" using assms(1) p'(1) by simp
  with check_active_InrD(3) [OF a r'(2)] r'(1) p'(3) s assms(2,3) show False by auto
qed


section \<open>Witnesses\<close>




end
