(* ===== verification/One_Time_Props.thy ===== *)
theory One_Time_Props
  imports Refresh_Props
begin

text \<open>
  Credentials that work once: password resets, email verifications and authorization codes. The
  contract between a statement that consumes a credential and its handlers is the locale
  \<open>single_use\<close>; it is interpreted on the three UPDATE statements of the code.
\<close>

section \<open>The contract\<close>

text \<open>
  \<open>consume\<close> is the statement, \<open>took\<close> says of its result that the credential was accepted,
  \<open>spent h d\<close> that the credential stored under \<open>h\<close> is used up, \<open>mint\<close> which hashes the service may
  still store a new credential under.
\<close>

locale single_use =
  fixes consume :: "string \<Rightarrow> 'a query" and took :: "'a \<Rightarrow> bool"
    and spent :: "string \<Rightarrow> database \<Rightarrow> bool" and mint :: "env \<Rightarrow> nat \<Rightarrow> string \<Rightarrow> bool"
  assumes taking_spends: "wf_db d \<Longrightarrow> consume h c d = Inr (x, d') \<Longrightarrow> took x \<Longrightarrow> spent h d'"
    and spent_refused: "spent h d \<Longrightarrow> consume h c d = Inr (x, d') \<Longrightarrow> \<not> took x"
    and spent_step: "db_step E since d d' \<Longrightarrow> \<not> mint E since h \<Longrightarrow> spent h d \<Longrightarrow> spent h d'"
begin

sublocale spent: kept_property E since "\<lambda>d. mint E since h \<or> spent h d" for E since h
  by unfold_locales (auto intro: spent_step)

text \<open>Between any two acceptances of the same credential the service must have stored it anew.\<close>

lemma never_twice:
  assumes "wf_db d" "consume h c d = Inr (x, d1)" "took x"
    and "(db_step E since)\<^sup>*\<^sup>* d1 d2" and "\<not> mint E since h" and "consume h c' d2 = Inr (y, d3)"
  shows "\<not> took y"
proof -
  have "mint E since h \<or> spent h d1" using taking_spends [OF assms(1-3)] by blast
  from spent.kept_by_path [OF assms(4) this] assms(5) have "spent h d2" by blast
  then show ?thesis by (rule spent_refused [OF _ assms(6)])
qed

text \<open>After a handler that used the credential up, no run of requests makes it usable again.\<close>

lemma stays_spent:
  assumes "state_io_rel (served E since) m" "run_state m w = (r, w')" "idle w" "since \<le> step w" "spent h (db w)"
    and "\<not> mint E since h"
  shows "idle (serve_all E ha rs w')" "spent h (db (serve_all E ha rs w'))"
  using spent.kept_by_handler [OF assms(1,3,4), of h] spent.kept_by_run [of w' since E h ha rs] assms(2,5,6) by auto

end

section \<open>One-time tokens\<close>

definition all_consumed :: "string \<Rightarrow> OneTimeToken list \<Rightarrow> bool" where
  "all_consumed h vs \<longleftrightarrow> (\<forall>v \<in> set vs. ot_TokenHash v = h \<longrightarrow> ot_ConsumedAt v \<noteq> None)"

lemma all_consumed_update:
  assumes "distinct (map ot_TokenHash vs)" and "filter (consumable h now) vs = v # rest"
  shows "all_consumed h (update_where (consumable h now) (\<lambda>v. v\<lparr>ot_ConsumedAt := Some t\<rparr>) vs)"
proof -
  have v: "v \<in> set vs" "consumable h now v" using assms(2) by (auto dest: filter_eq_ConsD)
  have "consumable h now u" if "u \<in> set vs" "ot_TokenHash u = h" for u
    using unique_row [OF assms(1) that(1) v(1)] v(2) that(2) by (simp add: consumable_def)
  then show ?thesis by (auto simp: all_consumed_def ball_update_where)
qed

lemma all_consumed_filter: "all_consumed h vs \<Longrightarrow> filter (consumable h now) vs = []"
  by (auto simp: all_consumed_def consumable_def filter_empty_conv)

lemma consumed_step:
  assumes "db_step E since d d'" and "\<not> mintable E since h"
  shows "all_consumed h (password_resets d) \<Longrightarrow> all_consumed h (password_resets d')"
    and "all_consumed h (email_verifications d) \<Longrightarrow> all_consumed h (email_verifications d')"
  using assms
  by (induction rule: db_step.induct)
     (auto simp: sql_write_defs all_consumed_def in_update_where one_time_token_def
        split: if_splits list.splits sum.splits option.splits)

interpretation reset: single_use sql_ConsumePasswordReset "\<lambda>_. True" "\<lambda>h d. all_consumed h (password_resets d)" mintable
proof
  fix d h c x d'
  show "wf_db d \<Longrightarrow> sql_ConsumePasswordReset h c d = Inr (x, d') \<Longrightarrow> all_consumed h (password_resets d')"
    by (auto simp: sql_ConsumePasswordReset_def wf_one_time_def split: list.splits
        intro!: all_consumed_update dest!: wf_dbD(11))
  show "all_consumed h (password_resets d) \<Longrightarrow> sql_ConsumePasswordReset h c d = Inr (x, d') \<Longrightarrow> \<not> True"
    by (simp add: sql_ConsumePasswordReset_def all_consumed_filter)
qed (rule consumed_step(1))

interpretation verification: single_use sql_ConsumeEmailVerification "\<lambda>_. True" "\<lambda>h d. all_consumed h (email_verifications d)" mintable
proof
  fix d h c x d'
  show "wf_db d \<Longrightarrow> sql_ConsumeEmailVerification h c d = Inr (x, d') \<Longrightarrow> all_consumed h (email_verifications d')"
    by (auto simp: sql_ConsumeEmailVerification_def wf_one_time_def split: list.splits
        intro!: all_consumed_update dest!: wf_dbD(10))
  show "all_consumed h (email_verifications d) \<Longrightarrow> sql_ConsumeEmailVerification h c d = Inr (x, d') \<Longrightarrow> \<not> True"
    by (simp add: sql_ConsumeEmailVerification_def all_consumed_filter)
qed (rule consumed_step(2))

lemma consumed_row:
  "sql_ConsumePasswordReset h c d = Inr (uid, d') \<Longrightarrow>
     \<exists>v \<in> set (password_resets d). consumable h (s_now c) v \<and> ot_UserID v = uid"
  "sql_ConsumeEmailVerification h c d = Inr (uid, d') \<Longrightarrow>
     \<exists>v \<in> set (email_verifications d). consumable h (s_now c) v \<and> ot_UserID v = uid"
proof -
  have first: "v \<in> set xs \<and> P v" if "filter P xs = v # vs" for P :: "OneTimeToken \<Rightarrow> bool" and xs v vs
    using that by (metis filter_eq_ConsD in_set_conv_decomp)
  show "sql_ConsumePasswordReset h c d = Inr (uid, d') \<Longrightarrow>
     \<exists>v \<in> set (password_resets d). consumable h (s_now c) v \<and> ot_UserID v = uid"
    by (cases "filter (consumable h (s_now c)) (password_resets d)")
       (auto simp: sql_ConsumePasswordReset_def dest: first)
  show "sql_ConsumeEmailVerification h c d = Inr (uid, d') \<Longrightarrow>
     \<exists>v \<in> set (email_verifications d). consumable h (s_now c) v \<and> ot_UserID v = uid"
    by (cases "filter (consumable h (s_now c)) (email_verifications d)")
       (auto simp: sql_ConsumeEmailVerification_def dest: first)
qed

lemma RevokeAll_run:
  assumes "run_state (exec E (sql_RevokeAllUserRefreshTokens uid)) w = (y, w')" and "idle w"
  shows "idle w'" "users (db w') = users (db w)"
    "io_fail E (step w) \<or> (\<forall>r \<in> set (refresh_tokens (db w')). rt_UserID r = uid \<longrightarrow> rt_RevokedAt r \<noteq> None)"
proof -
  have w': "w' = snd (run_state (exec E (sql_RevokeAllUserRefreshTokens uid)) w)" using assms(1) by simp
  show "idle w'" "users (db w') = users (db w)"
    "io_fail E (step w) \<or> (\<forall>r \<in> set (refresh_tokens (db w')). rt_UserID r = uid \<longrightarrow> rt_RevokedAt r \<noteq> None)"
    using assms(2) by (simp_all add: w' sql_RevokeAllUserRefreshTokens_def run_perform_idle ball_update_where)
qed


text \<open>C31: a password reset token works once: after a successful reset no later reset with the same token
  succeeds, whatever requests come between, unless a later random draw of the service collides with it.\<close>

theorem password_reset_single_use:
  assumes "run_state (ResetPassword E ctx tok pw) w = (Inr u, w')" and "idle w" and "wf_db (db w)"
    and "\<not> mintable E (step w) (hashToken E tok)" and "8 \<le> length pw'"
  shows "fst (run_state (ResetPassword E ctx' tok pw') (serve_all E h rs w'))
     = Inl (Status InvalidArgument ''invalid or expired token'')"
proof -
  let ?h = "hashToken E tok" and ?v = "serve_all E h rs w'"
  from assms(1) have len: "(length pw < 8) = False" by (auto simp: ResetPassword_def split: if_splits)
  from assms(1) obtain uid w1 where 1: "run_state (exec E (sql_ConsumePasswordReset ?h)) w = (Inr uid, w1)"
    and rest: "run_state (or_return (Hash E pw) (Status Internal ''failed to hash password'') (\<lambda>hash.
      or_return (exec E (sql_UpdatePassword uid hash)) (Status Internal ''failed to update password'') (\<lambda>_.
      ignoring (exec E (sql_RevokeAllUserRefreshTokens uid)) (
      ignoring (auditAs E ctx (uuid_string E uid) [] ''password.reset'' [] []) (ok () :: unit handler))))) w1 = (Inr u, w')"
    unfolding ResetPassword_def len if_False by (rule or_return_InrE)
  note q = exec_Inr_idle [OF 1 assms(2)] and s = exec_keeps(1) [OF 1]
  have "all_consumed ?h (password_resets (db w1))" by (rule reset.taking_spends [OF assms(3) q(1)]) simp
  note kept = reset.stays_spent [OF _ rest q(2) _ this assms(4)]
  have v: "idle ?v" "all_consumed ?h (password_resets (db ?v))"
    by (rule kept; (intro served_intros)?; simp add: s)+
  have "sql_ConsumePasswordReset ?h c (db ?v) = Inl NoRows" for c
    using all_consumed_filter [OF v(2)] by (simp add: sql_ConsumePasswordReset_def)
  then show ?thesis using v(1) assms(5) by (simp add: ResetPassword_def run_exec)
qed

lemma ConsumeEmailVerification_keeps:
  "sql_ConsumeEmailVerification h c d = Inr (x, d') \<Longrightarrow> users d' = users d"
  by (auto simp: sql_ConsumeEmailVerification_def split: list.splits)

text \<open>An email verification token works once, and what it verifies is the address of the user it was
  stored for.\<close>

theorem email_verification_single_use:
  assumes "run_state (VerifyEmail E ctx tok) w = (Inr u, w')" and "idle w" and "wf_db (db w)"
    and "\<not> mintable E (step w) (hashToken E tok)"
  shows "(\<exists>x \<in> set (email_verifications (db w)). ot_TokenHash x = hashToken E tok \<and> ot_ConsumedAt x = None
       \<and> dbclock E (step w) < ot_ExpiresAt x
       \<and> users (db w') = update_where (\<lambda>u. u_ID u = ot_UserID x) (\<lambda>u. u\<lparr>u_EmailVerified := True\<rparr>) (users (db w)))
     \<and> fst (run_state (VerifyEmail E ctx' tok) (serve_all E h rs w')) = Inl (Status InvalidArgument ''invalid or expired token'')"
proof -
  let ?h = "hashToken E tok" and ?v = "serve_all E h rs w'"
  from assms(1) obtain uid w1 where 1: "run_state (exec E (sql_ConsumeEmailVerification ?h)) w = (Inr uid, w1)"
    and rest: "run_state (or_return (exec E (sql_MarkEmailVerified uid)) (Status Internal ''failed to verify email'') (\<lambda>_.
     ignoring (auditAs E ctx (uuid_string E uid) [] ''email.verified'' [] []) (ok () :: unit handler))) w1 = (Inr u, w')"
    unfolding VerifyEmail_def by (rule or_return_InrE)
  note q = exec_Inr_idle [OF 1 assms(2)] and s = exec_keeps(1) [OF 1]
  from rest obtain x w2 where 2: "run_state (exec E (sql_MarkEmailVerified uid)) w1 = (Inr x, w2)"
    and 3: "w' = snd (run_state (auditAs E ctx (uuid_string E uid) [] ''email.verified'' [] []) w2)"
    by (elim or_return_InrE ignoringE) auto
  note q2 = exec_Inr_idle [OF 2 q(2)]
  note a = audit_runs(2) [OF q2(2), of E ctx "uuid_string E uid" "[]" "''email.verified''" "[]" "[]", folded 3]
  have us: "users (db w') = update_where (\<lambda>u. u_ID u = uid) (\<lambda>u. u\<lparr>u_EmailVerified := True\<rparr>) (users (db w))"
    using ConsumeEmailVerification_keeps [OF q(1)] q2(1) same_but_auditD(1) [OF a]
    by (simp add: sql_MarkEmailVerified_def update_user_def perform_Inr)
  obtain x where x: "x \<in> set (email_verifications (db w))" "consumable ?h (dbclock E (step w)) x" "ot_UserID x = uid"
    using consumed_row(2) [OF q(1)] unfolding stmt_of_idle(4) [OF assms(2)] by blast
  have "all_consumed ?h (email_verifications (db w1))" by (rule verification.taking_spends [OF assms(3) q(1)]) simp
  note kept = verification.stays_spent [OF _ rest q(2) _ this assms(4)]
  have v: "idle ?v" "all_consumed ?h (email_verifications (db ?v))"
    by (rule kept; (intro served_intros)?; simp add: s)+
  have "sql_ConsumeEmailVerification ?h c (db ?v) = Inl NoRows" for c
    using all_consumed_filter [OF v(2)] by (simp add: sql_ConsumeEmailVerification_def)
  with v(1) us x show ?thesis by (auto simp: VerifyEmail_def run_exec consumable_def)
qed

section \<open>Authorization codes\<close>

text \<open>The code exists and is used; the INSERT refuses a second row for it.\<close>

definition code_used :: "string \<Rightarrow> database \<Rightarrow> bool" where
  "code_used h d \<longleftrightarrow> h \<in> ac_CodeHash ` set (oauth_authorization_codes d)
     \<and> (\<forall>a \<in> set (oauth_authorization_codes d). ac_CodeHash a = h \<longrightarrow> ac_Used a)"

lemma code_used_claim: "code_used h d \<Longrightarrow> sql_ClaimCode h c d = Inr (0, d)"
proof -
  assume "code_used h d"
  then have none: "\<forall>a \<in> set (oauth_authorization_codes d). \<not> claimable h a"
    by (auto simp: code_used_def claimable_def)
  then have "update_where (claimable h) f (oauth_authorization_codes d) = oauth_authorization_codes d" for f
    by (simp add: update_where_def map_idI)
  with none show ?thesis by (simp add: sql_ClaimCode_def filter_False)
qed

lemma code_used_step: "db_step E since d d' \<Longrightarrow> code_used h d \<Longrightarrow> code_used h d'"
proof -
  have ids: "ac_CodeHash ` set (update_where P (\<lambda>a. a\<lparr>ac_Used := True\<rparr>) xs) = ac_CodeHash ` set xs" for P xs
    by (rule image_update_where) simp
  show "db_step E since d d' \<Longrightarrow> code_used h d \<Longrightarrow> code_used h d'"
    by (induction rule: db_step.induct)
       (auto simp: sql_write_defs code_used_def ids ball_update_where
          split: if_splits list.splits sum.splits option.splits)
qed

interpretation code: single_use sql_ClaimCode "\<lambda>n. n = 1" code_used "\<lambda>_ _ _. False"
proof
  fix d h c x d'
  assume "sql_ClaimCode h c d = Inr (x, d')" "x = 1"
  then have d': "d' = d\<lparr>oauth_authorization_codes :=
         update_where (claimable h) (\<lambda>a. a\<lparr>ac_Used := True\<rparr>) (oauth_authorization_codes d)\<rparr>"
    and "length (filter (claimable h) (oauth_authorization_codes d)) = 1"
    by (auto simp: sql_ClaimCode_def)
  then obtain a where "a \<in> set (filter (claimable h) (oauth_authorization_codes d))"
    by (metis length_0_conv list.set_intros(1) neq_Nil_conv zero_neq_one)
  then have "h \<in> ac_CodeHash ` set (oauth_authorization_codes d)" by (auto simp: claimable_def)
  then show "code_used h d'"
    by (auto simp: d' code_used_def ball_update_where image_update_where claimable_def)
next
  fix d h c x d'
  show "code_used h d \<Longrightarrow> sql_ClaimCode h c d = Inr (x, d') \<Longrightarrow> x \<noteq> 1"
    by (simp add: code_used_claim)
qed (rule code_used_step)

lemma redeem_used:
  assumes "code_used h (db v)" and "idle v"
  shows "fst (run_state (redeem_code E h cid uri) v) = Inl (Status InvalidArgument ''invalid_grant'')"
  using assms
  by (auto simp: redeem_code_def sql_SelectCode_def run_fetch_one_idle code_used_def map_eq_Cons_conv
      dest!: filter_eq_ConsD split: list.splits)

lemma redeem_code_InrD:
  assumes "run_state (redeem_code E h cid uri) w = (Inr a, w')" and "idle w"
  shows "a \<in> set (oauth_authorization_codes (db w))" "ac_CodeHash a = h" "\<not> ac_Used a"
    "dbclock E (step w) \<le> ac_ExpiresAt a" "ac_ClientID a = cid" "ac_RedirectUri a = uri"
    "\<exists>c. sql_ClaimCode h c (db w) = Inr (1, db w')" "idle w'"
proof -
  from assms(1) obtain r w1 where 1: "run_state (exec E (sql_SelectCode h)) w = (Inr r, w1)"
    and rest: "run_state ((\<lambda>(a, expired).
      if ac_Used a \<or> expired \<or> ac_ClientID a \<noteq> cid \<or> ac_RedirectUri a \<noteq> uri
      then bail (Status InvalidArgument ''invalid_grant'')
      else or_return (exec E (sql_ClaimCode h)) (Status InvalidArgument ''invalid_grant'') (\<lambda>rows.
        if rows \<noteq> 1 then bail (Status InvalidArgument ''invalid_grant'') else ok a)) r) w1 = (Inr a, w')"
    unfolding redeem_code_def by (rule or_return_InrE)
  obtain a' expired where r: "r = (a', expired)" by (cases r)
  note q = exec_Inr_idle [OF 1 assms(2)]
  from rest have checks: "\<not> ac_Used a'" "\<not> expired" "ac_ClientID a' = cid" "ac_RedirectUri a' = uri"
    by (auto simp: r split: if_splits)
  with rest have rest': "run_state (or_return (exec E (sql_ClaimCode h)) (Status InvalidArgument ''invalid_grant'') (\<lambda>rows.
        if rows \<noteq> 1 then bail (Status InvalidArgument ''invalid_grant'') else ok a')) w1 = (Inr a, w')"
    by (simp add: r)
  then obtain n w2 where 2: "run_state (exec E (sql_ClaimCode h)) w1 = (Inr n, w2)"
    and last: "run_state (if n \<noteq> 1 then bail (Status InvalidArgument ''invalid_grant'') else ok a') w2 = (Inr a, w')"
    by (rule or_return_InrE)
  note q2 = exec_Inr_idle [OF 2 q(2)]
  from last have same: "n = 1" "a' = a" "w2 = w'" by (auto split: if_splits)
  obtain rest where found: "filter (\<lambda>a. ac_CodeHash a = h) (oauth_authorization_codes (db w)) = a # rest"
    "ac_ExpiresAt a < s_now (stmt_of E w) \<longleftrightarrow> expired" and db1: "db w1 = db w"
    using q(1) unfolding sql_SelectCode_def fetch_one_Some r same by auto
  have "a \<in> set (filter (\<lambda>a. ac_CodeHash a = h) (oauth_authorization_codes (db w)))" by (simp add: found)
  then show "a \<in> set (oauth_authorization_codes (db w))" "ac_CodeHash a = h" by auto
  show "\<exists>c. sql_ClaimCode h c (db w) = Inr (1, db w')" "idle w'" using q2 same db1 by auto
  show "\<not> ac_Used a" "dbclock E (step w) \<le> ac_ExpiresAt a" "ac_ClientID a = cid" "ac_RedirectUri a = uri"
    using checks same found(2) stmt_of_idle(4) [OF assms(2)] by auto
qed

text \<open>C12: an authorization code is redeemed at most once. After one redemption every exchange of the code is
  refused, by whatever client, in every state the statements of any number of handlers running at the same
  time can lead to; and a handler that had read the code before the redemption and claims it now changes no
  row, so that it refuses too.\<close>

theorem authorization_code_single_use:
  assumes "run_state (redeem_code E (hashToken E code) cid uri) w = (Inr a, w')" and "idle w" and "wf_db (db w)"
    and "(db_step E since)\<^sup>*\<^sup>* (db w') (db v)" and "idle v"
  shows "fst (run_state (ExchangeAuthorizationCode E h code cid' uri' ver sec) v) = Inl (Status InvalidArgument ''invalid_grant'')
     \<and> (\<forall>c. sql_ClaimCode (hashToken E code) c (db v) = Inr (0, db v))"
proof -
  from redeem_code_InrD(7) [OF assms(1,2)] obtain c where "sql_ClaimCode (hashToken E code) c (db w) = Inr (1, db w')" ..
  from code.taking_spends [OF assms(3) this] have "code_used (hashToken E code) (db w')" by simp
  with code.spent.kept_by_path [OF assms(4), of "hashToken E code"] have used: "code_used (hashToken E code) (db v)" by simp
  obtain r u where run: "run_state (redeem_code E (hashToken E code) cid' uri') v = (r, u)" by fastforce
  with redeem_used [OF used assms(5), of E cid' uri'] have "r = Inl (Status InvalidArgument ''invalid_grant'')" by simp
  with run show ?thesis by (simp add: ExchangeAuthorizationCode_def code_used_claim [OF used])
qed

section \<open>Witnesses\<close>

text \<open>One token of each kind, stored for \<open>user0\<close>; a public client with an unused code.\<close>

definition token0 :: "string \<Rightarrow> OneTimeToken" where
  "token0 h = \<lparr>ot_TokenHash = h, ot_UserID = 10, ot_ExpiresAt = hour, ot_ConsumedAt = None, ot_CreatedAt = 0\<rparr>"

definition d_tokens :: database where
  "d_tokens = d0\<lparr>password_resets := [token0 (hex_encode ''reset'')], email_verifications := [token0 (hex_encode ''mail'')]\<rparr>"

definition client0 :: OauthClient where
  "client0 = \<lparr>oc_ClientID = ''app'', oc_ClientSecretHash = None, oc_Name = ''App'', oc_RedirectUris = [''cb''],
     oc_GrantTypes = [''authorization_code''], oc_Scopes = [''openid''], oc_IsConfidential = False, oc_TenantID = 1\<rparr>"

definition code0 :: OauthAuthorizationCode where
  "code0 = \<lparr>ac_CodeHash = hex_encode ''code'', ac_ClientID = ''app'', ac_UserID = 10, ac_RedirectUri = ''cb'',
     ac_Scope = ''openid'', ac_CodeChallenge = Some ''verifier'', ac_CodeChallengeMethod = None, ac_Nonce = None,
     ac_ExpiresAt = 5 * minute, ac_Used = False\<rparr>"

definition d_code :: database where
  "d_code = d0\<lparr>oauth_clients := [client0], oauth_authorization_codes := [code0]\<rparr>"

lemma fixture_tokens_wf: "wf_db d_tokens" "wf_db d_code"
proof -
  have "u_ID ` set (users d0) = {10}" "t_ID ` set (tenants d0) = {1, 2}" "oauth_clients d0 = []"
    by (simp_all add: d0_def user0_def empty_db_def)
  then show "wf_db d_tokens"
    unfolding d_tokens_def by (intro wf_db_replace wf_d0) (simp_all add: wf_one_time_def token0_def)
  have "wf_db (d0\<lparr>oauth_clients := [client0]\<rparr>)"
    by (rule wf_db_grow(5) [OF wf_d0]) (simp_all add: wf_oauth_clients_def client0_def d0_def empty_db_def)
  from wf_db_replace(12) [OF this, of "[code0]"] show "wf_db d_code"
    by (simp add: d_code_def wf_oauth_codes_def code0_def client0_def)
qed

text \<open>Hashes of short texts are not hashes of generated tokens.\<close>

lemma short_not_mintable: "length s \<noteq> 64 \<Longrightarrow> \<not> mintable E0 n (hashToken E0 s)"
  by (auto simp: mintable_def hashToken_def length_hex_encode dest!: arg_cong [of _ _ length])

lemma fixture_reset: "\<exists>w'. run_state (ResetPassword E0 anyone ''reset'' ''new password'') (world0 d_tokens 1) = (Inr (), w')"
  by (simp add: ResetPassword_def sql_ConsumePasswordReset_def consumable_def run_Hash sql_UpdatePassword_def
      d_tokens_def token0_def evals)


theorem password_reset_single_use_witness:
  "\<exists>w'. run_state (ResetPassword E0 anyone ''reset'' ''new password'') (world0 d_tokens 1) = (Inr (), w')
     \<and> (\<forall>rs. fst (run_state (ResetPassword E0 anyone ''reset'' ''an other one'') (serve_all E0 h0 rs w'))
          = Inl (Status InvalidArgument ''invalid or expired token''))"
proof -
  obtain w' where run: "run_state (ResetPassword E0 anyone ''reset'' ''new password'') (world0 d_tokens 1) = (Inr (), w')"
    using fixture_reset by blast
  from password_reset_single_use [OF run _ _ short_not_mintable] fixture_tokens_wf(1) run show ?thesis by auto
qed

theorem email_verification_single_use_witness:
  "\<exists>w'. run_state (VerifyEmail E0 anyone ''mail'') (world0 d_tokens 1) = (Inr (), w')
     \<and> (\<forall>rs. fst (run_state (VerifyEmail E0 anyone ''mail'') (serve_all E0 h0 rs w'))
          = Inl (Status InvalidArgument ''invalid or expired token''))"
proof -
  obtain w' where run: "run_state (VerifyEmail E0 anyone ''mail'') (world0 d_tokens 1) = (Inr (), w')"
    by (simp add: VerifyEmail_def sql_ConsumeEmailVerification_def consumable_def sql_MarkEmailVerified_def
        d_tokens_def token0_def evals)
  from email_verification_single_use [OF run _ _ short_not_mintable] fixture_tokens_wf(1) run show ?thesis by auto
qed

lemma fixture_redeem: "\<exists>a w'. run_state (redeem_code E0 (hashToken E0 ''code'') ''app'' ''cb'') (world0 d_code 1) = (Inr a, w')"
  by (simp add: redeem_code_def sql_SelectCode_def sql_ClaimCode_def claimable_def d_code_def code0_def evals)

theorem authorization_code_single_use_witness:
  "\<exists>a w'. run_state (redeem_code E0 (hashToken E0 ''code'') ''app'' ''cb'') (world0 d_code 1) = (Inr a, w')
     \<and> fst (run_state (ExchangeAuthorizationCode E0 h0 ''code'' ''app'' ''cb'' ''verifier'' []) w')
          = Inl (Status InvalidArgument ''invalid_grant'')"
proof -
  obtain a w' where run: "run_state (redeem_code E0 (hashToken E0 ''code'') ''app'' ''cb'') (world0 d_code 1) = (Inr a, w')"
    using fixture_redeem by blast
  have "idle w'" by (rule redeem_code_InrD(8) [OF run idle_world0(1)])
  with authorization_code_single_use [OF run idle_world0(1) _ rtranclp.rtrancl_refl] fixture_tokens_wf(2) run
  show ?thesis by auto
qed

end
