(* ===== verification/Oidc_Props.thy ===== *)
theory Oidc_Props
  imports Session_Props One_Time_Props
begin

text \<open>
  The OIDC provider and the keys: what a code exchange established before it handed out tokens, that
  the published keys verify the tokens, and that a restart finds the key of the first start.
\<close>

section \<open>Exchanging a code\<close>

lemma fetch_one_map_find:
  "fetch_one (\<lambda>c d. map g (filter P (tab d))) c d
     = (case List.find P (tab d) of None \<Rightarrow> Inl NoRows | Some x \<Rightarrow> Inr (g x, d))"
proof -
  have "(case map g (filter P xs) of [] \<Rightarrow> Inl NoRows | x # _ \<Rightarrow> Inr (x, d))
      = (case List.find P xs of None \<Rightarrow> Inl NoRows | Some x \<Rightarrow> Inr (g x, d))" for xs
    by (induction xs) auto
  then show ?thesis by (simp add: fetch_one_def)
qed

definition client_of :: "database \<Rightarrow> string \<Rightarrow> OauthClient option" where
  "client_of d cid = List.find (\<lambda>x. oc_ClientID x = cid) (oauth_clients d)"

lemma client_queries:
  "sql_ClientTenant cid c d = (case client_of d cid of None \<Rightarrow> Inl NoRows | Some x \<Rightarrow> Inr (oc_TenantID x, d))"
  "sql_ClientSecret cid c d = (case client_of d cid of None \<Rightarrow> Inl NoRows
     | Some x \<Rightarrow> Inr ((oc_ClientSecretHash x, oc_IsConfidential x), d))"
  "sql_SelectUserEmail uid c d = (case user_of d uid of None \<Rightarrow> Inl NoRows | Some u \<Rightarrow> Inr (u_Email u, d))"
  by (simp_all add: sql_ClientTenant_def sql_ClientSecret_def sql_SelectUserEmail_def fetch_one_map_find
      client_of_def user_of_def)

lemma ClaimCode_keeps:
  "sql_ClaimCode h c d = Inr (n, d') \<Longrightarrow> oauth_clients d' = oauth_clients d \<and> users d' = users d
     \<and> memberships d' = memberships d \<and> tenants d' = tenants d \<and> refresh_tokens d' = refresh_tokens d"
  by (auto simp: sql_ClaimCode_def)

lemma authenticate_client_InrD:
  assumes "run_state (authenticate_client E cid sec pkce) w = (Inr u, w')" and "idle w"
  shows "idle w'" "db w' = db w"
    "\<exists>x. client_of (db w) cid = Some x
       \<and> (if oc_IsConfidential x then oc_ClientSecretHash x = Some (hashToken E sec) else pkce)"
proof -
  from assms(1) obtain r w1 where 1: "run_state (exec E (sql_ClientSecret cid)) w = (Inr r, w1)"
    and rest: "run_state ((\<lambda>(secretHash, isConfidential).
     if isConfidential then
       (if secretHash = None \<or> Some (hashToken E sec) \<noteq> secretHash
        then bail (Status Unauthenticated ''invalid_client'') else ok ())
     else if \<not> pkce then bail (Status InvalidArgument ''PKCE required for public clients'')
     else ok ()) r) w1 = (Inr u, w')"
    unfolding authenticate_client_def by (rule or_return_InrE)
  note q = exec_Inr_idle [OF 1 assms(2)]
  from q(1) obtain x where "client_of (db w) cid = Some x" "r = (oc_ClientSecretHash x, oc_IsConfidential x)" "db w1 = db w"
    by (auto simp: client_queries split: option.splits)
  with rest q(2) show "idle w'" "db w' = db w"
    "\<exists>x. client_of (db w) cid = Some x
       \<and> (if oc_IsConfidential x then oc_ClientSecretHash x = Some (hashToken E sec) else pkce)"
    by (auto split: if_splits)
qed

text \<open>The stages of a successful exchange.\<close>

lemma ExchangeAuthorizationCode_InrE:
  assumes "run_state (ExchangeAuthorizationCode E h code cid uri ver sec) w = (Inr resp, w')"
  obtains a w1 x w2 email w3 t w4 w5 tp w6 idt
  where "run_state (redeem_code E (hashToken E code) cid uri) w = (Inr a, w1)"
    and "hasPKCE a \<longrightarrow> verifyPKCE E (or_empty (ac_CodeChallenge a)) (or_empty (ac_CodeChallengeMethod a)) ver"
    and "run_state (authenticate_client E (ac_ClientID a) sec (hasPKCE a)) w1 = (Inr x, w2)"
    and "run_state (exec E (sql_SelectUserEmail (ac_UserID a))) w2 = (Inr email, w3)"
    and "run_state (exec E (sql_ClientTenant (ac_ClientID a))) w3 = (Inr t, w4)"
    and "run_state (exec E (sql_IsActiveMember (ac_UserID a) t)) w4 = (Inr True, w5)"
    and "run_state (issueTokens E h (ac_UserID a) email t None) w5 = (Inr tp, w6)"
    and "run_state (IssueIDToken E (h_jwt h) (uuid_string E (ac_UserID a)) email (ac_ClientID a) (or_empty (ac_Nonce a))
           (Getenv E ''OIDC_ISSUER'' ''http://localhost:8080'')) w6 = (Inr idt, w')"
    and "resp = \<lparr>ot_AccessToken = tp_AccessToken tp, ot_IdToken = idt, ot_RefreshToken = tp_RefreshToken tp,
           ot_ExpiresIn = tp_ExpiresIn tp, ot_TokenType = ''Bearer'', ot_Scope = ac_Scope a\<rparr>"
  using assms unfolding ExchangeAuthorizationCode_def by (elim run_elims) (simp add: that)

text \<open>C11: tokens are handed out for an authorization code only if the code was stored for this client and
  redirect URI, unused and unexpired; the PKCE verifier matches where the code has a challenge; the client
  proved its secret, or is public and used PKCE; and the user is an active member of the client's tenant. The
  new session is the user's, in that tenant, and the ID token names the user, the client and the nonce.\<close>

theorem exchange_sound:
  assumes "run_state (ExchangeAuthorizationCode E h code cid uri ver sec) w = (Inr resp, w')" and "idle w"
  shows "\<exists>a client user row n. a \<in> set (oauth_authorization_codes (db w)) \<and> ac_CodeHash a = hashToken E code
     \<and> \<not> ac_Used a \<and> dbclock E (step w) \<le> ac_ExpiresAt a \<and> ac_ClientID a = cid \<and> ac_RedirectUri a = uri
     \<and> (hasPKCE a \<longrightarrow> verifyPKCE E (or_empty (ac_CodeChallenge a)) (or_empty (ac_CodeChallengeMethod a)) ver)
     \<and> client_of (db w) cid = Some client
     \<and> (if oc_IsConfidential client then oc_ClientSecretHash client = Some (hashToken E sec) else hasPKCE a)
     \<and> user_of (db w) (ac_UserID a) = Some user \<and> active_member (db w) (ac_UserID a) (oc_TenantID client)
     \<and> refresh_tokens (db w') = refresh_tokens (db w) @ [row] \<and> live_row row
     \<and> rt_TokenHash row = hashToken E (ot_RefreshToken resp)
     \<and> rt_UserID row = ac_UserID a \<and> rt_TenantID row = oc_TenantID client \<and> rt_ProjectID row = None
     \<and> jwt_sign E (key_Kid (j_active (h_jwt h)))
         (id_payload (h_jwt h) (clock E n) (uuid_string E (ac_UserID a)) (u_Email user) cid (or_empty (ac_Nonce a))
           (Getenv E ''OIDC_ISSUER'' ''http://localhost:8080''))
         (key_Private (j_active (h_jwt h))) = Some (ot_IdToken resp)"
proof -
  from assms(1) obtain a w1 x w2 email w3 t w4 w5 tp w6 idt where
    1: "run_state (redeem_code E (hashToken E code) cid uri) w = (Inr a, w1)"
    and pkce: "hasPKCE a \<longrightarrow> verifyPKCE E (or_empty (ac_CodeChallenge a)) (or_empty (ac_CodeChallengeMethod a)) ver"
    and 2: "run_state (authenticate_client E (ac_ClientID a) sec (hasPKCE a)) w1 = (Inr x, w2)"
    and 3: "run_state (exec E (sql_SelectUserEmail (ac_UserID a))) w2 = (Inr email, w3)"
    and 4: "run_state (exec E (sql_ClientTenant (ac_ClientID a))) w3 = (Inr t, w4)"
    and 5: "run_state (exec E (sql_IsActiveMember (ac_UserID a) t)) w4 = (Inr True, w5)"
    and 6: "run_state (issueTokens E h (ac_UserID a) email t None) w5 = (Inr tp, w6)"
    and 7: "run_state (IssueIDToken E (h_jwt h) (uuid_string E (ac_UserID a)) email (ac_ClientID a) (or_empty (ac_Nonce a))
           (Getenv E ''OIDC_ISSUER'' ''http://localhost:8080'')) w6 = (Inr idt, w')"
    and resp: "resp = \<lparr>ot_AccessToken = tp_AccessToken tp, ot_IdToken = idt, ot_RefreshToken = tp_RefreshToken tp,
           ot_ExpiresIn = tp_ExpiresIn tp, ot_TokenType = ''Bearer'', ot_Scope = ac_Scope a\<rparr>"
    by (rule ExchangeAuthorizationCode_InrE)
  note rd = redeem_code_InrD [OF 1 assms(2)]
  note auth = authenticate_client_InrD [OF 2 rd(8)]
  note q3 = exec_Inr_idle [OF 3 auth(1)] and q4 = exec_Inr_idle [OF 4] and q5 = exec_Inr_idle [OF 5]
  obtain user where user: "user_of (db w2) (ac_UserID a) = Some user" "email = u_Email user" "db w3 = db w2"
    using q3(1) by (auto simp: client_queries split: option.splits)
  obtain client where client: "client_of (db w3) (ac_ClientID a) = Some client" "t = oc_TenantID client" "db w4 = db w3"
    using q4(1) [OF q3(2)] by (auto simp: client_queries split: option.splits)
  have member: "active_member (db w4) (ac_UserID a) t" "db w5 = db w4" "idle w5"
    using q5(1,2) [OF q4(2) [OF q3(2)]] by (auto simp: sql_IsActiveMember_def fetch_Inr)
  note iss = issueTokens_InrD(2) [OF 6 member(3)]
  from 7 have w7: "db w' = db w6" by (auto simp: IssueIDToken_def run_sign split: option.splits)
  obtain c where "sql_ClaimCode (hashToken E code) c (db w) = Inr (1, db w1)" using rd(7) ..
  note same = ClaimCode_keeps [OF this]
  have client_same: "client_of (db w1) = client_of (db w)" "user_of (db w1) = user_of (db w)"
    "active_member (db w1) = active_member (db w)"
    using same by (auto simp: client_of_def user_of_def active_member_def fun_eq_iff)
  from iss obtain row where row: "refresh_tokens (db w6) = refresh_tokens (db w5) @ [row]"
    "rt_TokenHash row = hashToken E (tp_RefreshToken tp)" "rt_UserID row = ac_UserID a" "rt_TenantID row = t"
    "rt_ProjectID row = None" "live_row row" by (elim exE conjE) simp
  show ?thesis
    using rd pkce auth user client member same client_same row run_IssueIDToken [OF 7] resp w7
    by (intro exI [of _ a] exI [of _ client] exI [of _ user] exI [of _ row] exI [of _ "step w6"]) simp
qed

section \<open>Published keys\<close>

text \<open>Whoever reads the published key set can verify the tokens of the service: for every token it signed
  there is an entry under the token's \<open>kid\<close> whose modulus and exponent decode to a public key under which the
  signature verifies.\<close>

theorem jwks_verifies_tokens:
  assumes "jwt_contract E" and "wf_manager E (h_jwt h)"
    and "jwt_sign E (key_Kid (j_active (h_jwt h))) p (key_Private (j_active (h_jwt h))) = Some tok"
  shows "\<exists>j \<in> set (GetJwks h). \<exists>n e. jwt_decode E tok = Some (True, Some (jwk_Kid j), p)
     \<and> jwk_Kty j = ''RSA'' \<and> jwk_Alg j = ''RS256''
     \<and> b64_raw_decode b64_url_alphabet (jwk_N j) = Some n \<and> b64_raw_decode b64_url_alphabet (jwk_E j) = Some e
     \<and> jwt_verify E \<lparr>pk_N = bytes_nat n, pk_E = bytes_nat e\<rparr> tok"
proof -
  let ?kid = "key_Kid (j_active (h_jwt h))" and ?pub = "rsa_public E (key_Private (j_active (h_jwt h)))"
  have "(?kid, ?pub) \<in> set (j_verifiers (h_jwt h))"
    using assms(2) by (auto simp: wf_manager_def dest: map_of_SomeD)
  then have "jwk_of (?kid, ?pub) \<in> set (GetJwks h)" by (simp add: GetJwks_def)
  moreover note jwt_contract_sign [OF assms(1,3)]
  moreover obtain N X where "?pub = \<lparr>pk_N = N, pk_E = X\<rparr>" by (cases ?pub) simp
  ultimately show ?thesis
    by (intro bexI [of _ "jwk_of (?kid, ?pub)"])
       (simp_all add: jwk_of_def b64_raw_url.decode_encode bytes_nat_bytes)
qed

section \<open>Signing keys\<close>

text \<open>The PEM texts of a generated key parse back to it.\<close>

definition pem_contract :: "env \<Rightarrow> bool" where
  "pem_contract E \<longleftrightarrow>
     (\<forall>block. pem_decode E (pem_encode E ''RSA PRIVATE KEY'' block) = Some block
        \<and> pem_decode E (pem_encode E ''PUBLIC KEY'' block) = Some block)
     \<and> (\<forall>key. ParsePKCS1PrivateKey E (MarshalPKCS1PrivateKey E key) = Some key)
     \<and> (\<forall>key der. MarshalPKIXPublicKey E (rsa_public E key) = Some der \<longrightarrow> ParsePKIXPublicKey E der = Some (RSAKey (rsa_public E key)))"

text \<open>The row that the first start stores, and what it reads as.\<close>

definition first_key :: "env \<Rightarrow> string \<Rightarrow> private_key \<Rightarrow> bytes \<Rightarrow> OidcSigningKey" where
  "first_key E kid key der = \<lparr>sk_Kid = kid, sk_PrivatePem = pem_encode E ''RSA PRIVATE KEY'' (MarshalPKCS1PrivateKey E key),
     sk_PublicPem = pem_encode E ''PUBLIC KEY'' der, sk_Alg = ''RS256'', sk_Active = True\<rparr>"

lemma first_key_parses:
  assumes "pem_contract E" and "MarshalPKIXPublicKey E (rsa_public E key) = Some der"
  shows "parsePrivatePEM E (sk_PrivatePem (first_key E kid key der)) = Some key"
    "parsePublicPEM E (sk_PublicPem (first_key E kid key der)) = Some (rsa_public E key)"
    "sk_Kid (first_key E kid key der) = kid" "sk_Active (first_key E kid key der)"
  using assms by (simp_all add: pem_contract_def first_key_def parsePrivatePEM_def parsePublicPEM_def)

lemma LoadKeys_first:
  assumes "run_state (LoadKeys E) w = (Inr ks, w')" and "idle w" and "oidc_signing_keys (db w) = []"
  obtains key kid der where "MarshalPKIXPublicKey E (rsa_public E key) = Some der"
    and "ks = \<lparr>ks_Active = \<lparr>key_Kid = kid, key_Private = key\<rparr>, ks_Verifiers = [(kid, rsa_public E key)]\<rparr>"
    and "oidc_signing_keys (db w') = [first_key E kid key der]"
  using assms
  by (auto simp: LoadKeys_def sql_SelectSigningKeys_def generateRSA_def fetch_def run_from_option
        sql_InsertSigningKey_def idle_def tick_def in_aborted_tx_def run_exec first_key_def Let_def
      split: if_splits option.splits sum.splits prod.splits db_err.splits)

text \<open>The first start generates a signing key and stores it; every later start that finds what was stored
  loads the same key set, so that tokens stay valid across restarts. The manager made of it verifies with its
  own key.\<close>

theorem signing_key_survives_restart:
  assumes "run_state (LoadKeys E) w = (Inr ks, w')" and "idle w" and "oidc_signing_keys (db w) = []"
    and "pem_contract E" and "iss \<noteq> []"
  shows "wf_manager E (NewManager (ks_Active ks) (ks_Verifiers ks) iss ttl)
     \<and> (\<forall>v. idle v \<longrightarrow> \<not> io_fail E (step v) \<longrightarrow> oidc_signing_keys (db v) = oidc_signing_keys (db w')
          \<longrightarrow> fst (run_state (LoadKeys E) v) = Inr ks)"
proof -
  from assms(1-3) obtain key kid der where der: "MarshalPKIXPublicKey E (rsa_public E key) = Some der"
    and ks: "ks = \<lparr>ks_Active = \<lparr>key_Kid = kid, key_Private = key\<rparr>, ks_Verifiers = [(kid, rsa_public E key)]\<rparr>"
    and stored: "oidc_signing_keys (db w') = [first_key E kid key der]"
    by (rule LoadKeys_first)
  from ks stored assms(5) first_key_parses [OF assms(4) der] show ?thesis
    by (auto simp: wf_manager_def NewManager_def LoadKeys_def sql_SelectSigningKeys_def run_fetch_idle)
qed

section \<open>Passwords and secrets at rest\<close>

text \<open>C33: a stored password hash verifies exactly the passwords that Argon2id maps to the same key under the
  stored salt, the password it was made from among them: formatting the hash and parsing it back loses nothing.\<close>

theorem password_roundtrip:
  assumes "run_state (Hash E pw) w = (Inr hash, w')" and "argon2_length E"
  shows "Verify E hash pw \<and> (\<exists>salt. rand E (step w) argonSaltLen = Some salt
     \<and> (\<forall>guess. Verify E hash guess \<longleftrightarrow>
          argon2 E guess salt argonTime argonMemory argonThreads argonKeyLen
            = argon2 E pw salt argonTime argonMemory argonThreads argonKeyLen))"
  using assms by (auto simp: run_Hash Verify_phc argon2_length_def split: option.splits)

text \<open>C34: a TOTP secret comes back from the database as it was stored, under encryption and without; a secret
  stored in clear before encryption was switched on is still read; and an encrypted one is refused, not
  misread, when the key is gone.\<close>

theorem totp_secret_roundtrip:
  assumes "gcm_contract E" and "rand_contract E" and "run_state (Encrypt E e secret) w = (Inr stored, w')"
    and "\<not> has_prefix secret prefix"
  shows "Decrypt E e stored = Inr secret \<and> (\<forall>e'. Decrypt E e' secret = Inr secret)
     \<and> (Encryptor_Enabled e \<longrightarrow> has_prefix stored prefix \<and> (\<forall>e'. \<not> Encryptor_Enabled e' \<longrightarrow> isl (Decrypt E e' stored)))"
proof -
  have "Decrypt E e stored = Inr secret" by (rule decrypt_encrypt [OF assms(1,2) _ assms(3)]) (simp add: assms(4))
  moreover have "has_prefix stored prefix" if "Encryptor_Enabled e"
    using that assms(3) by (auto simp: run_Encrypt Encryptor_Enabled_def split: option.splits)
  ultimately show ?thesis using assms(4) by (auto simp: Decrypt_def Encryptor_Enabled_def)
qed

section \<open>Witnesses\<close>

theorem exchange_sound_witness:
  "\<exists>resp w'. run_state (ExchangeAuthorizationCode E0 h0 ''code'' ''app'' ''cb'' ''verifier'' []) (world0 d_code 1) = (Inr resp, w')
     \<and> (\<exists>row. refresh_tokens (db w') = [row] \<and> rt_UserID row = 10 \<and> rt_TenantID row = 1)"
proof -
  obtain resp w' where run: "run_state (ExchangeAuthorizationCode E0 h0 ''code'' ''app'' ''cb'' ''verifier'' []) (world0 d_code 1) = (Inr resp, w')"
    by (simp add: ExchangeAuthorizationCode_def redeem_code_def sql_SelectCode_def sql_ClaimCode_def claimable_def
        hasPKCE_def or_empty_def verifyPKCE_def authenticate_client_def client_queries client_of_def user_of_def
        IssueIDToken_def d_code_def code0_def client0_def evals)
  have "refresh_tokens (db (world0 d_code 1)) = []" by (simp add: d_code_def d0_def empty_db_def)
  moreover have "\<forall>a \<in> set (oauth_authorization_codes (db (world0 d_code 1))). ac_UserID a = 10"
    by (simp add: d_code_def code0_def)
  moreover have "\<forall>c. client_of (db (world0 d_code 1)) ''app'' = Some c \<longrightarrow> oc_TenantID c = 1"
    by (simp add: d_code_def client_of_def client0_def)
  ultimately show ?thesis using exchange_sound [OF run idle_world0(1)] run by fastforce
qed

theorem jwks_verifies_tokens_witness:
  "\<exists>j \<in> set (GetJwks h0). \<exists>n. b64_raw_decode b64_url_alphabet (jwk_N j) = Some n"
  using jwks_verifies_tokens [OF E0_jwt_contract, of h0 "claims_json claims0" tok0] m0_wf sign_tok0 by auto

lemma E0_pem: "pem_contract E0"
proof -
  have "pem_decode E0 (pem_encode E0 ''RSA PRIVATE KEY'' block) = Some block"
    "pem_decode E0 (pem_encode E0 ''PUBLIC KEY'' block) = Some block" for block
    by (simp_all add: dropWhile_append)
  then show ?thesis by (simp add: pem_contract_def digits_value_decimal)
qed

theorem signing_key_survives_restart_witness:
  "\<exists>ks w'. run_state (LoadKeys E0) (world0 d0 1) = (Inr ks, w') \<and> fst (run_state (LoadKeys E0) w') = Inr ks"
proof -
  obtain ks w' where run: "run_state (LoadKeys E0) (world0 d0 1) = (Inr ks, w')" "idle w'"
    by (simp add: LoadKeys_def sql_SelectSigningKeys_def generateRSA_def sql_InsertSigningKey_def evals)
  have "oidc_signing_keys d0 = []" by (simp add: d0_def empty_db_def)
  with signing_key_survives_restart [OF run(1) _ _ E0_pem, of "''iam''"] run show ?thesis by auto
qed

theorem password_roundtrip_witness:
  "\<exists>hash w'. run_state (Hash E0 ''secret42'') (world0 d0 1) = (Inr hash, w') \<and> Verify E0 hash ''secret42''
     \<and> \<not> Verify E0 hash ''other''"
proof -
  obtain hash w' where run: "run_state (Hash E0 ''secret42'') (world0 d0 1) = (Inr hash, w')"
    by (simp add: run_Hash)
  from password_roundtrip [OF this E0_other_contracts(3)] run show ?thesis by (auto simp: argonKeyLen_def)
qed

theorem totp_secret_roundtrip_witness:
  "\<exists>stored w'. run_state (Encrypt E0 (h_totpEnc h0) ''SECRET'') (world0 d0 1) = (Inr stored, w')
     \<and> Decrypt E0 (h_totpEnc h0) stored = Inr ''SECRET'' \<and> isl (Decrypt E0 \<lparr>e_gcm = None\<rparr> stored)"
proof -
  obtain stored w' where run: "run_state (Encrypt E0 (h_totpEnc h0) ''SECRET'') (world0 d0 1) = (Inr stored, w')"
    by (simp add: run_Encrypt h0_def)
  have "\<not> has_prefix ''SECRET'' prefix" "Encryptor_Enabled (h_totpEnc h0)"
    by (simp_all add: has_prefix_def prefix_def Encryptor_Enabled_def h0_def)
  with totp_secret_roundtrip [OF E0_other_contracts(1,2) run] run show ?thesis
    by (simp add: Encryptor_Enabled_def)
qed

end
