(* ===== verification/Key_Props.thy ===== *)
theory Key_Props
  imports One_Time_Props
begin

text \<open>
  API keys: what minting a key requires and stores, how long it lives, what validating it
  established, and that a revoked key stays revoked.
\<close>

section \<open>Minting\<close>

lemma expiry_run:
  "run_state (expiry E ttl) w =
     (if 0 < ttl then (Some (clock E (step w) + ttl_duration ttl), w\<lparr>step := Suc (step w)\<rparr>) else (None, w))"
  by (simp add: expiry_def)

lemma run_randToken:
  "run_state (randToken E n) w =
     (case rand E (step w) n of None \<Rightarrow> Inl () | Some b \<Rightarrow> Inr (hex_encode b), w\<lparr>step := Suc (step w)\<rparr>)"
  by (simp add: randToken_def split: option.splits)

lemma CreateApiKey_adds:
  "sql_CreateApiKey kid uid h name scopes ex tenant project c d = Inr (x, d') \<Longrightarrow>
   h \<notin> k_KeyHash ` set (api_keys d) \<and> (\<exists>row. api_keys d' = api_keys d @ [row] \<and> k_ID row = kid \<and> k_KeyHash row = h
     \<and> k_UserID row = uid \<and> k_TenantID row = tenant \<and> k_ProjectID row = project \<and> k_Scopes row = scopes
     \<and> k_RevokedAt row = None \<and> k_ExpiresAt row = ex)"
  by (auto simp: sql_CreateApiKey_def split: if_splits)

text \<open>The stages of a successful creation.\<close>

lemma CreateApiKey_InrE:
  assumes "run_state (CreateApiKey E ctx name scopes ttl) w = (Inr k, w')"
  obtains uid kid w1 secret w2 ex w3 tenant x w4 y w5 now w6
  where "callerID E ctx = Inr uid" and "name \<noteq> []" and "\<forall>s \<in> set scopes. id_HasPermission ctx s"
    and "run_state (randToken E 8) w = (Inr kid, w1)" and "run_state (randToken E 24) w1 = (Inr secret, w2)"
    and "run_state (expiry E ttl) w2 = (ex, w3)" and "activeTenant E ctx = Inr tenant"
    and "run_state (exec E (sql_CreateApiKey kid uid (hashToken E (api_key_secret kid secret)) name scopes ex tenant
           (parseOptionalUUID E (id_ProjectID ctx)))) w3 = (Inr x, w4)"
    and "run_state (audit E ctx ''apikey.create'' kid name) w4 = (y, w5)" and "run_state (go_now E) w5 = (now, w')"
    and "k = \<lparr>ck_Secret = api_key_secret kid secret, ck_ID = kid, ck_Name = name, ck_Scopes = scopes,
           ck_CreatedAt = now, ck_ExpiresAt = ex\<rparr>"
  using assms unfolding CreateApiKey_def by (elim run_elims) (simp add: that find_None_iff)

lemma CreateApiKey_InrD:
  assumes "run_state (CreateApiKey E ctx name scopes ttl) w = (Inr k, w')" and "idle w"
  shows "\<exists>uid tenant row n. callerID E ctx = Inr uid \<and> activeTenant E ctx = Inr tenant \<and> name \<noteq> []
     \<and> (\<forall>s \<in> set scopes. id_HasPermission ctx s)
     \<and> api_keys (db w') = api_keys (db w) @ [row]
     \<and> k_ID row = ck_ID k \<and> k_KeyHash row = hashToken E (ck_Secret k) \<and> k_UserID row = uid
     \<and> k_TenantID row = tenant \<and> k_ProjectID row = parseOptionalUUID E (id_ProjectID ctx)
     \<and> k_Scopes row = scopes \<and> k_RevokedAt row = None \<and> k_ExpiresAt row = ck_ExpiresAt k
     \<and> ck_ExpiresAt k = (if 0 < ttl then Some (clock E n + ttl_duration ttl) else None)
     \<and> idle w' \<and> n = step w + 2
     \<and> key_mintable E (step w) (hashToken E (ck_Secret k))
     \<and> (k_KeyHash row \<notin> k_KeyHash ` set (api_keys (db w)))"
proof -
  from assms(1) obtain uid kid w1 secret w2 ex w3 tenant x w4 y w5 now where
    uid: "callerID E ctx = Inr uid" and name: "name \<noteq> []" and scopes: "\<forall>s \<in> set scopes. id_HasPermission ctx s"
    and 1: "run_state (randToken E 8) w = (Inr kid, w1)" and 2: "run_state (randToken E 24) w1 = (Inr secret, w2)"
    and 3: "run_state (expiry E ttl) w2 = (ex, w3)" and tenant: "activeTenant E ctx = Inr tenant"
    and 4: "run_state (exec E (sql_CreateApiKey kid uid (hashToken E (api_key_secret kid secret)) name scopes ex tenant
           (parseOptionalUUID E (id_ProjectID ctx)))) w3 = (Inr x, w4)"
    and 5: "run_state (audit E ctx ''apikey.create'' kid name) w4 = (y, w5)" and 6: "run_state (go_now E) w5 = (now, w')"
    and k: "k = \<lparr>ck_Secret = api_key_secret kid secret, ck_ID = kid, ck_Name = name, ck_Scopes = scopes,
           ck_CreatedAt = now, ck_ExpiresAt = ex\<rparr>"
    by (rule CreateApiKey_InrE)
  from 1 2 obtain b8 b24 where drawn: "rand E (step w) 8 = Some b8" "rand E (Suc (step w)) 24 = Some b24"
    "kid = hex_encode b8" "secret = hex_encode b24" "w2 = w\<lparr>step := Suc (Suc (step w))\<rparr>"
    by (auto simp: run_randToken split: option.splits)
  have w3: "ex = (if 0 < ttl then Some (clock E (step w + 2) + ttl_duration ttl) else None)" "db w3 = db w" "idle w3"
    using 3 drawn(5) assms(2) by (auto simp: expiry_run idle_def split: if_splits)
  note q = exec_Inr_idle [OF 4 w3(3)]
  note a = audit_runs(1,2) [OF q(2), of E ctx "id_UserID ctx" "id_Email ctx" "''apikey.create''" kid name, folded audit_def,
      unfolded 5 snd_conv]
  have w': "db w' = db w5" "idle w'" using 6 a(1) by (auto simp: idle_def)
  have k_mint: "key_mintable E (step w) (hashToken E (api_key_secret kid secret))"
    using drawn unfolding key_mintable_def api_key_secret_def
    by (intro exI [of _ "Suc (step w)"] exI [of _ b24] exI [of _ kid]) simp
  have keys: "api_keys (db w') = api_keys (db w4)" using w'(1) same_but_auditD(8) [OF a(2)] by simp
  from CreateApiKey_adds [OF q(1)] w3(2) obtain row where "api_keys (db w4) = api_keys (db w) @ [row]" "k_ID row = kid"
    "k_KeyHash row = hashToken E (api_key_secret kid secret)" "k_UserID row = uid" "k_TenantID row = tenant"
    "k_ProjectID row = parseOptionalUUID E (id_ProjectID ctx)" "k_Scopes row = scopes" "k_RevokedAt row = None"
    "k_ExpiresAt row = ex" "k_KeyHash row \<notin> k_KeyHash ` set (api_keys (db w))" by auto
  with uid tenant name scopes k keys k_mint w3(1) w'(2) show ?thesis by auto
qed

text \<open>C29: an API key is minted only with scopes the caller holds, for the caller, in the caller's active tenant
  and project; what is stored is the hash of the secret, under which no key was stored before, and the key
  does not expire unless a positive time to live was asked for.\<close>

theorem api_key_create_sound:
  assumes "run_state (CreateApiKey E ctx name scopes ttl) w = (Inr k, w')" and "idle w"
  shows "\<exists>uid tenant row. callerID E ctx = Inr uid \<and> activeTenant E ctx = Inr tenant
     \<and> (\<forall>s \<in> set scopes. id_HasPermission ctx s)
     \<and> api_keys (db w') = api_keys (db w) @ [row]
     \<and> k_KeyHash row = hashToken E (ck_Secret k) \<and> k_KeyHash row \<notin> k_KeyHash ` set (api_keys (db w))
     \<and> k_UserID row = uid \<and> k_TenantID row = tenant \<and> k_ProjectID row = parseOptionalUUID E (id_ProjectID ctx)
     \<and> k_Scopes row = scopes \<and> k_RevokedAt row = None \<and> k_ExpiresAt row = ck_ExpiresAt k
     \<and> (ck_ExpiresAt k = None \<longleftrightarrow> ttl \<le> 0)"
  using CreateApiKey_InrD [OF assms] by (elim exE conjE) (auto split: if_splits)

section \<open>Time to live\<close>

lemma ttl_duration_exact: "0 \<le> ttl \<Longrightarrow> ttl \<le> 9223372036 \<Longrightarrow> ttl_duration ttl = ttl * second"
  by (simp add: ttl_duration_def second_def signed_take_bit_int_eq_self)

lemma ttl_duration_wraps:
  assumes "9223372037 \<le> ttl" "ttl \<le> 18446744073"
  shows "ttl_duration ttl = ttl * second - 2 ^ 64" "ttl_duration ttl < 0"
proof -
  have "signed_take_bit 63 (ttl * 1000000000) = (ttl * 1000000000 + 2 ^ 63) mod 2 ^ 64 - 2 ^ 63"
    by (simp add: signed_take_bit_eq_take_bit_shift take_bit_eq_mod)
  also have "(ttl * 1000000000 + 2 ^ 63) mod 2 ^ 64 = (ttl * 1000000000 + 2 ^ 63 - 2 ^ 64) mod (2 ^ 64 :: int)"
    by (simp only: minus_mod_self2)
  also have "\<dots> = ttl * 1000000000 + 2 ^ 63 - 2 ^ 64"
    using assms by (intro mod_pos_pos_trivial) simp_all
  finally show "ttl_duration ttl = ttl * second - 2 ^ 64" by (simp add: ttl_duration_def second_def)
  with assms show "ttl_duration ttl < 0" by (simp add: second_def)
qed


section \<open>Validating\<close>

definition key_of :: "database \<Rightarrow> string \<Rightarrow> ApiKey option" where
  "key_of d h = List.find (\<lambda>k. k_KeyHash k = h) (api_keys d)"

lemma key_of_query:
  "sql_GetApiKeyByHash h c d = (case key_of d h of None \<Rightarrow> Inl NoRows | Some k \<Rightarrow> Inr (k, d))"
  by (simp add: sql_GetApiKeyByHash_def fetch_one_find key_of_def)

lemma key_expired_run:
  "run_state (key_expired E row) w = (case k_ExpiresAt row of None \<Rightarrow> (False, w)
     | Some t \<Rightarrow> (t < clock E (step w), w\<lparr>step := Suc (step w)\<rparr>))"
  by (simp add: key_expired_def split: option.splits)

text \<open>The stages an accepted key went through.\<close>

lemma ValidateApiKey_InrE:
  assumes "run_state (ValidateApiKey E key) w = (Inr (uid, email, scopes), w')"
  obtains row w1 w2 user w3 w4 perms w5 y
  where "run_state (exec E (sql_GetApiKeyByHash (hashToken E key))) w = (Inr row, w1)" and "k_RevokedAt row = None"
    and "run_state (key_expired E row) w1 = (False, w2)"
    and "run_state (exec E (sql_GetUserByID (k_UserID row))) w2 = (Inr user, w3)" and "u_DeletedAt user = None"
    and "run_state (exec E (sql_IsActiveMember (k_UserID row) (k_TenantID row))) w3 = (Inr True, w4)"
    and "run_state (withTenantGUC E (k_TenantID row)
           (exec E (sql_GetUserPermissionsScoped (k_UserID row) (k_TenantID row) (k_ProjectID row)))) w4 = (Inr perms, w5)"
    and "run_state (exec E (sql_TouchApiKey (k_ID row))) w5 = (y, w')"
    and "uid = uuid_string E (k_UserID row)" and "email = u_Email user" and "scopes = effective_scopes (k_Scopes row) perms"
  using assms unfolding ValidateApiKey_def by (elim run_elims) (simp add: that)

text \<open>C14: an API key is accepted only if it is stored, neither revoked nor expired, its owner exists and is not
  deleted, and is an active member of the key's tenant; it then gives exactly those of its scopes that the
  owner is granted there at that time, and nothing but the key's last use is written.\<close>

theorem api_key_validate_sound:
  assumes "run_state (ValidateApiKey E key) w = (Inr (uid, email, scopes), w')" and "idle w"
  shows "\<exists>row user. key_of (db w) (hashToken E key) = Some row \<and> k_RevokedAt row = None
     \<and> (\<forall>t. k_ExpiresAt row = Some t \<longrightarrow> clock E (step w + 1) \<le> t)
     \<and> user_of (db w) (k_UserID row) = Some user \<and> u_DeletedAt user = None
     \<and> active_member (db w) (k_UserID row) (k_TenantID row)
     \<and> uid = uuid_string E (k_UserID row) \<and> email = u_Email user
     \<and> scopes = filter (\<lambda>s. s \<in> granted (db w) (k_UserID row) (k_TenantID row) (k_ProjectID row)) (k_Scopes row)
     \<and> db w' = (db w)\<lparr>api_keys := api_keys (db w')\<rparr>"
proof -
  from assms(1) obtain row w1 w2 user w3 w4 perms w5 y where
    1: "run_state (exec E (sql_GetApiKeyByHash (hashToken E key))) w = (Inr row, w1)" and live: "k_RevokedAt row = None"
    and 2: "run_state (key_expired E row) w1 = (False, w2)"
    and 3: "run_state (exec E (sql_GetUserByID (k_UserID row))) w2 = (Inr user, w3)" and alive: "u_DeletedAt user = None"
    and 4: "run_state (exec E (sql_IsActiveMember (k_UserID row) (k_TenantID row))) w3 = (Inr True, w4)"
    and 5: "run_state (withTenantGUC E (k_TenantID row)
         (exec E (sql_GetUserPermissionsScoped (k_UserID row) (k_TenantID row) (k_ProjectID row)))) w4 = (Inr perms, w5)"
    and 6: "run_state (exec E (sql_TouchApiKey (k_ID row))) w5 = (y, w')"
    and last: "uid = uuid_string E (k_UserID row)" "email = u_Email user" "scopes = effective_scopes (k_Scopes row) perms"
    by (rule ValidateApiKey_InrE)
  note q1 = exec_Inr_idle [OF 1 assms(2)] and s1 = exec_keeps(1) [OF 1]
  have row: "key_of (db w) (hashToken E key) = Some row" "db w1 = db w"
    using q1(1) by (auto simp: key_of_query split: option.splits)
  have w2: "db w2 = db w1" "idle w2" "\<forall>t. k_ExpiresAt row = Some t \<longrightarrow> clock E (step w1) \<le> t"
    using 2 q1(2) by (auto simp: key_expired_run idle_def split: option.splits)
  note q3 = exec_Inr_idle [OF 3 w2(2)]
  have user: "user_of (db w2) (k_UserID row) = Some user" "db w3 = db w2"
    using q3(1) by (auto simp: user_of_query split: option.splits)
  note q4 = exec_Inr_idle [OF 4 q3(2)]
  have m: "active_member (db w3) (k_UserID row) (k_TenantID row)" "db w4 = db w3"
    using q4(1) by (auto simp: sql_IsActiveMember_def fetch_Inr)
  note p = scoped_permissions_granted [OF 5 q4(2)]
  have "db w' = (db w5)\<lparr>api_keys := api_keys (db w')\<rparr>"
    using 6 p(2) by (auto elim!: exec_cases simp: sql_TouchApiKey_def perform_Inr)
  then have "db w' = (db w)\<lparr>api_keys := api_keys (db w')\<rparr>"
    using p(1) m(2) user(2) w2(1) row(2) by simp
  then show ?thesis
    using row live w2 s1 user alive m last p(1,3)
    by (intro exI [of _ row] exI [of _ user]) (auto simp: effective_scopes_def)
qed

section \<open>Revoking\<close>

text \<open>Every key under a hash is revoked.\<close>

definition key_dead :: "string \<Rightarrow> database \<Rightarrow> bool" where
  "key_dead h d \<longleftrightarrow> (\<forall>k \<in> set (api_keys d). k_KeyHash k = h \<longrightarrow> k_RevokedAt k \<noteq> None)"

lemma key_dead_step: "db_step E since d d' \<Longrightarrow> \<not> key_mintable E since h \<Longrightarrow> key_dead h d \<Longrightarrow> key_dead h d'"
  by (induction rule: db_step.induct)
     (auto simp: sql_write_defs key_dead_def ball_update_where split: if_splits list.splits sum.splits option.splits)

interpretation key_dead: kept_property E since "\<lambda>d. key_mintable E since h \<or> key_dead h d" for E since h
  by unfold_locales (auto intro: key_dead_step)

text \<open>C30: a key that its owner revoked is refused for ever, whatever requests follow, unless a later random
  draw of the service collides with it.\<close>

theorem revoked_api_key_refused:
  assumes "run_state (RevokeApiKey E ctx (k_ID row)) w = (Inr u, w')" and "idle w" and "wf_db (db w)"
    and "key_of (db w) (hashToken E key) = Some row" and "callerID E ctx = Inr (k_UserID row)"
    and "\<not> key_mintable E (step w) (hashToken E key)"
  shows "\<exists>e. fst (run_state (ValidateApiKey E key) (serve_all E h rs w')) = Inl e"
proof -
  let ?h = "hashToken E key" and ?v = "serve_all E h rs w'"
  from assms(1,5) obtain x w1 where 1: "run_state (exec E (sql_RevokeApiKey (k_ID row) (k_UserID row))) w = (Inr x, w1)"
    and rest: "run_state (ignoring (audit E ctx ''apikey.revoke'' (k_ID row) []) (ok () :: unit handler)) w1 = (Inr u, w')"
    unfolding RevokeApiKey_def by (simp del: run_or_return run_ignoring) (erule or_return_InrE, simp)
  note q = exec_Inr_idle [OF 1 assms(2)] and s = exec_keeps(1) [OF 1]
  have row: "row \<in> set (api_keys (db w))" "k_KeyHash row = ?h"
    using find_SomeD [OF assms(4) [unfolded key_of_def]] by auto
  have only: "k = row" if "k \<in> set (api_keys (db w))" "k_KeyHash k = ?h" for k
    using wf_dbD(13) [OF assms(3)] unique_row [of k_KeyHash "api_keys (db w)" k row] that row
    by (simp add: wf_api_keys_def)
  have "api_keys (db w1) = update_where (\<lambda>k. k_ID k = k_ID row \<and> k_UserID k = k_UserID row \<and> k_RevokedAt k = None)
     (\<lambda>k. k\<lparr>k_RevokedAt := Some (s_now (stmt_of E w))\<rparr>) (api_keys (db w))"
    using q(1) by (simp add: sql_RevokeApiKey_def perform_Inr)
  then have dead1: "key_dead ?h (db w1)"
    unfolding key_dead_def by (simp add: ball_update_where) (metis only)
  have sv: "state_io_rel (served E (step w)) (ignoring (audit E ctx ''apikey.revoke'' (k_ID row) []) (ok () :: unit handler))"
    by (intro served_intros)
  have "step w \<le> step w1" using s by simp
  from key_dead.kept_by_handler [OF sv q(2) this, of ?h] dead1
  have "idle w' \<and> step w \<le> step w' \<and> (key_mintable E (step w) ?h \<or> key_dead ?h (db w'))"
    by (simp only: rest snd_conv simp_thms)
  then have "idle w'" "step w \<le> step w'" "key_dead ?h (db w')" using assms(6) by auto
  from key_dead.kept_by_run [of w' "step w" E ?h h rs] this assms(6)
  have v: "idle ?v" "key_dead ?h (db ?v)" by auto
  show ?thesis
  proof (cases "run_state (exec E (sql_GetApiKeyByHash ?h)) ?v")
    case (Pair r u)
    then show ?thesis using v
      by (cases r) (auto simp: ValidateApiKey_def key_dead_def key_of_query key_of_def
          dest!: exec_Inr_idle(1) find_SomeD split: option.splits)
  qed
qed

section \<open>Witnesses\<close>

definition key0 :: ApiKey where
  "key0 = \<lparr>k_ID = ''k0'', k_UserID = 10, k_KeyHash = hex_encode ''iamk_k0_s'', k_Name = ''ci'',
     k_Scopes = [''role:read'', ''user:delete''], k_ExpiresAt = None, k_RevokedAt = None, k_LastUsedAt = None,
     k_CreatedAt = 0, k_TenantID = 1, k_ProjectID = None\<rparr>"

definition d_key :: database where
  "d_key = d0\<lparr>api_keys := [key0]\<rparr>"

lemma fixture_key: "wf_db d_key" "key_of d_key (hashToken E0 ''iamk_k0_s'') = Some key0" "callerID E0 admin = Inr 10"
  "activeTenant E0 admin = Inr 1"
proof -
  show "wf_db d_key"
    unfolding d_key_def by (rule wf_db_replace [OF wf_d0])
      (simp add: wf_api_keys_def key0_def d0_def empty_db_def user0_def)
  show "key_of d_key (hashToken E0 ''iamk_k0_s'') = Some key0"
    by (simp add: key_of_def d_key_def key0_def hashToken_def)
  show "callerID E0 admin = Inr 10" "activeTenant E0 admin = Inr 1"
    by (simp_all add: callerID_def activeTenant_def admin_def T0_uuid_parse_def is_digit_def digits_value_def
        decimal_digits_def)
qed

lemma fixture_created:
  "\<exists>k w'. run_state (CreateApiKey E0 admin ''ci'' [''role:read''] ttl) (world0 d0 1) = (Inr k, w')"
  using fixture_key(3,4)
  by (simp add: CreateApiKey_def expiry_def randToken_def api_key_secret_def sql_CreateApiKey_def evals)

theorem api_key_create_sound_witness:
  "\<exists>k w' row. run_state (CreateApiKey E0 admin ''ci'' [''role:read''] 0) (world0 d0 1) = (Inr k, w')
     \<and> api_keys (db w') = [row] \<and> k_KeyHash row = hashToken E0 (ck_Secret k) \<and> k_ExpiresAt row = None"
proof -
  obtain k w' where run: "run_state (CreateApiKey E0 admin ''ci'' [''role:read''] 0) (world0 d0 1) = (Inr k, w')"
    using fixture_created by blast
  from api_key_create_sound [OF run idle_world0(1)] run show ?thesis
    by (auto simp: d0_def empty_db_def)
qed


theorem api_key_validate_sound_witness:
  "\<exists>r w'. run_state (ValidateApiKey E0 ''iamk_k0_s'') (world0 d_key 1) = (Inr r, w') \<and> set (snd (snd r)) \<subseteq> granted d_key 10 1 None"
proof -
  have "\<exists>uid email scopes w'. run_state (ValidateApiKey E0 ''iamk_k0_s'') (world0 d_key 1) = (Inr (uid, email, scopes), w')"
    by (simp add: ValidateApiKey_def key_of_query fixture_key(2) key_expired_def key0_def sql_TouchApiKey_def withTenantGUC_def
        sql_GetUserPermissionsScoped_def d_key_def evals hashToken_def key_of_def)
  then obtain uid email scopes w' where run: "run_state (ValidateApiKey E0 ''iamk_k0_s'') (world0 d_key 1) = (Inr (uid, email, scopes), w')"
    by blast
  have "k_UserID key0 = 10" "k_TenantID key0 = 1" "k_ProjectID key0 = None" by (simp_all add: key0_def)
  with api_key_validate_sound [OF run idle_world0(1)] run fixture_key(2) show ?thesis by auto
qed

theorem revoked_api_key_refused_witness:
  "\<exists>w'. run_state (RevokeApiKey E0 admin ''k0'') (world0 d_key 1) = (Inr (), w')
     \<and> (\<forall>rs. \<exists>e. fst (run_state (ValidateApiKey E0 ''iamk_k0_s'') (serve_all E0 h0 rs w')) = Inl e)"
proof -
  obtain w' where run: "run_state (RevokeApiKey E0 admin ''k0'') (world0 d_key 1) = (Inr (), w')"
    using fixture_key(3) by (simp add: RevokeApiKey_def sql_RevokeApiKey_def d_key_def key0_def evals)
  have "\<not> key_mintable E0 1 (hashToken E0 ''iamk_k0_s'')"
    by (auto simp: key_mintable_def hashToken_def length_hex_encode dest!: arg_cong [of _ _ length])
  with revoked_api_key_refused [of E0 admin key0 "world0 d_key 1" "()" w' "''iamk_k0_s''" h0] run fixture_key
  show ?thesis by (auto simp: key0_def)
qed

end
