(* ===== verification/Tenant_Isolation.thy ===== *)
theory Tenant_Isolation
  imports Key_Props
begin

text \<open>
  Tenants are isolated: an assignment never refers to another tenant's role (an invariant of every
  step of the database), and what a caller does to roles, permissions and assignments touches
  only the caller's active tenant.
\<close>

section \<open>Assignments stay in scope\<close>

definition role_scoped :: "database \<Rightarrow> bool" where
  "role_scoped d \<longleftrightarrow> (\<forall>ur \<in> set (user_roles d). \<forall>r \<in> set (roles d).
     r_ID r = ur_RoleID ur \<longrightarrow> r_TenantID r = None \<or> r_TenantID r = Some (ur_TenantID ur))"

lemma role_scoped_assign:
  assumes "insert_user_role ur c d = Inr (x, d')" and "r \<in> set (roles d)" "ur_RoleID ur = r_ID r"
    and "r_TenantID r = None \<or> r_TenantID r = Some (ur_TenantID ur)" and "wf_db d" and "role_scoped d"
  shows "role_scoped d'"
proof -
  have only: "r' = r" if "r' \<in> set (roles d)" "r_ID r' = r_ID r" for r'
    using wf_dbD(3) [OF assms(5)] unique_row [of r_ID "roles d" r' r] that assms(2) by (simp add: wf_roles_def)
  have "d' = d \<or> d' = d\<lparr>user_roles := user_roles d @ [ur]\<rparr>"
    using assms(1) by (auto simp: insert_user_role_def split: if_splits)
  then show ?thesis
  proof
    assume "d' = d\<lparr>user_roles := user_roles d @ [ur]\<rparr>"
    then show ?thesis using assms(3,4,6) by (simp add: role_scoped_def) (metis only)
  qed (use assms(6) in simp)
qed

lemma first_role_in_tenant:
  assumes "roles_in_tenant n (Some t) c d = r # rs"
  shows "r \<in> set (roles d) \<and> r_Name r = n \<and> (r_TenantID r = None \<or> r_TenantID r = Some t)"
proof -
  have "r \<in> set (roles_in_tenant n (Some t) c d)" by (simp add: assms)
  then show ?thesis by (auto simp: roles_in_tenant_def visible_roles_def)
qed

lemma first_template:
  assumes "filter (\<lambda>r. r_Name r = n \<and> r_TenantID r = None) (visible_roles c d) = r # rs"
  shows "r \<in> set (roles d) \<and> r_Name r = n \<and> r_TenantID r = None"
proof -
  have "r \<in> set (filter (\<lambda>r. r_Name r = n \<and> r_TenantID r = None) (visible_roles c d))" by (simp add: assms)
  then show ?thesis by (auto simp: visible_roles_def)
qed

lemma role_scoped_AssignRoleToUser:
  "sql_AssignRoleToUser uid n t p c d = Inr (x, d') \<Longrightarrow> wf_db d \<Longrightarrow> role_scoped d \<Longrightarrow> role_scoped d'"
  by (cases "roles_in_tenant n (Some t) c d")
     (auto simp: sql_AssignRoleToUser_def dest!: first_role_in_tenant elim!: role_scoped_assign)

lemma role_scoped_AssignRoleInTenant:
  "sql_AssignRoleInTenant uid n t c d = Inr (x, d') \<Longrightarrow> wf_db d \<Longrightarrow> role_scoped d \<Longrightarrow> role_scoped d'"
  by (cases "filter (\<lambda>r. r_Name r = n \<and> r_TenantID r = None) (visible_roles c d)")
     (auto simp: sql_AssignRoleInTenant_def dest!: first_template elim!: role_scoped_assign)

lemma role_scoped_roles:
  assumes "wf_db d" and "role_scoped d"
  shows "sql_CreateRole n ds t c d = Inr (ro, d') \<Longrightarrow> role_scoped d'"
    and "sql_UpdateRole n ds t c d = Inr (ro, d') \<Longrightarrow> role_scoped d'"
    and "sql_DeleteRole n t c d = Inr (x, d') \<Longrightarrow> role_scoped d'"
proof -
  have used: "ur \<in> set (user_roles d) \<Longrightarrow> ur_RoleID ur \<in> r_ID ` set (roles d)" for ur
    using wf_dbD(6) [OF assms(1)] by (simp add: wf_user_roles_def)
  show "role_scoped d'" if "sql_CreateRole n ds t c d = Inr (ro, d')"
  proof -
    from that have "s_serial c \<notin> r_ID ` set (roles d)" "roles d' = roles d @ [ro]" "r_ID ro = s_serial c" "user_roles d' = user_roles d"
      by (auto simp: sql_CreateRole_def Let_def split: if_splits option.splits)
    then show ?thesis using assms(2) used by (auto simp: role_scoped_def)
  qed
  show "role_scoped d'" if "sql_UpdateRole n ds t c d = Inr (ro, d')"
  proof -
    from that obtain P where "roles d' = update_where P (\<lambda>r. r\<lparr>r_Description := ds\<rparr>) (roles d)" "user_roles d' = user_roles d"
      by (auto simp: sql_UpdateRole_def split: list.splits)
    then show ?thesis using assms(2) by (simp add: role_scoped_def ball_update_where)
  qed
  show "sql_DeleteRole n t c d = Inr (x, d') \<Longrightarrow> role_scoped d'"
    using assms(2) by (auto simp: sql_DeleteRole_def perform_Inr role_scoped_def Let_def)
qed

lemma role_scoped_cong: "roles d' = roles d \<Longrightarrow> set (user_roles d') \<subseteq> set (user_roles d) \<Longrightarrow> role_scoped d \<Longrightarrow> role_scoped d'"
  by (auto simp: role_scoped_def)

lemma role_scoped_step: "db_step E since d d' \<Longrightarrow> wf_db d \<Longrightarrow> role_scoped d \<Longrightarrow> role_scoped d'"
proof (induction rule: db_step.induct)
  case (CreateRole nm ds ten c d ro d')
  then show ?case by (blast intro: role_scoped_roles)
next
  case (UpdateRole nm ds ten c d ro d')
  then show ?case by (blast intro: role_scoped_roles)
next
  case (DeleteRole nm ten c d x d')
  then show ?case by (blast intro: role_scoped_roles)
next
  case (AssignRoleToUser uid nm tid pid c d x d')
  then show ?case by (blast intro: role_scoped_AssignRoleToUser)
next
  case (AssignRoleInTenant uid nm tid c d x d')
  then show ?case by (blast intro: role_scoped_AssignRoleInTenant)
qed (auto simp: sql_write_defs split: if_splits list.splits sum.splits option.splits elim!: role_scoped_cong [rotated 2])

interpretation scoped: kept_property E since "\<lambda>d. wf_db d \<and> role_scoped d" for E since
  by unfold_locales (blast intro: wf_db_step role_scoped_step)

section \<open>What lies outside a tenant\<close>

definition own_roles :: "uuid \<Rightarrow> database \<Rightarrow> int set" where
  "own_roles t d = r_ID ` {r \<in> set (roles d). r_TenantID r = Some t}"

lemma own_roles_alt:
  "own_roles t d = fst ` {x \<in> set (map (\<lambda>r. (r_ID r, r_TenantID r)) (roles d)). snd x = Some t}"
  by (force simp: own_roles_def)

text \<open>
  Everything in the database but the audit trail and the tenant's own roles, their permissions and
  the assignments made in the tenant.
\<close>

definition elsewhere :: "uuid \<Rightarrow> database \<Rightarrow> database" where
  "elsewhere t d = d\<lparr>roles := filter (\<lambda>r. r_TenantID r \<noteq> Some t) (roles d),
     role_permissions := filter (\<lambda>rp. rp_RoleID rp \<notin> own_roles t d) (role_permissions d),
     user_roles := filter (\<lambda>ur. ur_TenantID ur \<noteq> t) (user_roles d), audit_events := []\<rparr>"

definition same_elsewhere :: "uuid \<Rightarrow> database \<Rightarrow> database \<Rightarrow> bool" where
  "same_elsewhere t d d' \<longleftrightarrow>
     (wf_db d \<and> role_scoped d \<longrightarrow> wf_db d' \<and> role_scoped d' \<and> elsewhere t d' = elsewhere t d)"

interpretation iso: db_effect "same_elsewhere t" for t
  by unfold_locales (auto simp: same_elsewhere_def)

lemma filter_update_where_other:
  "(\<And>r. P r \<Longrightarrow> \<not> Q r) \<Longrightarrow> (\<And>r. Q (f r) = Q r) \<Longrightarrow> filter Q (update_where P f rs) = filter Q rs"
  by (induction rs) (auto simp: update_where_def)

lemma filter_delete_where_other:
  "(\<And>r. r \<in> set rs \<Longrightarrow> P r \<Longrightarrow> \<not> Q r) \<Longrightarrow> filter Q (delete_where P rs) = filter Q rs"
  by (auto simp: delete_where_def intro!: filter_cong)

lemma tenant_roles_own: "r \<in> set (tenant_roles n (Some t) c d) \<Longrightarrow> r \<in> set (roles d) \<and> r_TenantID r = Some t"
  by (auto simp: tenant_roles_def visible_roles_def)

lemma iso_CreateRole: "sql_CreateRole n ds (Some t) c d = Inr (ro, d') \<Longrightarrow> same_elsewhere t d d'"
proof (unfold same_elsewhere_def, intro impI)
  assume run: "sql_CreateRole n ds (Some t) c d = Inr (ro, d')" and inv: "wf_db d \<and> role_scoped d"
  from run have d': "d' = d\<lparr>roles := roles d @ [ro]\<rparr>" "r_TenantID ro = Some t" "r_ID ro \<notin> r_ID ` set (roles d)"
    by (auto simp: sql_CreateRole_def Let_def split: if_splits)
  have used: "rp_RoleID rp \<in> r_ID ` set (roles d)" if "rp \<in> set (role_permissions d)" for rp
    using wf_dbD(5) inv that by (auto simp: wf_role_permissions_def)
  have "own_roles t d' = insert (r_ID ro) (own_roles t d)" by (auto simp: own_roles_def d')
  then have "filter (\<lambda>rp. rp_RoleID rp \<notin> own_roles t d') (role_permissions d)
      = filter (\<lambda>rp. rp_RoleID rp \<notin> own_roles t d) (role_permissions d)"
    using used d'(3) by (intro filter_cong refl) (metis insertE insertCI)
  with d' have "elsewhere t d' = elsewhere t d" by (simp add: elsewhere_def)
  with run inv show "wf_db d' \<and> role_scoped d' \<and> elsewhere t d' = elsewhere t d"
    by (blast intro: wf_CreateRole role_scoped_roles)
qed

lemma iso_UpdateRole: "sql_UpdateRole n ds (Some t) c d = Inr (ro, d') \<Longrightarrow> same_elsewhere t d d'"
proof (unfold same_elsewhere_def, intro impI)
  assume run: "sql_UpdateRole n ds (Some t) c d = Inr (ro, d')" and inv: "wf_db d \<and> role_scoped d"
  let ?P = "\<lambda>r. r_Name r = n \<and> sql_eq (r_TenantID r) (Some t) \<and> rls_ok c (r_TenantID r)"
  let ?f = "\<lambda>r. r\<lparr>r_Description := ds\<rparr>"
  from run have d': "d' = d\<lparr>roles := update_where ?P ?f (roles d)\<rparr>"
    by (auto simp: sql_UpdateRole_def split: list.splits)
  have "own_roles t d' = own_roles t d" by (simp add: own_roles_alt d' map_update_where)
  moreover have "filter (\<lambda>r. r_TenantID r \<noteq> Some t) (roles d') = filter (\<lambda>r. r_TenantID r \<noteq> Some t) (roles d)"
    unfolding d' by (simp, rule filter_update_where_other) simp_all
  ultimately have "elsewhere t d' = elsewhere t d" by (simp add: elsewhere_def) (simp add: d')
  with run inv show "wf_db d' \<and> role_scoped d' \<and> elsewhere t d' = elsewhere t d"
    by (blast intro: wf_UpdateRole role_scoped_roles)
qed

lemma iso_DeleteRole: "sql_DeleteRole n (Some t) c d = Inr (x, d') \<Longrightarrow> same_elsewhere t d d'"
proof (unfold same_elsewhere_def, intro impI)
  assume run: "sql_DeleteRole n (Some t) c d = Inr (x, d')" and inv: "wf_db d \<and> role_scoped d"
  define gone where "gone = r_ID ` set (tenant_roles n (Some t) c d)"
  from run have d': "d' = d\<lparr>roles := delete_where (\<lambda>r. r_ID r \<in> gone) (roles d),
       role_permissions := delete_where (\<lambda>rp. rp_RoleID rp \<in> gone) (role_permissions d),
       user_roles := delete_where (\<lambda>ur. ur_RoleID ur \<in> gone) (user_roles d)\<rparr>"
    by (simp add: sql_DeleteRole_def perform_Inr gone_def Let_def)
  have same: "r' = r" if "r \<in> set (roles d)" "r' \<in> set (roles d)" "r_ID r' = r_ID r" for r r'
    using wf_dbD(3) inv unique_row [of r_ID "roles d" r' r] that by (auto simp: wf_roles_def)
  have gone: "r_TenantID r = Some t" if "r \<in> set (roles d)" "r_ID r \<in> gone" for r
    using that same by (auto simp: gone_def dest!: tenant_roles_own)
  have sub: "gone \<subseteq> own_roles t d" by (auto simp: gone_def own_roles_def dest: tenant_roles_own)
  have own': "own_roles t d' = own_roles t d - gone" by (auto simp: own_roles_def d')
  have rps: "role_permissions d' = filter (\<lambda>rp. rp_RoleID rp \<notin> gone) (role_permissions d)"
    by (simp add: d' delete_where_def)
  have "filter (\<lambda>rp. rp_RoleID rp \<notin> own_roles t d') (role_permissions d')
      = filter (\<lambda>rp. rp_RoleID rp \<notin> own_roles t d) (role_permissions d)"
    unfolding own' rps filter_filter by (rule filter_cong) (use sub in auto)
  moreover have "ur_TenantID ur = t" if "ur \<in> set (user_roles d)" "ur_RoleID ur \<in> gone" for ur
  proof -
    from that(2) obtain r where r: "r \<in> set (tenant_roles n (Some t) c d)" "r_ID r = ur_RoleID ur"
      unfolding gone_def by auto
    from tenant_roles_own [OF r(1)] r(2) inv that(1) show ?thesis unfolding role_scoped_def by fastforce
  qed
  then have "filter (\<lambda>ur. ur_TenantID ur \<noteq> t) (user_roles d') = filter (\<lambda>ur. ur_TenantID ur \<noteq> t) (user_roles d)"
    by (simp add: d' filter_delete_where_other)
  moreover have "filter (\<lambda>r. r_TenantID r \<noteq> Some t) (roles d') = filter (\<lambda>r. r_TenantID r \<noteq> Some t) (roles d)"
    using gone by (simp add: d' filter_delete_where_other)
  ultimately have "elsewhere t d' = elsewhere t d" by (simp add: elsewhere_def) (simp add: d')
  with run inv show "wf_db d' \<and> role_scoped d' \<and> elsewhere t d' = elsewhere t d"
    by (blast intro: wf_DeleteRole role_scoped_roles)
qed

lemma iso_assignments:
  "sql_AssignRoleToUser uid n t p c d = Inr (x, d') \<Longrightarrow> same_elsewhere t d d'"
  "sql_RevokeRoleFromUser uid n t p c d = Inr (x, d') \<Longrightarrow> same_elsewhere t d d'"
proof -
  show "sql_AssignRoleToUser uid n t p c d = Inr (x, d') \<Longrightarrow> same_elsewhere t d d'"
  proof (unfold same_elsewhere_def, intro impI)
    assume run: "sql_AssignRoleToUser uid n t p c d = Inr (x, d')" and inv: "wf_db d \<and> role_scoped d"
    from run have "elsewhere t d' = elsewhere t d"
      by (auto simp: sql_AssignRoleToUser_def insert_user_role_def elsewhere_def own_roles_def split: list.splits if_splits)
    with run inv show "wf_db d' \<and> role_scoped d' \<and> elsewhere t d' = elsewhere t d"
      by (blast intro: wf_assign_queries role_scoped_AssignRoleToUser)
  qed
  show "sql_RevokeRoleFromUser uid n t p c d = Inr (x, d') \<Longrightarrow> same_elsewhere t d d'"
  proof (unfold same_elsewhere_def, intro impI)
    assume run: "sql_RevokeRoleFromUser uid n t p c d = Inr (x, d')" and inv: "wf_db d \<and> role_scoped d"
    from run obtain P where d': "d' = d\<lparr>user_roles := delete_where P (user_roles d)\<rparr>" and P: "\<And>ur. P ur \<Longrightarrow> ur_TenantID ur = t"
      by (fastforce simp: sql_RevokeRoleFromUser_def split: sum.splits)
    then have "elsewhere t d' = elsewhere t d" and "roles d' = roles d" "set (user_roles d') \<subseteq> set (user_roles d)"
      by (auto simp: elsewhere_def own_roles_def filter_delete_where_other)
    with run inv show "wf_db d' \<and> role_scoped d' \<and> elsewhere t d' = elsewhere t d"
      by (blast intro: wf_RevokeRoleFromUser role_scoped_cong)
  qed
qed

lemma iso_permissions:
  "sql_GrantPermissionToRole n pn (Some t) c d = Inr (x, d') \<Longrightarrow> same_elsewhere t d d'"
  "sql_RevokePermissionFromRole n pn (Some t) c d = Inr (x, d') \<Longrightarrow> same_elsewhere t d d'"
proof -
  have own: "r_ID r \<in> own_roles t d" if "r \<in> set (tenant_roles n (Some t) c d)" for r
    using tenant_roles_own [OF that] by (auto simp: own_roles_def)
  show "sql_GrantPermissionToRole n pn (Some t) c d = Inr (x, d') \<Longrightarrow> same_elsewhere t d d'"
  proof (unfold same_elsewhere_def, intro impI)
    assume run: "sql_GrantPermissionToRole n pn (Some t) c d = Inr (x, d')" and inv: "wf_db d \<and> role_scoped d"
    define new where "new = filter (\<lambda>rp. rp \<notin> set (role_permissions d))
           [\<lparr>rp_RoleID = r_ID r, rp_PermissionID = p_ID p\<rparr>.
              r \<leftarrow> tenant_roles n (Some t) c d, p \<leftarrow> permissions d, p_Name p = pn]"
    have d': "d' = d\<lparr>role_permissions := role_permissions d @ new\<rparr>" "\<forall>rp \<in> set new. rp_RoleID rp \<in> own_roles t d"
      using run own by (auto simp: sql_GrantPermissionToRole_def perform_Inr new_def)
    then have "elsewhere t d' = elsewhere t d" by (simp add: elsewhere_def own_roles_def)
    moreover from d' have "role_scoped d'" using inv by (simp add: role_scoped_def)
    ultimately show "wf_db d' \<and> role_scoped d' \<and> elsewhere t d' = elsewhere t d"
      using run inv by (blast intro: wf_role_permission_queries)
  qed
  show "sql_RevokePermissionFromRole n pn (Some t) c d = Inr (x, d') \<Longrightarrow> same_elsewhere t d d'"
  proof (unfold same_elsewhere_def, intro impI)
    assume run: "sql_RevokePermissionFromRole n pn (Some t) c d = Inr (x, d')" and inv: "wf_db d \<and> role_scoped d"
    then obtain rid pid where d': "d' = d\<lparr>role_permissions := delete_where
        (\<lambda>rp. sql_eq (Some (rp_RoleID rp)) rid \<and> sql_eq (Some (rp_PermissionID rp)) pid) (role_permissions d)\<rparr>"
      and rid: "scalar (map r_ID (tenant_roles n (Some t) c d)) = Inr rid"
      by (auto simp: sql_RevokePermissionFromRole_def split: sum.splits)
    from rid own have own': "\<And>i. rid = Some i \<Longrightarrow> i \<in> own_roles t d"
      by (auto simp: scalar_def split: list.splits)
    have "filter (\<lambda>rp. rp_RoleID rp \<notin> own_roles t d) (role_permissions d') = filter (\<lambda>rp. rp_RoleID rp \<notin> own_roles t d) (role_permissions d)"
      by (simp add: d', rule filter_delete_where_other) (use own' in \<open>auto simp: sql_eq_def\<close>)
    moreover have "own_roles t d' = own_roles t d" by (simp add: own_roles_def d')
    ultimately have "elsewhere t d' = elsewhere t d" by (simp add: elsewhere_def) (simp add: d')
    moreover from d' have "role_scoped d'" using inv by (simp add: role_scoped_def)
    ultimately show "wf_db d' \<and> role_scoped d' \<and> elsewhere t d' = elsewhere t d"
      using run inv by (blast intro: wf_role_permission_queries)
  qed
qed

lemma iso_audit: "sql_InsertAuditEvent a1 a2 a3 a4 a5 ten c d = Inr (x, d') \<Longrightarrow> same_elsewhere t d d'"
proof (unfold same_elsewhere_def, intro impI)
  assume run: "sql_InsertAuditEvent a1 a2 a3 a4 a5 ten c d = Inr (x, d')" and inv: "wf_db d \<and> role_scoped d"
  from run obtain e where "d' = d\<lparr>audit_events := e\<rparr>" by (auto simp: sql_InsertAuditEvent_def split: if_splits)
  then have "elsewhere t d' = elsewhere t d" "role_scoped d'" using inv
    by (simp_all add: elsewhere_def own_roles_def role_scoped_def)
  with run inv show "wf_db d' \<and> role_scoped d' \<and> elsewhere t d' = elsewhere t d" by (blast intro: wf_log_queries)
qed

section \<open>The handlers\<close>

named_theorems iso_intros "a computation leaves the other tenants alone"

lemmas iso_control [iso_intros] = iso.world.return_effect iso.world.bind_effect iso.world.ok_effect
  iso.world.bail_effect iso.world.check_effect iso.world.or_return_effect iso.world.ignoring_effect
  iso.world.if_effect iso.world.option_effect iso.world.sum_effect iso.world.let_effect iso.world.prod_effect
  iso.outside_effect iso.withTenant_effect

lemma iso_write [iso_intros]:
  "state_io_rel (lift_rel (same_elsewhere t)) (exec E (sql_CreateRole n ds (Some t)))"
  "state_io_rel (lift_rel (same_elsewhere t)) (exec E (sql_UpdateRole n ds (Some t)))"
  "state_io_rel (lift_rel (same_elsewhere t)) (exec E (sql_DeleteRole n (Some t)))"
  "state_io_rel (lift_rel (same_elsewhere t)) (exec E (sql_AssignRoleToUser uid n t p))"
  "state_io_rel (lift_rel (same_elsewhere t)) (exec E (sql_RevokeRoleFromUser uid n t p))"
  "state_io_rel (lift_rel (same_elsewhere t)) (exec E (sql_GrantPermissionToRole n pn (Some t)))"
  "state_io_rel (lift_rel (same_elsewhere t)) (exec E (sql_RevokePermissionFromRole n pn (Some t)))"
  "state_io_rel (lift_rel (same_elsewhere t)) (exec E (sql_InsertAuditEvent a1 a2 a3 a4 a5 ten))"
  by (rule iso.exec_effect; erule iso_CreateRole iso_UpdateRole iso_DeleteRole iso_assignments iso_permissions iso_audit)+

lemma iso_read [iso_intros]:
  "state_io_rel (lift_rel (same_elsewhere t)) (exec E (sql_GetTenantRole n ten))"
  "state_io_rel (lift_rel (same_elsewhere t)) (exec E (sql_GetRoleInTenant n ten))"
  "state_io_rel (lift_rel (same_elsewhere t)) (exec E (sql_GetRoleByName n))"
  "state_io_rel (lift_rel (same_elsewhere t)) (exec E (sql_ListRolesWithPermissions ten))"
  "state_io_rel (lift_rel (same_elsewhere t)) (exec E sql_ListPermissions)"
  "state_io_rel (lift_rel (same_elsewhere t)) (exec E (sql_IsProjectInTenant p t'))"
  "state_io_rel (lift_rel (same_elsewhere t)) (exec E (sql_GetUserRoleAssignments u t'))"
  unfolding sql_GetTenantRole_def sql_GetRoleInTenant_def sql_GetRoleByName_def sql_ListRolesWithPermissions_def
    sql_ListPermissions_def sql_IsProjectInTenant_def sql_GetUserRoleAssignments_def
  by (rule iso.fetch_effect iso.fetch_one_effect)+

lemma iso_scan [iso_intros]: "state_io_rel (lift_rel (same_elsewhere t)) (scan_and_delete E pat fuel cursor)"
  by (induction fuel arbitrary: cursor) (auto intro!: iso_intros split: redis_reply.splits)

lemma iso_helpers [iso_intros]:
  "state_io_rel (lift_rel (same_elsewhere t)) (requirePerm ctx perm)"
  "state_io_rel (lift_rel (same_elsewhere t)) (audit E ctx c d e)"
  "state_io_rel (lift_rel (same_elsewhere t)) (InvalidatePerms E ca u)"
  "state_io_rel (lift_rel (same_elsewhere t)) (validateAssign E n p t')"
  "state_io_rel (lift_rel (same_elsewhere t)) (permRoleGuard E n t')"
  unfolding requirePerm_def audit_def auditAs_def InvalidatePerms_def validateAssign_def project_in_tenant_def
    permRoleGuard_def
  by (intro iso_intros)+

lemma iso_assign_each [iso_intros]:
  "state_io_rel (lift_rel (same_elsewhere t)) (assign_each E h n t p uids)"
  by (induction uids) (auto intro!: iso_intros split: prod.splits)

lemma check_of_sum: "check (of_sum (Inr t)) m = m t"
  by (simp add: check_def of_sum_def)

lemma iso_rbac:
  assumes "activeTenant E ctx = Inr t"
  shows "state_io_rel (lift_rel (same_elsewhere t)) (serve_rbac E h ctx r)"
  by (cases r; simp only: serve_rbac.simps effect_def CreateRole_def UpdateRole_def DeleteRole_def ListRoles_def
      AssignRole_def AssignRoleBulk_def RevokeRole_def ListPermissions_def GrantPermission_def RevokePermission_def
      GetUserRoleAssignments_def assms check_of_sum pgTenant_def; intro iso_intros)

text \<open>C10: whatever a caller asks for concerning roles, permissions or assignments, and whatever fails on the way,
  only the roles of the caller's active tenant, their permissions and the assignments in that tenant can change
  (the audit trail aside); at any point of any run of the service.\<close>

theorem rbac_stays_in_tenant:
  assumes "idle w0" and "wf_db (db w0)" and "role_scoped (db w0)" and "activeTenant E ctx = Inr t"
  shows "elsewhere t (db (serve_all E h (rs @ [(ctx, RbacRequest r)]) w0)) = elsewhere t (db (serve_all E h rs w0))"
proof -
  let ?w = "serve_all E h rs w0" and ?w' = "snd (run_state (serve_rbac E h ctx r) (serve_all E h rs w0))"
  have w: "idle ?w" "wf_db (db ?w)" "role_scoped (db ?w)"
    using scoped.kept_by_run [of w0 0 E h rs] assms(1-3) by auto
  have "same_elsewhere t (db ?w) (durable ?w')" by (rule lift_rel_idleD [OF iso_rbac [OF assms(4)] w(1)])
  moreover have "idle ?w'"
    using served_rbac_request [of E 0 h ctx r] w(1) by (auto simp: state_io_rel_def served_def dest: spec [of _ ?w])
  moreover have "serve_all E h (rs @ [(ctx, RbacRequest r)]) w0 = ?w'"
    by (induction rs arbitrary: w0) auto
  ultimately show ?thesis using w(2,3) by (simp add: same_elsewhere_def)
qed

section \<open>Witnesses\<close>

lemma scoped_d0: "role_scoped d0"
  by (simp add: role_scoped_def d0_def empty_db_def)

theorem rbac_stays_in_tenant_witness:
  "\<exists>w'. run_state (CreateRole E0 admin ''dev'' []) (world0 d0 1) = (Inr \<lparr>r_ID = 1004, r_Name = ''dev'', r_Description = [], r_TenantID = Some 1\<rparr>, w')
     \<and> elsewhere 1 (db (serve_all E0 h0 [(admin, RbacRequest (RCreateRole ''dev'' []))] (world0 d0 1))) = elsewhere 1 d0"
proof -
  have "\<exists>w'. run_state (CreateRole E0 admin ''dev'' []) (world0 d0 1) = (Inr \<lparr>r_ID = 1004, r_Name = ''dev'', r_Description = [], r_TenantID = Some 1\<rparr>, w')"
    using fixture_key(4)
    by (simp add: CreateRole_def isBuiltinRole_def run_requirePerm withTenant_def sql_CreateRole_def evals)
  moreover have "elsewhere 1 (db (serve_all E0 h0 ([] @ [(admin, RbacRequest (RCreateRole ''dev'' []))]) (world0 d0 1)))
      = elsewhere 1 (db (serve_all E0 h0 [] (world0 d0 1)))"
    by (rule rbac_stays_in_tenant) (simp_all add: wf_d0 scoped_d0 fixture_key)
  ultimately show ?thesis by simp
qed

end
