(* ===== verification/Rbac_Props.thy ===== *)
theory Rbac_Props
  imports Tenant_Isolation Transactions
begin

text \<open>
  What roles grant: assigning a role adds exactly its permissions, the creator of a tenant
  administers it, validation does not depend on the role of the connection, and where the
  handlers do: the least-privilege role, the built-in role \<open>viewer\<close> and the permission cache.
\<close>

section \<open>The access relation\<close>

text \<open>The permissions of a role, and the union over the assignments in scope.\<close>

definition role_perms :: "database \<Rightarrow> int \<Rightarrow> string set" where
  "role_perms d rid = {p_Name p | p rp. rp \<in> set (role_permissions d) \<and> rp_RoleID rp = rid
     \<and> p \<in> set (permissions d) \<and> p_ID p = rp_PermissionID rp}"

lemma granted_union:
  "granted d uid t p = (\<Union>ur \<in> {ur \<in> set (user_roles d). ur_UserID ur = uid \<and> ur_TenantID ur = t \<and> in_scope p ur}.
     role_perms d (ur_RoleID ur))"
  unfolding granted_def role_perms_def by blast

text \<open>
  The abstract specification of access: who may do what where. Assigning adds one triple of the
  relation \<open>assigned\<close>; \<open>granted\<close> is its composition with the permissions of roles.
\<close>

definition assigned :: "database \<Rightarrow> (uuid \<times> uuid \<times> uuid option \<times> int) set" where
  "assigned d = (\<lambda>ur. (ur_UserID ur, ur_TenantID ur, ur_ProjectID ur, ur_RoleID ur)) ` set (user_roles d)"

lemma granted_assigned:
  "granted d uid t p = {x. \<exists>q rid. (uid, t, q, rid) \<in> assigned d \<and> (q = None \<or> sql_eq q p) \<and> x \<in> role_perms d rid}"
    (is "?lhs = ?rhs")
proof (intro equalityI subsetI)
  fix x assume "x \<in> ?lhs"
  then obtain ur where "ur \<in> set (user_roles d)" "ur_UserID ur = uid" "ur_TenantID ur = t" "in_scope p ur"
    "x \<in> role_perms d (ur_RoleID ur)" by (auto simp: granted_union)
  then show "x \<in> ?rhs"
    by (intro CollectI exI [of _ "ur_ProjectID ur"] exI [of _ "ur_RoleID ur"])
       (auto simp: in_scope_def assigned_def intro!: image_eqI [of _ _ ur])
next
  fix x assume "x \<in> ?rhs"
  then show "x \<in> ?lhs" by (auto simp: granted_union assigned_def in_scope_def)
qed

lemma insert_user_role_assigned:
  assumes "insert_user_role ur c d = Inr (x, d')" and "wf_db d" and "0 \<notin> pj_ID ` set (projects d)" and "ur_ProjectID ur \<noteq> Some 0"
  shows "assigned d' = insert (ur_UserID ur, ur_TenantID ur, ur_ProjectID ur, ur_RoleID ur) (assigned d)"
    "role_perms d' = role_perms d" "d' = d\<lparr>user_roles := user_roles d'\<rparr>"
proof -
  have "assigned d' = insert (ur_UserID ur, ur_TenantID ur, ur_ProjectID ur, ur_RoleID ur) (assigned d)
      \<and> role_perms d' = role_perms d \<and> d' = d\<lparr>user_roles := user_roles d'\<rparr>"
  proof (cases "user_role_key ur \<in> user_role_key ` set (user_roles d)")
    case True
    then obtain u where u: "u \<in> set (user_roles d)" "user_role_key u = user_role_key ur" by auto
    have "ur_ProjectID u \<noteq> Some 0"
      using wf_dbD(6) [OF assms(2)] u(1) assms(3) by (auto simp: wf_user_roles_def)
    from u(2) have key: "ur_UserID u = ur_UserID ur" "ur_TenantID u = ur_TenantID ur" "ur_RoleID u = ur_RoleID ur"
      "(case ur_ProjectID u of None \<Rightarrow> 0 | Some p \<Rightarrow> p) = (case ur_ProjectID ur of None \<Rightarrow> 0 | Some p \<Rightarrow> p)"
      by (simp_all add: user_role_key_def)
    from key(4) \<open>ur_ProjectID u \<noteq> Some 0\<close> assms(4) have "ur_ProjectID u = ur_ProjectID ur"
      by (simp split: option.splits)
    with key have "(ur_UserID ur, ur_TenantID ur, ur_ProjectID ur, ur_RoleID ur)
        = (ur_UserID u, ur_TenantID u, ur_ProjectID u, ur_RoleID u)" by simp
    with u(1) have "(ur_UserID ur, ur_TenantID ur, ur_ProjectID ur, ur_RoleID ur) \<in> assigned d"
      unfolding assigned_def by (intro image_eqI [of _ _ u])
    moreover have "d' = d" using assms(1) True by (simp add: insert_user_role_def split: if_splits)
    ultimately show ?thesis by (simp add: insert_absorb)
  next
    case False
    with assms(1) have "d' = d\<lparr>user_roles := user_roles d @ [ur]\<rparr>"
      by (simp add: insert_user_role_def eq_commute [of d'] split: if_splits)
    then show ?thesis by (simp add: assigned_def role_perms_def fun_eq_iff)
  qed
  then show "assigned d' = insert (ur_UserID ur, ur_TenantID ur, ur_ProjectID ur, ur_RoleID ur) (assigned d)"
    "role_perms d' = role_perms d" "d' = d\<lparr>user_roles := user_roles d'\<rparr>" by simp_all
qed

lemma InvalidatePerms_db:
  assumes "idle w"
  shows "db (snd (run_state (InvalidatePerms E ca u) w)) = db w" "idle (snd (run_state (InvalidatePerms E ca u) w))"
proof -
  have "\<forall>w. idle w \<longrightarrow> db (snd (run_state (scan_and_delete E pat fuel cursor) w)) = db w
      \<and> idle (snd (run_state (scan_and_delete E pat fuel cursor) w))" for pat fuel cursor
    by (induction fuel arbitrary: cursor) (auto simp: idle_def split: redis_reply.splits)
  with assms show "db (snd (run_state (InvalidatePerms E ca u) w)) = db w" "idle (snd (run_state (InvalidatePerms E ca u) w))"
    by (simp_all add: InvalidatePerms_def)
qed

lemma project_in_tenant_InrD:
  assumes "run_state (project_in_tenant E pid t) w = (Inr u, w')" and "idle w"
  shows "db w' = db w" "idle w'" "pid \<noteq> [] \<longrightarrow> (\<exists>p. uuid_parse E pid = Some p \<and> p \<in> pj_ID ` set (projects (db w)))"
  using assms by (auto simp: project_in_tenant_def sql_IsProjectInTenant_def run_fetch_idle visible_projects_def
      split: if_splits option.splits)

lemma AssignRole_InrE:
  assumes "run_state (AssignRole E h ctx user_id role_name project_id) w = (Inr u, w')" and "idle w"
  obtains tenant uid c where "activeTenant E ctx = Inr tenant" and "uuid_parse E user_id = Some uid"
    and "id_HasPermission ctx ''role:assign''"
    and "project_id \<noteq> [] \<longrightarrow> (\<exists>p. uuid_parse E project_id = Some p \<and> p \<in> pj_ID ` set (projects (db w)))"
    and "roles_in_tenant role_name (Some tenant) c (db w) \<noteq> []"
    and "\<exists>d. sql_AssignRoleToUser uid role_name tenant (parseOptionalUUID E project_id) c (db w) = Inr ((), d)
       \<and> same_but_audit d (db w')"
proof -
  from assms(1) obtain tenant uid where t: "activeTenant E ctx = Inr tenant" "uuid_parse E user_id = Some uid"
    "id_HasPermission ctx ''role:assign''"
    by (cases "activeTenant E ctx"; cases "uuid_parse E user_id")
       (auto simp: AssignRole_def run_requirePerm split: if_splits)
  from assms(1) obtain x w1 y w2 z w3 v w4 where
    1: "run_state (exec E (sql_GetRoleInTenant role_name (Some tenant))) w = (Inr x, w1)"
    and 2: "run_state (project_in_tenant E project_id tenant) w1 = (Inr y, w2)"
    and 3: "run_state (withTenant E tenant (exec E (sql_AssignRoleToUser uid role_name tenant (parseOptionalUUID E project_id)))) w2 = (Inr z, w3)"
    and 4: "run_state (InvalidatePerms E (h_cache h) user_id) w3 = (v, w4)"
    and 5: "w' = snd (run_state (audit E ctx ''role.assign'' user_id role_name) w4)"
    unfolding AssignRole_def validateAssign_def run_check [of "requirePerm ctx p" for p] t option.case check_of_sum pgTenant_def
    by (simp add: run_requirePerm t(3) del: run_check run_or_return run_ignoring)
       (elim check_InrE or_return_InrE ignoringE, auto)
  note q1 = exec_Inr_idle [OF 1 assms(2)]
  then have w1: "db w1 = db w" "x \<in> set (roles_in_tenant role_name (Some tenant) (stmt_of E w) (db w))"
    by (auto simp: sql_GetRoleInTenant_def fetch_one_Some)
  note p = project_in_tenant_InrD [OF 2 q1(2)]
  from withTenant_cases [OF 3 p(2)] obtain c where
    q3: "sql_AssignRoleToUser uid role_name tenant (parseOptionalUUID E project_id) c (db w2) = Inr (z, db w3)"
    and c: "ran_as E IamRls tenant c" by auto
  from w1(2) c have "x \<in> set (roles_in_tenant role_name (Some tenant) c (db w))"
    by (auto simp: roles_in_tenant_def visible_roles_def rls_ok_def ran_as_def)
  then have found: "roles_in_tenant role_name (Some tenant) c (db w) \<noteq> []" by auto
  note i3 = withTenant_keeps(1) [OF 3 p(2)]
  note i4 = InvalidatePerms_db [OF i3, of E "h_cache h" user_id, unfolded 4 snd_conv]
  note a = audit_runs(2) [OF i4(2), of E ctx "id_UserID ctx" "id_Email ctx" "''role.assign''" user_id role_name, folded audit_def, folded 5]
  show thesis
    using that [OF t(1,2,3) _ found] p q3 i4(1) a w1(1) by auto
qed

text \<open>C13: a successful \<open>AssignRole\<close> adds one assignment to the access relation, of a role of that name that the
  caller's tenant can use, and nothing else: the user gains exactly the role's permissions in that tenant (and
  project), and nobody else gains or loses any anywhere.\<close>

theorem assign_role_refines:
  assumes "run_state (AssignRole E h ctx user_id role_name project_id) w = (Inr u, w')" and "idle w" and "wf_db (db w)"
    and "0 \<notin> pj_ID ` set (projects (db w))"
  shows "\<exists>uid t. \<exists>role \<in> set (roles (db w)). uuid_parse E user_id = Some uid \<and> activeTenant E ctx = Inr t
     \<and> id_HasPermission ctx ''role:assign'' \<and> r_Name role = role_name \<and> r_TenantID role \<in> {None, Some t}
     \<and> assigned (db w') = insert (uid, t, parseOptionalUUID E project_id, r_ID role) (assigned (db w))
     \<and> (\<forall>uid' t' p. granted (db w') uid' t' p = granted (db w) uid' t' p
          \<union> (if (uid', t') = (uid, t) \<and> (parseOptionalUUID E project_id = None \<or> sql_eq (parseOptionalUUID E project_id) p)
             then role_perms (db w) (r_ID role) else {}))"
proof -
  let ?p = "parseOptionalUUID E project_id"
  from assms(1,2) obtain t uid c where t: "activeTenant E ctx = Inr t" "uuid_parse E user_id = Some uid"
    "id_HasPermission ctx ''role:assign''"
    and project: "project_id \<noteq> [] \<longrightarrow> (\<exists>p. uuid_parse E project_id = Some p \<and> p \<in> pj_ID ` set (projects (db w)))"
    and found: "roles_in_tenant role_name (Some t) c (db w) \<noteq> []"
    and q: "\<exists>d. sql_AssignRoleToUser uid role_name t ?p c (db w) = Inr ((), d) \<and> same_but_audit d (db w')"
    by (rule AssignRole_InrE)
  from q obtain d where d: "sql_AssignRoleToUser uid role_name t ?p c (db w) = Inr ((), d)" "same_but_audit d (db w')" by blast
  have same: "assigned (db w') = assigned d" "role_perms (db w') = role_perms d"
    using same_but_auditD(5,14,15) [OF d(2)] by (simp_all add: assigned_def role_perms_def fun_eq_iff)
  from found obtain role rest where Cons: "roles_in_tenant role_name (Some t) c (db w) = role # rest"
    by (cases "roles_in_tenant role_name (Some t) c (db w)") auto
  note role = first_role_in_tenant [OF Cons]
  have "?p \<noteq> Some 0" using project assms(4) by (auto simp: parseOptionalUUID_def split: if_splits)
  with Cons d(1) insert_user_role_assigned [OF _ assms(3,4)]
  have ins: "assigned d = insert (uid, t, ?p, r_ID role) (assigned (db w))" "role_perms d = role_perms (db w)"
    by (simp_all add: sql_AssignRoleToUser_def)
  have "granted (db w') uid' t' p = granted (db w) uid' t' p
        \<union> (if (uid', t') = (uid, t) \<and> (?p = None \<or> sql_eq ?p p) then role_perms (db w) (r_ID role) else {})" for uid' t' p
    unfolding granted_assigned same ins by auto
  with t role same ins show ?thesis
    by (intro exI [of _ uid] exI [of _ t] bexI [of _ role]) auto
qed

section \<open>Witnesses\<close>

lemma fixture_uuid: "T0_uuid_parse ''10'' = Some 10" "T0_uuid_parse [] = None"
  by (simp_all add: T0_uuid_parse_def is_digit_def digits_value_def decimal_digits_def)

lemma fixture_projects: "0 \<notin> pj_ID ` set (projects d0)"
  and fixture_viewer: "role \<in> set (roles d0) \<Longrightarrow> r_Name role = ''viewer'' \<Longrightarrow> r_ID role = 3"
  and fixture_assigned: "assigned d0 = {(10, 1, None, 1)}"
  by (auto simp: d0_def empty_db_def assigned_def)

lemma fixture_assign: "\<exists>w'. run_state (AssignRole E0 h0 admin ''10'' ''viewer'' []) (world0 d0 1) = (Inr (), w')"
  using fixture_key(4)
  by (simp add: AssignRole_def run_requirePerm validateAssign_def project_in_tenant_def sql_GetRoleInTenant_def
      withTenant_def InvalidatePerms_def fixture_uuid evals)

theorem assign_role_refines_witness:
  "\<exists>w'. run_state (AssignRole E0 h0 admin ''10'' ''viewer'' []) (world0 d0 1) = (Inr (), w')
     \<and> assigned (db w') = {(10, 1, None, 1), (10, 1, None, 3)}"
proof -
  obtain w' where run: "run_state (AssignRole E0 h0 admin ''10'' ''viewer'' []) (world0 d0 1) = (Inr (), w')"
    using fixture_assign by blast
  from assign_role_refines [OF run idle_world0(1), unfolded idle_world0, OF wf_d0 fixture_projects]
  obtain uid t role where "role \<in> set (roles d0)" "r_Name role = ''viewer''" "uuid_parse E0 ''10'' = Some uid"
    "activeTenant E0 admin = Inr t"
    and added: "assigned (db w') = insert (uid, t, parseOptionalUUID E0 [], r_ID role) (assigned d0)"
    by (elim exE bexE conjE)
  then have "uid = 10" "t = 1" "r_ID role = 3" "parseOptionalUUID E0 [] = None"
    using fixture_key(4) fixture_uuid fixture_viewer by (simp_all add: parseOptionalUUID_def)
  with run added show ?thesis by (auto simp: fixture_assigned)
qed

end
