(* ===== verification/Tenant_Props.thy ===== *)
theory Tenant_Props
  imports Rbac_Props Session_Props
begin

text \<open>
  Tenants: what creating one gives its creator, what a token for another tenant takes, and what the
  role of the database connection changes: nothing for validation, several handlers for the worse.
\<close>

section \<open>The role of the connection\<close>

text \<open>
  The service connects as a superuser or as \<^verbatim>\<open>iam_app\<close>, which is subject to row-level security.
  A statement that reads nothing but unprotected tables does not notice.
\<close>

abbreviation as_role :: "db_role \<Rightarrow> env \<Rightarrow> env" where
  "as_role r E \<equiv> E\<lparr>conn_role := r\<rparr>"

lemma stmt_of_role: "idle w \<Longrightarrow> stmt_of (as_role r E) w = (stmt_of E w)\<lparr>s_role := r\<rparr>"
  by (simp add: stmt_of_def idle_def)

lemma exec_role:
  assumes "idle w" and "\<And>c. q (c\<lparr>s_role := r\<rparr>) (db w) = q c (db w)"
  shows "run_state (exec (as_role r E) q) w = run_state (exec E q) w"
  using assms by (simp add: run_exec stmt_of_role)

lemma withTenantGUC_role:
  assumes "idle w" and "\<And>c. s_guc c = Some t \<Longrightarrow> q (c\<lparr>s_role := r\<rparr>) (db w) = q c (db w)"
  shows "run_state (withTenantGUC (as_role r E) t (exec (as_role r E) q)) w = run_state (withTenantGUC E t (exec E q)) w"
proof -
  let ?c = "\<lparr>s_now = dbclock E (step w), s_uuid = fresh_uuid E (Suc (Suc (step w))), s_serial = nextval E (Suc (Suc (step w))),
     s_role = conn_role E, s_guc = Some t, s_collate = collate E\<rparr>"
  have "q (?c\<lparr>s_role := r\<rparr>) (db w) = q ?c (db w)" by (rule assms(2)) simp
  then show ?thesis using assms(1)
    by (auto simp: withTenantGUC_def run_tx_begin run_deferring_rollback set_tenant_def run_tx_setting run_exec
        run_tx_commit abort_tx_def in_aborted_tx_def tick_def stmt_of_def idle_def
        split: if_splits sum.splits db_err.splits prod.splits)
qed

text \<open>Two computations agree when they agree stage by stage.\<close>

lemma check_cong:
  assumes "run_state m w = run_state m' w" and "\<And>x v. run_state m' w = (Inr x, v) \<Longrightarrow> run_state (k x) v = run_state (k' x) v"
  shows "run_state (check m k) w = run_state (check m' k') w"
  using assms by (auto split: prod.splits sum.splits)

lemma or_return_cong:
  assumes "run_state m w = run_state m' w" and "\<And>x v. run_state m' w = (Inr x, v) \<Longrightarrow> run_state (k x) v = run_state (k' x) v"
  shows "run_state (or_return m e k) w = run_state (or_return m' e k') w"
  using assms by (auto split: prod.splits sum.splits)

lemma concat_if_filter: "concat (map (\<lambda>x. if P x then [f x] else []) xs) = map f (filter P xs)"
  by (induction xs) auto

text \<open>In a tenant's scope the same roles and assignments are visible to any connection.\<close>

lemma role_names_scoped:
  assumes "role_scoped d" and "s_guc c = Some t"
  shows "role_names_of (c\<lparr>s_role := r\<rparr>) d (filter (\<lambda>ur. ur_TenantID ur = t \<and> P ur) (user_roles d))
       = role_names_of c d (filter (\<lambda>ur. ur_TenantID ur = t \<and> P ur) (user_roles d))"
proof -
  have "filter (\<lambda>x. r_ID x = ur_RoleID ur) (visible_roles c' d) = filter (\<lambda>x. r_ID x = ur_RoleID ur) (roles d)"
    if "ur \<in> set (user_roles d)" "ur_TenantID ur = t" "s_guc c' = Some t" for c' ur
    unfolding visible_roles_def filter_filter
    by (rule filter_cong [OF refl]) (use that assms(1) in \<open>auto simp: rls_ok_def role_scoped_def\<close>)
  then have "role_names_of c' d (filter (\<lambda>ur. ur_TenantID ur = t \<and> P ur) (user_roles d))
      = concat (map (\<lambda>ur. map r_Name (filter (\<lambda>x. r_ID x = ur_RoleID ur) (roles d)))
          (filter (\<lambda>ur. ur_TenantID ur = t \<and> P ur) (user_roles d)))" if "s_guc c' = Some t" for c'
    using that by (auto simp: role_names_of_def concat_if_filter intro!: arg_cong [of _ _ concat] map_cong)
  then show ?thesis using assms(2) by simp
qed

lemma scoped_queries_role:
  assumes "role_scoped d" and "s_guc c = Some t"
  shows "sql_GetUserRolesScoped uid t p (c\<lparr>s_role := r\<rparr>) d = sql_GetUserRolesScoped uid t p c d"
    "sql_GetUserPermissionsScoped uid t p (c\<lparr>s_role := r\<rparr>) d = sql_GetUserPermissionsScoped uid t p c d"
proof -
  have own: "scoped_assignments uid t p c' d = filter (\<lambda>ur. ur_TenantID ur = t \<and> ur_UserID ur = uid \<and> in_scope p ur) (user_roles d)"
    if "s_guc c' = Some t" for c'
    using that by (auto simp: scoped_assignments_def assignments_def visible_user_roles_def rls_ok_def intro!: filter_cong)
  show "sql_GetUserRolesScoped uid t p (c\<lparr>s_role := r\<rparr>) d = sql_GetUserRolesScoped uid t p c d"
    "sql_GetUserPermissionsScoped uid t p (c\<lparr>s_role := r\<rparr>) d = sql_GetUserPermissionsScoped uid t p c d"
    using own [of c] own [of "c\<lparr>s_role := r\<rparr>"] assms
    by (simp_all add: sql_GetUserRolesScoped_def sql_GetUserPermissionsScoped_def fetch_def role_names_scoped)
qed

lemma load_role:
  assumes "idle w" and "role_scoped (db w)"
  shows "run_state (load_roles (as_role r E) uid (Some t) p) w = run_state (load_roles E uid (Some t) p) w"
    and "run_state (load_perms (as_role r E) uid (Some t) p) w = run_state (load_perms E uid (Some t) p) w"
  unfolding load_roles_def load_perms_def option.case
  by (intro withTenantGUC_role [OF assms(1)] scoped_queries_role [OF assms(2)], assumption)+

lemma checks_role:
  assumes "idle w"
  shows "run_state (ParseAccess (as_role r E) m tok) w = run_state (ParseAccess E m tok) w"
    and "run_state (check_revoked (as_role r E) h jti) w = run_state (check_revoked E h jti) w"
    and "run_state (check_active (as_role r E) uid) w = run_state (check_active E uid) w"
    and "run_state (check_member (as_role r E) uid ten) w = run_state (check_member E uid ten) w"
proof -
  have denied: "IsDenied (as_role r E) (h_cache h) jti = IsDenied E (h_cache h) jti"
    by (simp add: IsDenied_def ask_redis_def)
  have parse: "parse_at (as_role r E) m now tok = parse_at E m now tok" for now
    by (simp add: parse_at_def keyfunc_def cong: if_cong)
  show "run_state (ParseAccess (as_role r E) m tok) w = run_state (ParseAccess E m tok) w"
    by (simp add: run_ParseAccess parse)
  have idle: "idle (w\<lparr>redis_log := l, step := n\<rparr>)" for l n using assms by (simp add: idle_def)
  show "run_state (check_revoked (as_role r E) h jti) w = run_state (check_revoked E h jti) w"
    unfolding check_revoked_def denied
    by (auto simp: IsDenied_def assms idle exec_role sql_IsTokenRevoked_def fetch_def split: option.splits redis_reply.splits)
  show "run_state (check_active (as_role r E) uid) w = run_state (check_active E uid) w"
    by (simp add: check_active_def exec_role [OF assms] sql_IsUserActive_def fetch_one_def)
  show "run_state (check_member (as_role r E) uid ten) w = run_state (check_member E uid ten) w"
    by (simp add: check_member_def exec_role [OF assms] sql_IsActiveMember_def fetch_def split: option.splits)
qed

lemma parseOptionalUUID_role: "parseOptionalUUID (as_role r E) x = parseOptionalUUID E x"
  by (simp add: parseOptionalUUID_def)

lemma cached_perms_role:
  assumes "idle w" and "role_scoped (db w)"
  shows "run_state (cached_perms (as_role r E) h c uid (Some t)) w = run_state (cached_perms E h c uid (Some t)) w"
proof -
  have cache: "GetPerms (as_role r E) (h_cache h) a b s = GetPerms E (h_cache h) a b s"
    "SetPerms (as_role r E) (h_cache h) a b s ps = SetPerms E (h_cache h) a b s ps"
    for a b s ps by (simp_all add: GetPerms_def SetPerms_def ask_redis_def)
  obtain g v where g: "run_state (GetPerms E (h_cache h) (cl_TenantID c) (cl_ProjectID c) (cl_Subject c)) w = (g, v)"
    by fastforce
  then have "idle v" "db v = db w" using assms(1) by (auto simp: GetPerms_def idle_def split: if_splits)
  with g assms(2) show ?thesis
    by (cases g) (simp_all add: cached_perms_def cache load_role parseOptionalUUID_role)
qed

lemma validate_tail_role:
  assumes "idle v" and "role_scoped (db v)" and "cl_TenantID c \<noteq> []"
  shows "run_state (check (check_active (as_role r E) uid) (\<lambda>_. check (check_member (as_role r E) uid (cl_TenantID c)) (\<lambda>ten.
      or_return (load_roles (as_role r E) uid ten p) e (\<lambda>ros. check (cached_perms (as_role r E) h c uid ten) (k ros))))) v
    = run_state (check (check_active E uid) (\<lambda>_. check (check_member E uid (cl_TenantID c)) (\<lambda>ten.
      or_return (load_roles E uid ten p) e (\<lambda>ros. check (cached_perms E h c uid ten) (k ros))))) v"
proof (rule check_cong [OF checks_role(3) [OF assms(1)]], rule check_cong)
  fix x v1 assume active: "run_state (check_active E uid) v = (Inr x, v1)"
  note v1 = check_active_InrD [OF active assms(1)]
  show "run_state (check_member (as_role r E) uid (cl_TenantID c)) v1 = run_state (check_member E uid (cl_TenantID c)) v1"
    by (rule checks_role(4) [OF v1(2)])
  fix ten v2 assume member: "run_state (check_member E uid (cl_TenantID c)) v1 = (Inr ten, v2)"
  note v2 = check_member_InrD [OF member v1(2)]
  then obtain t where t: "ten = Some t" using assms(3) by auto
  have scoped: "role_scoped (db v2)" using v1(1) v2(1) assms(2) by simp
  show "run_state (or_return (load_roles (as_role r E) uid ten p) e (\<lambda>ros. check (cached_perms (as_role r E) h c uid ten) (k ros))) v2
      = run_state (or_return (load_roles E uid ten p) e (\<lambda>ros. check (cached_perms E h c uid ten) (k ros))) v2"
    unfolding t
  proof (rule or_return_cong [OF load_role(1) [OF v2(2) scoped]])
    fix ros v3 assume "run_state (load_roles E uid (Some t) p) v2 = (Inr ros, v3)"
    from load_InrD(1) [OF v2(2) this] scoped
    show "run_state (check (cached_perms (as_role r E) h c uid (Some t)) (k ros)) v3 = run_state (check (cached_perms E h c uid (Some t)) (k ros)) v3"
      by (intro check_cong [OF cached_perms_role]) simp_all
  qed
qed

text \<open>C32: for tokens bound to a tenant it makes no difference with which database role the service connects:
  validation gives the same answer and leaves the same state.\<close>

theorem validation_ignores_connection_role:
  assumes "idle w" and "role_scoped (db w)"
    and "\<forall>c. parse_at E (h_jwt h) (clock E (step w)) tok = Some c \<longrightarrow> cl_TenantID c \<noteq> []"
  shows "run_state (ValidateToken (E\<lparr>conn_role := r\<rparr>) h tok) w = run_state (ValidateToken E h tok) w"
  unfolding ValidateToken_def
  apply (rule or_return_cong [OF checks_role(1) [OF assms(1)]])
  subgoal premises parsed for c v
  proof -
    note p = ParseAccess_InrD [OF parsed]
    then have v: "idle v" "db v = db w" "cl_TenantID c \<noteq> []" using assms by auto
    show ?thesis
      apply (rule check_cong [OF checks_role(2) [OF v(1)]])
      subgoal premises revoked for _ v2
        by (cases "uuid_parse E (cl_Subject c)")
           (simp_all del: run_check add: parseOptionalUUID_role validate_tail_role check_revoked_InrD [OF revoked v(1)] v assms(2))
      done
  qed
  done

section \<open>What the least-privilege role breaks\<close>

text \<open>
  Statements run outside a tenant transaction have no \<^verbatim>\<open>app.tenant_id\<close>: as \<^verbatim>\<open>iam_app\<close> they see no
  role that a tenant owns and may not insert an assignment.
\<close>

lemma permRoleGuard_refuses:
  assumes "idle w" and "conn_role E = IamApp"
  shows "\<exists>e w'. run_state (permRoleGuard E rn t) w = (Inl e, w') \<and> db w' = db w"
proof -
  have none: "tenant_roles rn (Some t) (stmt_of E w) (db w) = []"
    using assms by (auto simp: tenant_roles_def visible_roles_def rls_ok_def stmt_of_idle filter_empty_conv)
  show ?thesis
    by (simp add: permRoleGuard_def pgTenant_def sql_GetTenantRole_def run_fetch_one_idle [OF assms(1)] none)
qed

lemma guarded_refused:
  assumes "idle w" and "conn_role E = IamApp"
  shows "\<exists>e w'. run_state (check (requirePerm ctx perm) (\<lambda>_. check (of_sum (activeTenant E ctx)) (\<lambda>t.
     check (permRoleGuard E rn t) (k t)))) w = (Inl e, w') \<and> db w' = db w"
proof (cases "activeTenant E ctx")
  case (Inr t)
  obtain e w' where "run_state (permRoleGuard E rn t) w = (Inl e, w')" "db w' = db w"
    using permRoleGuard_refuses [OF assms] by blast
  then show ?thesis by (simp add: run_requirePerm Inr)
qed (simp add: run_requirePerm)

lemma CreateTenant_InrE:
  assumes "run_state (CreateTenant E ctx slug nm) w = (Inr t, w')" and "idle w"
  obtains uid c1 c2 c3 d1 d2 d3
  where "callerID E ctx = Inr uid" and "id_HasPermission ctx ''tenant:write''"
    and "sql_CreateTenant slug nm c1 (db w) = Inr (t, d1)"
    and "sql_CreateMembership uid (t_ID t) c2 d1 = Inr ((), d2)"
    and "sql_AssignRoleInTenant uid ''admin'' (t_ID t) c3 d2 = Inr ((), d3)"
    and "s_role c3 = conn_role E" and "s_guc c3 = None"
    and "same_but_audit d3 (db w')" and "idle w'"
proof -
  from assms(1) have perm: "id_HasPermission ctx ''tenant:write''" "\<not> (slug = [] \<or> nm = [])"
    by (auto simp: CreateTenant_def run_requirePerm split: if_splits)
  with assms(1) obtain uid where uid: "callerID E ctx = Inr uid"
    by (cases "callerID E ctx") (auto simp: CreateTenant_def run_requirePerm)
  have step0: "run_state (requirePerm ctx ''tenant:write'') w = (Inr (), w)" using perm by (simp add: run_requirePerm)
  from assms(1) obtain b v t' v1 x2 v2 x3 v3 x4 v4 u where
    1: "run_state (tx_begin E) w = (Inr b, v)"
    and 2: "run_state (exec E (sql_CreateTenant slug nm)) v = (Inr t', v1)"
    and 3: "run_state (exec E (sql_CreateMembership uid (t_ID t'))) v1 = (Inr x2, v2)"
    and 4: "run_state (exec E (sql_AssignRoleInTenant uid ''admin'' (t_ID t'))) v2 = (Inr x3, v3)"
    and 5: "run_state (tx_commit E) v3 = (Inr x4, v4)"
    and 6: "run_state (ignoring (audit E ctx ''tenant.create'' (uuid_string E (t_ID t')) slug) (ok t' :: Tenant handler)) v4 = (Inr t, u)"
    and same: "tx u = None \<longrightarrow> w' = u"
    unfolding CreateTenant_def run_check [of "requirePerm ctx ''tenant:write''"] step0 prod.case sum.case if_not_P [OF perm(2)] uid check_of_sum
    by (elim transaction_InrE or_return_InrE) ((drule meta_spec)+, (drule meta_mp, assumption)+, assumption)
  note d = tx_begin_InrD [OF 1] exec_InrD [OF 2] exec_InrD [OF 3] exec_InrD [OF 4] tx_commit_InrD [OF 5]
  from d obtain x where x: "tx v2 = Some x" "tx_role x = conn_role E" "tx_guc x = None" by auto
  then have c: "s_role (stmt_of E v2) = conn_role E" "s_guc (stmt_of E v2) = None" by (simp_all add: stmt_of_def)
  have "idle v4" using d by (simp add: idle_def)
  note a = audit_runs(1,2) [OF this, of E ctx "id_UserID ctx" "id_Email ctx" "''tenant.create''" "uuid_string E (t_ID t')" slug]
  have u: "idle u" "same_but_audit (db v4) (db u)" "t' = t" using a 6 by (auto simp: audit_def)
  then have "w' = u" using same by (simp add: idle_def)
  with d c u uid perm show thesis by (intro that [of uid _ _ _ _ _ "db v3"]) auto
qed

lemma AssignRoleInTenant_iam_app:
  assumes "sql_AssignRoleInTenant uid n t c d = Inr (x, d')" and "s_role c \<noteq> Superuser" and "s_guc c = None"
  shows "\<forall>r \<in> set (roles d). r_Name r = n \<longrightarrow> r_TenantID r \<noteq> None"
proof -
  from assms have "filter (\<lambda>r. r_Name r = n \<and> r_TenantID r = None) (visible_roles c d) = []"
    by (auto simp: sql_AssignRoleInTenant_def insert_user_role_def rls_ok_def split: list.splits)
  then show ?thesis by (auto simp: visible_roles_def filter_empty_conv rls_ok_def)
qed

text \<open>C37: connected as \<^verbatim>\<open>iam_app\<close>, the least-privilege role, the service can neither create a tenant (as long as
  the shared role \<open>admin\<close> exists) nor change the permissions of a tenant's own role nor delete it: these handlers
  read or write protected tables outside a tenant transaction. Whoever asks, they answer with an error and
  leave the database as it was.\<close>

theorem least_privilege_breaks_handlers:
  assumes "idle w" and "conn_role E = IamApp" and "\<exists>r \<in> set (roles (db w)). r_Name r = ''admin'' \<and> r_TenantID r = None"
  shows "(\<exists>e w'. run_state (CreateTenant E ctx slug nm) w = (Inl e, w') \<and> db w' = db w)
     \<and> (\<exists>e w'. run_state (GrantPermission E ctx rn pn) w = (Inl e, w') \<and> db w' = db w)
     \<and> (\<exists>e w'. run_state (RevokePermission E ctx rn pn) w = (Inl e, w') \<and> db w' = db w)
     \<and> (\<exists>e w'. run_state (DeleteRole E ctx rn) w = (Inl e, w') \<and> db w' = db w)"
proof (intro conjI)
  show "\<exists>e w'. run_state (CreateTenant E ctx slug nm) w = (Inl e, w') \<and> db w' = db w"
  proof (cases "run_state (CreateTenant E ctx slug nm) w")
    case (Pair r w')
    show ?thesis
    proof (cases r)
      case (Inl e)
      with Pair failed_CreateTenant [OF assms(1)] show ?thesis by auto
    next
      case (Inr t)
      from Pair Inr have run: "run_state (CreateTenant E ctx slug nm) w = (Inr t, w')" by simp
      from run assms(1) obtain uid c1 c2 c3 d1 d2 d3
        where q: "callerID E ctx = Inr uid" "id_HasPermission ctx ''tenant:write''"
          "sql_CreateTenant slug nm c1 (db w) = Inr (t, d1)" "sql_CreateMembership uid (t_ID t) c2 d1 = Inr ((), d2)"
          "sql_AssignRoleInTenant uid ''admin'' (t_ID t) c3 d2 = Inr ((), d3)" "s_role c3 = conn_role E" "s_guc c3 = None"
          "same_but_audit d3 (db w')" "idle w'"
        by (rule CreateTenant_InrE)
      from q(3,4) have "roles d2 = roles (db w)"
        by (auto simp: sql_CreateTenant_def sql_CreateMembership_def Let_def split: if_splits)
      with AssignRoleInTenant_iam_app [OF q(5)] q(6,7) assms(2,3) show ?thesis by auto
    qed
  qed
  show "\<exists>e w'. run_state (DeleteRole E ctx rn) w = (Inl e, w') \<and> db w' = db w"
  proof (cases "activeTenant E ctx")
    case (Inr t)
    have none: "tenant_roles rn (Some t) (stmt_of E w) (db w) = []"
      using assms(1,2) by (auto simp: tenant_roles_def visible_roles_def rls_ok_def stmt_of_idle filter_empty_conv)
    show ?thesis
      by (simp add: DeleteRole_def run_requirePerm Inr pgTenant_def sql_GetTenantRole_def run_fetch_one_idle [OF assms(1)] none)
  qed (simp add: DeleteRole_def run_requirePerm)
  show "\<exists>e w'. run_state (GrantPermission E ctx rn pn) w = (Inl e, w') \<and> db w' = db w"
    unfolding GrantPermission_def by (rule guarded_refused [OF assms(1,2)])
  show "\<exists>e w'. run_state (RevokePermission E ctx rn pn) w = (Inl e, w') \<and> db w' = db w"
    unfolding RevokePermission_def by (rule guarded_refused [OF assms(1,2)])
qed

section \<open>Creating a tenant and switching to one\<close>

lemma active_member_new:
  assumes "sql_CreateTenant slug nm c1 d = Inr (t, d1)" and "sql_CreateMembership uid (t_ID t) c2 d1 = Inr ((), d2)"
    and "wf_db d"
  shows "active_member d2 uid (t_ID t)" "tenants d2 = tenants d @ [t]" "roles d2 = roles d"
    "user_roles d2 = user_roles d" "role_permissions d2 = role_permissions d" "permissions d2 = permissions d"
    "t_Slug t = slug" "t_Name t = nm" "t_ID t \<notin> t_ID ` set (tenants d)" "slug \<notin> t_Slug ` set (tenants d)"
proof -
  from assms(1) have d1: "d1 = d\<lparr>tenants := tenants d @ [t]\<rparr>" and t: "t_Slug t = slug" "t_Name t = nm" "t_Status t = ''active''"
    "t_ID t \<notin> t_ID ` set (tenants d)" "slug \<notin> t_Slug ` set (tenants d)"
    by (auto simp: sql_CreateTenant_def Let_def split: if_splits)
  have "m_TenantID m \<in> t_ID ` set (tenants d)" if "m \<in> set (memberships d)" for m
    using wf_dbD(9) [OF assms(3)] that by (simp add: wf_memberships_def)
  with t(4) have new: "(uid, t_ID t) \<notin> (\<lambda>m. (m_UserID m, m_TenantID m)) ` set (memberships d1)" by (auto simp: d1)
  define m where "m = \<lparr>m_UserID = uid, m_TenantID = t_ID t, m_Status = ''active'', m_CreatedAt = s_now c2\<rparr>"
  from assms(2) new have d2: "d2 = d1\<lparr>memberships := memberships d1 @ [m]\<rparr>"
    by (simp add: sql_CreateMembership_def eq_commute [of d2] m_def split: if_splits)
  show "active_member d2 uid (t_ID t)"
    unfolding active_member_def by (intro bexI [of _ m] bexI [of _ t]) (simp_all add: d2 d1 m_def t(3))
  show "tenants d2 = tenants d @ [t]" "roles d2 = roles d" "user_roles d2 = user_roles d"
    "role_permissions d2 = role_permissions d" "permissions d2 = permissions d"
    "t_Slug t = slug" "t_Name t = nm" "t_ID t \<notin> t_ID ` set (tenants d)" "slug \<notin> t_Slug ` set (tenants d)"
    using t by (simp_all add: d2 d1)
qed

lemma AssignRoleInTenant_assigned:
  assumes "sql_AssignRoleInTenant uid n t c d = Inr ((), d')" and "\<forall>ur \<in> set (user_roles d). ur_TenantID ur \<noteq> t"
    and "r \<in> set (visible_roles c d)" "r_Name r = n" "r_TenantID r = None"
    and "distinct (map (\<lambda>r. (r_Name r, r_TenantID r)) (roles d))"
  shows "assigned d' = insert (uid, t, None, r_ID r) (assigned d)"
proof -
  from assms(3-5) have "r \<in> set (filter (\<lambda>r. r_Name r = n \<and> r_TenantID r = None) (visible_roles c d))" by simp
  then obtain x xs where xs: "filter (\<lambda>r. r_Name r = n \<and> r_TenantID r = None) (visible_roles c d) = x # xs"
    by (cases "filter (\<lambda>r. r_Name r = n \<and> r_TenantID r = None) (visible_roles c d)") auto
  note first = first_template [OF xs]
  have "x = r"
    using unique_row [OF assms(6), of x r] first assms(3-5) by (simp add: visible_roles_def)
  define ur where "ur = \<lparr>ur_UserID = uid, ur_RoleID = r_ID r, ur_TenantID = t, ur_ProjectID = None\<rparr>"
  have "user_role_key ur \<notin> user_role_key ` set (user_roles d)"
    using assms(2) by (auto simp: user_role_key_def ur_def)
  with assms(1) xs \<open>x = r\<close> have "d' = d\<lparr>user_roles := user_roles d @ [ur]\<rparr>"
    by (simp add: sql_AssignRoleInTenant_def insert_user_role_def ur_def eq_commute [of d'] split: if_splits)
  then show ?thesis by (simp add: assigned_def ur_def)
qed

lemma AssignRoleInTenant_keeps:
  "sql_AssignRoleInTenant uid n t c d = Inr (x, d') \<Longrightarrow> d' = d\<lparr>user_roles := user_roles d'\<rparr>"
  by (auto simp: sql_AssignRoleInTenant_def insert_user_role_def split: list.splits if_splits)

text \<open>C27: creating a tenant adds one active tenant under a new id and an unused slug, makes the caller an active
  member of it, and gives the caller there exactly the permissions of the shared role \<open>admin\<close>; nobody else's
  permissions change anywhere.\<close>

theorem create_tenant_makes_admin:
  assumes "run_state (CreateTenant E ctx slug nm) w = (Inr t, w')" and "idle w" and "wf_db (db w)"
    and "role \<in> set (roles (db w))" and "r_Name role = ''admin''" and "r_TenantID role = None"
  shows "\<exists>uid. callerID E ctx = Inr uid \<and> id_HasPermission ctx ''tenant:write''
     \<and> tenants (db w') = tenants (db w) @ [t] \<and> t_Slug t = slug \<and> t_Name t = nm
     \<and> t_ID t \<notin> t_ID ` set (tenants (db w)) \<and> slug \<notin> t_Slug ` set (tenants (db w))
     \<and> active_member (db w') uid (t_ID t)
     \<and> (\<forall>uid' t' p. granted (db w') uid' t' p =
          (if (uid', t') = (uid, t_ID t) then role_perms (db w) (r_ID role) else granted (db w) uid' t' p))"
proof -
  from assms(1,2) obtain uid c1 c2 c3 d1 d2 d3
    where caller: "callerID E ctx = Inr uid" "id_HasPermission ctx ''tenant:write''"
      and q1: "sql_CreateTenant slug nm c1 (db w) = Inr (t, d1)" and q2: "sql_CreateMembership uid (t_ID t) c2 d1 = Inr ((), d2)"
      and q3: "sql_AssignRoleInTenant uid ''admin'' (t_ID t) c3 d2 = Inr ((), d3)" and "s_role c3 = conn_role E" "s_guc c3 = None"
      and a: "same_but_audit d3 (db w')" and "idle w'"
    by (rule CreateTenant_InrE)
  note new = active_member_new [OF q1 q2 assms(3)]
  have others: "ur_TenantID ur \<in> t_ID ` set (tenants (db w))" if "ur \<in> set (user_roles (db w))" for ur
    using wf_dbD(6) [OF assms(3)] that by (simp add: wf_user_roles_def)
  then have fresh: "\<forall>ur \<in> set (user_roles (db w)). ur_TenantID ur \<noteq> t_ID t" using new(9) by metis
  have visible: "role \<in> set (visible_roles c3 d2)" using assms(4,6) new(3) by (simp add: visible_roles_def rls_ok_def)
  have "distinct (map (\<lambda>r. (r_Name r, r_TenantID r)) (roles d2))"
    using wf_dbD(3) [OF assms(3)] new(3) by (simp add: wf_roles_def)
  from AssignRoleInTenant_assigned [OF q3 _ visible assms(5,6) this] fresh new(4)
  have "assigned d3 = insert (uid, t_ID t, None, r_ID role) (assigned d2)" by simp
  moreover note keep = AssignRoleInTenant_keeps [OF q3]
  have "role_perms d3 = role_perms d2" "memberships d3 = memberships d2" "tenants d3 = tenants d2"
    by (subst keep, simp add: role_perms_def fun_eq_iff)+
  moreover note same = same_but_auditD(5-7,14,15) [OF a]
  ultimately have access: "assigned (db w') = insert (uid, t_ID t, None, r_ID role) (assigned (db w))"
    "role_perms (db w') = role_perms (db w)"
    using new(4-6) by (simp_all add: assigned_def role_perms_def fun_eq_iff)
  have unassigned: "(uid', t_ID t, q, rid) \<notin> assigned (db w)" for uid' q rid
    using fresh by (auto simp: assigned_def)
  have "granted (db w') uid' t' p =
      (if (uid', t') = (uid, t_ID t) then role_perms (db w) (r_ID role) else granted (db w) uid' t' p)" for uid' t' p
    unfolding granted_assigned access using unassigned by auto
  moreover have "tenants (db w') = tenants (db w) @ [t]" "active_member (db w') uid (t_ID t)"
    using \<open>memberships d3 = memberships d2\<close> \<open>tenants d3 = tenants d2\<close> same(2,3) new(1,2) by (simp_all add: active_member_def)
  ultimately show ?thesis using caller new(7-10) by (intro exI [of _ uid]) simp
qed

lemma project_in_tenant_owned:
  assumes "run_state (project_in_tenant E pid t) w = (Inr u, w')" and "idle w"
  shows "db w' = db w" "idle w'"
    "pid \<noteq> [] \<Longrightarrow> \<exists>x \<in> set (projects (db w)). uuid_parse E pid = Some (pj_ID x) \<and> pj_TenantID x = t"
  using assms by (auto simp: project_in_tenant_def sql_IsProjectInTenant_def run_fetch_idle visible_projects_def
      split: if_splits option.splits)

text \<open>The stages of a successful switch.\<close>

lemma SwitchTenant_InrE:
  assumes "run_state (SwitchTenant E h ctx tenant_id project_id) w = (Inr pair, w')"
  obtains uid tid w1 x w2 user w3 y w4
  where "callerID E ctx = Inr uid" and "uuid_parse E tenant_id = Some tid"
    and "run_state (exec E (sql_IsActiveMember uid tid)) w = (Inr True, w1)"
    and "run_state (project_in_tenant E project_id tid) w1 = (Inr x, w2)"
    and "run_state (exec E (sql_GetUserByID uid)) w2 = (Inr user, w3)"
    and "run_state (audit E ctx ''tenant.switch'' tenant_id project_id) w3 = (y, w4)"
    and "run_state (issueTokens E h uid (u_Email user) tid (parseOptionalUUID E project_id)) w4 = (Inr pair, w')"
  using assms unfolding SwitchTenant_def by (elim run_elims) (simp add: that)

text \<open>C28: a caller gets a session in another tenant only as an active member of it, and bound to a project only
  if that is the tenant's own; the session is the caller's, and the access token carries exactly that tenant
  and project.\<close>

theorem switch_tenant_sound:
  assumes "run_state (SwitchTenant E h ctx tenant_id project_id) w = (Inr pair, w')" and "idle w"
  shows "\<exists>uid tid user row n. callerID E ctx = Inr uid \<and> uuid_parse E tenant_id = Some tid
     \<and> active_member (db w) uid tid \<and> user_of (db w) uid = Some user
     \<and> (project_id \<noteq> [] \<longrightarrow> (\<exists>x \<in> set (projects (db w)). parseOptionalUUID E project_id = Some (pj_ID x) \<and> pj_TenantID x = tid))
     \<and> refresh_tokens (db w') = refresh_tokens (db w) @ [row] \<and> live_row row
     \<and> rt_TokenHash row = hashToken E (tp_RefreshToken pair)
     \<and> rt_UserID row = uid \<and> rt_TenantID row = tid \<and> rt_ProjectID row = parseOptionalUUID E project_id
     \<and> jwt_sign E (key_Kid (j_active (h_jwt h)))
         (claims_json (issued_claims E h n uid (u_Email user) tid (parseOptionalUUID E project_id)))
         (key_Private (j_active (h_jwt h))) = Some (tp_AccessToken pair)"
proof -
  let ?p = "parseOptionalUUID E project_id"
  from assms(1) obtain uid tid w1 x w2 user w3 y w4 where
    uid: "callerID E ctx = Inr uid" and tid: "uuid_parse E tenant_id = Some tid"
    and 1: "run_state (exec E (sql_IsActiveMember uid tid)) w = (Inr True, w1)"
    and 2: "run_state (project_in_tenant E project_id tid) w1 = (Inr x, w2)"
    and 3: "run_state (exec E (sql_GetUserByID uid)) w2 = (Inr user, w3)"
    and au: "run_state (audit E ctx ''tenant.switch'' tenant_id project_id) w3 = (y, w4)"
    and 4: "run_state (issueTokens E h uid (u_Email user) tid ?p) w4 = (Inr pair, w')"
    by (rule SwitchTenant_InrE)
  note q1 = exec_Inr_idle [OF 1 assms(2)]
  note q2 = project_in_tenant_owned [OF 2 q1(2)]
  note q3 = exec_Inr_idle [OF 3 q2(2)]
  note a = audit_runs(1,2) [OF q3(2), of E ctx "id_UserID ctx" "id_Email ctx" "''tenant.switch''" tenant_id project_id, folded audit_def,
      unfolded au snd_conv]
  note i = issueTokens_InrD [OF 4 a(1)]
  have same: "db w1 = db w" "active_member (db w) uid tid" using q1(1) by (auto simp: sql_IsActiveMember_def fetch_Inr)
  have user: "user_of (db w) uid = Some user" "db w3 = db w"
    using q3(1) q2(1) same(1) by (auto simp: user_of_query split: option.splits)
  have project: "project_id \<noteq> [] \<Longrightarrow> \<exists>x \<in> set (projects (db w)). ?p = Some (pj_ID x) \<and> pj_TenantID x = tid"
    using q2(3) same(1) by (auto simp: parseOptionalUUID_def)
  from i(2) obtain row where "refresh_tokens (db w') = refresh_tokens (db w3) @ [row]"
    "rt_TokenHash row = hashToken E (tp_RefreshToken pair)" "live_row row" "rt_UserID row = uid" "rt_TenantID row = tid"
    "rt_ProjectID row = ?p"
    using same_but_auditD(2) [OF a(2)] by auto
  with i(1) user project same(2) uid tid show ?thesis
    by (intro exI [of _ uid] exI [of _ tid] exI [of _ user] exI [of _ row] exI conjI impI) simp_all
qed

section \<open>Witnesses\<close>

theorem validation_ignores_connection_role_witness:
  "\<exists>r v'. run_state (ValidateToken (E0\<lparr>conn_role := IamApp\<rparr>) h0 tok0) (world0 d0 1) = (Inr r, v')"
proof -
  obtain r v' where run: "run_state (ValidateToken E0 h0 tok0) (world0 d0 1) = (Inr r, v')"
    using fixture_validates by blast
  have "\<forall>c. parse_at E0 (h_jwt h0) (clock E0 (step (world0 d0 1))) tok0 = Some c \<longrightarrow> cl_TenantID c \<noteq> []"
    by (simp add: parse_tok0)
  from validation_ignores_connection_role [OF idle_world0(1) _ this, of IamApp] run scoped_d0 show ?thesis by simp
qed

theorem least_privilege_breaks_handlers_witness:
  "\<exists>e w'. run_state (CreateTenant E0_iam_app admin ''acme'' ''Acme'') (world0 d0 1) = (Inl e, w') \<and> db w' = d0"
proof -
  have "conn_role E0_iam_app = IamApp" by (simp add: E0_iam_app_def)
  moreover have "\<exists>r \<in> set (roles (db (world0 d0 1))). r_Name r = ''admin'' \<and> r_TenantID r = None" by (simp add: d0_def)
  ultimately have "\<exists>e w'. run_state (CreateTenant E0_iam_app admin ''acme'' ''Acme'') (world0 d0 1) = (Inl e, w') \<and> db w' = db (world0 d0 1)"
    using least_privilege_breaks_handlers [OF idle_world0(1), of E0_iam_app d0 1] by blast
  then show ?thesis by simp
qed

lemma fixture_create_tenant:
  "\<exists>t w'. run_state (CreateTenant E0 admin ''acme'' ''Acme'') (world0 d0 1) = (Inr t, w')"
  using fixture_key(3)
  by (simp add: CreateTenant_def run_requirePerm sql_CreateTenant_def sql_AssignRoleInTenant_def evals)

theorem create_tenant_makes_admin_witness:
  "\<exists>t w'. run_state (CreateTenant E0 admin ''acme'' ''Acme'') (world0 d0 1) = (Inr t, w')
     \<and> granted (db w') 10 (t_ID t) None = {''role:read'', ''role:write''}"
proof -
  obtain t w' where run: "run_state (CreateTenant E0 admin ''acme'' ''Acme'') (world0 d0 1) = (Inr t, w')"
    using fixture_create_tenant by blast
  have "role_perms d 1 = set (role_permission_names d 1)" for d
    by (auto simp: role_perms_def role_permission_names_def)
  then have "role_perms d0 1 = {''role:read'', ''role:write''}"
    by (simp add: role_permission_names_def d0_def insert_commute)
  with create_tenant_makes_admin [OF run idle_world0(1), of "\<lparr>r_ID = 1, r_Name = ''admin'', r_Description = [], r_TenantID = None\<rparr>"]
    run fixture_key(3) wf_d0 show ?thesis by (simp add: d0_def)
qed

theorem switch_tenant_sound_witness:
  "\<exists>pair w' row. run_state (SwitchTenant E0 h0 admin ''1'' []) (world0 d0 1) = (Inr pair, w')
     \<and> refresh_tokens (db w') = [row] \<and> rt_UserID row = 10"
proof -
  have "T0_uuid_parse ''1'' = Some 1"
    by (simp add: T0_uuid_parse_def is_digit_def digits_value_def decimal_digits_def)
  then obtain pair w' where run: "run_state (SwitchTenant E0 h0 admin ''1'' []) (world0 d0 1) = (Inr pair, w')"
    using fixture_key(3) by (simp add: SwitchTenant_def project_in_tenant_def evals)
  from switch_tenant_sound [OF run idle_world0(1)] run fixture_key(3) show ?thesis
    by (auto simp: d0_def empty_db_def)
qed

end
