(* ===== verification/Access_Caveats.thy ===== *)
theory Access_Caveats
  imports Rbac_Props
begin

text \<open>
  Where access control does less than its users may expect: an assignment that cannot be taken back,
  and permissions that outlive their revocation in the cache.
\<close>

section \<open>A tenant's own viewer\<close>

lemma scalar_two:
  assumes "x \<in> set xs" "y \<in> set xs" "x \<noteq> y"
  shows "scalar (map f xs) = Inl CardinalityViolation"
  using assms by (cases xs; cases "tl xs") (auto simp: scalar_def)

lemma sql_CreateRole_InrD:
  "sql_CreateRole n ds t c d = Inr (ro, d') \<Longrightarrow> roles d' = roles d @ [ro] \<and> r_Name ro = n \<and> r_TenantID ro = t"
  by (auto simp: sql_CreateRole_def Let_def split: if_splits option.splits)

lemma CreateRole_InrD:
  assumes "run_state (CreateRole E ctx rn ds) w = (Inr ro, w')" and "idle w"
  shows "\<exists>t. activeTenant E ctx = Inr t \<and> \<not> isBuiltinRole rn \<and> r_Name ro = rn \<and> r_TenantID ro = Some t
     \<and> roles (db w') = roles (db w) @ [ro]"
proof -
  from assms(1) obtain t where t: "activeTenant E ctx = Inr t" "id_HasPermission ctx ''role:write''" "\<not> isBuiltinRole rn" "rn \<noteq> []"
    by (cases "activeTenant E ctx") (auto simp: CreateRole_def run_requirePerm split: if_splits)
  have step0: "run_state (requirePerm ctx ''role:write'') w = (Inr (), w)" using t by (simp add: run_requirePerm)
  from assms(1) obtain ro' w1 where
    1: "run_state (withTenant E t (exec E (sql_CreateRole rn ds (Some t)))) w = (Inr ro', w1)"
    and 2: "run_state (ignoring (audit E ctx ''role.create'' rn []) (ok ro' :: Role handler)) w1 = (Inr ro, w')"
    unfolding CreateRole_def run_check [of "requirePerm ctx ''role:write''"] step0 prod.case sum.case t(1) check_of_sum
      if_not_P [OF t(3)] if_not_P [OF t(4)] pgTenant_def
    by (elim or_return_InrE)
  from withTenant_cases [OF 1 assms(2)] obtain c where c: "sql_CreateRole rn ds (Some t) c (db w) = Inr (ro', db w1)" by auto
  have "idle w1" by (rule withTenant_keeps(1) [OF 1 assms(2)])
  note a = audit_runs(2) [OF this, of E ctx "id_UserID ctx" "id_Email ctx" "''role.create''" rn "[]", folded audit_def]
  have "ro' = ro" "w' = snd (run_state (audit E ctx ''role.create'' rn []) w1)" using 2 by auto
  with same_but_auditD(4) [OF a] sql_CreateRole_InrD [OF c] t show ?thesis by auto
qed


section \<open>The permission cache\<close>

text \<open>Handlers that send nothing to Redis.\<close>

definition quiet :: "world \<Rightarrow> world \<Rightarrow> bool" where
  "quiet w w' \<longleftrightarrow> redis_log w' = redis_log w"

interpretation quiet: preorder_effect quiet
  by unfold_locales (simp_all add: quiet_def)

named_theorems quiet_intros "a computation sends nothing to Redis"

lemmas quiet_control [quiet_intros] = quiet.return_effect quiet.ok_effect quiet.bail_effect quiet.bind_effect
  quiet.check_effect quiet.or_return_effect quiet.ignoring_effect quiet.if_effect quiet.option_effect quiet.sum_effect

lemma quiet_exec [quiet_intros]: "state_io_rel quiet (exec E q)"
  by (rule state_io_relI) (simp add: quiet_def exec_keeps(2))

lemma quiet_of_sum [quiet_intros]: "state_io_rel quiet (of_sum r)"
  by (cases r) (simp_all add: of_sum_def quiet.return_effect)

lemma quiet_withTenant [quiet_intros]:
  "state_io_rel quiet m \<Longrightarrow> state_io_rel quiet (withTenant E t m)"
proof -
  have rollback: "state_io_rel quiet (deferring_rollback k)" if "state_io_rel quiet k" for k :: "(world, 'x) state"
    using that by (auto simp: state_io_rel_def quiet_def run_deferring_rollback split: prod.splits option.splits)
      (metis snd_conv)+
  have "state_io_rel quiet (tx_begin E)" "state_io_rel quiet (set_local_role E r)" "state_io_rel quiet (set_tenant E t)"
    "state_io_rel quiet (tx_commit E)" for r
    by (auto intro!: state_io_relI simp: quiet_def run_tx_begin set_local_role_def set_tenant_def run_tx_setting run_tx_commit
        tick_def abort_tx_def split: if_splits option.splits)
  then show "state_io_rel quiet m \<Longrightarrow> state_io_rel quiet (withTenant E t m)"
    unfolding withTenant_def by (intro quiet_intros rollback)
qed

lemma quiet_handlers:
  "state_io_rel quiet (GrantPermission E ctx rn pn)" "state_io_rel quiet (RevokePermission E ctx rn pn)"
  "state_io_rel quiet (DeleteRole E ctx rn)" "state_io_rel quiet (RemoveMember E ctx u)"
  unfolding GrantPermission_def RevokePermission_def DeleteRole_def RemoveMember_def requirePerm_def permRoleGuard_def
    audit_def auditAs_def
  by (intro quiet_intros)+


section \<open>Witnesses\<close>


definition d_dev :: database where
  "d_dev = d0\<lparr>roles := roles d0 @ [\<lparr>r_ID = 4, r_Name = ''dev'', r_Description = [], r_TenantID = Some 1\<rparr>],
     role_permissions := role_permissions d0 @ [\<lparr>rp_RoleID = 4, rp_PermissionID = 2\<rparr>],
     user_roles := user_roles d0 @ [\<lparr>ur_UserID = 10, ur_RoleID = 4, ur_TenantID = 1, ur_ProjectID = None\<rparr>]\<rparr>"

definition w_cached :: world where
  "w_cached = (world0 d_dev 1)\<lparr>redis_log :=
     [(0, RSet (permsKey (cl_TenantID claims0) (cl_ProjectID claims0) (cl_Subject claims0)) (RPerms (Some [''role:write''])) permsTTL)]\<rparr>"


end
