(* ===== verification/Event_Props.thy ===== *)
theory Event_Props
  imports Session_Facts "HOL-Library.Sublist"
begin

text \<open>
  The outbox relay: what it marks as published it has published before, in the order in which the
  events were created, and as many ticks as there are batches drain the outbox.
\<close>

section \<open>The queue the outbox is\<close>

text \<open>
  The abstract view of the outbox: the events that wait, oldest first, and the message each is
  published as.
\<close>

definition waiting :: "database \<Rightarrow> Outbox list" where
  "waiting d = sort_key o_CreatedAt (filter (\<lambda>r. o_PublishedAt r = None) (outbox d))"

definition message :: "env \<Rightarrow> Outbox \<Rightarrow> emission" where
  "message E r = Published (subject_prefix E @ o_EventType r) (o_Payload r) (uuid_string E (o_ID r))"

lemma filter_sort_key: "filter P (sort_key f xs) = sort_key f (filter P xs)"
  by (rule filter_sort)

text \<open>Marking an event takes exactly it out of the queue.\<close>

lemma mark_waiting:
  assumes "sql_MarkOutboxPublished i c d = Inr (x, d')"
  shows "waiting d' = filter (\<lambda>r. o_ID r \<noteq> i) (waiting d)" "map o_ID (outbox d') = map o_ID (outbox d)"
    "d' = d\<lparr>outbox := outbox d'\<rparr>"
proof -
  have "filter (\<lambda>r. o_PublishedAt r = None) (update_where (\<lambda>r. o_ID r = i) (\<lambda>r. r\<lparr>o_PublishedAt := Some n\<rparr>) rs)
      = filter (\<lambda>r. o_ID r \<noteq> i) (filter (\<lambda>r. o_PublishedAt r = None) rs)" for rs :: "Outbox list" and n
    by (induction rs) (auto simp: update_where_def)
  with assms show "waiting d' = filter (\<lambda>r. o_ID r \<noteq> i) (waiting d)" "map o_ID (outbox d') = map o_ID (outbox d)"
    "d' = d\<lparr>outbox := outbox d'\<rparr>"
    by (simp_all add: sql_MarkOutboxPublished_def perform_Inr waiting_def filter_sort map_update_where)
qed

lemma waiting_ids: "distinct (map o_ID (outbox d)) \<Longrightarrow> distinct (map o_ID (waiting d))"
  by (auto simp: waiting_def distinct_map distinct_sort inj_on_def)

lemma fetch_outbox: "sql_FetchUnpublishedOutbox n c d = Inr (take (nat n) (waiting d), d)"
  by (simp add: sql_FetchUnpublishedOutbox_def fetch_def waiting_def)

section \<open>One tick\<close>

text \<open>
  \<open>publish_rows\<close> on the head of the queue, whatever fails: a prefix of the rows is published and
  marked; the messages sent are theirs and at most one more, of the row at which it stopped.
\<close>

lemma publish_rows_run:
  assumes "waiting (db w) = rows @ rest" and "distinct (map o_ID (outbox (db w)))" and "idle w"
  shows "\<exists>k sent. let w' = snd (run_state (publish_rows E rows) w) in idle w'
     \<and> waiting (db w') = drop k (waiting (db w)) \<and> k \<le> length rows
     \<and> outputs w' = outputs w @ map (message E) (take k rows) @ sent
     \<and> (sent = [] \<or> k < length rows \<and> sent = [message E (rows ! k)])
     \<and> map o_ID (outbox (db w')) = map o_ID (outbox (db w))
     \<and> ((\<forall>n. \<not> io_fail E n) \<longrightarrow> k = length rows)"
  using assms
proof (induction rows arbitrary: w)
  case Nil
  then show ?case by (intro exI [of _ 0] exI [of _ "[]"]) simp
next
  case (Cons row rows)
  obtain r v where p: "run_state (Publish E (subject_prefix E @ o_EventType row) (o_Payload row) (uuid_string E (o_ID row))) w = (r, v)"
    by fastforce
  then have v: "idle v" "db v = db w" "step v = Suc (step w)"
    and out: "outputs v = outputs w @ (if r = Inl () \<and> lost E (step w) then [] else [message E row])"
    and r: "r = Inr () \<or> io_fail E (step w)"
    using Cons.prems(3) by (auto simp: Publish_def Let_def message_def idle_def split: if_splits)
  show ?case
  proof (cases "r = Inr ()")
    case False
    then obtain u where "r = Inl u" by (cases r) auto
    with p v out r Cons.prems(1) show ?thesis
      by (intro exI [of _ 0] exI [of _ "if lost E (step w) then [] else [message E row]"]) auto
  next
    case True
    obtain q v' where m: "run_state (exec E (sql_MarkOutboxPublished (o_ID row))) v = (q, v')" by fastforce
    note keeps = exec_keeps(3,4) [OF m]
    from m v(1) show ?thesis
    proof (cases rule: exec_cases)
      case (failed e)
      with m p True v out keeps Cons.prems(1) have "io_fail E (step v)"
        by (auto simp: run_exec sql_MarkOutboxPublished_def perform_def split: if_splits)
      with failed m p True v out keeps Cons.prems(1) show ?thesis
        by (intro exI [of _ 0] exI [of _ "[message E row]"]) auto
    next
      case (ran x)
      note mark = mark_waiting [OF ran(2)]
      have "distinct (map o_ID (row # rows @ rest))"
        using waiting_ids [OF Cons.prems(2)] Cons.prems(1) by simp
      then have "o_ID row \<notin> o_ID ` set (rows @ rest)" by (simp add: image_Un)
      then have "o_ID r \<noteq> o_ID row" if "r \<in> set (rows @ rest)" for r
        using that by (metis imageI)
      then have "filter (\<lambda>r. o_ID r \<noteq> o_ID row) (rows @ rest) = rows @ rest" by (intro filter_True ballI)
      then have "filter (\<lambda>r. o_ID r \<noteq> o_ID row) (row # rows @ rest) = rows @ rest" by simp
      with mark(1) v(2) Cons.prems(1) have "waiting (db v') = rows @ rest" by simp
      moreover have "distinct (map o_ID (outbox (db v')))" using mark(2) v(2) Cons.prems(2) by simp
      ultimately obtain k sent where IH: "let w' = snd (run_state (publish_rows E rows) v') in idle w'
         \<and> waiting (db w') = drop k (waiting (db v')) \<and> k \<le> length rows
         \<and> outputs w' = outputs v' @ map (message E) (take k rows) @ sent
         \<and> (sent = [] \<or> k < length rows \<and> sent = [message E (rows ! k)])
         \<and> map o_ID (outbox (db w')) = map o_ID (outbox (db v'))
         \<and> ((\<forall>n. \<not> io_fail E n) \<longrightarrow> k = length rows)"
        using Cons.IH ran(4) by blast
      have "run_state (publish_rows E (row # rows)) w = run_state (publish_rows E rows) v'"
        using p True m ran(1) by simp
      with IH \<open>waiting (db v') = rows @ rest\<close> Cons.prems(1) mark(2) v(2) out True keeps(1) show ?thesis
        by (intro exI [of _ "Suc k"] exI [of _ sent]) (auto simp: Let_def)
    qed
  qed
qed

text \<open>A tick takes the first hundred.\<close>

lemma drain_run:
  assumes "distinct (map o_ID (outbox (db w)))" and "idle w"
  shows "\<exists>k sent. let w' = snd (run_state (drain E NewRelay) w); q = waiting (db w) in idle w'
     \<and> waiting (db w') = drop k q \<and> outputs w' = outputs w @ map (message E) (take k q) @ sent
     \<and> set sent \<subseteq> message E ` set (drop k q)
     \<and> map o_ID (outbox (db w')) = map o_ID (outbox (db w))
     \<and> ((\<forall>n. \<not> io_fail E n) \<longrightarrow> k = min 100 (length q) \<and> sent = [])"
proof (cases "io_fail E (step w)")
  case True
  have "snd (run_state (drain E NewRelay) w) = tick w"
    using assms(2) True by (simp add: drain_def run_exec)
  with True assms(2) show ?thesis by (intro exI [of _ 0] exI [of _ "[]"]) auto
next
  case False
  let ?q = "waiting (db w)"
  have run: "run_state (drain E NewRelay) w = run_state (publish_rows E (take 100 ?q)) (tick w)"
    using assms(2) False by (simp add: drain_def run_exec fetch_outbox NewRelay_def)
  have "waiting (db (tick w)) = take 100 ?q @ drop 100 ?q" by simp
  from publish_rows_run [OF this, of E] assms obtain k sent where
    k: "let w' = snd (run_state (publish_rows E (take 100 ?q)) (tick w)) in idle w'
     \<and> waiting (db w') = drop k ?q \<and> k \<le> length (take 100 ?q)
     \<and> outputs w' = outputs w @ map (message E) (take k (take 100 ?q)) @ sent
     \<and> (sent = [] \<or> k < length (take 100 ?q) \<and> sent = [message E (take 100 ?q ! k)])
     \<and> map o_ID (outbox (db w')) = map o_ID (outbox (db w))
     \<and> ((\<forall>n. \<not> io_fail E n) \<longrightarrow> k = length (take 100 ?q))" by auto
  have "set sent \<subseteq> message E ` set (drop k ?q)"
  proof (cases "sent = []")
    case False
    with k have "k < length ?q" "sent = [message E (?q ! k)]" by (auto simp: Let_def)
    then show ?thesis by (auto simp: Cons_nth_drop_Suc [symmetric])
  qed simp
  with k run show ?thesis
    by (intro exI [of _ k] exI [of _ sent]) (auto simp: Let_def min_def split: if_splits)
qed

text \<open>What one tick sends and what the next ticks send, put together.\<close>

lemma sent_in_order:
  assumes "subseq (map f (take j (drop k q))) ms" and "set ms \<subseteq> f ` set (drop k q)" and "set sent \<subseteq> f ` set (drop k q)"
  shows "subseq (map f (take (k + j) q)) (map f (take k q) @ sent @ ms)"
    and "set (map f (take k q) @ sent @ ms) \<subseteq> f ` set q"
proof -
  show "subseq (map f (take (k + j) q)) (map f (take k q) @ sent @ ms)"
    unfolding take_add map_append
    using assms(1) by (intro list_emb_append_mono subseq_order.order_refl list_emb_append2)
  have "f ` set (drop k q) \<subseteq> f ` set q" "f ` set (take k q) \<subseteq> f ` set q"
    by (intro image_mono set_drop_subset set_take_subset)+
  with assms(2,3) show "set (map f (take k q) @ sent @ ms) \<subseteq> f ` set q"
    by (simp only: set_append set_map Un_subset_iff) (metis subset_trans)
qed

text \<open>C24: the relay loses no event and keeps their order: whatever fails, what a number of ticks takes off the queue
  of waiting events is its front, and their messages were sent in the order the events were created, perhaps some
  message more than once; nothing but messages of waiting events is sent. When nothing fails, each message is
  sent once, and \<open>n\<close> ticks drain up to \<open>100 * n\<close> events.\<close>

theorem outbox_relay_at_least_once:
  assumes "idle w" and "wf_db (db w)"
  shows "\<exists>k ms. let w' = snd (run_state (relay_ticks E NewRelay n) w); q = waiting (db w) in
       waiting (db w') = drop k q \<and> outputs w' = outputs w @ ms
     \<and> subseq (map (message E) (take k q)) ms \<and> set ms \<subseteq> message E ` set q
     \<and> ((\<forall>n. \<not> io_fail E n) \<longrightarrow> k = min (100 * n) (length q) \<and> ms = map (message E) (take k q))"
proof -
  have "distinct (map o_ID (outbox (db w)))" using wf_dbD(15) [OF assms(2)] .
  with assms(1) show ?thesis
  proof (induction n arbitrary: w)
    case 0
    then show ?case by (intro exI [of _ 0] exI [of _ "[]"]) simp
  next
    case (Suc n)
    let ?v = "snd (run_state (drain E NewRelay) w)" and ?q = "waiting (db w)"
    from drain_run [OF Suc.prems(2,1), of E] obtain k sent where k: "idle ?v" "waiting (db ?v) = drop k ?q"
      "outputs ?v = outputs w @ map (message E) (take k ?q) @ sent" "set sent \<subseteq> message E ` set (drop k ?q)"
      "map o_ID (outbox (db ?v)) = map o_ID (outbox (db w))"
      "(\<forall>n. \<not> io_fail E n) \<longrightarrow> k = min 100 (length ?q) \<and> sent = []" by (auto simp: Let_def)
    from Suc.IH [OF k(1)] k(5) Suc.prems(2) obtain j ms where
      j: "let w' = snd (run_state (relay_ticks E NewRelay n) ?v); q = waiting (db ?v) in
       waiting (db w') = drop j q \<and> outputs w' = outputs ?v @ ms
     \<and> subseq (map (message E) (take j q)) ms \<and> set ms \<subseteq> message E ` set q
     \<and> ((\<forall>n. \<not> io_fail E n) \<longrightarrow> j = min (100 * n) (length q) \<and> ms = map (message E) (take j q))" by auto
    have run: "snd (run_state (relay_ticks E NewRelay (Suc n)) w) = snd (run_state (relay_ticks E NewRelay n) ?v)"
      by simp
    note sent_in_order [of "message E" j k ?q ms sent]
    moreover have "(\<forall>n. \<not> io_fail E n) \<longrightarrow> k + j = min (100 * Suc n) (length ?q)
        \<and> map (message E) (take k ?q) @ sent @ ms = map (message E) (take (k + j) ?q)"
    proof (intro impI conjI)
      assume ok: "\<forall>n. \<not> io_fail E n"
      with k(2,6) j have kj: "k = min 100 (length ?q)" "sent = []" "j = min (100 * n) (length ?q - k)"
        "ms = map (message E) (take j (drop k ?q))" by (simp_all add: Let_def)
      from kj(1,3) show "k + j = min (100 * Suc n) (length ?q)" by (auto simp: min_def)
      show "map (message E) (take k ?q) @ sent @ ms = map (message E) (take (k + j) ?q)"
        unfolding take_add kj(2,4) by simp
    qed
    ultimately show ?case using k(2,3,4) j unfolding run
      by (intro exI [of _ "k + j"] exI [of _ "map (message E) (take k ?q) @ sent @ ms"])
         (auto simp: Let_def add.commute)
  qed
qed

section \<open>The SCAN loop\<close>

text \<open>
  \<^verbatim>\<open>InvalidatePerms\<close> loops until the server returns the cursor 0. \<open>scan_rounds E\<close> bounds the model's loop;
  \<open>scan_ends\<close> says that the loop ended by itself within a number of rounds.
\<close>

fun scan_ends :: "env \<Rightarrow> string \<Rightarrow> nat \<Rightarrow> nat \<Rightarrow> world \<Rightarrow> bool" where
  "scan_ends E pat 0 cursor w = False"
| "scan_ends E pat (Suc n) cursor w = (case run_state (ask_redis E (RScan cursor pat 100)) w of
     (RKeys keys next, w') \<Rightarrow> next = 0 \<or>
       scan_ends E pat n next (if keys \<noteq> [] then snd (run_state (ask_redis E (RDel keys)) w') else w')
   | _ \<Rightarrow> True)"

text \<open>No command of the loop sets a key, so what it deletes stays deleted.\<close>

definition deletes_only :: "world \<Rightarrow> world \<Rightarrow> bool" where
  "deletes_only w w' \<longleftrightarrow> (\<exists>l. redis_log w' = redis_log w @ l \<and> (\<forall>(t, c) \<in> set l. \<forall>k v ttl. c \<noteq> RSet k v ttl))"

interpretation deletes: preorder_effect deletes_only
  by unfold_locales (force simp: deletes_only_def)+

lemma deletes_scan: "state_io_rel deletes_only (scan_and_delete E pat n cursor)"
proof (induction n arbitrary: cursor)
  case (Suc n)
  have "state_io_rel deletes_only (ask_redis E c)" if "\<forall>k v ttl. c \<noteq> RSet k v ttl" for c
    using that by (auto intro!: state_io_relI simp: deletes_only_def)
  with Suc show ?case
    by (auto intro!: deletes.bind_effect deletes.ignoring_effect deletes.return_effect split: redis_reply.splits)
qed (auto intro: deletes.return_effect)

lemma deletes_keep_gone:
  assumes "deletes_only w w'" and "redis_store (redis_log w) k = None"
  shows "redis_store (redis_log w') k = None"
proof -
  have "fold redis_effect l st k = None" if "\<forall>(t, c) \<in> set l. \<forall>k v ttl. c \<noteq> RSet k v ttl" "st k = None" for l st
    using that
  proof (induction l arbitrary: st)
    case (Cons x l)
    obtain t c where x: "x = (t, c)" by fastforce
    have "redis_effect x st k = None" using Cons.prems by (cases c) (auto simp: x)
    with Cons show ?case by auto
  qed simp
  with assms show ?thesis by (auto simp: deletes_only_def redis_store_def)
qed

text \<open>The keys the server returned to the loop.\<close>

fun scan_found :: "env \<Rightarrow> string \<Rightarrow> nat \<Rightarrow> nat \<Rightarrow> world \<Rightarrow> string list" where
  "scan_found E pat 0 cursor w = []"
| "scan_found E pat (Suc n) cursor w = (case run_state (ask_redis E (RScan cursor pat 100)) w of
     (RKeys keys next, w') \<Rightarrow> keys @ (if next = 0 then []
       else scan_found E pat n next (if keys \<noteq> [] then snd (run_state (ask_redis E (RDel keys)) w') else w'))
   | _ \<Rightarrow> [])"

text \<open>The world after one round whose reply had these keys.\<close>

definition after_round :: "env \<Rightarrow> string \<Rightarrow> nat \<Rightarrow> string list \<Rightarrow> world \<Rightarrow> world" where
  "after_round E pat cursor keys w = (let w' = snd (run_state (ask_redis E (RScan cursor pat 100)) w) in
     if keys \<noteq> [] then snd (run_state (ask_redis E (RDel keys)) w') else w')"

lemma scan_round:
  assumes "redis E (redis_log w) (clock E (step w)) (RScan cursor pat 100) = RKeys keys next"
  shows "run_state (scan_and_delete E pat (Suc n) cursor) w
       = (if next = 0 then ((), after_round E pat cursor keys w)
          else run_state (scan_and_delete E pat n next) (after_round E pat cursor keys w))"
    and "k \<in> set keys \<Longrightarrow> redis_store (redis_log (after_round E pat cursor keys w)) k = None"
  using assms by (auto simp: after_round_def Let_def redis_store_def)

lemma scan_ends_run:
  "scan_ends E pat n cursor w \<Longrightarrow> n \<le> m \<Longrightarrow>
     run_state (scan_and_delete E pat m cursor) w = run_state (scan_and_delete E pat n cursor) w
     \<and> (\<forall>k \<in> set (scan_found E pat n cursor w).
          redis_store (redis_log (snd (run_state (scan_and_delete E pat m cursor) w))) k = None)"
proof (induction n arbitrary: m cursor w)
  case (Suc n)
  then obtain m' where m: "m = Suc m'" "n \<le> m'" by (cases m) auto
  let ?reply = "redis E (redis_log w) (clock E (step w)) (RScan cursor pat 100)"
  show ?case
  proof (cases "\<exists>keys next. ?reply = RKeys keys next")
    case False
    then show ?thesis by (cases ?reply) (auto simp: m)
  next
    case True
    then obtain keys nxt where r: "?reply = RKeys keys nxt" by blast
    note round = scan_round [OF r]
    let ?v = "after_round E pat cursor keys w"
    have found: "scan_found E pat (Suc n) cursor w = keys @ (if nxt = 0 then [] else scan_found E pat n nxt ?v)"
      using r by (simp add: after_round_def Let_def)
    show ?thesis
    proof (cases "nxt = 0")
      case True
      with found have keys: "scan_found E pat (Suc n) cursor w = keys" by simp
      from True have "run_state (scan_and_delete E pat (Suc i) cursor) w = ((), after_round E pat cursor keys w)" for i
        using round(1) by (simp only: if_True simp_thms)
      with round(2) show ?thesis unfolding keys m by (simp only: snd_conv simp_thms) blast
    next
      case False
      then have "scan_ends E pat n nxt ?v" using Suc.prems(1) r by (simp add: after_round_def Let_def)
      note IH = Suc.IH [OF this m(2)]
      have "deletes_only ?v (snd (run_state (scan_and_delete E pat m' nxt) ?v))"
        using deletes_scan by (simp add: state_io_rel_def)
      from deletes_keep_gone [OF this] round(2) have gone:
        "\<forall>k \<in> set keys. redis_store (redis_log (snd (run_state (scan_and_delete E pat m' nxt) ?v))) k = None" by blast
      from False have runs: "run_state (scan_and_delete E pat (Suc i) cursor) w = run_state (scan_and_delete E pat i nxt) ?v" for i
        using round(1) by (simp only: if_False simp_thms)
      from False found have keys: "scan_found E pat (Suc n) cursor w = keys @ scan_found E pat n nxt ?v" by simp
      show ?thesis unfolding m runs keys set_append ball_Un using IH gone by (intro conjI) blast+
    qed
  qed
qed simp

lemma scan_rounds_irrelevant: "scan_and_delete (E\<lparr>scan_rounds := m\<rparr>) pat n cursor = scan_and_delete E pat n cursor"
proof (induction n arbitrary: cursor)
  case (Suc n)
  have "ask_redis (E\<lparr>scan_rounds := m\<rparr>) c = ask_redis E c" for c by (simp add: ask_redis_def)
  then show ?case by (simp add: Suc.IH cong: redis_reply.case_cong if_cong)
qed simp

text \<open>When the server ends its scan within the model's number of rounds, the bound plays no role: any
  larger one gives the same run. Every cached permission set the scan returned is gone afterwards.\<close>

theorem invalidation_runs_to_the_end:
  assumes "c_rdb ca" and "scan_ends E (perms_pattern u) n 0 w" and "n \<le> scan_rounds E" and "scan_rounds E \<le> m"
  shows "run_state (InvalidatePerms (E\<lparr>scan_rounds := m\<rparr>) ca u) w = run_state (InvalidatePerms E ca u) w
     \<and> (\<forall>k \<in> set (scan_found E (perms_pattern u) n 0 w).
          redis_store (redis_log (snd (run_state (InvalidatePerms E ca u) w))) k = None)"
proof -
  have "n \<le> m" using assms(3,4) by simp
  note any = scan_ends_run [OF assms(2) this] and own = scan_ends_run [OF assms(2,3)]
  from any own have "run_state (scan_and_delete E (perms_pattern u) m 0) w
      = run_state (scan_and_delete E (perms_pattern u) (scan_rounds E) 0) w" by simp
  moreover have "InvalidatePerms (E\<lparr>scan_rounds := m\<rparr>) ca u = scan_and_delete E (perms_pattern u) m 0"
    "InvalidatePerms E ca u = scan_and_delete E (perms_pattern u) (scan_rounds E) 0"
    using assms(1) by (simp_all add: InvalidatePerms_def scan_rounds_irrelevant)
  ultimately show ?thesis using conjunct2 [OF own] by (simp only: simp_thms) 
qed

section \<open>Witnesses\<close>

definition event0 :: Outbox where
  "event0 = \<lparr>o_ID = 5, o_AggregateID = 10, o_EventType = ''user.registered'', o_Payload = ''p'', o_CreatedAt = 0, o_PublishedAt = None\<rparr>"

definition d_event :: database where
  "d_event = d0\<lparr>outbox := [event0]\<rparr>"

theorem outbox_relay_at_least_once_witness:
  "outputs (snd (run_state (relay_ticks E0 NewRelay 1) (world0 d_event 1))) = [message E0 event0]
   \<and> waiting (db (snd (run_state (relay_ticks E0 NewRelay 1) (world0 d_event 1)))) = []"
proof -
  have "wf_db d_event" unfolding d_event_def by (rule wf_db_replace [OF wf_d0]) simp
  then have "wf_db (db (world0 d_event 1))" by simp
  from outbox_relay_at_least_once [OF idle_world0(1) this, of E0 1]
  obtain k ms where "let w' = snd (run_state (relay_ticks E0 NewRelay 1) (world0 d_event 1)); q = waiting (db (world0 d_event 1)) in
       waiting (db w') = drop k q \<and> outputs w' = outputs (world0 d_event 1) @ ms
     \<and> ((\<forall>n. \<not> io_fail E0 n) \<longrightarrow> k = min (100 * 1) (length q) \<and> ms = map (message E0) (take k q))"
    by (auto simp: Let_def)
  moreover have "waiting d_event = [event0]" by (simp add: waiting_def d_event_def event0_def)
  ultimately show ?thesis by (simp add: Let_def)
qed

definition E_scan :: env where
  "E_scan = E0\<lparr>redis := (\<lambda>log now c. case c of RScan cur _ _ \<Rightarrow> if cur = 0 then RKeys [''perms:1:-:10''] 7 else RKeys [] 0 | _ \<Rightarrow> ROk)\<rparr>"

theorem invalidation_runs_to_the_end_witness:
  "redis_store (redis_log (snd (run_state (InvalidatePerms E_scan (h_cache h0_redis) ''10'') (world0 d0 1)))) ''perms:1:-:10'' = None"
proof -
  have "scan_ends E_scan (perms_pattern ''10'') 2 0 (world0 d0 1)" "2 \<le> scan_rounds E_scan"
    "''perms:1:-:10'' \<in> set (scan_found E_scan (perms_pattern ''10'') 2 0 (world0 d0 1))"
    by (simp_all add: E_scan_def numeral_2_eq_2) 
  with invalidation_runs_to_the_end [of "h_cache h0_redis" E_scan "''10''" 2 "world0 d0 1" "scan_rounds E_scan"] show ?thesis
    by simp
qed

end
