(* ===== verification/Refresh_Refinement.thy ===== *)
theory Refresh_Refinement
  imports Refresh_Props
begin

text \<open>
  Refresh tokens as an abstract machine: a token is live, rotated or revoked and belongs to a user, a tenant and
  a project. Every statement of the service is a step of the machine, and \<^verbatim>\<open>Refresh\<close> implements its
  specification.
\<close>

section \<open>The abstract machine\<close>

datatype token_status = Live | Rotated | Revoked

type_synonym owner = "uuid \<times> uuid \<times> uuid option"
type_synonym sessions = "string \<Rightarrow> (token_status \<times> owner) option"

definition issue :: "string \<Rightarrow> owner \<Rightarrow> sessions \<Rightarrow> sessions" where
  "issue h own s = s(h \<mapsto> (Live, own))"

definition retire :: "token_status \<Rightarrow> (string \<Rightarrow> owner \<Rightarrow> bool) \<Rightarrow> sessions \<Rightarrow> sessions" where
  "retire st P s = (\<lambda>h. case s h of Some (Live, own) \<Rightarrow> Some (if P h own then st else Live, own) | x \<Rightarrow> x)"

definition forget :: "uuid \<Rightarrow> sessions \<Rightarrow> sessions" where
  "forget uid s = (\<lambda>h. case s h of Some (st, own) \<Rightarrow> if fst own = uid then None else Some (st, own) | None \<Rightarrow> None)"

text \<open>
  A token is issued under a name that is not in use and can be drawn (\<open>fresh\<close>); live tokens are rotated one by
  one or revoked; the tokens of a user disappear with the user.
\<close>

inductive session_step :: "(string \<Rightarrow> bool) \<Rightarrow> sessions \<Rightarrow> sessions \<Rightarrow> bool" for fresh where
  Issue: "fresh h \<Longrightarrow> s h = None \<Longrightarrow> session_step fresh s (issue h own s)"
| Rotate: "session_step fresh s (retire Rotated (\<lambda>h' own. h' = h) s)"
| Revoke: "session_step fresh s (retire Revoked P s)"
| Forget: "session_step fresh s (forget uid s)"

text \<open>How a single token may change: a live one may become anything, one that is not stays as it is or disappears.\<close>

definition aged :: "(token_status \<times> owner) option \<Rightarrow> (token_status \<times> owner) option \<Rightarrow> bool" where
  "aged x y \<longleftrightarrow> (case x of None \<Rightarrow> y = None
     | Some (st, own) \<Rightarrow> y = None \<or> (\<exists>st'. y = Some (st', own) \<and> (st = Live \<or> st' = st)))"

lemma aged_step: "session_step fresh s s' \<Longrightarrow> \<not> fresh h \<Longrightarrow> aged (s h) (s' h)"
  by (induction rule: session_step.induct)
     (auto simp: aged_def issue_def retire_def forget_def split: option.splits token_status.splits)

lemma aged_trans: "aged x y \<Longrightarrow> aged y z \<Longrightarrow> aged x z"
  by (auto simp: aged_def split: option.splits)

lemma aged_steps: "(session_step fresh)\<^sup>*\<^sup>* s s' \<Longrightarrow> \<not> fresh h \<Longrightarrow> aged (s h) (s' h)"
proof (induction rule: rtranclp_induct)
  case base
  show ?case by (simp add: aged_def split: option.splits)
next
  case (step t u)
  then show ?case using aged_step aged_trans by blast
qed

section \<open>The abstraction\<close>

definition status_of :: "RefreshToken \<Rightarrow> token_status" where
  "status_of r = (if rt_RevokedAt r = None then Live else if rotated r then Rotated else Revoked)"

lemma status_Live [simp]: "status_of r = Live \<longleftrightarrow> rt_RevokedAt r = None"
  by (simp add: status_of_def)

definition owner_of :: "RefreshToken \<Rightarrow> owner" where
  "owner_of r = (rt_UserID r, rt_TenantID r, rt_ProjectID r)"

definition sessions_of :: "database \<Rightarrow> sessions" where
  "sessions_of d = (\<lambda>h. map_option (\<lambda>r. (status_of r, owner_of r)) (row_of d h))"

lemma sessions_cong: "refresh_tokens d' = refresh_tokens d \<Longrightarrow> sessions_of d' = sessions_of d"
  by (simp add: sessions_of_def row_of_def)

text \<open>A row that is not revoked was not rotated.\<close>

definition rotations_revoke :: "database \<Rightarrow> bool" where
  "rotations_revoke d \<longleftrightarrow> (\<forall>r \<in> set (refresh_tokens d). rt_RevokedAt r = None \<longrightarrow> rt_ReplacedBy r = None)"

lemma rotations_revoke_step: "db_step E since d d' \<Longrightarrow> rotations_revoke d \<Longrightarrow> rotations_revoke d'"
  by (induction rule: db_step.induct;
      auto simp: sql_write_defs rotations_revoke_def in_update_where split: if_splits list.splits sum.splits option.splits)

section \<open>Every statement is a step\<close>

lemma sessions_retire:
  assumes "rotations_revoke d" and "refresh_tokens d' = update_where C f (refresh_tokens d)"
    and "\<And>r. C r \<longleftrightarrow> P (rt_TokenHash r) (owner_of r) \<and> rt_RevokedAt r = None"
    and "\<And>r. rt_TokenHash (f r) = rt_TokenHash r" and "\<And>r. owner_of (f r) = owner_of r"
    and "\<And>r. rt_ReplacedBy r = None \<Longrightarrow> status_of (f r) = st"
  shows "sessions_of d' = retire st P (sessions_of d)"
proof
  fix h
  have row: "row_of d' h = map_option (\<lambda>r. if C r then f r else r) (row_of d h)"
    unfolding row_of_def assms(2) by (rule find_update_where_same) (simp add: assms(4))
  show "sessions_of d' h = retire st P (sessions_of d) h"
  proof (cases "row_of d h")
    case None
    with row show ?thesis by (simp add: sessions_of_def retire_def)
  next
    case (Some r)
    then have r: "r \<in> set (refresh_tokens d)" "rt_TokenHash r = h" by (auto dest: row_ofD)
    show ?thesis
    proof (cases "C r")
      case True
      with assms(3) have live: "rt_RevokedAt r = None" "P h (owner_of r)" using r(2) by auto
      with assms(1) r(1) have "status_of (f r) = st" by (intro assms(6)) (simp add: rotations_revoke_def)
      moreover have "status_of r = Live" using live(1) by simp
      ultimately show ?thesis using True row Some live(2)
        by (simp add: sessions_of_def retire_def assms(5) del: status_Live)
    next
      case False
      with assms(3) r(2) have "status_of r = Live \<longrightarrow> \<not> P h (owner_of r)" by auto
      then show ?thesis using False row Some
        by (cases "status_of r") (auto simp: sessions_of_def retire_def simp del: status_Live)
    qed
  qed
qed

lemma sessions_issue:
  assumes "refresh_tokens d' = refresh_tokens d @ [r]" and "rt_TokenHash r \<notin> rt_TokenHash ` set (refresh_tokens d)"
    and "rt_RevokedAt r = None"
  shows "sessions_of d (rt_TokenHash r) = None" "sessions_of d' = issue (rt_TokenHash r) (owner_of r) (sessions_of d)"
proof -
  have none: "row_of d (rt_TokenHash r) = None" using assms(2) by (auto simp: row_of_def find_None_iff image_iff)
  then show "sessions_of d (rt_TokenHash r) = None" by (simp add: sessions_of_def)
  show "sessions_of d' = issue (rt_TokenHash r) (owner_of r) (sessions_of d)"
  proof
    fix h
    show "sessions_of d' h = issue (rt_TokenHash r) (owner_of r) (sessions_of d) h"
      using none assms(3) by (cases "row_of d h")
        (auto simp: sessions_of_def issue_def row_of_def assms(1) find_append status_of_def)
  qed
qed

lemma sessions_forget:
  assumes "wf_db d" and "refresh_tokens d' = delete_where (\<lambda>r. rt_UserID r = uid) (refresh_tokens d)"
  shows "sessions_of d' = forget uid (sessions_of d)"
proof
  fix h
  have uniq: "row_of d h = Some r" if "r \<in> set (refresh_tokens d)" "rt_TokenHash r = h" for r
    using row_ofI [OF assms(1) that] .
  have "row_of d' h = (case row_of d h of Some r \<Rightarrow> if rt_UserID r = uid then None else Some r | None \<Rightarrow> None)"
  proof (cases "row_of d' h")
    case None
    then have "\<forall>r \<in> set (refresh_tokens d). rt_UserID r \<noteq> uid \<longrightarrow> rt_TokenHash r \<noteq> h"
      by (auto simp: row_of_def find_None_iff assms(2))
    with None show ?thesis by (auto dest!: row_ofD split: option.splits)
  next
    case (Some r)
    from row_ofD [OF this] have "r \<in> set (refresh_tokens d)" "rt_UserID r \<noteq> uid" "rt_TokenHash r = h" by (simp_all add: assms(2))
    with Some uniq show ?thesis by simp
  qed
  then show "sessions_of d' h = forget uid (sessions_of d) h"
    by (cases "row_of d h") (simp_all add: sessions_of_def forget_def owner_of_def)
qed

text \<open>The statements that touch refresh tokens, as operations of the machine.\<close>

lemma session_statements:
  "sql_RevokeRefreshToken h c d = Inr (x, d') \<Longrightarrow> rotations_revoke d \<Longrightarrow>
     sessions_of d' = retire Revoked (\<lambda>h' own. h' = h) (sessions_of d)"
  "sql_RevokeAllUserRefreshTokens uid c d = Inr (x, d') \<Longrightarrow> rotations_revoke d \<Longrightarrow>
     sessions_of d' = retire Revoked (\<lambda>h' own. fst own = uid) (sessions_of d)"
  "sql_RotateRefreshToken h succ c d = Inr (x, d') \<Longrightarrow> rotations_revoke d \<Longrightarrow>
     sessions_of d' = retire (if succ = None \<or> succ = Some [] then Revoked else Rotated) (\<lambda>h' own. h' = h) (sessions_of d)"
  "sql_CreateRefreshToken uid h t tid pid c d = Inr (r, d') \<Longrightarrow>
     sessions_of d h = None \<and> sessions_of d' = issue h (uid, tid, pid) (sessions_of d)"
  "sql_DeleteUser uid c d = Inr (x, d') \<Longrightarrow> wf_db d \<Longrightarrow> sessions_of d' = forget uid (sessions_of d)"
proof -
  show "sessions_of d' = retire Revoked (\<lambda>h' own. h' = h) (sessions_of d)"
    if "sql_RevokeRefreshToken h c d = Inr (x, d')" "rotations_revoke d"
    by (rule sessions_retire [OF that(2), where f = "\<lambda>r. r\<lparr>rt_RevokedAt := Some (s_now c)\<rparr>"]) (use that(1) in
        \<open>auto simp: sql_RevokeRefreshToken_def perform_Inr status_of_def owner_of_def rotated_def\<close>)
  show "sessions_of d' = retire Revoked (\<lambda>h' own. fst own = uid) (sessions_of d)"
    if "sql_RevokeAllUserRefreshTokens uid c d = Inr (x, d')" "rotations_revoke d"
    by (rule sessions_retire [OF that(2), where f = "\<lambda>r. r\<lparr>rt_RevokedAt := Some (s_now c)\<rparr>"]) (use that(1) in
        \<open>auto simp: sql_RevokeAllUserRefreshTokens_def perform_Inr status_of_def owner_of_def rotated_def\<close>)
  show "sessions_of d' = retire (if succ = None \<or> succ = Some [] then Revoked else Rotated) (\<lambda>h' own. h' = h) (sessions_of d)"
    if "sql_RotateRefreshToken h succ c d = Inr (x, d')" "rotations_revoke d"
    by (rule sessions_retire [OF that(2), where f = "\<lambda>r. r\<lparr>rt_RevokedAt := Some (s_now c), rt_ReplacedBy := succ\<rparr>"]) (use that(1) in
        \<open>auto simp: sql_RotateRefreshToken_def perform_Inr status_of_def owner_of_def rotated_def split: option.splits\<close>)
  show "sessions_of d h = None \<and> sessions_of d' = issue h (uid, tid, pid) (sessions_of d)"
    if "sql_CreateRefreshToken uid h t tid pid c d = Inr (r, d')"
  proof -
    from that have "refresh_tokens d' = refresh_tokens d @ [r]" "rt_TokenHash r = h" "h \<notin> rt_TokenHash ` set (refresh_tokens d)"
      "rt_RevokedAt r = None" "owner_of r = (uid, tid, pid)"
      by (auto simp: sql_CreateRefreshToken_def Let_def owner_of_def split: if_splits)
    with sessions_issue [of d' d r] show ?thesis by simp
  qed
  show "sessions_of d' = forget uid (sessions_of d)" if "sql_DeleteUser uid c d = Inr (x, d')" "wf_db d"
    by (rule sessions_forget [OF that(2)]) (use that(1) in \<open>auto simp: sql_DeleteUser_def perform_Inr\<close>)
qed

section \<open>Every run of the service is a run of the machine\<close>

text \<open>The contract of a simulation: what a single statement simulates, every run does.\<close>

locale simulation =
  fixes E :: env and since :: nat and I :: "database \<Rightarrow> bool" and abs :: "database \<Rightarrow> 'a" and astep :: "'a \<Rightarrow> 'a \<Rightarrow> bool"
  assumes simulated: "db_step E since d d' \<Longrightarrow> I d \<Longrightarrow> astep\<^sup>*\<^sup>* (abs d) (abs d')"
    and kept: "db_step E since d d' \<Longrightarrow> I d \<Longrightarrow> I d'"
begin

lemma simulated_path: "(db_step E since)\<^sup>*\<^sup>* d d' \<Longrightarrow> I d \<Longrightarrow> astep\<^sup>*\<^sup>* (abs d) (abs d') \<and> I d'"
  by (induction rule: rtranclp_induct) (auto intro: kept rtranclp_trans simulated)

lemma simulated_served:
  assumes "served E since w w'" and "idle w" and "since \<le> step w" and "I (db w)"
  shows "astep\<^sup>*\<^sup>* (abs (db w)) (abs (db w')) \<and> I (db w') \<and> idle w'"
proof -
  have "idle w'" "(db_step E since)\<^sup>*\<^sup>* (durable w) (durable w')"
    using assms(1-3) by (auto simp: served_def lift_rel_def tx_within_def idle_def)
  with assms(2,4) simulated_path show ?thesis by auto
qed

end

definition sound_sessions :: "database \<Rightarrow> bool" where
  "sound_sessions d \<longleftrightarrow> wf_db d \<and> rotations_revoke d"

lemma db_step_session:
  assumes "db_step E since d d'" and "sound_sessions d"
  shows "(session_step (mintable E since))\<^sup>*\<^sup>* (sessions_of d) (sessions_of d')"
proof -
  have I: "wf_db d" "rotations_revoke d" using assms(2) by (simp_all add: sound_sessions_def)
  from assms(1) show ?thesis
  proof cases
    case (DeleteUser uid c x)
    with session_statements(5) I show ?thesis by (metis Forget r_into_rtranclp)
  next
    case (CreateRefreshToken uid h t tid pid c r)
    with session_statements(4) show ?thesis by (metis Issue r_into_rtranclp)
  next
    case (RevokeRefreshToken h c x)
    with session_statements(1) I show ?thesis by (metis Revoke r_into_rtranclp)
  next
    case (RotateRefreshToken h s' c x)
    with session_statements(3) I have "sessions_of d' = retire (if s' = None \<or> s' = Some [] then Revoked else Rotated) (\<lambda>h' own. h' = h) (sessions_of d)"
      by blast
    then show ?thesis by (auto intro: Revoke Rotate)
  next
    case (RevokeAllUserRefreshTokens uid c x)
    with session_statements(2) I show ?thesis by (metis Revoke r_into_rtranclp)
  qed (subst sessions_cong; auto simp: sql_write_defs split: if_splits list.splits sum.splits option.splits)+
qed

interpretation sessions: simulation E since sound_sessions sessions_of "session_step (mintable E since)" for E since
  by unfold_locales (auto simp: sound_sessions_def intro: db_step_session wf_db_step rotations_revoke_step)

text \<open>C7: seen through its refresh tokens, every run of the service is a run of the abstract machine, whatever requests
  are served and whatever fails: tokens are issued only under names not in use that were drawn during the run, rotated or
  revoked while they are live, and forgotten with their user. So a token that was rotated or revoked
  before stays so for as long as it exists, none changes its owner, and none that did not exist appears
  unless it was drawn.\<close>

theorem sessions_refine:
  assumes "idle w" and "wf_db (db w)" and "rotations_revoke (db w)"
  shows "(session_step (mintable E (step w)))\<^sup>*\<^sup>* (sessions_of (db w)) (sessions_of (db (serve_all E h rs w)))
     \<and> (\<forall>k. \<not> mintable E (step w) k \<longrightarrow> aged (sessions_of (db w) k) (sessions_of (db (serve_all E h rs w)) k))"
proof -
  have "(session_step (mintable E (step w)))\<^sup>*\<^sup>* (sessions_of (db w)) (sessions_of (db (serve_all E h rs w)))"
    using sessions.simulated_served [OF served_all [of E "step w" w h rs]] assms by (simp add: sound_sessions_def)
  then show ?thesis using aged_steps by blast
qed

section \<open>Refresh\<close>

text \<open>What a refresh that succeeded did, and one that did not.\<close>

definition refreshed :: "string \<Rightarrow> string \<Rightarrow> sessions \<Rightarrow> sessions \<Rightarrow> bool" where
  "refreshed h h' s s' \<longleftrightarrow> s h' = None \<and> (\<exists>own.
     s h = Some (Live, own) \<and> s' = retire Rotated (\<lambda>k o'. k = h) (issue h' own s)
     \<or> s h = Some (Rotated, own) \<and> s' = issue h' own s)"

definition denied :: "string \<Rightarrow> sessions \<Rightarrow> sessions \<Rightarrow> bool" where
  "denied h s s' \<longleftrightarrow> (case s h of
     Some (Revoked, own) \<Rightarrow> s' = retire Revoked (\<lambda>k o'. fst o' = fst own) s
   | Some (Rotated, own) \<Rightarrow> s' = s \<or> s' = retire Revoked (\<lambda>k o'. fst o' = fst own) s
   | _ \<Rightarrow> s' = s)"

lemma issueTokens_InlD:
  assumes "run_state (issueTokens E h uid email t p) w = (Inl e, w')" and "idle w"
  shows "db w' = db w"
  using assms
  by (auto simp: issueTokens_def Issue_def run_sign run_newRefreshToken run_exec in_aborted_tx_def idle_def tick_def
      split: option.splits sum.splits prod.splits if_splits db_err.splits)

lemma issueTokens_sessions:
  assumes "run_state (issueTokens E h uid email t p) w = (Inr pair, w')" and "idle w"
  shows "sessions_of (db w) (hashToken E (tp_RefreshToken pair)) = None"
    "sessions_of (db w') = issue (hashToken E (tp_RefreshToken pair)) (uid, t, p) (sessions_of (db w))"
proof -
  from issueTokens_InrD(2) [OF assms] obtain row where row: "refresh_tokens (db w') = refresh_tokens (db w) @ [row]"
    "rt_TokenHash row = hashToken E (tp_RefreshToken pair)" "rt_TokenHash row \<notin> rt_TokenHash ` set (refresh_tokens (db w))"
    "owner_of row = (uid, t, p)" "rt_RevokedAt row = None"
    by (auto simp: owner_of_def live_row_def)
  from sessions_issue [OF row(1,3,5)] row(2,4)
  show "sessions_of (db w) (hashToken E (tp_RefreshToken pair)) = None"
    "sessions_of (db w') = issue (hashToken E (tp_RefreshToken pair)) (uid, t, p) (sessions_of (db w))" by simp_all
qed

lemma hex_encode_Nil: "hex_encode b = [] \<longleftrightarrow> b = []"
  using length_hex_encode [of b] by (cases b) auto

lemma refresh_live:
  assumes "idle w" and "\<forall>n. \<not> io_fail E n" and "rand_contract E" and "\<forall>b. b \<noteq> [] \<longrightarrow> sha256 E b \<noteq> []" and "rotations_revoke (db w)"
    and "row_of (db w) (hashToken E tok) = Some row" and "rt_RevokedAt row = None" and "run_state (Refresh E h ctx tok) w = (r, w')"
  shows "case r of Inr pair \<Rightarrow> refreshed (hashToken E tok) (hashToken E (tp_RefreshToken pair)) (sessions_of (db w)) (sessions_of (db w'))
         \<and> \<not> rt_ExpiresAt row < clock E (step w + 1)
     | Inl _ \<Rightarrow> db w' = db w"
proof -
  have get: "run_state (exec E (sql_GetRefreshToken (hashToken E tok))) w = (Inr row, tick w)"
    using assms(1,2,6) by (simp add: run_exec_idle row_of_query tick_def)
  let ?w2 = "(tick w)\<lparr>step := Suc (Suc (step w))\<rparr>"
  have i2: "idle ?w2" "db ?w2 = db w" "idle (tick ?w2)" "db (tick ?w2) = db w" using assms(1) by (simp_all add: idle_def tick_def)
  show ?thesis
  proof (cases "rt_ExpiresAt row < clock E (Suc (step w)) \<or> user_of (db w) (rt_UserID row) = None")
    case True
    have "user_of (db w) (rt_UserID row) = None \<longrightarrow> run_state (exec E (sql_GetUserByID (rt_UserID row))) ?w2 = (Inl NoRows, tick ?w2)"
      using assms(2) i2(1,2) by (simp add: run_exec_idle user_of_query)
    with True show ?thesis using assms(7,8) get i2(2,4)
      by (cases "rt_ExpiresAt row < clock E (Suc (step w))") (auto simp: Refresh_def Let_def)
  next
    case False
    then obtain user where user: "user_of (db w) (rt_UserID row) = Some user" and notexp: "\<not> rt_ExpiresAt row < clock E (Suc (step w))"
      by auto
    have getu: "run_state (exec E (sql_GetUserByID (rt_UserID row))) ?w2 = (Inr user, tick ?w2)"
      using assms(2) i2 by (simp add: run_exec_idle user_of_query user tick_def)
    obtain ri w3 where issued: "run_state (issueTokens E h (u_ID user) (u_Email user) (rt_TenantID row) (rt_ProjectID row)) (tick ?w2) = (ri, w3)"
      by fastforce
    show ?thesis
    proof (cases ri)
      case (Inl e)
      then show ?thesis using assms(7,8) get notexp getu issued issueTokens_InlD [OF issued [unfolded Inl] i2(3)] i2(4)
        by (auto simp: Refresh_def Let_def)
    next
      case (Inr pair)
      let ?h' = "hashToken E (tp_RefreshToken pair)"
      note new = issueTokens_sessions [OF issued [unfolded Inr] i2(3), unfolded i2(4)] and iss = issueTokens_InrD [OF issued [unfolded Inr] i2(3)]
      obtain v where rot: "run_state (exec E (sql_RotateRefreshToken (hashToken E tok) (Some ?h'))) w3 = (Inr (), v)"
        using iss(4) assms(2) by (simp add: run_exec_idle sql_RotateRefreshToken_def perform_def)
      have hash: "?h' \<noteq> []"
      proof -
        from iss(3) obtain n b where "rand E n 32 = Some b" "?h' = hashToken E (hex_encode b)" by (auto simp: mintable_def)
        then have "length b = 32" using assms(3) unfolding rand_contract_def by blast
        then have "b \<noteq> []" by auto
        with assms(4) \<open>?h' = hashToken E (hex_encode b)\<close> show ?thesis by (simp add: hashToken_def hex_encode_Nil)
      qed
      have "rotations_revoke (db w3)"
        using iss(2) assms(5) i2(4) by (auto simp: rotations_revoke_def live_row_def)
      from session_statements(3) [OF exec_Inr_idle(1) [OF rot iss(4)] this] hash
      have "sessions_of (db v) = retire Rotated (\<lambda>k own. k = hashToken E tok) (issue ?h' (owner_of row) (sessions_of (db w)))"
        using new(2) user_ofD [OF user] by (simp add: owner_of_def)
      moreover have "sessions_of (db w) (hashToken E tok) = Some (Live, owner_of row)"
        using assms(6,7) by (simp add: sessions_of_def)
      moreover have "r = Inr pair" "w' = v" using assms(7,8) get notexp getu issued Inr rot by (simp_all add: Refresh_def Let_def)
      ultimately show ?thesis using new(1) notexp by (simp add: refreshed_def)
    qed
  qed
qed

lemma refresh_retired:
  assumes "idle w" and "\<forall>n. \<not> io_fail E n" and "rotations_revoke (db w)"
    and "row_of (db w) (hashToken E tok) = Some row" and "rt_RevokedAt row = Some at" and "run_state (Refresh E h ctx tok) w = (r, w')"
  shows "case r of Inr pair \<Rightarrow> refreshed (hashToken E tok) (hashToken E (tp_RefreshToken pair)) (sessions_of (db w)) (sessions_of (db w'))
     | Inl _ \<Rightarrow> denied (hashToken E tok) (sessions_of (db w)) (sessions_of (db w'))"
proof -
  have get: "run_state (exec E (sql_GetRefreshToken (hashToken E tok))) w = (Inr row, tick w)"
    using assms(1,2,4) by (simp add: run_exec_idle row_of_query tick_def)
  have before: "sessions_of (db w) (hashToken E tok) = Some (if rotated row then Rotated else Revoked, owner_of row)"
    using assms(4,5) by (simp add: sessions_of_def status_of_def)
  show ?thesis
  proof (cases "rotated row \<and> clock E (Suc (step w)) - at < refreshRotationGrace")
    case True
    then have grace: "run_state (in_grace E row at) (tick w) = (True, tick (tick w))"
      by (simp add: in_grace_def tick_def)
    have i2: "idle (tick (tick w))" "idle (tick (tick (tick w)))" "db (tick (tick (tick w))) = db w" using assms(1) by simp_all
    show ?thesis
    proof (cases "user_of (db w) (rt_UserID row)")
      case None
      then have "run_state (exec E (sql_GetUserByID (rt_UserID row))) (tick (tick w)) = (Inl NoRows, tick (tick (tick w)))"
        using assms(2) i2(1,3) by (simp add: run_exec_idle user_of_query)
      then show ?thesis using assms(5,6) get grace i2(3) before True
        by (auto simp: Refresh_def Let_def denied_def)
    next
      case (Some user)
      have getu: "run_state (exec E (sql_GetUserByID (rt_UserID row))) (tick (tick w)) = (Inr user, tick (tick (tick w)))"
        using assms(2) i2(1) by (simp add: run_exec_idle user_of_query Some tick_def)
      have run: "run_state (issueTokens E h (u_ID user) (u_Email user) (rt_TenantID row) (rt_ProjectID row)) (tick (tick (tick w))) = (r, w')"
        using assms(5,6) get grace getu by (simp add: Refresh_def Let_def)
      show ?thesis
      proof (cases r)
        case (Inl e)
        with issueTokens_InlD [OF run [unfolded Inl] i2(2)] before True show ?thesis by (simp add: denied_def)
      next
        case (Inr pair)
        with issueTokens_sessions [OF run [unfolded Inr] i2(2)] before True user_ofD [OF Some] show ?thesis
          by (auto simp: refreshed_def owner_of_def)
      qed
    qed
  next
    case False
    obtain v where grace: "run_state (in_grace E row at) (tick w) = (False, v)" "idle v" "db v = db w"
      using assms(1) False by (cases "rotated row") (auto simp: in_grace_def)
    obtain v2 where rev: "run_state (exec E (sql_RevokeAllUserRefreshTokens (rt_UserID row))) v = (Inr (), v2)"
      using grace(2) assms(2) by (simp add: run_exec_idle sql_RevokeAllUserRefreshTokens_def perform_def)
    note q = exec_Inr_idle [OF rev grace(2), unfolded grace(3)]
    have "w' = snd (run_state (auditAs E ctx (uuid_string E (rt_UserID row)) [] ''refresh.reuse_detected'' [] ''all sessions revoked'') v2)"
      and r: "isl r"
      using assms(5,6) get grace(1) rev by (auto simp: Refresh_def Let_def)
    then have "sessions_of (db w') = sessions_of (db v2)"
      using same_but_auditD(2) [OF audit_runs(2) [OF q(2)]] by (intro sessions_cong) simp
    with session_statements(2) [OF q(1) assms(3)] before r show ?thesis
      by (cases r) (simp_all add: denied_def owner_of_def)
  qed
qed


section \<open>Witnesses\<close>

lemma rotations_revoke_live: "rotations_revoke d_live"
  by (simp add: rotations_revoke_def d_live_def row0_def)

theorem sessions_refine_witness:
  "\<forall>rs. aged (sessions_of d_live (hashToken E0 ''rt'')) (sessions_of (db (serve_all E0 h0 rs (world0 d_live 1))) (hashToken E0 ''rt''))"
proof -
  have "\<not> mintable E0 1 (hashToken E0 ''rt'')"
    by (auto simp: mintable_def hashToken_def length_hex_encode dest!: arg_cong [of _ _ length])
  then show ?thesis using sessions_refine [of "world0 d_live 1" E0 h0] fixture_rows(3) rotations_revoke_live by simp
qed


end
