(* ===== verification/Boot.thy ===== *)
theory Boot
  imports Service
begin

text \<open>
  The start of the process, \<^verbatim>\<open>cmd/main.go\<close>, and the subscription loop of \<^verbatim>\<open>internal/saga/saga.go\<close>: in which
  order the parts are brought up, which failures stop the process, and what the running server is made of.
  What the libraries of \<^verbatim>\<open>iam-go-libs\<close>, NATS and the operating system answer is a parameter, \<open>host\<close>.
\<close>

section \<open>What the process finds\<close>

text \<open>
  \<open>MustEnv\<close> ends the process when the variable is not set. \<open>migrate_run H n d\<close> is the outcome of the \<open>n\<close>-th
  attempt to apply the migrations to \<open>d\<close>; \<open>canceled H n\<close> says that the signal context was done in the pause
  after it. \<open>saga_subscribe\<close> and \<open>saga_canceled\<close> are the same for the attempts to subscribe.
\<close>

record host =
  os_Args :: "string list"
  ValidateSecurity :: bool
  InitTracer :: bool
  MustEnv :: "string \<Rightarrow> string option"
  embedded_migrations :: bool
  migrate_run :: "nat \<Rightarrow> database \<Rightarrow> bool \<times> database"
  canceled :: "nat \<Rightarrow> bool"
  NewPool :: bool
  jwt_Issuer :: string
  jwt_AccessTTL :: time
  jwt_RefreshTTL :: time
  redis_url_ok :: "string \<Rightarrow> bool"
  redis_ping_ok :: "string \<Rightarrow> bool"
  NatsURL :: string
  nats_Connect :: bool
  nats_EnsureStream :: bool
  net_Listen :: "string \<Rightarrow> bool"
  saga_subscribe :: "nat \<Rightarrow> bool"
  saga_canceled :: "nat \<Rightarrow> bool"

section \<open>Migrations\<close>

text \<open>Why \<^verbatim>\<open>os.Exit(1)\<close> is called: the messages of the log.\<close>

datatype exit_reason =
    InsecureConfiguration | InitTracerFailed | EnvMissing | EmbedMigrations | MigrationsInterrupted | MigrationsFailed
  | ConnectDb | BootstrapAdminFailed boot_error | BootstrapOIDCFailed db_err | BootstrapDemoFailed boot_error
  | LoadSigningKeys keys_error | InitTotpEncryptor | ConnectNats | EnsureStreamFailed | ListenFailed

text \<open>The loop over the attempts, from attempt \<open>n\<close> on: at most twelve.\<close>

function migrate_loop :: "host \<Rightarrow> nat \<Rightarrow> database \<Rightarrow> (exit_reason + nat) \<times> database" where
  "migrate_loop H n d =
     (if n \<le> 12 then
        (case migrate_run H n d of
           (True, d') \<Rightarrow> (Inr n, d')
         | (False, d') \<Rightarrow> if canceled H n then (Inl MigrationsInterrupted, d') else migrate_loop H (Suc n) d')
      else (Inl MigrationsFailed, d))"
  by pat_completeness auto

termination by (relation "measure (\<lambda>(H, n, d). 13 - n)") auto

declare migrate_loop.simps [simp del]

definition run_migrations :: "host \<Rightarrow> (world, exit_reason, nat) prog" where
  "run_migrations H =
     (if \<not> embedded_migrations H then bail EmbedMigrations
      else State (\<lambda>w. case migrate_loop H 1 (db w) of (r, d) \<Rightarrow> (r, w\<lparr>db := d\<rparr>)))"

section \<open>The saga's subscription\<close>

datatype subscription = Retrying | Subscribed nat | Stopped

text \<open>\<^verbatim>\<open>Start\<close> tries until it succeeds or the context is done: \<open>fuel\<close> attempts from attempt \<open>n\<close> on.\<close>

fun saga_start :: "host \<Rightarrow> nat \<Rightarrow> nat \<Rightarrow> subscription" where
  "saga_start H 0 n = Retrying"
| "saga_start H (Suc fuel) n =
     (if saga_subscribe H n then Subscribed n
      else if saga_canceled H n then Stopped
      else saga_start H fuel (Suc n))"

section \<open>main\<close>

text \<open>
  The running server: its handler, the relay and whether the saga listens (both only with NATS), its port
  and whether reflection is registered.
\<close>

record server =
  sv_handler :: AuthHandler
  sv_relay :: "Relay option"
  sv_saga :: bool
  sv_port :: string
  sv_reflection :: bool

datatype started = MigratedOnly | Serving server

definition migrateOnly :: "host \<Rightarrow> bool" where
  "migrateOnly H \<longleftrightarrow> length (os_Args H) > 1 \<and> os_Args H ! 1 = ''migrate''"

definition check_config :: "host \<Rightarrow> (world, exit_reason, unit) prog" where
  "check_config H =
     (if migrateOnly H then ok ()
      else if \<not> ValidateSecurity H then bail InsecureConfiguration
      else if \<not> InitTracer H then bail InitTracerFailed
      else ok ())"

definition bootstrap :: "env \<Rightarrow> (world, exit_reason, unit) prog" where
  "bootstrap E =
     check (raising BootstrapAdminFailed
       (BootstrapAdmin E (Getenv E ''BOOTSTRAP_ADMIN_EMAIL'' []) (Getenv E ''BOOTSTRAP_ADMIN_PASSWORD'' []))) (\<lambda>_.
     check (raising BootstrapOIDCFailed (BootstrapOIDCClient E)) (\<lambda>_.
     raising BootstrapDemoFailed
       (BootstrapDemo E (Getenv E ''DEMO_EMAIL'' ''demo@iam.local'') (Getenv E ''DEMO_PASSWORD'' ''demo1234''))))"

definition make_handler :: "env \<Rightarrow> host \<Rightarrow> (world, exit_reason, AuthHandler) prog" where
  "make_handler E H =
     check (raising LoadSigningKeys (LoadKeys E)) (\<lambda>keys.
     let authCache = Cache_New (redis_url_ok H) (redis_ping_ok H) (Getenv E ''REDIS_URL'' []) in
     case Encryptor_New E (Getenv E ''TOTP_ENC_KEY'' []) of
       None \<Rightarrow> bail InitTotpEncryptor
     | Some totpEnc \<Rightarrow>
         State_Monad.bind (Handler_New E (NewManager (ks_Active keys) (ks_Verifiers keys) (jwt_Issuer H) (jwt_AccessTTL H))
           (jwt_RefreshTTL H) authCache totpEnc) ok)"

text \<open>The relay and the saga, when NATS is configured.\<close>

definition start_events :: "host \<Rightarrow> (world, exit_reason, Relay option) prog" where
  "start_events H =
     (if NatsURL H = [] then ok None
      else if \<not> nats_Connect H then bail ConnectNats
      else if \<not> nats_EnsureStream H then bail EnsureStreamFailed
      else ok (Some NewRelay))"

definition main :: "env \<Rightarrow> host \<Rightarrow> (world, exit_reason, started) prog" where
  "main E H =
     check (check_config H) (\<lambda>_.
     check (from_option EnvMissing (MustEnv H ''AUTH_DATABASE_URL'')) (\<lambda>dbURL.
     let port = Getenv E ''AUTH_GRPC_PORT'' ''50051'' in
     check (if migrateOnly H \<or> Getenv E ''AUTO_MIGRATE'' ''true'' \<noteq> ''false''
            then check (run_migrations H) (\<lambda>_. ok ()) else ok ()) (\<lambda>_.
     if migrateOnly H then ok MigratedOnly
     else if \<not> NewPool H then bail ConnectDb
     else
     check (bootstrap E) (\<lambda>_.
     check (make_handler E H) (\<lambda>h.
     check (start_events H) (\<lambda>relay.
     if \<not> net_Listen H port then bail ListenFailed
     else ok (Serving \<lparr>sv_handler = h, sv_relay = relay, sv_saga = (relay \<noteq> None), sv_port = port,
                       sv_reflection = (\<not> IsProduction E)\<rparr>)))))))"

section \<open>Effects\<close>

lemma served_bootstrap [served_intros]: "state_io_rel (served E since) (bootstrap E)"
  unfolding bootstrap_def by (intro served_intros)

lemma served_Handler_New [served_intros]: "state_io_rel (served E since) (Handler_New E m t c e)"
  unfolding Handler_New_def by (intro served_intros)

lemma served_make_handler [served_intros]: "state_io_rel (served E since) (make_handler E H)"
  unfolding make_handler_def by (intro served_intros)

lemma served_start_events [served_intros]: "state_io_rel (served E since) (start_events H)"
  unfolding start_events_def by (intro served_intros)

end
