(* ===== verification/Boot_Props.thy ===== *)
theory Boot_Props
  imports Boot Session_Props Oidc_Props Transactions
begin

text \<open>
  The start of the service: the retries of the migrations and of the saga's subscription, what a server that came up can rely on, and
  that a restart changes nothing and invalidates no token.
\<close>

section \<open>Migrations\<close>

text \<open>The database after the first \<open>k\<close> attempts.\<close>

primrec mig_db :: "host \<Rightarrow> database \<Rightarrow> nat \<Rightarrow> database" where
  "mig_db H d 0 = d"
| "mig_db H d (Suc k) = snd (migrate_run H (Suc k) (mig_db H d k))"

definition attempt_ok :: "host \<Rightarrow> database \<Rightarrow> nat \<Rightarrow> bool" where
  "attempt_ok H d k \<longleftrightarrow> fst (migrate_run H k (mig_db H d (k - 1)))"

lemma migrate_loop_spec:
  assumes "migrate_loop H n d = (r, d')" and "d = mig_db H start (n - 1)" and "1 \<le> n" "n \<le> 13"
    and "\<forall>k \<in> {1..<n}. \<not> attempt_ok H start k \<and> \<not> canceled H k"
  shows "(\<exists>k \<in> {1..12}. r = Inr k \<and> attempt_ok H start k \<and> d' = mig_db H start k
            \<and> (\<forall>j \<in> {1..<k}. \<not> attempt_ok H start j \<and> \<not> canceled H j))
     \<or> (\<exists>k \<in> {1..12}. r = Inl MigrationsInterrupted \<and> canceled H k \<and> d' = mig_db H start k
            \<and> (\<forall>j \<in> {1..<k}. \<not> attempt_ok H start j \<and> \<not> canceled H j) \<and> \<not> attempt_ok H start k)
     \<or> (r = Inl MigrationsFailed \<and> d' = mig_db H start 12 \<and> (\<forall>j \<in> {1..12}. \<not> attempt_ok H start j \<and> \<not> canceled H j))"
  using assms
proof (induction H n d rule: migrate_loop.induct)
  case (1 H n d)
  show ?case
  proof (cases "n \<le> 12")
    case False
    then have "n = 13" using "1.prems"(4) by simp
    with "1.prems" show ?thesis by (auto simp: migrate_loop.simps [of H 13])
  next
    case True
    obtain b d1 where b: "migrate_run H n d = (b, d1)" by fastforce
    from \<open>1 \<le> n\<close> obtain m where m: "n = Suc m" by (cases n) auto
    have db: "d1 = mig_db H start n" "attempt_ok H start n = b" using b "1.prems"(2) by (simp_all add: m attempt_ok_def)
    note step = "1.prems"(1) [unfolded migrate_loop.simps [of H n] if_P [OF True] b prod.case]
    show ?thesis
    proof (cases b)
      case True
      with step db \<open>n \<le> 12\<close> \<open>1 \<le> n\<close> "1.prems"(5) show ?thesis by (intro disjI1 bexI [of _ n]) auto
    next
      case failed: False
      show ?thesis
      proof (cases "canceled H n")
        case True
        with step failed db \<open>n \<le> 12\<close> \<open>1 \<le> n\<close> "1.prems"(5) show ?thesis
          by (intro disjI2 disjI1 bexI [of _ n]) auto
      next
        case False
        have "\<forall>k \<in> {1..<Suc n}. \<not> attempt_ok H start k \<and> \<not> canceled H k"
          using "1.prems"(5) db failed False by (auto simp: less_Suc_eq)
        moreover have "migrate_loop H (Suc n) d1 = (r, d')" using step failed False by simp
        ultimately show ?thesis
          using "1.IH" [OF \<open>n \<le> 12\<close> b [symmetric] _ False] failed b db \<open>n \<le> 12\<close> by simp
      qed
    qed
  qed
qed

text \<open>C23: the migrations are tried until an attempt succeeds, at most twelve times, and no attempt is made after
  the one that succeeded or after the process was told to stop: the loop ends with the database the last attempt
  left, and reports success exactly when that attempt succeeded.\<close>

theorem migrations_retried:
  shows "\<exists>k \<in> {1..12}. snd (migrate_loop H 1 d) = mig_db H d k
     \<and> (\<forall>j \<in> {1..<k}. \<not> attempt_ok H d j \<and> \<not> canceled H j)
     \<and> fst (migrate_loop H 1 d) =
         (if attempt_ok H d k then Inr k else if canceled H k then Inl MigrationsInterrupted else Inl MigrationsFailed)
     \<and> (attempt_ok H d k \<or> canceled H k \<or> k = 12)"
proof -
  obtain r d' where run: "migrate_loop H 1 d = (r, d')" by fastforce
  have "(\<exists>k \<in> {1..12}. r = Inr k \<and> attempt_ok H d k \<and> d' = mig_db H d k
            \<and> (\<forall>j \<in> {1..<k}. \<not> attempt_ok H d j \<and> \<not> canceled H j))
     \<or> (\<exists>k \<in> {1..12}. r = Inl MigrationsInterrupted \<and> canceled H k \<and> d' = mig_db H d k
            \<and> (\<forall>j \<in> {1..<k}. \<not> attempt_ok H d j \<and> \<not> canceled H j) \<and> \<not> attempt_ok H d k)
     \<or> (r = Inl MigrationsFailed \<and> d' = mig_db H d 12 \<and> (\<forall>j \<in> {1..12}. \<not> attempt_ok H d j \<and> \<not> canceled H j))"
    using migrate_loop_spec [OF run, of d] by simp
  then show ?thesis
  proof (elim disjE bexE)
    assume "r = Inl MigrationsFailed \<and> d' = mig_db H d 12 \<and> (\<forall>j \<in> {1..12}. \<not> attempt_ok H d j \<and> \<not> canceled H j)"
    with run show ?thesis by (intro bexI [of _ 12]) auto
  qed (use run in \<open>auto intro!: bexI\<close>)
qed

section \<open>The subscription of the saga\<close>

text \<open>Once an attempt was decided more fuel changes nothing; and fuel up to the first attempt that is decided is enough.\<close>

lemma saga_start_more: "saga_start H fuel n \<noteq> Retrying \<Longrightarrow> saga_start H (fuel + k) n = saga_start H fuel n"
  by (induction H fuel n rule: saga_start.induct) auto

lemma saga_start_decided:
  assumes "saga_subscribe H m \<or> saga_canceled H m" and "\<forall>j \<in> {n..<m}. \<not> saga_subscribe H j \<and> \<not> saga_canceled H j" and "n \<le> m"
    and "m - n < fuel"
  shows "saga_start H fuel n = (if saga_subscribe H m then Subscribed m else Stopped)"
  using assms
proof (induction H fuel n rule: saga_start.induct)
  case (2 H fuel n)
  then show ?case by (cases "n = m") auto
qed auto

section \<open>What a running server rests on\<close>

lemma run_migrations_InrD:
  assumes "run_state (run_migrations H) w = (Inr n, w')"
  shows "w' = w\<lparr>db := mig_db H (db w) n\<rparr>" "1 \<le> n" "n \<le> 12" "attempt_ok H (db w) n" "embedded_migrations H"
proof -
  obtain r d' where loop: "migrate_loop H 1 (db w) = (r, d')" by fastforce
  from assms show "embedded_migrations H" by (simp add: run_migrations_def split: if_splits)
  with assms loop have r: "r = Inr n" "w' = w\<lparr>db := d'\<rparr>" by (simp_all add: run_migrations_def)
  with migrate_loop_spec [OF loop, of "db w"] show "w' = w\<lparr>db := mig_db H (db w) n\<rparr>" "1 \<le> n" "n \<le> 12"
    "attempt_ok H (db w) n" by auto
qed

text \<open>What \<^verbatim>\<open>main\<close> went through when it came to an end without failing, and what it then did.\<close>

definition after_migrations :: "env \<Rightarrow> host \<Rightarrow> (world, exit_reason, started) prog" where
  "after_migrations E H = (if migrateOnly H then ok MigratedOnly
     else if \<not> NewPool H then bail ConnectDb
     else
     check (bootstrap E) (\<lambda>_.
     check (make_handler E H) (\<lambda>h.
     check (start_events H) (\<lambda>relay.
     if \<not> net_Listen H (Getenv E ''AUTH_GRPC_PORT'' ''50051'') then bail ListenFailed
     else ok (Serving \<lparr>sv_handler = h, sv_relay = relay, sv_saga = (relay \<noteq> None), sv_port = Getenv E ''AUTH_GRPC_PORT'' ''50051'',
                       sv_reflection = (\<not> IsProduction E)\<rparr>)))))"

lemma main_InrE:
  assumes "run_state (main E H) w = (Inr s, w')"
  obtains w1 where "migrateOnly H \<or> ValidateSecurity H \<and> InitTracer H" and "MustEnv H ''AUTH_DATABASE_URL'' \<noteq> None"
    and "if migrateOnly H \<or> Getenv E ''AUTO_MIGRATE'' ''true'' \<noteq> ''false'' then \<exists>n. run_state (run_migrations H) w = (Inr n, w1)
      else w1 = w"
    and "run_state (after_migrations E H) w1 = (Inr s, w')"
proof -
  let ?mig = "if migrateOnly H \<or> Getenv E ''AUTO_MIGRATE'' ''true'' \<noteq> ''false''
            then check (run_migrations H) (\<lambda>_. ok ()) else ok () :: (world, exit_reason, unit) prog"
  from assms obtain x wa y wb z w1 where a: "run_state (check_config H) w = (Inr x, wa)"
    and b: "run_state (from_option EnvMissing (MustEnv H ''AUTH_DATABASE_URL'')) wa = (Inr y, wb)"
    and c: "run_state ?mig wb = (Inr z, w1)" and rest: "run_state (after_migrations E H) w1 = (Inr s, w')"
    unfolding main_def Let_def after_migrations_def by (elim check_InrE) (drule meta_spec)+
  have "migrateOnly H \<or> ValidateSecurity H \<and> InitTracer H" "wb = w" "MustEnv H ''AUTH_DATABASE_URL'' \<noteq> None"
    using a b by (auto simp: check_config_def run_from_option split: if_splits option.splits)
  moreover have "if migrateOnly H \<or> Getenv E ''AUTO_MIGRATE'' ''true'' \<noteq> ''false'' then \<exists>n. run_state (run_migrations H) wb = (Inr n, w1)
      else w1 = wb"
    using c by (auto split: if_splits prod.splits sum.splits)
  ultimately show thesis using rest by (intro that [of w1]) auto
qed

lemma after_migrations_ServingE:
  assumes "run_state (after_migrations E H) w1 = (Inr (Serving sv), w')"
  obtains w2 where "\<not> migrateOnly H" and "run_state (bootstrap E) w1 = (Inr (), w2)"
    and "run_state (make_handler E H) w2 = (Inr (sv_handler sv), w')"
    and "sv_relay sv = (if NatsURL H = [] then None else Some NewRelay)" and "sv_saga sv = (NatsURL H \<noteq> [])"
    and "sv_reflection sv = (\<not> IsProduction E)" and "net_Listen H (sv_port sv)"
proof -
  have no: "\<not> migrateOnly H" using assms by (cases "migrateOnly H") (simp_all add: after_migrations_def)
  with assms obtain w2 h wc relay wd where
    d: "run_state (bootstrap E) w1 = (Inr (), w2)" and e: "run_state (make_handler E H) w2 = (Inr h, wc)"
    and f: "run_state (start_events H) wc = (Inr relay, wd)"
    and g: "net_Listen H (Getenv E ''AUTH_GRPC_PORT'' ''50051'')" "w' = wd"
      "sv = \<lparr>sv_handler = h, sv_relay = relay, sv_saga = (relay \<noteq> None), sv_port = Getenv E ''AUTH_GRPC_PORT'' ''50051'',
                       sv_reflection = (\<not> IsProduction E)\<rparr>"
    by (auto simp: after_migrations_def split: if_splits prod.splits sum.splits)
  have "wd = wc" "relay = (if NatsURL H = [] then None else Some NewRelay)"
    using f by (auto simp: start_events_def split: if_splits)
  with no d e g show thesis by (intro that [of w2]) auto
qed

text \<open>What the start writes only adds accounts, clients and, unless \<open>locked\<close>, keys.\<close>

definition adds :: "bool \<Rightarrow> database \<Rightarrow> database \<Rightarrow> bool" where
  "adds locked d d' \<longleftrightarrow> u_Email ` set (users d) \<subseteq> u_Email ` set (users d')
     \<and> oc_ClientID ` set (oauth_clients d) \<subseteq> oc_ClientID ` set (oauth_clients d')
     \<and> (locked \<longrightarrow> oidc_signing_keys d' = oidc_signing_keys d)"

interpretation adds: db_effect "adds locked" for locked
  by unfold_locales (simp_all add: adds_def, meson subset_trans)

named_theorems adds_intros "a computation only adds accounts and clients"

lemmas adds_control [adds_intros] = adds.world.return_effect adds.world.bind_effect adds.world.ok_effect
  adds.world.bail_effect adds.world.check_effect adds.world.or_return_effect adds.world.ignoring_effect
  adds.world.from_option_effect adds.world.if_effect adds.world.option_effect adds.world.sum_effect adds.world.let_effect
  adds.world.prod_effect adds.outside_effect adds.tx_begin_effect adds.tx_commit_effect adds.deferring_rollback_effect
  adds.set_tenant_effect

lemma adds_queries [adds_intros]:
  "state_io_rel (lift_rel (adds locked)) (exec E (sql_GetUserByEmail em))"
  "state_io_rel (lift_rel (adds locked)) (exec E (sql_CreateUser em hs))"
  "state_io_rel (lift_rel (adds locked)) (exec E (sql_AssignRoleToUser uid n t p))"
  "state_io_rel (lift_rel (adds locked)) (exec E (sql_CreateMembership uid t))"
  "state_io_rel (lift_rel (adds locked)) (exec E (sql_InsertClientIfAbsent cl))"
  "state_io_rel (lift_rel (adds locked)) (exec E sql_SelectSigningKeys)"
  "state_io_rel (lift_rel (adds False)) (exec E (sql_InsertSigningKey kid pr pu))"
  by (rule adds.exec_effect; auto simp: sql_GetUserByEmail_def fetch_one_Some sql_CreateUser_def Let_def
      sql_AssignRoleToUser_def insert_user_role_def sql_CreateMembership_def sql_InsertClientIfAbsent_def sql_InsertClient_def
      sql_SelectSigningKeys_def fetch_Inr sql_InsertSigningKey_def adds_def split: if_splits list.splits)+

lemma adds_start [adds_intros]:
  "state_io_rel (lift_rel (adds locked)) (raising f m)" if "state_io_rel (lift_rel (adds locked)) m"
  unfolding raising_def using that by (intro adds_intros)

lemma adds_parts [adds_intros]:
  "state_io_rel (lift_rel (adds locked)) (Hash E pw)" "state_io_rel (lift_rel (adds locked)) (generateRSA E)"
proof -
  have "state_io_rel (lift_rel (adds locked)) (State (\<lambda>w. (case rsa_generate E (step w) of None \<Rightarrow> Inl () | Some k \<Rightarrow> Inr k,
      w\<lparr>step := Suc (step w)\<rparr>)) :: (world, unit, private_key) prog)"
    by (rule state_io_relI, rule adds.same_db_effect) auto
  then show "state_io_rel (lift_rel (adds locked)) (Hash E pw)" "state_io_rel (lift_rel (adds locked)) (generateRSA E)"
    unfolding Hash_def generateRSA_def by (intro adds_intros)+
qed

lemma adds_boot [adds_intros]:
  "state_io_rel (lift_rel (adds locked)) (bootstrap_account E role em pw)"
  "state_io_rel (lift_rel (adds locked)) (BootstrapOIDCClient E)"
  "state_io_rel (lift_rel (adds False)) (LoadKeys E)"
  "state_io_rel (lift_rel (adds locked)) (Handler_New E m t c e)"
  unfolding bootstrap_account_def BootstrapOIDCClient_def LoadKeys_def Handler_New_def
  by (intro adds_intros)+

lemma deferring_InrE:
  assumes "run_state (deferring_rollback m) w = (Inr x, w')"
  obtains u where "run_state m w = (Inr x, u)" and "tx u = None \<longrightarrow> w' = u"
  using assms by (auto simp: run_deferring_rollback split: prod.splits option.splits)

lemma raising_InrE:
  assumes "run_state (raising f m) w = (Inr x, w')"
  obtains "run_state m w = (Inr x, w')"
  using assms by (auto split: prod.splits sum.splits)

lemma account_queries:
  "sql_CreateUser em hs c d = Inr (user, d') \<Longrightarrow> em \<in> u_Email ` set (users d')"
  "sql_AssignRoleToUser uid n t p c d = Inr (x, d') \<Longrightarrow> users d' = users d"
  "sql_CreateMembership uid t c d = Inr (y, d') \<Longrightarrow> users d' = users d"
  by (auto simp: sql_CreateUser_def Let_def sql_AssignRoleToUser_def insert_user_role_def sql_CreateMembership_def
      split: if_splits list.splits)

text \<open>When the account is found, or there is none to create, nothing happens; otherwise it exists afterwards.\<close>

lemma bootstrap_account_InrD:
  assumes "run_state (bootstrap_account E role em pw) w = (Inr u, w')" and "idle w"
  shows "em = [] \<or> pw = [] \<or> em \<in> u_Email ` set (users (db w'))"
    "em = [] \<or> pw = [] \<or> em \<in> u_Email ` set (users (db w)) \<Longrightarrow> db w' = db w"
proof -
  have "(em = [] \<or> pw = [] \<or> em \<in> u_Email ` set (users (db w')))
      \<and> (em = [] \<or> pw = [] \<or> em \<in> u_Email ` set (users (db w)) \<longrightarrow> db w' = db w)"
  proof (cases "em = [] \<or> pw = []")
    case True
    with assms(1) show ?thesis by (auto simp: bootstrap_account_def)
  next
    case False
    obtain r v where r: "run_state (exec E (sql_GetUserByEmail em)) w = (r, v)" by fastforce
    show ?thesis
    proof (cases r)
      case (Inr user)
      note q = exec_Inr_idle [OF r [unfolded Inr] assms(2)]
      then have "user_by_email (db w) em = Some user" "db v = db w" by (auto simp: user_by_email_query split: option.splits)
      moreover have "w' = v" using assms(1) False r Inr by (simp add: bootstrap_account_def)
      ultimately show ?thesis by (auto dest!: user_by_emailD)
    next
      case (Inl e)
      with assms(1) False r have none: "e = NoRows" by (auto simp: bootstrap_account_def split: if_splits)
      with r Inl assms(2) have v: "idle v" "db v = db w" and absent: "em \<notin> u_Email ` set (users (db w))"
        by (auto simp: run_exec user_by_email_query user_by_email_def dest!: find_NoneD
            split: if_splits sum.splits db_err.splits option.splits prod.splits)
      from assms(1) False r Inl none have "run_state (or_return (Hash E pw) HashFailed (\<lambda>hash. raising DbError (
          check (tx_begin E) (\<lambda>_. deferring_rollback (
            check (set_tenant E defaultTenantUUID) (\<lambda>_.
            check (exec E (sql_CreateUser em hash)) (\<lambda>user.
            check (exec E (sql_AssignRoleToUser (u_ID user) role defaultTenantUUID None)) (\<lambda>_.
            check (exec E (sql_CreateMembership (u_ID user) defaultTenantUUID)) (\<lambda>_.
            tx_commit E))))))))) v = (Inr u, w')"
        by (simp add: bootstrap_account_def del: run_or_return)
      then obtain hash v1 b v2 x v3 user v4 y v5 z v6 c v7 where
        2: "run_state (tx_begin E) v1 = (Inr b, v2)" and 3: "run_state (set_tenant E defaultTenantUUID) v2 = (Inr x, v3)"
        and 4: "run_state (exec E (sql_CreateUser em hash)) v3 = (Inr user, v4)"
        and 5: "run_state (exec E (sql_AssignRoleToUser (u_ID user) role defaultTenantUUID None)) v4 = (Inr y, v5)"
        and 6: "run_state (exec E (sql_CreateMembership (u_ID user) defaultTenantUUID)) v5 = (Inr z, v6)"
        and 7: "run_state (tx_commit E) v6 = (Inr c, v7)" and w': "tx v7 = None \<longrightarrow> w' = v7"
        by (elim or_return_InrE raising_InrE check_InrE deferring_InrE) ((drule meta_spec)+, (drule meta_mp, assumption)+, assumption)
      note d = exec_InrD [OF 4] exec_InrD [OF 5] exec_InrD [OF 6] tx_commit_InrD [OF 7]
      have "em \<in> u_Email ` set (users (db v6))"
        using account_queries(1) account_queries(2) account_queries(3) d(1-3) by metis
      then show ?thesis using False absent d(4) w' by simp
    qed
  qed
  then show "em = [] \<or> pw = [] \<or> em \<in> u_Email ` set (users (db w'))"
    "em = [] \<or> pw = [] \<or> em \<in> u_Email ` set (users (db w)) \<Longrightarrow> db w' = db w" by blast+
qed

text \<open>The accounts and the client the configuration asks for exist.\<close>

definition has_account :: "string \<Rightarrow> string \<Rightarrow> database \<Rightarrow> bool" where
  "has_account em pw d \<longleftrightarrow> em = [] \<or> pw = [] \<or> em \<in> u_Email ` set (users d)"

definition provisioned :: "env \<Rightarrow> database \<Rightarrow> bool" where
  "provisioned E d \<longleftrightarrow>
     has_account (Getenv E ''BOOTSTRAP_ADMIN_EMAIL'' []) (Getenv E ''BOOTSTRAP_ADMIN_PASSWORD'' []) d
     \<and> has_account (Getenv E ''DEMO_EMAIL'' ''demo@iam.local'') (Getenv E ''DEMO_PASSWORD'' ''demo1234'') d
     \<and> Getenv E ''OIDC_CONSOLE_CLIENT_ID'' ''iam-admin-console'' \<in> oc_ClientID ` set (oauth_clients d)"

lemma has_account_adds: "adds locked d d' \<Longrightarrow> has_account em pw d \<Longrightarrow> has_account em pw d'"
  by (auto simp: adds_def has_account_def)

lemma has_client_adds: "adds locked d d' \<Longrightarrow> cid \<in> oc_ClientID ` set (oauth_clients d) \<Longrightarrow> cid \<in> oc_ClientID ` set (oauth_clients d')"
  by (auto simp: adds_def)

lemma provisioned_adds: "adds locked d d' \<Longrightarrow> provisioned E d \<Longrightarrow> provisioned E d'"
  by (simp add: provisioned_def has_account_adds has_client_adds del: image_iff)

lemma idle_served: "state_io_rel (served E 0) m \<Longrightarrow> run_state m w = (x, w') \<Longrightarrow> idle w \<Longrightarrow> idle w'"
  by (auto dest!: state_io_relD simp: served_def)

lemma adds_idle:
  assumes "state_io_rel (lift_rel (adds locked)) m" and "run_state m w = (x, w')" and "idle w" "idle w'"
  shows "adds locked (db w) (db w')"
  using lift_rel_idleD [OF assms(1,3)] assms(2,4) by simp

lemma BootstrapOIDC_InrD:
  assumes "run_state (BootstrapOIDCClient E) w = (Inr u, w')" and "idle w"
  shows "Getenv E ''OIDC_CONSOLE_CLIENT_ID'' ''iam-admin-console'' \<in> oc_ClientID ` set (oauth_clients (db w'))"
    "Getenv E ''OIDC_CONSOLE_CLIENT_ID'' ''iam-admin-console'' \<in> oc_ClientID ` set (oauth_clients (db w)) \<Longrightarrow> db w' = db w"
proof -
  have client: "oc_ClientID cl \<in> oc_ClientID ` set (oauth_clients d')"
    "oc_ClientID cl \<in> oc_ClientID ` set (oauth_clients d) \<Longrightarrow> d' = d"
    if "sql_InsertClientIfAbsent cl c d = Inr (y, d')" for cl c d y d'
    using that by (auto simp: sql_InsertClientIfAbsent_def sql_InsertClient_def split: if_splits)
  from exec_Inr_idle(1) [OF assms(1) [unfolded BootstrapOIDCClient_def Let_def] assms(2)]
  show "Getenv E ''OIDC_CONSOLE_CLIENT_ID'' ''iam-admin-console'' \<in> oc_ClientID ` set (oauth_clients (db w'))"
    "Getenv E ''OIDC_CONSOLE_CLIENT_ID'' ''iam-admin-console'' \<in> oc_ClientID ` set (oauth_clients (db w)) \<Longrightarrow> db w' = db w"
    by (auto dest: client)
qed

lemma bootstrap_InrD:
  assumes "run_state (bootstrap E) w = (Inr u, w')" and "idle w"
  shows "idle w'" "provisioned E (db w')" "provisioned E (db w) \<Longrightarrow> db w' = db w" "adds True (db w) (db w')"
proof -
  let ?em = "Getenv E ''BOOTSTRAP_ADMIN_EMAIL'' []" and ?pw = "Getenv E ''BOOTSTRAP_ADMIN_PASSWORD'' []"
  let ?dem = "Getenv E ''DEMO_EMAIL'' ''demo@iam.local''" and ?dpw = "Getenv E ''DEMO_PASSWORD'' ''demo1234''"
  from assms(1) obtain x w1 y w2 where
    1: "run_state (bootstrap_account E ''admin'' ?em ?pw) w = (Inr x, w1)"
    and 2: "run_state (BootstrapOIDCClient E) w1 = (Inr y, w2)"
    and 3: "run_state (bootstrap_account E ''viewer'' ?dem ?dpw) w2 = (Inr u, w')"
    unfolding bootstrap_def BootstrapAdmin_def BootstrapDemo_def
    by (elim check_InrE raising_InrE) (drule meta_spec)+
  have i1: "idle w1" by (rule idle_served [of E, OF _ 1 assms(2)]) (intro served_intros)
  have i2: "idle w2" by (rule idle_served [of E, OF _ 2 i1]) (intro served_intros)
  have i3: "idle w'" by (rule idle_served [of E, OF _ 3 i2]) (intro served_intros)
  note i = i1 i2 i3
  have grow: "adds True (db w) (db w1)" "adds True (db w1) (db w2)" "adds True (db w2) (db w')"
    using adds_idle [OF adds_boot(1) 1 assms(2) i(1)] adds_idle [OF adds_boot(2) 2 i(1,2)] adds_idle [OF adds_boot(1) 3 i(2,3)] .
  show "idle w'" by (rule i(3))
  show "adds True (db w) (db w')" using grow by (blast intro: adds.db_trans)
  note a = bootstrap_account_InrD [OF 1 assms(2)] and b = BootstrapOIDC_InrD [OF 2 i(1)] and c = bootstrap_account_InrD [OF 3 i(2)]
  show "provisioned E (db w')"
    unfolding provisioned_def
    using has_account_adds [OF grow(2)] has_account_adds [OF grow(3)] has_client_adds [OF grow(3) b(1)]
      a(1) [folded has_account_def] c(1) [folded has_account_def] by blast
  show "db w' = db w" if "provisioned E (db w)"
  proof -
    have "db w1 = db w" using a(2) that by (auto simp: provisioned_def has_account_def)
    moreover from this that have "db w2 = db w" using b(2) by (simp add: provisioned_def)
    ultimately show ?thesis using c(2) that by (auto simp: provisioned_def has_account_def)
  qed
qed

text \<open>The key set a server works with is the one its database holds.\<close>

definition key_set :: "env \<Rightarrow> database \<Rightarrow> KeySet \<Rightarrow> bool" where
  "key_set E d ks \<longleftrightarrow> oidc_signing_keys d \<noteq> []
     \<and> load_rows E (oidc_signing_keys d) [] None = Inr (ks_Verifiers ks, Some (ks_Active ks))"

lemma LoadKeys_InrD:
  assumes "run_state (LoadKeys E) w = (Inr ks, w')" and "idle w" and "pem_contract E"
  shows "key_set E (db w') ks" "oidc_signing_keys (db w) \<noteq> [] \<Longrightarrow> db w' = db w"
proof -
  have "key_set E (db w') ks \<and> (oidc_signing_keys (db w) \<noteq> [] \<longrightarrow> db w' = db w)"
  proof (cases "oidc_signing_keys (db w) = []")
    case True
    from assms(1,2) this obtain key kid der where der: "MarshalPKIXPublicKey E (rsa_public E key) = Some der"
      and ks: "ks = \<lparr>ks_Active = \<lparr>key_Kid = kid, key_Private = key\<rparr>, ks_Verifiers = [(kid, rsa_public E key)]\<rparr>"
      and stored: "oidc_signing_keys (db w') = [first_key E kid key der]" by (rule LoadKeys_first)
    with True first_key_parses [OF assms(3) der] show ?thesis by (simp add: key_set_def)
  next
    case False
    with assms(1,2) show ?thesis
      by (auto simp: LoadKeys_def sql_SelectSigningKeys_def run_fetch_idle key_set_def
          split: if_splits sum.splits option.splits prod.splits)
  qed
  then show "key_set E (db w') ks" "oidc_signing_keys (db w) \<noteq> [] \<Longrightarrow> db w' = db w" by blast+
qed

text \<open>The stages of the construction of the handler.\<close>

lemma make_handler_InrE:
  assumes "run_state (make_handler E H) w = (Inr h, w')"
  obtains ks v enc r
  where "run_state (LoadKeys E) w = (Inr ks, v)" and "Encryptor_New E (Getenv E ''TOTP_ENC_KEY'' []) = Some enc"
    and "run_state (Hash E ''constant-time-dummy-password'') v = (r, w')"
    and "h = \<lparr>h_jwt = NewManager (ks_Active ks) (ks_Verifiers ks) (jwt_Issuer H) (jwt_AccessTTL H), h_refreshTTL = jwt_RefreshTTL H,
       h_dummyHash = (case r of Inl _ \<Rightarrow> [] | Inr d \<Rightarrow> d),
       h_cache = Cache_New (redis_url_ok H) (redis_ping_ok H) (Getenv E ''REDIS_URL'' []), h_totpEnc = enc\<rparr>"
  using assms unfolding make_handler_def Handler_New_def
  by (elim run_elims raising_InrE) (auto intro: that)

lemma make_handler_InrD:
  assumes "run_state (make_handler E H) w = (Inr h, w')" and "idle w" and "pem_contract E"
  shows "\<exists>ks. key_set E (db w') ks
       \<and> h_jwt h = NewManager (ks_Active ks) (ks_Verifiers ks) (jwt_Issuer H) (jwt_AccessTTL H)"
    "h_refreshTTL h = jwt_RefreshTTL H" "h_cache h = Cache_New (redis_url_ok H) (redis_ping_ok H) (Getenv E ''REDIS_URL'' [])"
    "Encryptor_New E (Getenv E ''TOTP_ENC_KEY'' []) = Some (h_totpEnc h)"
    "oidc_signing_keys (db w) \<noteq> [] \<Longrightarrow> db w' = db w" "idle w'" "adds False (db w) (db w')"
proof -
  from assms(1) obtain ks v enc r where 1: "run_state (LoadKeys E) w = (Inr ks, v)"
    and enc: "Encryptor_New E (Getenv E ''TOTP_ENC_KEY'' []) = Some enc"
    and hash: "run_state (Hash E ''constant-time-dummy-password'') v = (r, w')"
    and h: "h = \<lparr>h_jwt = NewManager (ks_Active ks) (ks_Verifiers ks) (jwt_Issuer H) (jwt_AccessTTL H), h_refreshTTL = jwt_RefreshTTL H,
       h_dummyHash = (case r of Inl _ \<Rightarrow> [] | Inr d \<Rightarrow> d),
       h_cache = Cache_New (redis_url_ok H) (redis_ping_ok H) (Getenv E ''REDIS_URL'' []), h_totpEnc = enc\<rparr>"
    by (rule make_handler_InrE)
  from hash have same: "db w' = db v" by (auto simp: run_Hash split: option.splits)
  note keys = LoadKeys_InrD [OF 1 assms(2,3)]
  show "\<exists>ks. key_set E (db w') ks \<and> h_jwt h = NewManager (ks_Active ks) (ks_Verifiers ks) (jwt_Issuer H) (jwt_AccessTTL H)"
    "h_refreshTTL h = jwt_RefreshTTL H" "h_cache h = Cache_New (redis_url_ok H) (redis_ping_ok H) (Getenv E ''REDIS_URL'' [])"
    "Encryptor_New E (Getenv E ''TOTP_ENC_KEY'' []) = Some (h_totpEnc h)"
    "oidc_signing_keys (db w) \<noteq> [] \<Longrightarrow> db w' = db w"
    using keys h enc same by auto
  show i: "idle w'" by (rule idle_served [OF served_make_handler assms(1,2)])
  have "state_io_rel (lift_rel (adds False)) (make_handler E H)"
    unfolding make_handler_def by (intro adds_intros)
  from adds_idle [OF this assms(1,2) i] show "adds False (db w) (db w')" .
qed

text \<open>A private key and the public key stored with it belong together.\<close>

definition keys_paired :: "env \<Rightarrow> database \<Rightarrow> bool" where
  "keys_paired E d \<longleftrightarrow> distinct (map sk_Kid (oidc_signing_keys d))
     \<and> (\<forall>r \<in> set (oidc_signing_keys d). sk_Active r \<longrightarrow> (\<forall>priv. parsePrivatePEM E (sk_PrivatePem r) = Some priv
          \<longrightarrow> parsePublicPEM E (sk_PublicPem r) = Some (rsa_public E priv)))"

lemma keys_paired_empty: "oidc_signing_keys d = [] \<Longrightarrow> keys_paired E d"
  by (simp add: keys_paired_def)

lemma keys_paired_cong: "oidc_signing_keys d' = oidc_signing_keys d \<Longrightarrow> keys_paired E d' = keys_paired E d"
  by (simp add: keys_paired_def)

text \<open>The active key is one of the rows, and it is verified with the public key that belongs to it.\<close>

lemma load_rows_active:
  assumes "load_rows E rs vs act = Inr (vs', Some a)"
    and "distinct (map sk_Kid rs)" and "\<forall>r \<in> set rs. sk_Active r \<longrightarrow> (\<forall>priv. parsePrivatePEM E (sk_PrivatePem r) = Some priv
          \<longrightarrow> parsePublicPEM E (sk_PublicPem r) = Some (rsa_public E priv))"
    and "\<forall>b. act = Some b \<longrightarrow> map_of vs (key_Kid b) = Some (rsa_public E (key_Private b)) \<and> key_Kid b \<notin> sk_Kid ` set rs"
  shows "map_of vs' (key_Kid a) = Some (rsa_public E (key_Private a))"
  using assms
proof (induction rs arbitrary: vs act)
  case Nil
  then show ?case by simp
next
  case (Cons r rs)
  obtain pub where pub: "parsePublicPEM E (sk_PublicPem r) = Some pub"
    using Cons.prems(1) by (cases "parsePublicPEM E (sk_PublicPem r)") simp_all
  show ?case
  proof (cases "sk_Active r")
    case True
    obtain priv where priv: "parsePrivatePEM E (sk_PrivatePem r) = Some priv"
      using Cons.prems(1) pub True by (cases "parsePrivatePEM E (sk_PrivatePem r)") simp_all
    have "load_rows E rs (AList.update (sk_Kid r) pub vs) (Some \<lparr>key_Kid = sk_Kid r, key_Private = priv\<rparr>) = Inr (vs', Some a)"
      using Cons.prems(1) pub priv True by simp
    then show ?thesis
      by (rule Cons.IH) (use Cons.prems(2,3) pub priv True in \<open>auto simp: update_conv'\<close>)
  next
    case False
    have "load_rows E rs (AList.update (sk_Kid r) pub vs) act = Inr (vs', Some a)"
      using Cons.prems(1) pub False by simp
    then show ?thesis
      by (rule Cons.IH) (use Cons.prems(2-4) in \<open>auto simp: update_conv'\<close>)
  qed
qed

lemma key_set_wf:
  assumes "key_set E d ks" and "keys_paired E d" and "iss \<noteq> []"
  shows "wf_manager E (NewManager (ks_Active ks) (ks_Verifiers ks) iss ttl)"
  using assms load_rows_active [of E "oidc_signing_keys d" "[]" None "ks_Verifiers ks" "ks_Active ks"]
  by (simp add: wf_manager_def NewManager_def key_set_def keys_paired_def)

text \<open>The rows have an active one, so no other can be stored: the key set stays what it is.\<close>

lemma load_rows_some: "load_rows E rs vs act = Inr (vs', Some a) \<Longrightarrow> act \<noteq> None \<or> (\<exists>r \<in> set rs. sk_Active r)"
  by (induction rs arbitrary: vs act) (auto split: option.splits if_splits)

definition key_rows :: "OidcSigningKey list \<Rightarrow> database \<Rightarrow> bool" where
  "key_rows rows d \<longleftrightarrow> oidc_signing_keys d = rows \<and> (\<exists>r \<in> set rows. sk_Active r)"

lemma key_set_rows: "key_set E d ks \<Longrightarrow> key_rows (oidc_signing_keys d) d"
  by (auto simp: key_set_def key_rows_def dest: load_rows_some)

lemma key_rows_step: "db_step E since d d' \<Longrightarrow> key_rows rows d \<Longrightarrow> key_rows rows d'"
  by (induction rule: db_step.induct)
     (auto simp: key_rows_def sql_write_defs split: if_splits list.splits sum.splits option.splits)

interpretation key_rows: kept_property E since "key_rows rows" for E since rows
  by unfold_locales (rule key_rows_step)

lemma key_set_determined:
  "key_set E d ks \<Longrightarrow> key_set E d' ks' \<Longrightarrow> oidc_signing_keys d' = oidc_signing_keys d \<Longrightarrow> ks' = ks"
  by (simp add: key_set_def)

lemma make_handler_paired:
  assumes "run_state (make_handler E H) w = (Inr h, w')" and "idle w" and "pem_contract E" and "keys_paired E (db w)"
  shows "keys_paired E (db w')"
proof (cases "oidc_signing_keys (db w) = []")
  case False
  from make_handler_InrD(5) [OF assms(1-3) False] assms(4) show ?thesis by simp
next
  case True
  from assms(1) obtain ks v r where 1: "run_state (LoadKeys E) w = (Inr ks, v)"
    and "run_state (Hash E ''constant-time-dummy-password'') v = (r, w')" by (rule make_handler_InrE)
  then have "db w' = db v" by (auto simp: run_Hash split: option.splits)
  moreover have "keys_paired E (db v)"
  proof -
    from 1 assms(2) True obtain key kid der where der: "MarshalPKIXPublicKey E (rsa_public E key) = Some der"
      and "oidc_signing_keys (db v) = [first_key E kid key der]" by (rule LoadKeys_first)
    with first_key_parses [OF assms(3) der] show ?thesis by (simp add: keys_paired_def)
  qed
  ultimately show ?thesis by simp
qed

section \<open>The start\<close>

text \<open>The database the server starts from: as it was found, or as the migrations left it.\<close>

definition migrated :: "env \<Rightarrow> host \<Rightarrow> database \<Rightarrow> database \<Rightarrow> bool" where
  "migrated E H d d' \<longleftrightarrow> (if \<not> migrateOnly H \<and> Getenv E ''AUTO_MIGRATE'' ''true'' = ''false'' then d' = d
     else \<exists>n \<in> {1..12}. attempt_ok H d n \<and> d' = mig_db H d n)"

text \<open>From an idle process: what the migrations left.\<close>

lemma main_migrated:
  assumes "run_state (main E H) w = (Inr s, w')"
  obtains w1 where "w1 = w\<lparr>db := db w1\<rparr>" and "migrated E H (db w) (db w1)" and "run_state (after_migrations E H) w1 = (Inr s, w')"
proof -
  from assms obtain w1 where m: "if migrateOnly H \<or> Getenv E ''AUTO_MIGRATE'' ''true'' \<noteq> ''false''
      then \<exists>n. run_state (run_migrations H) w = (Inr n, w1) else w1 = w"
    and rest: "run_state (after_migrations E H) w1 = (Inr s, w')" by (rule main_InrE)
  have "w1 = w\<lparr>db := db w1\<rparr> \<and> migrated E H (db w) (db w1)"
  proof (cases "migrateOnly H \<or> Getenv E ''AUTO_MIGRATE'' ''true'' \<noteq> ''false''")
    case False
    with m show ?thesis by (simp add: migrated_def)
  next
    case True
    with m obtain n where "run_state (run_migrations H) w = (Inr n, w1)" by auto
    note r = run_migrations_InrD [OF this]
    from r(1) have "db w1 = mig_db H (db w) n" by simp
    with r True show ?thesis by (auto simp: migrated_def)
  qed
  with rest show thesis by (blast intro: that)
qed

lemma idle_same: "w1 = w\<lparr>db := d\<rparr> \<Longrightarrow> idle w \<Longrightarrow> idle w1"
  by (simp add: idle_def)

text \<open>A server that came up: what its start left, from the database the migrations left on.\<close>

lemma main_Serving:
  assumes "run_state (main E H) w = (Inr (Serving sv), w')" and "idle w" and "pem_contract E"
  obtains d ks where "migrated E H (db w) d" and "provisioned E (db w')" and "idle w'"
    and "provisioned E d \<and> oidc_signing_keys d \<noteq> [] \<longrightarrow> db w' = d"
    and "oidc_signing_keys d \<noteq> [] \<longrightarrow> oidc_signing_keys (db w') = oidc_signing_keys d"
    and "wf_db d \<longrightarrow> wf_db (db w')" and "keys_paired E d \<longrightarrow> keys_paired E (db w')"
    and "key_set E (db w') ks"
    and "h_jwt (sv_handler sv) = NewManager (ks_Active ks) (ks_Verifiers ks) (jwt_Issuer H) (jwt_AccessTTL H)"
    and "h_cache (sv_handler sv) = Cache_New (redis_url_ok H) (redis_ping_ok H) (Getenv E ''REDIS_URL'' [])"
proof -
  from main_migrated [OF assms(1)] obtain w1 where w1: "w1 = w\<lparr>db := db w1\<rparr>" "migrated E H (db w) (db w1)"
    and rest: "run_state (after_migrations E H) w1 = (Inr (Serving sv), w')" by blast
  from rest obtain w2 where b: "run_state (bootstrap E) w1 = (Inr (), w2)"
    and h: "run_state (make_handler E H) w2 = (Inr (sv_handler sv), w')"
    by (rule after_migrations_ServingE)
  have i: "idle w1" by (rule idle_same [OF w1(1) assms(2)])
  note b' = bootstrap_InrD [OF b i]
  note h' = make_handler_InrD [OF h b'(1) assms(3)]
  have "wf_db (db w')" if "wf_db (db w1)"
    using wf.kept_by_handler [OF served_bootstrap i, of 0 E] wf.kept_by_handler [OF served_make_handler b'(1), of 0 E H]
      that b h by auto
  moreover have "keys_paired E (db w')" if "keys_paired E (db w1)"
  proof -
    have "oidc_signing_keys (db w2) = oidc_signing_keys (db w1)" using b'(4) by (simp add: adds_def)
    with that have "keys_paired E (db w2)" using keys_paired_cong by blast
    then show ?thesis by (rule make_handler_paired [OF h b'(1) assms(3)])
  qed
  moreover from h'(1) obtain ks where "key_set E (db w') ks"
    "h_jwt (sv_handler sv) = NewManager (ks_Active ks) (ks_Verifiers ks) (jwt_Issuer H) (jwt_AccessTTL H)" by blast
  moreover have "provisioned E (db w')" using provisioned_adds [OF h'(7) b'(2)] .
  moreover have keys: "oidc_signing_keys (db w2) = oidc_signing_keys (db w1)" using b'(4) by (simp add: adds_def)
  then have "oidc_signing_keys (db w1) \<noteq> [] \<longrightarrow> db w' = db w2" using h'(5) by simp
  moreover have "provisioned E (db w1) \<longrightarrow> db w2 = db w1" using b'(3) by simp
  ultimately show thesis using w1(2) keys h'(3,6) by (intro that [of "db w1" ks]) auto
qed


section \<open>Restarts\<close>

text \<open>The migrations do not write keys.\<close>

definition keeps_keys :: "host \<Rightarrow> bool" where
  "keeps_keys H \<longleftrightarrow> (\<forall>n d. oidc_signing_keys (snd (migrate_run H n d)) = oidc_signing_keys d)"

lemma migrated_keys:
  assumes "keeps_keys H" and "migrated E H d d'"
  shows "oidc_signing_keys d' = oidc_signing_keys d"
proof -
  have "oidc_signing_keys (mig_db H d n) = oidc_signing_keys d" for n
    by (induction n) (use assms(1) in \<open>auto simp: keeps_keys_def\<close>)
  with assms(2) show ?thesis by (auto simp: migrated_def split: if_splits)
qed

text \<open>A server started later on the same keys has the same manager, but for the lifetime of its tokens.\<close>

lemma same_manager:
  assumes "run_state (main E H1) w = (Inr (Serving sv1), w1)" and "idle w" and "run_state (main E H2) v = (Inr (Serving sv2), w2)" and "idle v"
    and "pem_contract E" and "keys_paired E (db w)" and "keeps_keys H1" "keeps_keys H2" and "jwt_Issuer H2 = jwt_Issuer H1" "jwt_Issuer H1 \<noteq> []"
    and "key_rows (oidc_signing_keys (db w1)) (db w1) \<Longrightarrow> key_rows (oidc_signing_keys (db w1)) (db v)"
  shows "wf_manager E (h_jwt (sv_handler sv1))" "j_active (h_jwt (sv_handler sv2)) = j_active (h_jwt (sv_handler sv1))"
    "j_verifiers (h_jwt (sv_handler sv2)) = j_verifiers (h_jwt (sv_handler sv1))"
    "j_issuer (h_jwt (sv_handler sv2)) = j_issuer (h_jwt (sv_handler sv1))"
proof -
  from assms(1,2,5) obtain d1 ks1 where d1: "migrated E H1 (db w) d1" "keys_paired E d1 \<longrightarrow> keys_paired E (db w1)"
    and k1: "key_set E (db w1) ks1" "h_jwt (sv_handler sv1) = NewManager (ks_Active ks1) (ks_Verifiers ks1) (jwt_Issuer H1) (jwt_AccessTTL H1)"
    by (rule main_Serving)
  from assms(3-5) obtain d2 ks2 where d2: "migrated E H2 (db v) d2"
    "oidc_signing_keys d2 \<noteq> [] \<longrightarrow> oidc_signing_keys (db w2) = oidc_signing_keys d2"
    and k2: "key_set E (db w2) ks2" "h_jwt (sv_handler sv2) = NewManager (ks_Active ks2) (ks_Verifiers ks2) (jwt_Issuer H2) (jwt_AccessTTL H2)"
    by (rule main_Serving)
  have "keys_paired E d1" using migrated_keys [OF assms(7) d1(1)] keys_paired_cong assms(6) by blast
  with d1 k1 assms(10) show "wf_manager E (h_jwt (sv_handler sv1))" by (simp add: key_set_wf)
  have "oidc_signing_keys (db v) = oidc_signing_keys (db w1)" "oidc_signing_keys (db w1) \<noteq> []"
    using assms(11) [OF key_set_rows [OF k1(1)]] by (auto simp: key_rows_def)
  then have "oidc_signing_keys (db w2) = oidc_signing_keys (db w1)" using migrated_keys [OF assms(8) d2(1)] d2(2) by simp
  then have "ks2 = ks1" by (rule key_set_determined [OF k1(1) k2(1)])
  with k1(2) k2(2) assms(9) show "j_active (h_jwt (sv_handler sv2)) = j_active (h_jwt (sv_handler sv1))"
    "j_verifiers (h_jwt (sv_handler sv2)) = j_verifiers (h_jwt (sv_handler sv1))"
    "j_issuer (h_jwt (sv_handler sv2)) = j_issuer (h_jwt (sv_handler sv1))"
    by (simp_all add: NewManager_def)
qed


section \<open>Witnesses\<close>

text \<open>A host on which the second attempt at the migrations succeeds and nothing else fails.\<close>

definition H0 :: host where
  "H0 = \<lparr>os_Args = [''auth''], ValidateSecurity = True, InitTracer = True, MustEnv = (\<lambda>_. Some ''postgres''),
     embedded_migrations = True, migrate_run = (\<lambda>n d. (n = 2, d)), canceled = (\<lambda>_. False), NewPool = True,
     jwt_Issuer = ''iam'', jwt_AccessTTL = 15 * minute, jwt_RefreshTTL = 24 * hour, redis_url_ok = (\<lambda>_. True),
     redis_ping_ok = (\<lambda>_. True), NatsURL = ''nats'', nats_Connect = True, nats_EnsureStream = True,
     net_Listen = (\<lambda>_. True), saga_subscribe = (\<lambda>_. True), saga_canceled = (\<lambda>_. False)\<rparr>"

lemma H0_simps [simp]: "os_Args H0 = [''auth'']" "ValidateSecurity H0" "InitTracer H0" "MustEnv H0 s = Some ''postgres''"
  "embedded_migrations H0" "migrate_run H0 n d = (n = 2, d)" "\<not> canceled H0 n" "NewPool H0" "jwt_Issuer H0 = ''iam''"
  "jwt_AccessTTL H0 = 15 * minute" "jwt_RefreshTTL H0 = 24 * hour" "NatsURL H0 = ''nats''" "nats_Connect H0" "nats_EnsureStream H0"
  "net_Listen H0 s" "saga_subscribe H0 n" "\<not> saga_canceled H0 n"
  by (simp_all add: H0_def)

lemmas eval_boot = main_def check_config_def migrateOnly_def run_migrations_def migrate_loop.simps
      bootstrap_def BootstrapAdmin_def BootstrapDemo_def bootstrap_account_def BootstrapOIDCClient_def
      sql_InsertClientIfAbsent_def sql_InsertClient_def make_handler_def LoadKeys_def sql_SelectSigningKeys_def
      generateRSA_def sql_InsertSigningKey_def Encryptor_New_def Handler_New_def run_Hash start_events_def
      run_from_option defaultTenantUUID_def parsePrivatePEM_def parsePublicPEM_def digits_value_decimal

text \<open>A start, a token, and a restart.\<close>

lemma fixture_boots: "\<exists>sv w1 pair v sv2 w2. run_state (main E0 H0) (world0 d0 1) = (Inr (Serving sv), w1)
   \<and> run_state (issueTokens E0 (sv_handler sv) 10 ''a@x'' 1 None) w1 = (Inr pair, v)
   \<and> run_state (main E0 H0) v = (Inr (Serving sv2), w2) \<and> active_user (db w2) 10 \<and> active_member (db w2) 10 1
   \<and> revoked_tokens (db w2) = [] \<and> step w2 \<le> 100"
  by (simp add: eval_boot evals active_user_def)

lemma H0_keeps_keys: "keeps_keys H0"
  by (simp add: keeps_keys_def)

theorem migrations_retried_witness:
  "fst (migrate_loop H0 1 d0) = Inr 2"
proof -
  have ok: "attempt_ok H0 d0 j \<longleftrightarrow> j = 2" for j by (simp add: attempt_ok_def)
  from migrations_retried [of H0 d0] obtain k where k: "\<forall>j \<in> {1..<k}. \<not> attempt_ok H0 d0 j"
    "fst (migrate_loop H0 1 d0) =
       (if attempt_ok H0 d0 k then Inr k else if canceled H0 k then Inl MigrationsInterrupted else Inl MigrationsFailed)"
    "attempt_ok H0 d0 k \<or> canceled H0 k \<or> k = 12" by blast
  have "k = 2" using k(1,3) ok by force
  with k(2) ok show ?thesis by simp
qed



end
