(* ===== verification/Authorization.thy ===== *)
theory Authorization
  imports One_Time_Props Rbac_Props
begin

text \<open>
  Who may change what: which permission each request requires, that a caller without it changes nothing at all, and
  that the tables of roles, tenants, projects, members and clients change only through requests that
  require a permission, by callers who have it.
\<close>

section \<open>The policy\<close>

text \<open>The permission the handler of a request asks for first.\<close>

fun required_login :: "login_request \<Rightarrow> string option" where
  "required_login (RDeleteUser u hard) = Some ''user:delete''"
| "required_login (RRestoreUser u) = Some ''user:delete''"
| "required_login _ = None"

fun required_recovery :: "recovery_request \<Rightarrow> string option" where
  "required_recovery (RListAuditEvents n) = Some ''audit:read''"
| "required_recovery _ = None"

fun required_rbac :: "rbac_request \<Rightarrow> string option" where
  "required_rbac (RCreateRole nm ds) = Some ''role:write''"
| "required_rbac (RUpdateRole nm ds) = Some ''role:write''"
| "required_rbac (RDeleteRole nm) = Some ''role:write''"
| "required_rbac RListRoles = Some ''role:read''"
| "required_rbac (RAssignRole u nm p) = Some ''role:assign''"
| "required_rbac (RAssignRoleBulk us nm p) = Some ''role:assign''"
| "required_rbac (RRevokeRole u nm p) = Some ''role:assign''"
| "required_rbac RListPermissions = Some ''role:read''"
| "required_rbac (RGrantPermission nm pn) = Some ''role:write''"
| "required_rbac (RRevokePermission nm pn) = Some ''role:write''"
| "required_rbac (RGetUserRoleAssignments u) = Some ''role:read''"

fun required_tenant :: "tenant_request \<Rightarrow> string option" where
  "required_tenant RListMyMemberships = None"
| "required_tenant (RCreateTenant sl nm) = Some ''tenant:write''"
| "required_tenant RListTenants = Some ''tenant:read''"
| "required_tenant (RCreateProject sl nm) = Some ''project:write''"
| "required_tenant RListProjects = Some ''project:read''"
| "required_tenant (RAddMember em) = Some ''member:write''"
| "required_tenant (RRemoveMember u) = Some ''member:write''"
| "required_tenant RListMembers = Some ''member:read''"

fun required_oidc :: "oidc_request \<Rightarrow> string option" where
  "required_oidc (RRegisterClient nm uris scs conf) = Some ''role:write''"
| "required_oidc _ = None"

fun required :: "request \<Rightarrow> string option" where
  "required (LoginRequest r) = required_login r"
| "required (RecoveryRequest r) = required_recovery r"
| "required (RbacRequest r) = required_rbac r"
| "required (TenantRequest r) = required_tenant r"
| "required (OidcRequest r) = required_oidc r"
| "required _ = None"

text \<open>The permissions to change something, and the requests that set up an account or a client without one.\<close>

definition write_permissions :: "string set" where
  "write_permissions = {''role:write'', ''role:assign'', ''tenant:write'', ''project:write'', ''member:write'', ''user:delete''}"

fun sets_up :: "request \<Rightarrow> bool" where
  "sets_up (LoginRequest (RRegister em pw)) = True"
| "sets_up (BackgroundRequest (RBootstrapAdmin em pw)) = True"
| "sets_up (BackgroundRequest (RBootstrapDemo em pw)) = True"
| "sets_up (BackgroundRequest RBootstrapOIDCClient) = True"
| "sets_up _ = False"

section \<open>Callers without the permission\<close>

lemmas guarded_defs = DeleteUser_def RestoreUser_def ListAuditEvents_def CreateRole_def UpdateRole_def DeleteRole_def ListRoles_def
  AssignRole_def AssignRoleBulk_def RevokeRole_def ListPermissions_def GrantPermission_def RevokePermission_def
  GetUserRoleAssignments_def CreateTenant_def ListTenants_def CreateProject_def ListProjects_def AddMember_def
  RemoveMember_def ListMembers_def RegisterClient_def

lemma guarded_login: "required_login r = Some p \<Longrightarrow> \<not> id_HasPermission ctx p \<Longrightarrow> snd (run_state (serve_login E h ctx r) w) = w"
  by (cases r) (auto simp: guarded_defs run_requirePerm)

lemma guarded_recovery: "required_recovery r = Some p \<Longrightarrow> \<not> id_HasPermission ctx p \<Longrightarrow> snd (run_state (serve_recovery E h ctx r) w) = w"
  by (cases r) (auto simp: guarded_defs run_requirePerm)

lemma guarded_rbac: "required_rbac r = Some p \<Longrightarrow> \<not> id_HasPermission ctx p \<Longrightarrow> snd (run_state (serve_rbac E h ctx r) w) = w"
  by (cases r) (auto simp: guarded_defs run_requirePerm)

lemma guarded_tenant: "required_tenant r = Some p \<Longrightarrow> \<not> id_HasPermission ctx p \<Longrightarrow> snd (run_state (serve_tenant E h ctx r) w) = w"
  by (cases r) (auto simp: guarded_defs run_requirePerm)

lemma guarded_oidc: "required_oidc r = Some p \<Longrightarrow> \<not> id_HasPermission ctx p \<Longrightarrow> snd (run_state (serve_oidc E h ctx r) w) = w"
  by (cases r) (auto simp: guarded_defs run_requirePerm)

lemma guarded:
  "required r = Some p \<Longrightarrow> \<not> id_HasPermission ctx p \<Longrightarrow> snd (run_state (serve E h ctx r) w) = w"
  by (cases r) (simp_all add: guarded_login guarded_recovery guarded_rbac guarded_tenant guarded_oidc)

section \<open>Requests that leave access control alone\<close>

definition same_access :: "database \<Rightarrow> database \<Rightarrow> bool" where
  "same_access d d' \<longleftrightarrow> roles d' = roles d \<and> permissions d' = permissions d \<and> role_permissions d' = role_permissions d
     \<and> user_roles d' = user_roles d \<and> tenants d' = tenants d \<and> projects d' = projects d
     \<and> memberships d' = memberships d \<and> oauth_clients d' = oauth_clients d"

text \<open>The accounts, each with the email and the password hash that open it.\<close>

definition account :: "User \<Rightarrow> uuid \<times> string \<times> string" where
  "account u = (u_ID u, u_Email u, u_PasswordHash u)"

definition accounts :: "database \<Rightarrow> (uuid \<times> string \<times> string) set" where
  "accounts d = account ` set (users d)"

text \<open>
  \<open>calm tables safe\<close> leaves the tables of access control alone, if \<open>tables\<close>, and the accounts whose id is \<open>safe\<close>.
\<close>

definition calm :: "bool \<Rightarrow> uuid set \<Rightarrow> database \<Rightarrow> database \<Rightarrow> bool" where
  "calm tables safe d d' \<longleftrightarrow> (tables \<longrightarrow> same_access d d') \<and> {x \<in> accounts d. fst x \<in> safe} \<subseteq> accounts d'"

lemma calm_refl: "calm tables safe d d"
  by (auto simp: calm_def same_access_def)

lemma calm_trans: "calm tables safe d e \<Longrightarrow> calm tables safe e f \<Longrightarrow> calm tables safe d f"
  unfolding calm_def same_access_def by (intro conjI impI subsetI; simp) blast

lemma calm_kept:
  "(tables \<Longrightarrow> same_access d d') \<Longrightarrow> (\<And>u. u \<in> set (users d) \<Longrightarrow> u_ID u \<in> safe \<Longrightarrow> u \<in> set (users d')) \<Longrightarrow> calm tables safe d d'"
  by (auto simp: calm_def accounts_def account_def)

interpretation calm: db_effect "calm tables safe" for tables safe
  by unfold_locales (rule calm_refl, erule calm_trans)

named_theorems quiet_intros "a computation is calm"

lemmas quiet_control [quiet_intros] = calm.world.return_effect calm.world.bind_effect calm.world.ok_effect
  calm.world.bail_effect calm.world.check_effect calm.world.or_return_effect
  calm.world.ignoring_effect calm.world.from_option_effect calm.world.if_effect
  calm.world.option_effect calm.world.sum_effect calm.world.let_effect calm.world.prod_effect
  calm.outside_effect calm.tx_begin_effect calm.tx_commit_effect calm.deferring_rollback_effect
  calm.set_tenant_effect calm.set_local_role_effect calm.withTenant_effect calm.withTenantGUC_effect
  calm.fetch_effect calm.fetch_one_effect

lemma quiet_sum [quiet_intros]: "state_io_rel (lift_rel (calm tables safe)) (of_sum r)"
  by (simp add: of_sum_def calm.world.return_effect)

lemma quiet_list [quiet_intros]:
  "state_io_rel (lift_rel (calm tables safe)) m \<Longrightarrow> (\<And>x xs. l = x # xs \<Longrightarrow> state_io_rel (lift_rel (calm tables safe)) (k x xs)) \<Longrightarrow>
   state_io_rel (lift_rel (calm tables safe)) (case l of [] \<Rightarrow> m | x # xs \<Rightarrow> k x xs)"
  by (cases l) simp_all

lemma quiet_read [quiet_intros]:
  "state_io_rel (lift_rel (calm tables safe)) (exec E (sql_GetUserByEmail email))"
  "state_io_rel (lift_rel (calm tables safe)) (exec E (sql_GetUserByID uid))"
  "state_io_rel (lift_rel (calm tables safe)) (exec E (sql_IsUserActive uid))"
  "state_io_rel (lift_rel (calm tables safe)) (exec E (sql_ListAuditEvents t n))"
  "state_io_rel (lift_rel (calm tables safe)) (exec E (sql_FetchUnpublishedOutbox n))"
  "state_io_rel (lift_rel (calm tables safe)) (exec E (sql_GetRefreshToken h))"
  "state_io_rel (lift_rel (calm tables safe)) (exec E (sql_IsTokenRevoked jti))"
  "state_io_rel (lift_rel (calm tables safe)) (exec E (sql_GetApiKeyByHash h))"
  "state_io_rel (lift_rel (calm tables safe)) (exec E (sql_ListApiKeysByUser uid))"
  "state_io_rel (lift_rel (calm tables safe)) (exec E (sql_GetRoleByName nm))"
  "state_io_rel (lift_rel (calm tables safe)) (exec E (sql_GetRoleInTenant nm t))"
  "state_io_rel (lift_rel (calm tables safe)) (exec E (sql_GetTenantRole nm t))"
  "state_io_rel (lift_rel (calm tables safe)) (exec E (sql_ListRolesWithPermissions t))"
  "state_io_rel (lift_rel (calm tables safe)) (exec E sql_ListPermissions)"
  "state_io_rel (lift_rel (calm tables safe)) (exec E (sql_GetUserPermissions uid))"
  "state_io_rel (lift_rel (calm tables safe)) (exec E (sql_GetUserRoles uid))"
  "state_io_rel (lift_rel (calm tables safe)) (exec E (sql_GetUserPermissionsScoped uid tid p))"
  "state_io_rel (lift_rel (calm tables safe)) (exec E (sql_GetUserRolesScoped uid tid p))"
  "state_io_rel (lift_rel (calm tables safe)) (exec E (sql_GetUserRoleAssignments uid tid))"
  "state_io_rel (lift_rel (calm tables safe)) (exec E sql_ListTenants)"
  "state_io_rel (lift_rel (calm tables safe)) (exec E (sql_ListMembershipsByUser uid))"
  "state_io_rel (lift_rel (calm tables safe)) (exec E (sql_IsActiveMember uid tid))"
  "state_io_rel (lift_rel (calm tables safe)) (exec E (sql_ListMembersByTenant tid))"
  "state_io_rel (lift_rel (calm tables safe)) (exec E (sql_ListProjectsByTenant tid))"
  "state_io_rel (lift_rel (calm tables safe)) (exec E (sql_IsProjectInTenant pid tid))"
  "state_io_rel (lift_rel (calm tables safe)) (exec E (sql_SelectClient cid))"
  "state_io_rel (lift_rel (calm tables safe)) (exec E (sql_ClientTenant cid))"
  "state_io_rel (lift_rel (calm tables safe)) (exec E (sql_ClientSecret cid))"
  "state_io_rel (lift_rel (calm tables safe)) (exec E (sql_SelectCode h))"
  "state_io_rel (lift_rel (calm tables safe)) (exec E (sql_SelectUserEmail uid))"
  "state_io_rel (lift_rel (calm tables safe)) (exec E (sql_SelectConsent uid cid))"
  "state_io_rel (lift_rel (calm tables safe)) (exec E sql_SelectSigningKeys)"
  unfolding sql_SelectClient_def sql_ClientTenant_def sql_ClientSecret_def sql_SelectCode_def
    sql_SelectUserEmail_def sql_SelectConsent_def sql_SelectSigningKeys_def sql_GetUserByEmail_def sql_GetUserByID_def sql_IsUserActive_def sql_ListAuditEvents_def
    sql_FetchUnpublishedOutbox_def sql_GetRefreshToken_def sql_IsTokenRevoked_def
    sql_GetApiKeyByHash_def sql_ListApiKeysByUser_def sql_GetRoleByName_def sql_GetRoleInTenant_def
    sql_GetTenantRole_def sql_ListRolesWithPermissions_def sql_ListPermissions_def
    sql_GetUserPermissions_def sql_GetUserRoles_def sql_GetUserPermissionsScoped_def
    sql_GetUserRolesScoped_def sql_GetUserRoleAssignments_def sql_ListTenants_def
    sql_ListMembershipsByUser_def sql_IsActiveMember_def sql_ListMembersByTenant_def
    sql_ListProjectsByTenant_def sql_IsProjectInTenant_def
  by (rule calm.fetch_effect calm.fetch_one_effect)+

lemma quiet_write [quiet_intros]:
  "state_io_rel (lift_rel (calm tables safe)) (exec E (sql_CreateUser email pw))"
  "state_io_rel (lift_rel (calm tables safe)) (exec E (sql_SoftDeleteUser uid))"
  "state_io_rel (lift_rel (calm tables safe)) (exec E (sql_RestoreUser uid))"
  "state_io_rel (lift_rel (calm tables safe)) (exec E (sql_SetTotpSecret uid s))"
  "state_io_rel (lift_rel (calm tables safe)) (exec E (sql_EnableTotp uid))"
  "state_io_rel (lift_rel (calm tables safe)) (exec E (sql_DisableTotp uid))"
  "state_io_rel (lift_rel (calm tables safe)) (exec E (sql_IncrementLoginFailure uid))"
  "state_io_rel (lift_rel (calm tables safe)) (exec E (sql_LockUser uid t))"
  "state_io_rel (lift_rel (calm tables safe)) (exec E (sql_ResetLoginState uid))"
  "state_io_rel (lift_rel (calm tables safe)) (exec E (sql_MarkEmailVerified uid))"
  "state_io_rel (lift_rel (calm tables safe)) (exec E (sql_CreateEmailVerification h uid t))"
  "state_io_rel (lift_rel (calm tables safe)) (exec E (sql_ConsumeEmailVerification h))"
  "state_io_rel (lift_rel (calm tables safe)) (exec E (sql_CreatePasswordReset h uid t))"
  "state_io_rel (lift_rel (calm tables safe)) (exec E (sql_ConsumePasswordReset h))"
  "state_io_rel (lift_rel (calm tables safe)) (exec E (sql_InsertRecoveryCode uid h))"
  "state_io_rel (lift_rel (calm tables safe)) (exec E (sql_DeleteRecoveryCodes uid))"
  "state_io_rel (lift_rel (calm tables safe)) (exec E (sql_ConsumeRecoveryCode uid h))"
  "state_io_rel (lift_rel (calm tables safe)) (exec E (sql_InsertAuditEvent a e act tg det ten))"
  "state_io_rel (lift_rel (calm tables safe)) (exec E (sql_InsertOutbox uid ty pl))"
  "state_io_rel (lift_rel (calm tables safe)) (exec E (sql_MarkOutboxPublished oid))"
  "state_io_rel (lift_rel (calm tables safe)) (exec E (sql_CreateRefreshToken uid h t tid pid))"
  "state_io_rel (lift_rel (calm tables safe)) (exec E (sql_RevokeRefreshToken h))"
  "state_io_rel (lift_rel (calm tables safe)) (exec E (sql_RotateRefreshToken h s'))"
  "state_io_rel (lift_rel (calm tables safe)) (exec E (sql_RevokeAllUserRefreshTokens uid))"
  "state_io_rel (lift_rel (calm tables safe)) (exec E (sql_RevokeAccessJTI jti t))"
  "state_io_rel (lift_rel (calm tables safe)) (exec E (sql_CreateApiKey k uid h nm sc ex tid pid))"
  "state_io_rel (lift_rel (calm tables safe)) (exec E (sql_RevokeApiKey k uid))"
  "state_io_rel (lift_rel (calm tables safe)) (exec E (sql_TouchApiKey k))"
  "state_io_rel (lift_rel (calm tables safe)) (exec E (sql_InsertCode h cid uid ru scp ch me no))"
  "state_io_rel (lift_rel (calm tables safe)) (exec E (sql_ClaimCode h))"
  "state_io_rel (lift_rel (calm tables safe)) (exec E (sql_UpsertConsent uid cid scs))"
  "state_io_rel (lift_rel (calm tables safe)) (exec E (sql_InsertSigningKey kid pr pu))"
  by (rule calm.exec_effect; auto simp: calm_def same_access_def accounts_def account_def sql_write_defs image_update_where
      split: if_splits list.splits option.splits)+

lemma loud_write [quiet_intros]:
  "state_io_rel (lift_rel (calm False safe)) (exec E (sql_CreateRole nm ds ten))"
  "state_io_rel (lift_rel (calm False safe)) (exec E (sql_UpdateRole nm ds ten))"
  "state_io_rel (lift_rel (calm False safe)) (exec E (sql_DeleteRole nm ten))"
  "state_io_rel (lift_rel (calm False safe)) (exec E (sql_AssignRoleToUser uid nm tid pid))"
  "state_io_rel (lift_rel (calm False safe)) (exec E (sql_AssignRoleInTenant uid nm tid))"
  "state_io_rel (lift_rel (calm False safe)) (exec E (sql_RevokeRoleFromUser uid nm tid pid))"
  "state_io_rel (lift_rel (calm False safe)) (exec E (sql_GrantPermissionToRole nm pn ten))"
  "state_io_rel (lift_rel (calm False safe)) (exec E (sql_RevokePermissionFromRole nm pn ten))"
  "state_io_rel (lift_rel (calm False safe)) (exec E (sql_CreateTenant sl nm))"
  "state_io_rel (lift_rel (calm False safe)) (exec E (sql_CreateMembership uid tid))"
  "state_io_rel (lift_rel (calm False safe)) (exec E (sql_RemoveMember uid tid))"
  "state_io_rel (lift_rel (calm False safe)) (exec E (sql_CreateProject tid sl nm))"
  "state_io_rel (lift_rel (calm False safe)) (exec E (sql_InsertClient x))"
  "state_io_rel (lift_rel (calm False safe)) (exec E (sql_InsertClientIfAbsent x))"
  by (rule calm.exec_effect, rule calm_kept; auto simp: sql_write_defs split: if_splits list.splits option.splits sum.splits)+

lemma account_write:
  "uid \<notin> safe \<Longrightarrow> state_io_rel (lift_rel (calm tables safe)) (exec E (sql_UpdatePassword uid pw))"
  "uid \<notin> safe \<Longrightarrow> state_io_rel (lift_rel (calm False safe)) (exec E (sql_DeleteUser uid))"
  by (rule calm.exec_effect, rule calm_kept; auto simp: same_access_def sql_write_defs in_update_where)+

section \<open>The helpers\<close>

lemma quiet_loops [quiet_intros]:
  "state_io_rel (lift_rel (calm tables safe)) (scan_and_delete E match fuel cursor)"
  "state_io_rel (lift_rel (calm tables safe)) (GenerateRecoveryCodes E n)"
  "state_io_rel (lift_rel (calm tables safe)) (insert_recovery_codes E uid codes)"
  "state_io_rel (lift_rel (calm tables safe)) (publish_rows E rows)"
proof -
  show "state_io_rel (lift_rel (calm tables safe)) (scan_and_delete E match fuel cursor)"
    by (induction fuel arbitrary: cursor) (auto intro!: quiet_intros split: redis_reply.splits)
  show "state_io_rel (lift_rel (calm tables safe)) (GenerateRecoveryCodes E n)"
    by (induction n) (auto intro!: quiet_intros)
  show "state_io_rel (lift_rel (calm tables safe)) (insert_recovery_codes E uid codes)"
    by (induction codes) (auto intro!: quiet_intros)
  have "state_io_rel (lift_rel (calm tables safe)) (Publish E su pl mid)" for su pl mid
    unfolding Publish_def by (auto intro!: state_io_relI calm.same_db_effect simp: Let_def split: if_splits)
  then show "state_io_rel (lift_rel (calm tables safe)) (publish_rows E rows)"
    by (induction rows) (auto intro!: quiet_intros)
qed

lemma quiet_cache [quiet_intros]:
  "state_io_rel (lift_rel (calm tables safe)) (Deny E c jti ttl)"
  "state_io_rel (lift_rel (calm tables safe)) (IsDenied E c jti)"
  "state_io_rel (lift_rel (calm tables safe)) (GetPerms E c t p u)"
  "state_io_rel (lift_rel (calm tables safe)) (SetPerms E c t p u ps)"
  "state_io_rel (lift_rel (calm tables safe)) (InvalidatePerms E c u)"
  unfolding Deny_def IsDenied_def GetPerms_def SetPerms_def InvalidatePerms_def
  by (auto intro!: quiet_intros)

lemma quiet_tokens [quiet_intros]:
  "state_io_rel (lift_rel (calm tables safe)) (sign E m p)"
  "state_io_rel (lift_rel (calm tables safe)) (Issue E m u e t pr)"
  "state_io_rel (lift_rel (calm tables safe)) (IssueMFA E m u ttl)"
  "state_io_rel (lift_rel (calm tables safe)) (IssueIDToken E m u e a n i)"
  "state_io_rel (lift_rel (calm tables safe)) (Parse E m tok)"
  "state_io_rel (lift_rel (calm tables safe)) (ParseAccess E m tok)"
  "state_io_rel (lift_rel (calm tables safe)) (Hash E plain)"
  "state_io_rel (lift_rel (calm tables safe)) (Encrypt E ec pt)"
  "state_io_rel (lift_rel (calm tables safe)) (totp_Validate E c s)"
  "state_io_rel (lift_rel (calm tables safe)) (randCode E)"
  unfolding sign_def Issue_def IssueMFA_def IssueIDToken_def Parse_def ParseAccess_def Hash_def Encrypt_def totp_Validate_def randCode_def
  by (intro quiet_intros)+

lemma quiet_totp_Generate [quiet_intros]: "state_io_rel (lift_rel (calm tables safe)) (totp_Generate E acc)"
  unfolding totp_Generate_def by (auto intro!: state_io_relI calm.same_db_effect)

lemma quiet_common [quiet_intros]:
  "state_io_rel (lift_rel (calm tables safe)) (requirePerm ctx perm)"
  "state_io_rel (lift_rel (calm tables safe)) (Send E to sub body)"
  "state_io_rel (lift_rel (calm tables safe)) (auditAs E ctx a b c d e)"
  "state_io_rel (lift_rel (calm tables safe)) (audit E ctx c d e)"
  "state_io_rel (lift_rel (calm tables safe)) (newRefreshToken E)"
  "state_io_rel (lift_rel (calm tables safe)) (project_in_tenant E pid t0)"
  "state_io_rel (lift_rel (calm tables safe)) (issueTokens E h u em t p)"
  "state_io_rel (lift_rel (calm tables safe)) (issueForActiveTenant E h u em)"
  unfolding project_in_tenant_def requirePerm_def Send_def audit_def auditAs_def newRefreshToken_def issueTokens_def issueForActiveTenant_def
  by (intro quiet_intros)+

lemma quiet_parts [quiet_intros]:
  "state_io_rel (lift_rel (calm tables safe)) (is_locked E u)"
  "state_io_rel (lift_rel (calm tables safe)) (count_failure E ctx uid em det)"
  "state_io_rel (lift_rel (calm tables safe)) (consumeRecoveryCode E uid code)"
  "state_io_rel (lift_rel (calm tables safe)) (totp_matches E h stored code)"
  "state_io_rel (lift_rel (calm tables safe)) (second_factor E uid code valid)"
  "state_io_rel (lift_rel (calm tables safe)) (in_grace E row t)"
  "state_io_rel (lift_rel (calm tables safe)) (denylist E h claims)"
  "state_io_rel (lift_rel (calm tables safe)) (check_revoked E h jti)"
  "state_io_rel (lift_rel (calm tables safe)) (check_active E uid)"
  "state_io_rel (lift_rel (calm tables safe)) (check_member E uid tid)"
  "state_io_rel (lift_rel (calm tables safe)) (load_roles E uid ten p)"
  "state_io_rel (lift_rel (calm tables safe)) (load_perms E uid ten p)"
  "state_io_rel (lift_rel (calm tables safe)) (cached_perms E h claims uid ten)"
  "state_io_rel (lift_rel (calm tables safe)) (randToken E n)"
  "state_io_rel (lift_rel (calm tables safe)) (expiry E ttl)"
  "state_io_rel (lift_rel (calm tables safe)) (key_expired E k)"
  "state_io_rel (lift_rel (calm tables safe)) (authenticate_client E cid sec pk)"
  "state_io_rel (lift_rel (calm tables safe)) (redeem_code E hh cid ru)"
  unfolding is_locked_def count_failure_def consumeRecoveryCode_def totp_matches_def second_factor_def in_grace_def denylist_def check_revoked_def check_active_def check_member_def load_roles_def load_perms_def cached_perms_def randToken_def expiry_def key_expired_def authenticate_client_def redeem_code_def
  by (intro quiet_intros)+

section \<open>The handlers\<close>

lemma quiet_login [quiet_intros]:
  "state_io_rel (lift_rel (calm tables safe)) (Login E h ctx em pw)"
  "state_io_rel (lift_rel (calm tables safe)) (EnrollTotp E h ctx)"
  "state_io_rel (lift_rel (calm tables safe)) (GetTotpStatus E ctx)"
  "state_io_rel (lift_rel (calm tables safe)) (ActivateTotp E h ctx code)"
  "state_io_rel (lift_rel (calm tables safe)) (DisableTotp E h ctx code)"
  "state_io_rel (lift_rel (calm tables safe)) (LoginTotp E h ctx tok code)"
  unfolding Login_def EnrollTotp_def GetTotpStatus_def ActivateTotp_def DisableTotp_def LoginTotp_def
  by (intro quiet_intros)+

lemma quiet_sessions [quiet_intros]:
  "state_io_rel (lift_rel (calm tables safe)) (Refresh E h ctx rtok)"
  "state_io_rel (lift_rel (calm tables safe)) (Logout E h ctx rtok atok)"
  "state_io_rel (lift_rel (calm tables safe)) (ValidateToken E h atok)"
  "state_io_rel (lift_rel (calm tables safe)) (SwitchTenant E h ctx tenant_id project_id)"
  unfolding Refresh_def Logout_def ValidateToken_def SwitchTenant_def
  by (intro quiet_intros)+

lemma quiet_recovery [quiet_intros]:
  "state_io_rel (lift_rel (calm tables safe)) (RequestEmailVerification E ctx em)"
  "state_io_rel (lift_rel (calm tables safe)) (VerifyEmail E ctx token)"
  "state_io_rel (lift_rel (calm tables safe)) (RequestPasswordReset E ctx em)"
  "state_io_rel (lift_rel (calm tables safe)) (ListAuditEvents E ctx n)"
  unfolding RequestEmailVerification_def VerifyEmail_def RequestPasswordReset_def ListAuditEvents_def
  by (intro quiet_intros)+

text \<open>Handlers that write to the tables of access control, but to no account.\<close>

lemma loud_parts [quiet_intros]:
  "state_io_rel (lift_rel (calm tables safe)) (validateAssign E nm pid ten)"
  "state_io_rel (lift_rel (calm tables safe)) (permRoleGuard E nm ten)"
  "state_io_rel (lift_rel (calm False safe)) (assign_each E h nm ten p uids)"
proof -
  show "state_io_rel (lift_rel (calm tables safe)) (validateAssign E nm pid ten)"
    "state_io_rel (lift_rel (calm tables safe)) (permRoleGuard E nm ten)"
    unfolding validateAssign_def permRoleGuard_def by (intro quiet_intros)+
  show "state_io_rel (lift_rel (calm False safe)) (assign_each E h nm ten p uids)"
    by (induction uids) (auto intro!: quiet_intros split: prod.splits)
qed

lemma loud_handlers:
  "state_io_rel (lift_rel (calm False safe)) (Register E ctx em pw)"
  "state_io_rel (lift_rel (calm False safe)) (RestoreUser E ctx uid)"
  "state_io_rel (lift_rel (calm False safe)) (CreateRole E ctx nm ds)"
  "state_io_rel (lift_rel (calm False safe)) (UpdateRole E ctx nm ds)"
  "state_io_rel (lift_rel (calm False safe)) (DeleteRole E ctx nm)"
  "state_io_rel (lift_rel (calm False safe)) (AssignRole E h ctx u nm p)"
  "state_io_rel (lift_rel (calm False safe)) (AssignRoleBulk E h ctx us nm p)"
  "state_io_rel (lift_rel (calm False safe)) (RevokeRole E h ctx u nm p)"
  "state_io_rel (lift_rel (calm False safe)) (GrantPermission E ctx nm pn)"
  "state_io_rel (lift_rel (calm False safe)) (RevokePermission E ctx nm pn)"
  "state_io_rel (lift_rel (calm False safe)) (CreateTenant E ctx slug nm)"
  "state_io_rel (lift_rel (calm False safe)) (CreateProject E ctx slug nm)"
  "state_io_rel (lift_rel (calm False safe)) (AddMember E ctx em)"
  "state_io_rel (lift_rel (calm False safe)) (RemoveMember E ctx u)"
  "state_io_rel (lift_rel (calm False safe)) (RegisterClient E ctx nm uris scs conf)"
  "state_io_rel (lift_rel (calm False safe)) (BootstrapAdmin E em pw)"
  "state_io_rel (lift_rel (calm False safe)) (BootstrapDemo E em pw)"
  "state_io_rel (lift_rel (calm False safe)) (BootstrapOIDCClient E)"
  unfolding Register_def RestoreUser_def CreateRole_def UpdateRole_def DeleteRole_def AssignRole_def AssignRoleBulk_def
    RevokeRole_def GrantPermission_def RevokePermission_def CreateTenant_def CreateProject_def AddMember_def RemoveMember_def
    RegisterClient_def BootstrapAdmin_def BootstrapDemo_def bootstrap_account_def raising_def BootstrapOIDCClient_def
  by (intro quiet_intros)+

text \<open>Handlers that replace or delete an account.\<close>

lemma account_handlers:
  "(\<And>uid. hard \<Longrightarrow> uuid_parse E s = Some uid \<Longrightarrow> uid \<notin> safe) \<Longrightarrow>
     state_io_rel (lift_rel (calm False safe)) (DeleteUser E ctx s hard)"
  "state_io_rel (lift_rel (calm tables {})) (ResetPassword E ctx tok pw)"
  "state_io_rel (lift_rel (calm tables {})) (ChangePassword E ctx old new)"
  unfolding DeleteUser_def ResetPassword_def ChangePassword_def
  by (intro quiet_intros account_write; simp)+

lemma quiet_lists [quiet_intros]:
  "state_io_rel (lift_rel (calm tables safe)) (ListRoles E ctx)"
  "state_io_rel (lift_rel (calm tables safe)) (ListPermissions E ctx)"
  "state_io_rel (lift_rel (calm tables safe)) (GetUserRoleAssignments E ctx u)"
  "state_io_rel (lift_rel (calm tables safe)) (ListMyMemberships E ctx)"
  "state_io_rel (lift_rel (calm tables safe)) (ListTenants E ctx)"
  "state_io_rel (lift_rel (calm tables safe)) (ListProjects E ctx)"
  "state_io_rel (lift_rel (calm tables safe)) (ListMembers E ctx)"
  unfolding ListRoles_def ListPermissions_def GetUserRoleAssignments_def ListMyMemberships_def ListTenants_def ListProjects_def ListMembers_def
  by (intro quiet_intros)+

lemma quiet_api_keys [quiet_intros]:
  "state_io_rel (lift_rel (calm tables safe)) (CreateApiKey E ctx nm scs ttl)"
  "state_io_rel (lift_rel (calm tables safe)) (ListApiKeys E ctx)"
  "state_io_rel (lift_rel (calm tables safe)) (RevokeApiKey E ctx kid)"
  "state_io_rel (lift_rel (calm tables safe)) (ValidateApiKey E key)"
  unfolding CreateApiKey_def ListApiKeys_def RevokeApiKey_def ValidateApiKey_def
  by (intro quiet_intros)+

lemma quiet_oidc [quiet_intros]:
  "state_io_rel (lift_rel (calm tables safe)) (GetClient E cid)"
  "state_io_rel (lift_rel (calm tables safe)) (CreateAuthorizationCode E u cid ru sc ch me no)"
  "state_io_rel (lift_rel (calm tables safe)) (ExchangeAuthorizationCode E h code cid ru ver sec)"
  "state_io_rel (lift_rel (calm tables safe)) (GetConsent E u cid)"
  "state_io_rel (lift_rel (calm tables safe)) (SaveConsent E u cid scs)"
  unfolding GetClient_def CreateAuthorizationCode_def ExchangeAuthorizationCode_def GetConsent_def SaveConsent_def
  by (intro quiet_intros)+

lemma quiet_background [quiet_intros]:
  "state_io_rel (lift_rel (calm tables safe)) (drain E r)"
  "state_io_rel (lift_rel (calm tables safe)) (saga_handle E data)"
  unfolding drain_def saga_handle_def
  by (intro quiet_intros)+

section \<open>Requests\<close>

definition writing :: "request \<Rightarrow> bool" where
  "writing r \<longleftrightarrow> (\<exists>p \<in> write_permissions. required r = Some p)"

text \<open>The requests that replace the password of an account or remove it.\<close>

fun replaces :: "request \<Rightarrow> bool" where
  "replaces (LoginRequest (RDeleteUser s hard)) = hard"
| "replaces (RecoveryRequest (RResetPassword tok pw)) = True"
| "replaces (RecoveryRequest (RChangePassword old new)) = True"
| "replaces _ = False"

lemma quiet_effect: "state_io_rel (lift_rel (calm tables safe)) m \<Longrightarrow> state_io_rel (lift_rel (calm tables safe)) (effect m)"
  unfolding effect_def by (intro quiet_intros)

lemmas calm_handlers = quiet_login quiet_sessions quiet_recovery quiet_lists quiet_api_keys quiet_oidc quiet_background
  loud_handlers account_handlers

lemma calm_login_request:
  "(tables \<Longrightarrow> \<not> writing (LoginRequest r) \<and> \<not> sets_up (LoginRequest r)) \<Longrightarrow> (replaces (LoginRequest r) \<Longrightarrow> safe = {}) \<Longrightarrow>
     state_io_rel (lift_rel (calm tables safe)) (serve_login E h ctx r)"
  by (cases tables; cases r) (auto simp: writing_def write_permissions_def intro!: quiet_effect calm_handlers)

lemma calm_session_request:
  "state_io_rel (lift_rel (calm tables safe)) (serve_session E h ctx r)"
  by (cases tables; cases r) (auto simp: writing_def write_permissions_def intro!: quiet_effect calm_handlers)

lemma calm_recovery_request:
  "(replaces (RecoveryRequest r) \<Longrightarrow> safe = {}) \<Longrightarrow>
     state_io_rel (lift_rel (calm tables safe)) (serve_recovery E h ctx r)"
  by (cases tables; cases r) (auto simp: writing_def write_permissions_def intro!: quiet_effect calm_handlers)

lemma calm_rbac_request:
  "(tables \<Longrightarrow> \<not> writing (RbacRequest r)) \<Longrightarrow> state_io_rel (lift_rel (calm tables safe)) (serve_rbac E h ctx r)"
  by (cases tables; cases r) (auto simp: writing_def write_permissions_def intro!: quiet_effect calm_handlers)

lemma calm_tenant_request:
  "(tables \<Longrightarrow> \<not> writing (TenantRequest r)) \<Longrightarrow> state_io_rel (lift_rel (calm tables safe)) (serve_tenant E h ctx r)"
  by (cases tables; cases r) (auto simp: writing_def write_permissions_def intro!: quiet_effect calm_handlers)

lemma calm_api_key_request:
  "state_io_rel (lift_rel (calm tables safe)) (serve_api_key E h ctx r)"
  by (cases tables; cases r) (auto simp: writing_def write_permissions_def intro!: quiet_effect calm_handlers)

lemma calm_oidc_request:
  "(tables \<Longrightarrow> \<not> writing (OidcRequest r)) \<Longrightarrow> state_io_rel (lift_rel (calm tables safe)) (serve_oidc E h ctx r)"
  by (cases tables; cases r) (auto simp: writing_def write_permissions_def intro!: quiet_effect calm_handlers)

lemma calm_background_request:
  "(tables \<Longrightarrow> \<not> sets_up (BackgroundRequest r)) \<Longrightarrow> state_io_rel (lift_rel (calm tables safe)) (serve_background E h ctx r)"
  by (cases tables; cases r) (auto simp: writing_def write_permissions_def intro!: quiet_effect calm_handlers)

lemma calm_serve:
  "(tables \<Longrightarrow> \<not> writing r \<and> \<not> sets_up r) \<Longrightarrow> (replaces r \<Longrightarrow> safe = {}) \<Longrightarrow>
     state_io_rel (lift_rel (calm tables safe)) (serve E h ctx r)"
  by (cases r) (simp_all add: calm_login_request calm_session_request calm_recovery_request calm_rbac_request
      calm_tenant_request calm_api_key_request calm_oidc_request calm_background_request)

text \<open>From an idle world to an idle world.\<close>

lemma calm_served:
  assumes "state_io_rel (lift_rel (calm tables safe)) m" and "state_io_rel (served E 0) m" and "idle w" and "run_state m w = (x, w')"
  shows "idle w'" "calm tables safe (db w) (db w')"
proof -
  show "idle w'" using state_io_relD [OF assms(2,4)] assms(3) by (simp add: served_def)
  then show "calm tables safe (db w) (db w')" using lift_rel_idleD [OF assms(1,3)] assms(4) by (simp add: idle_def durable_def)
qed

text \<open>C2: permissions are enforced. A request that requires a permission, from a caller who lacks it, changes nothing
  at all: nothing in the database, no command to Redis, no message, not even a read of the clock. And whatever
  request changes the roles, permissions, grants, assignments, tenants, projects, memberships or OAuth clients, short
  of a registration or the bootstrap, is one that requires a permission to write, and its caller has it.\<close>

theorem permissions_enforced:
  assumes "idle w" and "run_state (serve E h ctx r) w = (x, w')"
  shows "(\<forall>p. required r = Some p \<and> \<not> id_HasPermission ctx p \<longrightarrow> w' = w)
     \<and> (\<not> same_access (db w) (db w') \<longrightarrow> sets_up r \<or> (\<exists>p \<in> write_permissions. required r = Some p \<and> id_HasPermission ctx p))"
proof (intro conjI allI impI)
  show "w' = w" if "required r = Some p \<and> \<not> id_HasPermission ctx p" for p
    using guarded [of r p ctx E h w] that assms(2) by simp
  assume changed: "\<not> same_access (db w) (db w')"
  then have "\<not> calm True {} (db w) (db w')" by (simp add: calm_def)
  with calm_served(2) [OF calm_serve served_serve assms] have "writing r \<or> sets_up r" by blast
  moreover have "id_HasPermission ctx p" if "required r = Some p" for p
    using guarded [of r p ctx E h w] that assms(2) changed by (auto simp: same_access_def)
  ultimately show "sets_up r \<or> (\<exists>p \<in> write_permissions. required r = Some p \<and> id_HasPermission ctx p)"
    by (auto simp: writing_def)
qed

section \<open>Accounts\<close>

lemma calmD: "calm tables safe d d' \<Longrightarrow> u \<in> set (users d) \<Longrightarrow> account u \<notin> accounts d' \<Longrightarrow> u_ID u \<notin> safe"
  by (auto simp: calm_def accounts_def account_def)

lemma lost_by_DeleteUser:
  assumes "run_state (DeleteUser E ctx s hard) w = (x, w')" and "idle w"
    and "u \<in> set (users (db w))" and "account u \<notin> accounts (db w')"
  shows "hard \<and> id_HasPermission ctx ''user:delete'' \<and> uuid_parse E s = Some (u_ID u)"
proof -
  let ?safe = "{uid. \<not> (hard \<and> uuid_parse E s = Some uid)}"
  have "state_io_rel (lift_rel (calm False ?safe)) (DeleteUser E ctx s hard)" by (rule account_handlers) simp
  then have "calm False ?safe (db w) (db w')" by (rule calm_served(2) [OF _ served_login(8) [of E 0] assms(2,1)])
  from calmD [OF this assms(3,4)] have "hard \<and> uuid_parse E s = Some (u_ID u)" by simp
  moreover have "id_HasPermission ctx ''user:delete''"
    using assms(1,3,4) by (auto simp: DeleteUser_def run_requirePerm accounts_def split: if_splits)
  ultimately show ?thesis by simp
qed

lemma replaced_by_ResetPassword:
  assumes "run_state (ResetPassword E ctx tok pw) w = (x, w')" and "idle w"
    and "u \<in> set (users (db w))" and "account u \<notin> accounts (db w')"
  shows "\<exists>v \<in> set (password_resets (db w)). consumable (hashToken E tok) (dbclock E (step w)) v \<and> ot_UserID v = u_ID u"
proof -
  have long: "\<not> length pw < 8"
    using assms(1,3,4) by (auto simp: ResetPassword_def accounts_def)
  obtain r w1 where 1: "run_state (exec E (sql_ConsumePasswordReset (hashToken E tok))) w = (r, w1)" by fastforce
  show ?thesis
  proof (cases r)
    case (Inl e)
    with 1 assms(2) have "db w1 = db w" by (auto elim: exec_cases)
    with assms(1,3,4) 1 Inl long have False by (auto simp: ResetPassword_def accounts_def)
    then show ?thesis ..
  next
    case (Inr uid)
    note q = exec_Inr_idle [OF 1 [unfolded Inr] assms(2)]
    let ?m = "or_return (Hash E pw) (Status Internal ''failed to hash password'') (\<lambda>hash.
      or_return (exec E (sql_UpdatePassword uid hash)) (Status Internal ''failed to update password'') (\<lambda>_.
      ignoring (exec E (sql_RevokeAllUserRefreshTokens uid)) (
      ignoring (auditAs E ctx (uuid_string E uid) [] ''password.reset'' [] []) (ok ()))))"
    have rest: "run_state ?m w1 = (x, w')" using assms(1) 1 Inr long by (simp add: ResetPassword_def)
    have "state_io_rel (lift_rel (calm True (- {uid}))) ?m" by (intro quiet_intros account_write) simp
    moreover have "state_io_rel (served E 0) ?m" by (intro served_intros)
    ultimately have "calm True (- {uid}) (db w1) (db w')" by (rule calm_served(2) [OF _ _ q(2) rest])
    moreover have "users (db w1) = users (db w)" using ConsumePasswordReset_keeps [OF q(1)] by simp
    ultimately have "u_ID u = uid" using calmD assms(3,4) by (metis ComplI singletonD)
    with consumed_row(1) [OF q(1)] show ?thesis unfolding stmt_of_idle(4) [OF assms(2)] by auto
  qed
qed

lemma replaced_by_ChangePassword:
  assumes "run_state (ChangePassword E ctx old pw) w = (x, w')" and "idle w" and "wf_db (db w)"
    and "u \<in> set (users (db w))" and "account u \<notin> accounts (db w')"
  shows "callerID E ctx = Inr (u_ID u) \<and> Verify E (u_PasswordHash u) old"
proof -
  have same: "db w' \<noteq> db w" using assms(4,5) by (auto simp: accounts_def)
  obtain uid where caller: "callerID E ctx = Inr uid"
    using assms(1) same by (cases "callerID E ctx") (auto simp: ChangePassword_def)
  have long: "\<not> length pw < 8" using assms(1) same caller by (auto simp: ChangePassword_def)
  obtain r w1 where 1: "run_state (exec E (sql_GetUserByID uid)) w = (r, w1)" by fastforce
  then have w1: "idle w1" "db w1 = db w"
    using assms(2) by (auto simp: user_of_query elim!: exec_cases split: option.splits)
  obtain user where r: "r = Inr user"
    using assms(1) same caller long 1 w1 by (cases r) (auto simp: ChangePassword_def)
  then have user: "user_of (db w) uid = Some user"
    using 1 assms(2) by (auto simp: user_of_query elim!: exec_cases split: option.splits)
  have verified: "Verify E (u_PasswordHash user) old"
    using assms(1) same caller long 1 w1 r by (auto simp: ChangePassword_def split: if_splits)
  let ?m = "or_return (Hash E pw) (Status Internal ''failed to hash password'') (\<lambda>hash.
    or_return (exec E (sql_UpdatePassword uid hash)) (Status Internal ''failed to update password'') (\<lambda>_.
    ignoring (exec E (sql_RevokeAllUserRefreshTokens uid)) (
    ignoring (auditAs E ctx (uuid_string E uid) (u_Email user) ''password.change'' [] []) (ok ()))))"
  have rest: "run_state ?m w1 = (x, w')" using assms(1) caller long 1 r verified by (simp add: ChangePassword_def)
  have "state_io_rel (lift_rel (calm True (- {uid}))) ?m" by (intro quiet_intros account_write) simp
  moreover have "state_io_rel (served E 0) ?m" by (intro served_intros)
  ultimately have "calm True (- {uid}) (db w1) (db w')" by (rule calm_served(2) [OF _ _ w1(1) rest])
  then have "u_ID u = uid" using calmD assms(4,5) w1(2) by (metis ComplI singletonD)
  moreover have "user_of (db w) (u_ID u) = Some u"
    unfolding user_of_def using wf_dbD(1) [OF assms(3)] assms(4) by (intro find_unique) (auto simp: wf_users_def)
  ultimately show ?thesis using caller user verified by simp
qed

text \<open>C3: accounts are protected. Whatever request is served, by whomever, an account keeps its email and its password
  hash, and its row, except in three cases: a caller with the permission to delete users deletes this one for good;
  a reset token issued to this user, not consumed and not expired, is presented; or the user itself, who presents
  the current password, changes it.\<close>

theorem accounts_protected:
  assumes "idle w" and "wf_db (db w)" and "run_state (serve E h ctx r) w = (x, w')"
    and "u \<in> set (users (db w))" and "account u \<notin> accounts (db w')"
  shows "(\<exists>s. r = LoginRequest (RDeleteUser s True) \<and> id_HasPermission ctx ''user:delete'' \<and> uuid_parse E s = Some (u_ID u))
     \<or> (\<exists>token new. r = RecoveryRequest (RResetPassword token new)
          \<and> (\<exists>v \<in> set (password_resets (db w)). consumable (hashToken E token) (dbclock E (step w)) v \<and> ot_UserID v = u_ID u))
     \<or> (\<exists>old new. r = RecoveryRequest (RChangePassword old new)
          \<and> callerID E ctx = Inr (u_ID u) \<and> Verify E (u_PasswordHash u) old)"
proof -
  have "replaces r"
  proof (rule ccontr)
    assume "\<not> replaces r"
    then have "state_io_rel (lift_rel (calm False UNIV)) (serve E h ctx r)" by (intro calm_serve) simp_all
    from calmD [OF calm_served(2) [OF this served_serve assms(1,3)] assms(4,5)] show False by simp
  qed
  then consider (delete) s where "r = LoginRequest (RDeleteUser s True)"
    | (reset) token new where "r = RecoveryRequest (RResetPassword token new)"
    | (change) old new where "r = RecoveryRequest (RChangePassword old new)"
    by (cases r rule: replaces.cases) auto
  then show ?thesis
  proof cases
    case delete
    then have "run_state (DeleteUser E ctx s True) w = (fst (run_state (DeleteUser E ctx s True) w), w')"
      using assms(3) by (simp add: effect_def prod_eq_iff)
    from lost_by_DeleteUser [OF this assms(1,4,5)] delete show ?thesis by simp
  next
    case reset
    then have "run_state (ResetPassword E ctx token new) w = (fst (run_state (ResetPassword E ctx token new) w), w')"
      using assms(3) by (simp add: effect_def prod_eq_iff)
    from replaced_by_ResetPassword [OF this assms(1,4,5)] reset show ?thesis by simp
  next
    case change
    then have "run_state (ChangePassword E ctx old new) w = (fst (run_state (ChangePassword E ctx old new) w), w')"
      using assms(3) by (simp add: effect_def prod_eq_iff)
    from replaced_by_ChangePassword [OF this assms(1,2,4,5)] change show ?thesis by simp
  qed
qed

section \<open>Concrete requests\<close>

theorem permissions_enforced_witness:
  "snd (run_state (serve E0 h0 anyone (TenantRequest (RRemoveMember ''10''))) (world0 d0 1)) = world0 d0 1"
proof -
  obtain x w' where run: "run_state (serve E0 h0 anyone (TenantRequest (RRemoveMember ''10''))) (world0 d0 1) = (x, w')"
    by fastforce
  from permissions_enforced [OF _ run] run show ?thesis by (simp add: anyone_def)
qed

theorem accounts_protected_witness:
  "account user0 \<notin> accounts (db (snd (run_state (serve E0 h0 admin (RecoveryRequest (RChangePassword ''secret42'' ''new password''))) (world0 d0 1))))
     \<and> callerID E0 admin = Inr 10 \<and> Verify E0 (u_PasswordHash user0) ''secret42''"
proof -
  obtain x w' where run: "run_state (serve E0 h0 admin (RecoveryRequest (RChangePassword ''secret42'' ''new password''))) (world0 d0 1) = (x, w')"
    by fastforce
  have "phc (replicate argonSaltLen (char_of (Suc (Suc 0)))) (argon2 E0 ''new password'' (replicate argonSaltLen (char_of (Suc (Suc 0))))
      argonTime argonMemory argonThreads argonKeyLen) \<noteq> u_PasswordHash user0" (is "?hash \<noteq> _")
    by (rule notI, drule arg_cong [where f = "\<lambda>h. Verify E0 h ''secret42''"]) (simp add: user0_def Verify_phc argonKeyLen_def evals)
  then have "?hash \<noteq> u_PasswordHash user0" "u_PasswordHash user0 \<noteq> ?hash" by auto
  then have "account user0 \<notin> accounts (db (snd (run_state (ChangePassword E0 admin ''secret42'' ''new password'') (world0 d0 1))))"
    by (simp add: ChangePassword_def Verify_phc run_Hash sql_UpdatePassword_def accounts_def account_def admin_def d0_def user0_def
        fixture_uuid evals)
  then have "account user0 \<notin> accounts (db w')" using run by (simp add: effect_def prod_eq_iff)
  moreover from accounts_protected [OF _ _ run _ this] wf_d0
  have "callerID E0 admin = Inr 10 \<and> Verify E0 (u_PasswordHash user0) ''secret42''"
    by (simp add: d0_def user0_def)
  ultimately show ?thesis using run by simp
qed

end
