(* ===== verification/Spec2Isabelle.thy ===== *)
theory Spec2Isabelle
  imports Session_Props Refresh_Props Login_Props Transactions One_Time_Props Oidc_Props Key_Props
    Tenant_Isolation Rbac_Props Tenant_Props Access_Caveats Event_Props Refresh_Refinement Boot_Props Authorization
begin

text \<open>
  The authentication and identity service \<^verbatim>\<open>iam-go-auth\<close>: a gRPC server that registers users, logs
  them in (password, TOTP, recovery codes), issues and validates JWT access tokens and rotating refresh
  tokens, manages roles and permissions per tenant, API keys and an OIDC authorization code flow, keeps an
  audit trail, and publishes user events through a transactional outbox. Its state is a PostgreSQL database
  with row-level security; Redis holds a denylist and a permission cache; NATS carries the events.

  \<^bold>\<open>How the program is modelled.\<close> A handler is a computation in the state monad that returns a status error
  or a result (\<open>Prelude\<close>); the combinators \<open>check\<close>, \<open>or_return\<close>, \<open>ignoring\<close> and \<open>bail\<close> are Go's early
  returns, wrapped errors and dropped errors. The state is a \<open>world\<close> (\<open>Environment\<close>): the database, an open
  transaction with its snapshot, the log of commands sent to Redis, the messages sent, and a step counter.
  The record \<open>env\<close> holds what the program does not define: clocks, randomness, generated keys, failing
  connections (each a function of the step), the libraries (SHA-256, Argon2id, golang-jwt, RSA, the PEM and X.509
  encodings, AES-GCM, TOTP, uuid, JSON of the events), the Redis server and the configuration. Theorems assume only what these
  libraries document, as named contracts (\<open>jwt_contract\<close>, \<open>unforgeable\<close>, \<open>honest_redis\<close>, \<open>gcm_contract\<close>,
  \<open>rand_contract\<close>, \<open>argon2_length\<close>, \<open>pem_contract\<close>, \<open>uuid_text\<close>), and \<open>Fixture\<close> shows that one executable
  environment meets them all.

  \<^bold>\<open>Theories and sources\<close> (paths under \<^verbatim>\<open>src/\<close>).

    \<^item> \<open>Model\<close>: the rows of \<^verbatim>\<open>internal/db/models.go\<close>, one record per table. \<open>Session\<close>: statements,
      transactions, \<^verbatim>\<open>withTenant\<close> and \<^verbatim>\<open>withTenantGUC\<close> of \<^verbatim>\<open>internal/handler/tenant.go\<close>, row-level security of
      migrations 000013 and 000016.
    \<^item> \<open>Queries_Identity\<close>, \<open>Queries_Tokens\<close>, \<open>Queries_Rbac\<close>: \<^verbatim>\<open>internal/db/auth.sql.go\<close>; \<open>Queries_Oidc\<close>: the
      statements written in \<^verbatim>\<open>internal/handler/oidc_flow.go\<close> and \<^verbatim>\<open>internal/jwt/keys.go\<close>. A query \<open>sql_Q\<close> is a
      function of the session and the database that may fail with the error its constraints give.
    \<^item> \<open>Codec\<close>: hexadecimal, base64, decimal text and the random draws. \<open>Jwt\<close>: \<^verbatim>\<open>internal/jwt/jwt.go\<close>.
      \<open>Password\<close>: \<^verbatim>\<open>internal/password\<close>. \<open>TotpSecret\<close>: \<^verbatim>\<open>internal/totp\<close>, \<^verbatim>\<open>internal/totpsecret\<close>.
      \<open>Cache\<close>: \<^verbatim>\<open>internal/cache\<close>.
    \<^item> \<open>Common\<close>: the helpers the handlers share. \<open>Login\<close>, \<open>Sessions\<close>, \<open>Recovery\<close>, \<open>Rbac\<close>, \<open>Tenants\<close>,
      \<open>ApiKeys\<close>, \<open>Oidc\<close>: the handlers of \<^verbatim>\<open>internal/handler/auth.go\<close>, \<^verbatim>\<open>tenant.go\<close>, \<^verbatim>\<open>m4.go\<close>, \<^verbatim>\<open>oidc_flow.go\<close>,
      \<^verbatim>\<open>oidc.go\<close> and \<^verbatim>\<open>bootstrap.go\<close>. \<open>Events\<close>: \<^verbatim>\<open>internal/outbox\<close>, \<^verbatim>\<open>internal/saga\<close>, \<^verbatim>\<open>internal/jwt/keys.go\<close>.
    \<^item> \<open>Service\<close>: every RPC, relay tick, saga message and bootstrap step as a \<open>request\<close>; \<open>serve_all\<close> runs a
      sequence of them, each with its caller's identity.
    \<^item> \<open>Boot\<close>: \<^verbatim>\<open>main\<close> of \<^verbatim>\<open>cmd/main.go\<close>, from the arguments to the server that listens or the reason it exits
      with, and \<^verbatim>\<open>Start\<close> of \<^verbatim>\<open>internal/saga\<close>. What \<^verbatim>\<open>iam-go-libs\<close>, NATS and the operating system answer there is the
      record \<open>host\<close>; the migrations are a function of the database that may fail.
\<close>

text \<open>
  \<^bold>\<open>What the lemmas show.\<close>

    \<^item> Effects. \<open>preorder_effect\<close> (\<open>Prelude\<close>): what holds along every step of a computation holds along the
      computation. \<open>db_effect\<close> (\<open>Session\<close>) lifts a preorder on databases through statements, commits and
      rollbacks. \<open>Schema\<close> and \<open>Integrity\<close>: \<open>wf_db\<close>, the keys, references and checks of the migrations, and that
      each statement keeps them. \<open>Effects\<close>: \<open>db_step\<close> is one write statement; \<open>served\<close> says that a computation
      leaves the committed database reachable by such steps, and every handler has been shown to be \<open>served\<close>.
      The locale \<open>kept_property\<close> turns a property kept by \<open>db_step\<close> into one kept by every run. It is interpreted
      for integrity, the scope of assignments, denylist entries, dead refresh tokens, revoked API keys, signing keys and
      used one-time tokens; \<open>single_use\<close> (\<open>One_Time_Props\<close>) shares the argument for the three kinds of the last.
      \<open>Tenant_Isolation\<close> interprets \<open>db_effect\<close> for the relation that leaves other tenants alone, \<open>Boot_Props\<close> for
      starts, which only add accounts, clients and keys, \<open>Authorization\<close> for the relation \<open>calm\<close> that leaves the tables of
      access control and the accounts alone.
    \<^item> Refinement. The locale \<open>simulation\<close> (\<open>Refresh_Refinement\<close>) lifts the simulation of single statements by an abstract
      machine to runs of the service; it is interpreted for the machine \<open>session_step\<close> of refresh tokens, whose states are
      \<open>sessions_of\<close> a database, and \<open>Refresh\<close> is shown to implement its specification \<open>refreshed\<close> and \<open>denied\<close>.
    \<^item> \<open>Runs\<close> and \<open>Session_Facts\<close> invert successful runs, stage by stage.
    \<^item> \<open>Session_Props\<close>, \<open>Refresh_Props\<close>, \<open>Login_Props\<close>: validation, logout, rotation and reuse of refresh tokens,
      login and lockout. \<open>Transactions\<close>: all-or-nothing handlers. \<open>One_Time_Props\<close>: reset and verification
      tokens, authorization codes. \<open>Oidc_Props\<close>: code exchange, JWKS, signing keys, encodings. \<open>Key_Props\<close>: API
      keys. \<open>Tenant_Isolation\<close>, \<open>Rbac_Props\<close>, \<open>Tenant_Props\<close>: isolation, the access relation \<open>assigned\<close> that
      \<open>AssignRole\<close> refines, tenants. \<open>Authorization\<close>: the policy \<open>required\<close>, the permission each request asks for, and that tables of
      access control and accounts change only with it. \<open>Event_Props\<close>: the outbox as a queue. \<open>Boot_Props\<close>: what a server
      that came up rests on, and that tokens survive a restart. \<open>Access_Caveats\<close> and some theorems of
      the other theories state where the code does less than its comments or documents say.

  \<^bold>\<open>Bounds.\<close> Two loops may run for ever: the SCAN loop of \<^verbatim>\<open>InvalidatePerms\<close>, which the model bounds by
  \<open>scan_rounds E\<close> (\<open>Event_Props\<close> shows that the bound plays no role once the server ends its scan), and the loop that
  subscribes the saga, which has fuel (\<open>Boot_Props\<close>: fuel up to the first attempt that succeeds or finds the process
  stopped is enough). The retries of the migrations end by the measure of the attempts left.
  The polling loop of the relay is a number of ticks. Go's \<^verbatim>\<open>int64\<close> product of the API key's lifetime and the
  \<^verbatim>\<open>int32\<close> counter of the bulk assignment wrap as in the code; uuids are 128-bit words.

  \<^bold>\<open>Simplifications.\<close> A run serves requests one after the other; the invariants, and the single use of
  authorization codes, are stated for every interleaving of write statements (paths of \<open>db_step\<close>). Instants
  are integers of nanoseconds (PostgreSQL rounds to microseconds). A nil and an empty slice are the same. Mail is
  a log. The two bootstrap functions share \<open>bootstrap_account\<close>. Argon2id panics on zero parameters are not
  modelled: the hashes of the service never have them.

  \<^bold>\<open>Not modelled.\<close> Of \<^verbatim>\<open>cmd/main.go\<close> the tracing, metrics and health services and the graceful shutdown, which hold
  no state of the program; the sqlc wrapper \<^verbatim>\<open>internal/db/db.go\<close>, which only dispatches to the driver; the DDL of
  \<^verbatim>\<open>db/migrations\<close> (its constraints are in \<open>wf_db\<close> and in the statements; its effect is a parameter of the start);
  tests and CI files.
\<close>

section \<open>Integrity of the service\<close>

text \<open>C8: starting from a database that satisfies the schema's keys, references and checks and in which no
  assignment refers to another tenant's role, every sequence of requests, whatever fails, ends outside any
  transaction in such a database; and so does every interleaving of the write statements of any number of
  handlers.\<close>

theorem integrity_kept:
  assumes "idle w" and "wf_db (db w)" and "role_scoped (db w)"
  shows "idle (serve_all E h rs w) \<and> wf_db (db (serve_all E h rs w)) \<and> role_scoped (db (serve_all E h rs w))
     \<and> (\<forall>d. (db_step E since)\<^sup>*\<^sup>* (db w) d \<longrightarrow> wf_db d \<and> role_scoped d)"
proof (intro conjI allI impI)
  show "idle (serve_all E h rs w)" "wf_db (db (serve_all E h rs w))" "role_scoped (db (serve_all E h rs w))"
    using scoped.kept_by_run [of w 0 E h rs] assms by auto
  fix d assume "(db_step E since)\<^sup>*\<^sup>* (db w) d"
  then have "wf_db d \<and> role_scoped d"
    by (induction rule: rtranclp_induct) (use assms in \<open>blast intro: wf_db_step role_scoped_step\<close>)+
  then show "wf_db d" "role_scoped d" by simp_all
qed

theorem integrity_kept_witness:
  "wf_db (db (serve_all E0 h0 [(admin, RbacRequest (RCreateRole ''dev'' [])), (admin, TenantRequest (RCreateTenant ''acme'' ''Acme''))] (world0 d0 1)))"
  by (rule conjunct1 [OF conjunct2 [OF integrity_kept [OF idle_world0(1), unfolded idle_world0, OF wf_d0 scoped_d0]]])

end
